(* ===== verification/JsPrelude.thy ===== *)
theory JsPrelude
  imports Complex_Main "HOL-Library.Word" "HOL-Library.Sublist"
begin

unbundle bit_operations_syntax

text \<open>
  What the components share: JavaScript strings as lists of UTF-16 code units, the string
  operations of the standard library that the web client calls (\<^verbatim>\<open>indexOf\<close>, \<^verbatim>\<open>split\<close>,
  \<^verbatim>\<open>trim\<close>, \<^verbatim>\<open>join\<close>, \<^verbatim>\<open>toString(radix)\<close>, \<^verbatim>\<open>toFixed\<close>, \<^verbatim>\<open>Math.round\<close>), and the
  generic lemmas on them. A JavaScript number is modelled by the rational it denotes (type
  \<open>number\<close>); counters, indices and identifiers are \<open>nat\<close> or \<open>int\<close>; the 32-bit
  integers of the hash functions are \<open>32 word\<close>.
\<close>

section \<open>Collections of rewrite rules\<close>

named_theorems js_ops \<open>defining equations of the string operations, for evaluation\<close>
named_theorems frame \<open>fields an operation leaves alone\<close>

section \<open>Strings\<close>

type_synonym cu = "16 word"
type_synonym jsstr = "cu list"
type_synonym number = rat

text \<open>A literal of the source, \<open>js ''abc''\<close>, is the list of its code units.\<close>

definition cu_of_char :: "char \<Rightarrow> cu" where
  "cu_of_char c = of_char c"

definition js :: "string \<Rightarrow> jsstr" where
  "js s = map cu_of_char s"

lemma of_char_nat_less: "(of_char c :: nat) < 256"
  using of_char_mod_256 [of c, where ?'a = nat] by (metis mod_less_divisor zero_less_numeral)

lemma unat_of_nat_cu: "n < 65536 \<Longrightarrow> unat (of_nat n :: cu) = n"
  by (simp add: unat_of_nat)

lemma unat_cu_of_char [simp]: "unat (cu_of_char c) = of_char c"
proof -
  have "cu_of_char c = word_of_nat (of_char c)"
    by (simp only: cu_of_char_def of_nat_of_char)
  moreover have "(of_char c :: nat) < 65536"
    using of_char_nat_less [of c] by linarith
  ultimately show ?thesis
    by (simp only: unat_of_nat_cu)
qed

lemma inj_cu_of_char: "inj cu_of_char"
proof (rule injI)
  fix c d assume "cu_of_char c = cu_of_char d"
  then have "unat (cu_of_char c) = unat (cu_of_char d)" by simp
  then show "c = d" by simp
qed

lemma js_inject [simp]: "js s = js t \<longleftrightarrow> s = t"
  by (simp add: js_def inj_map_eq_map [OF inj_cu_of_char])

lemma js_Nil [simp]: "js [] = []"
  by (simp add: js_def)

lemma js_eq_Nil [simp]: "js s = [] \<longleftrightarrow> s = []" "[] = js s \<longleftrightarrow> s = []"
  by (auto simp: js_def)

lemma js_append: "js (s @ t) = js s @ js t"
  by (simp add: js_def)

lemma length_js [simp]: "length (js s) = length s"
  by (simp add: js_def)

lemma take_drop_js [simp]: "take n (js s) = js (take n s)" "drop n (js s) = js (drop n s)"
  by (simp_all add: js_def take_map drop_map)

lemmas js_eval = js_def cu_of_char_def

subsection \<open>The code units the source names\<close>

abbreviation LF :: cu where "LF \<equiv> 10"
abbreviation CR :: cu where "CR \<equiv> 13"
abbreviation TAB :: cu where "TAB \<equiv> 9"
abbreviation SPACE :: cu where "SPACE \<equiv> 32"
abbreviation DQUOTE :: cu where "DQUOTE \<equiv> 34"
abbreviation COMMA :: cu where "COMMA \<equiv> 44"
abbreviation MIDDOT :: cu where "MIDDOT \<equiv> 183"
abbreviation EMDASH :: cu where "EMDASH \<equiv> 8212"

text \<open>
  What the regular expression class \<^verbatim>\<open>\s\<close> and \<^verbatim>\<open>String.prototype.trim\<close> take for white
  space: the WhiteSpace and LineTerminator productions of ECMAScript.
\<close>

definition is_ws :: "cu \<Rightarrow> bool" where
  "is_ws c \<longleftrightarrow> c \<in> {9, 10, 11, 12, 13, 32, 160, 5760, 8232, 8233, 8239, 8287, 12288, 65279}
     \<or> (8192 \<le> c \<and> c \<le> 8202)"

definition ascii_lower :: "cu \<Rightarrow> cu" where
  "ascii_lower c = (if 65 \<le> c \<and> c \<le> 90 then c + 32 else c)"

text \<open>
  \<^verbatim>\<open>toLowerCase\<close> on the ASCII letters; a code unit outside ASCII is left as it is (the
  Unicode case tables are not modelled).
\<close>

definition toLowerCase :: "jsstr \<Rightarrow> jsstr" where
  "toLowerCase s = map ascii_lower s"

definition trim :: "jsstr \<Rightarrow> jsstr" where
  "trim s = rev (dropWhile is_ws (rev (dropWhile is_ws s)))"

section \<open>Splitting and joining\<close>

definition cons_hd :: "'a \<Rightarrow> 'a list list \<Rightarrow> 'a list list" where
  "cons_hd c ls = (case ls of [] \<Rightarrow> [[c]] | l # ls' \<Rightarrow> (c # l) # ls')"

lemma cons_hd_simps [simp]: "cons_hd c [] = [[c]]" "cons_hd c (l # ls) = (c # l) # ls"
  by (simp_all add: cons_hd_def)

lemma cons_hd_not_Nil [simp]: "cons_hd c ls \<noteq> []" "[] \<noteq> cons_hd c ls"
  by (cases ls; simp)+

lemma cons_hd_snoc: "ls \<noteq> [] \<Longrightarrow> cons_hd c (ls @ ms) = cons_hd c ls @ ms"
  by (cases ls) auto

text \<open>\<^verbatim>\<open>s.split(c)\<close> for a single code unit.\<close>

fun split_on :: "'a \<Rightarrow> 'a list \<Rightarrow> 'a list list" where
  "split_on x [] = [[]]"
| "split_on x (c # cs) = (if c = x then [] # split_on x cs else cons_hd c (split_on x cs))"

text \<open>\<^verbatim>\<open>s.split(/\r?\n/)\<close>.\<close>

fun split_crlf :: "jsstr \<Rightarrow> jsstr list" where
  "split_crlf [] = [[]]"
| "split_crlf [c] = (if c = LF then [[], []] else [[c]])"
| "split_crlf (c # d # cs) =
     (if c = LF then [] # split_crlf (d # cs)
      else if c = CR \<and> d = LF then [] # split_crlf cs
      else cons_hd c (split_crlf (d # cs)))"

text \<open>\<^verbatim>\<open>s.split(/\s+/)\<close>: a leading or trailing run of white space leaves an empty piece.\<close>

lemma length_dropWhile_less [termination_simp]: "length (dropWhile P xs) < Suc (length xs)"
  by (simp add: length_dropWhile_le less_Suc_eq_le)

fun split_ws :: "jsstr \<Rightarrow> jsstr list" where
  "split_ws [] = [[]]"
| "split_ws (c # cs) =
     (if is_ws c then [] # split_ws (dropWhile is_ws cs) else cons_hd c (split_ws cs))"

text \<open>\<^verbatim>\<open>xs.join(sep)\<close>.\<close>

fun join :: "'a list \<Rightarrow> 'a list list \<Rightarrow> 'a list" where
  "join sep [] = []"
| "join sep [x] = x"
| "join sep (x # y # zs) = x @ sep @ join sep (y # zs)"

lemma split_on_not_Nil [simp]: "split_on x s \<noteq> []" "[] \<noteq> split_on x s"
  by (cases s; simp)+

lemma split_crlf_not_Nil [simp]: "split_crlf s \<noteq> []" "[] \<noteq> split_crlf s"
  by (induction s rule: split_crlf.induct; simp)+

lemma split_ws_not_Nil [simp]: "split_ws s \<noteq> []" "[] \<noteq> split_ws s"
  by (cases s; simp)+

lemma join_cons: "ls \<noteq> [] \<Longrightarrow> join sep (l # ls) = l @ sep @ join sep ls"
  by (cases ls) auto

lemma join_cons_hd: "ls \<noteq> [] \<Longrightarrow> join sep (cons_hd c ls) = c # join sep ls"
  by (cases ls; cases "tl ls") auto

theorem join_split_on: "join [x] (split_on x s) = s"
  by (induction s) (auto simp: join_cons join_cons_hd)

lemma split_on_pieces: "l \<in> set (split_on x s) \<Longrightarrow> x \<notin> set l"
proof (induction s arbitrary: l)
  case (Cons c s)
  then show ?case by (cases "split_on x s") (auto split: if_splits)
qed simp

lemma split_on_no_sep: "x \<notin> set s \<Longrightarrow> split_on x s = [s]"
  by (induction s) auto

lemma split_on_append:
  "x \<notin> set s \<Longrightarrow> split_on x (s @ x # t) = s # split_on x t"
  by (induction s) auto

theorem split_on_join:
  "ls \<noteq> [] \<Longrightarrow> \<forall>l \<in> set ls. x \<notin> set l \<Longrightarrow> split_on x (join [x] ls) = ls"
  by (induction "[x]" ls rule: join.induct) (auto simp: split_on_no_sep split_on_append)

section \<open>Searching\<close>

text \<open>\<^verbatim>\<open>hay.indexOf(needle)\<close>, with \<open>None\<close> for \<open>-1\<close>.\<close>

fun index_sub :: "'a list \<Rightarrow> 'a list \<Rightarrow> nat option" where
  "index_sub n [] = (if n = [] then Some 0 else None)"
| "index_sub n (h # hs) = (if prefix n (h # hs) then Some 0 else map_option Suc (index_sub n hs))"

text \<open>\<^verbatim>\<open>hay.indexOf(c, from)\<close> for a single code unit.\<close>

definition indexOf_from :: "'a \<Rightarrow> 'a list \<Rightarrow> nat \<Rightarrow> nat option" where
  "indexOf_from x s k = map_option (\<lambda>i. k + i) (index_sub [x] (drop k s))"

definition strIncludes :: "'a list \<Rightarrow> 'a list \<Rightarrow> bool" where
  "strIncludes hay needle \<longleftrightarrow> index_sub needle hay \<noteq> None"

definition slice :: "nat \<Rightarrow> nat \<Rightarrow> 'a list \<Rightarrow> 'a list" where
  "slice a b xs = take (b - a) (drop a xs)"

lemma index_sub_SomeD:
  "index_sub n s = Some i \<Longrightarrow> \<exists>t. s = take i s @ n @ t \<and> i + length n \<le> length s"
proof (induction s arbitrary: i)
  case Nil
  then show ?case by (auto split: if_splits)
next
  case (Cons h hs)
  show ?case
  proof (cases "prefix n (h # hs)")
    case True
    then have "i = 0" using Cons.prems by simp
    moreover from True obtain t where "h # hs = n @ t" by (auto elim: prefixE)
    ultimately show ?thesis by (auto simp: prefix_length_le [OF True])
  next
    case False
    then obtain j where j: "index_sub n hs = Some j" and i: "i = Suc j"
      using Cons.prems by auto
    from Cons.IH [OF j] i show ?thesis by auto
  qed
qed

lemma index_sub_less: "index_sub n s = Some i \<Longrightarrow> n \<noteq> [] \<Longrightarrow> i < length s"
  using index_sub_SomeD [of n s i] by (cases n) auto

lemma index_sub_singleton_None: "index_sub [x] s = None \<longleftrightarrow> x \<notin> set s"
  by (induction s) auto

lemma index_sub_singleton_Some:
  "index_sub [x] s = Some i \<Longrightarrow> s = take i s @ x # drop (Suc i) s \<and> x \<notin> set (take i s) \<and> i < length s"
  by (induction s arbitrary: i) (auto split: if_splits)

lemma includes_iff: "strIncludes hay needle \<longleftrightarrow> (\<exists>p q. hay = p @ needle @ q)"
proof (induction hay)
  case Nil
  then show ?case by (auto simp: strIncludes_def)
next
  case (Cons h hs)
  have "strIncludes (h # hs) needle \<longleftrightarrow> prefix needle (h # hs) \<or> strIncludes hs needle"
    by (auto simp: strIncludes_def)
  also have "\<dots> \<longleftrightarrow> (\<exists>p q. h # hs = p @ needle @ q)"
    unfolding Cons by (auto simp: prefix_def Cons_eq_append_conv)
  finally show ?case .
qed

section \<open>Numbers\<close>

definition digit_cu :: "nat \<Rightarrow> cu" where
  "digit_cu d = (if d < 10 then of_nat (48 + d) else of_nat (87 + d))"

text \<open>\<^verbatim>\<open>n.toString(b)\<close> for a natural number, most significant digit first.\<close>

fun digits :: "nat \<Rightarrow> nat \<Rightarrow> nat list" where
  "digits b n = (if b < 2 \<or> n < b then [n] else digits b (n div b) @ [n mod b])"

declare digits.simps [simp del]

definition radix :: "nat \<Rightarrow> nat \<Rightarrow> jsstr" where
  "radix b n = map digit_cu (digits b n)"

definition natStr :: "nat \<Rightarrow> jsstr" where
  "natStr n = radix 10 n"

definition intStr :: "int \<Rightarrow> jsstr" where
  "intStr i = (if i < 0 then js ''-'' @ natStr (nat (- i)) else natStr (nat i))"

definition mathRound :: "number \<Rightarrow> int" where
  "mathRound x = \<lfloor>x + 1/2\<rfloor>"

definition toFixed :: "nat \<Rightarrow> number \<Rightarrow> jsstr" where
  "toFixed d x =
     (let ds = natStr (nat (mathRound (\<bar>x\<bar> * 10 ^ d)));
          padded = replicate (Suc d - length ds) (digit_cu 0) @ ds;
          k = length padded - d
      in (if x < 0 then js ''-'' else [])
         @ (if d = 0 then ds else take k padded @ js ''.'' @ drop k padded))"

fun digits_val :: "nat \<Rightarrow> nat list \<Rightarrow> nat" where
  "digits_val b ds = foldl (\<lambda>a d. a * b + d) 0 ds"

lemma digits_val_digits: "2 \<le> b \<Longrightarrow> digits_val b (digits b n) = n"
  by (induction b n rule: digits.induct) (subst digits.simps, auto simp: not_less)

lemma digits_less: "2 \<le> b \<Longrightarrow> d \<in> set (digits b n) \<Longrightarrow> d < b"
proof (induction b n rule: digits.induct)
  case (1 b n)
  then show ?case by (subst (asm) (2) digits.simps) (auto split: if_splits)
qed

lemma digits_not_Nil [simp]: "digits b n \<noteq> []"
  by (subst digits.simps) simp

lemma unat_digit_cu: "d < 36 \<Longrightarrow> unat (digit_cu d) = (if d < 10 then 48 + d else 87 + d)"
  by (simp add: digit_cu_def unat_of_nat_cu del: of_nat_add)

lemma digit_cu_inj: "inj_on digit_cu {..<36}"
proof (rule inj_onI)
  fix d e assume "d \<in> {..<36}" "e \<in> {..<36}" and eq: "digit_cu d = digit_cu e"
  from eq have "unat (digit_cu d) = unat (digit_cu e)" by simp
  with \<open>d \<in> {..<36}\<close> \<open>e \<in> {..<36}\<close> show "d = e"
    by (simp add: unat_digit_cu split: if_splits)
qed

theorem radix_inject:
  assumes "2 \<le> b" "b \<le> 36" "radix b m = radix b n"
  shows "m = n"
proof -
  have "set (digits b m) \<union> set (digits b n) \<subseteq> {..<36}"
    using assms(1,2) by (auto dest!: digits_less [OF assms(1)])
  then have "inj_on digit_cu (set (digits b m) \<union> set (digits b n))"
    using digit_cu_inj by (rule inj_on_subset [rotated])
  then have "digits b m = digits b n"
    using assms(3) by (simp add: radix_def inj_on_map_eq_map)
  then have "digits_val b (digits b m) = digits_val b (digits b n)" by simp
  then show ?thesis using assms(1) by (simp only: digits_val_digits)
qed

lemma natStr_inject [simp]: "natStr m = natStr n \<longleftrightarrow> m = n"
  using radix_inject [of 10 m n] by (auto simp: natStr_def)

lemma natStr_not_Nil [simp]: "natStr n \<noteq> []"
  by (simp add: natStr_def radix_def)

section \<open>Lists and options\<close>

definition opt :: "'a \<Rightarrow> 'a option \<Rightarrow> 'a" where
  "opt d x = (case x of None \<Rightarrow> d | Some y \<Rightarrow> y)"

lemma opt_simps [simp]: "opt d None = d" "opt d (Some y) = y"
  by (simp_all add: opt_def)

text \<open>\<^verbatim>\<open>xs.indexOf(x)\<close> on an array.\<close>

fun index_of :: "'a \<Rightarrow> 'a list \<Rightarrow> nat option" where
  "index_of x [] = None"
| "index_of x (y # ys) = (if x = y then Some 0 else map_option Suc (index_of x ys))"

lemma index_of_None [simp]: "index_of x xs = None \<longleftrightarrow> x \<notin> set xs"
  by (induction xs) auto

lemma index_of_SomeD: "index_of x xs = Some i \<Longrightarrow> i < length xs \<and> xs ! i = x"
  by (induction xs arbitrary: i) (auto split: if_splits)

lemma index_of_nth: "distinct xs \<Longrightarrow> i < length xs \<Longrightarrow> index_of (xs ! i) xs = Some i"
proof (induction xs arbitrary: i)
  case (Cons y ys)
  then show ?case by (cases i) auto
qed simp

end
