(* ===== verification/Codec.thy ===== *)
theory Codec
  imports JsPrelude
begin

text \<open>
  The text codecs of the client. \<^verbatim>\<open>web/app/src/shared/api.ts\<close> sends source code and standard
  input as \<^verbatim>\<open>btoa(unescape(encodeURIComponent(s)))\<close> and reads results back with
  \<^verbatim>\<open>decodeURIComponent(escape(atob(b)))\<close>. The global functions involved are modelled as
  ECMAScript and HTML specify them, errors included, and the two compositions are shown to be
  UTF-8 followed by base64 and its inverse. The locale \<open>codec\<close> is the contract that every
  encoder and decoder pair of the development meets.
\<close>

section \<open>The contract of an encoder and a decoder\<close>

locale codec =
  fixes enc :: "'a \<Rightarrow> 'b" and dec :: "'b \<Rightarrow> 'a option" and valid :: "'a \<Rightarrow> bool"
  assumes dec_enc: "valid x \<Longrightarrow> dec (enc x) = Some x"
begin

lemma enc_inject: "valid x \<Longrightarrow> valid y \<Longrightarrow> enc x = enc y \<longleftrightarrow> x = y"
  using dec_enc by (metis option.inject)

lemma dec_enc_the: "valid x \<Longrightarrow> the (dec (enc x)) = x"
  by (simp add: dec_enc)

lemma map_dec_enc: "\<forall>x \<in> set xs. valid x \<Longrightarrow> map (\<lambda>x. dec (enc x)) xs = map Some xs"
  by (simp add: dec_enc)

end

section \<open>Unicode\<close>

text \<open>
  The code points of a JavaScript string: \<open>None\<close> when it holds a surrogate without its
  partner, the case in which \<^verbatim>\<open>encodeURIComponent\<close> throws.
\<close>

fun code_points :: "nat list \<Rightarrow> nat list option" where
  "code_points [] = Some []"
| "code_points [a] = (if 0xD800 \<le> a \<and> a < 0xE000 then None else Some [a])"
| "code_points (a # b # cs) =
     (if 0xDC00 \<le> a \<and> a < 0xE000 then None
      else if 0xD800 \<le> a \<and> a < 0xDC00 then
        (if 0xDC00 \<le> b \<and> b < 0xE000
         then map_option ((#) (0x10000 + (a - 0xD800) * 0x400 + (b - 0xDC00))) (code_points cs)
         else None)
      else map_option ((#) a) (code_points (b # cs)))"

definition utf16_of :: "nat \<Rightarrow> nat list" where
  "utf16_of p = (if p < 0x10000 then [p]
     else [0xD800 + (p - 0x10000) div 0x400, 0xDC00 + (p - 0x10000) mod 0x400])"

definition scalar :: "nat \<Rightarrow> bool" where
  "scalar p \<longleftrightarrow> p < 0xD800 \<or> (0xE000 \<le> p \<and> p < 0x110000)"

lemma code_points_scalar:
  "code_points s = Some ps \<Longrightarrow> \<forall>a \<in> set s. a < 65536 \<Longrightarrow> p \<in> set ps \<Longrightarrow> scalar p"
proof (induction s arbitrary: ps rule: code_points.induct)
  case 1 then show ?case by simp
next
  case (2 a) then show ?case by (auto simp: scalar_def split: if_splits)
next
  case (3 a b cs)
  then show ?case by (fastforce simp: scalar_def split: if_splits)
qed

subsection \<open>UTF-8\<close>

definition utf8_of :: "nat \<Rightarrow> nat list" where
  "utf8_of p =
     (if p < 0x80 then [p]
      else if p < 0x800 then [0xC0 + p div 64, 0x80 + p mod 64]
      else if p < 0x10000 then [0xE0 + p div 4096, 0x80 + p div 64 mod 64, 0x80 + p mod 64]
      else [0xF0 + p div 262144, 0x80 + p div 4096 mod 64, 0x80 + p div 64 mod 64, 0x80 + p mod 64])"

lemma utf8_of_byte: "p < 0x110000 \<Longrightarrow> b \<in> set (utf8_of p) \<Longrightarrow> b < 256"
  by (auto simp: utf8_of_def split: if_splits)

section \<open>Percent encoding\<close>

definition hex_cu :: "nat \<Rightarrow> cu" where
  "hex_cu d = (if d < 10 then of_nat (48 + d) else of_nat (55 + d))"

definition hex_val :: "nat \<Rightarrow> nat option" where
  "hex_val c = (if 48 \<le> c \<and> c \<le> 57 then Some (c - 48)
     else if 65 \<le> c \<and> c \<le> 70 then Some (c - 55)
     else if 97 \<le> c \<and> c \<le> 102 then Some (c - 87) else None)"

definition alnum :: "nat \<Rightarrow> bool" where
  "alnum c \<longleftrightarrow> (48 \<le> c \<and> c \<le> 57) \<or> (65 \<le> c \<and> c \<le> 90) \<or> (97 \<le> c \<and> c \<le> 122)"

text \<open>The code units that \<^verbatim>\<open>encodeURIComponent\<close> leaves alone: letters, digits and \<open>-_.!~*'()\<close>.\<close>

definition uri_unescaped :: "nat \<Rightarrow> bool" where
  "uri_unescaped c \<longleftrightarrow> alnum c \<or> c \<in> {45, 95, 46, 33, 126, 42, 39, 40, 41}"

text \<open>The code units that \<^verbatim>\<open>escape\<close> leaves alone: letters, digits and \<open>@*_+-./\<close>.\<close>

definition escape_unescaped :: "nat \<Rightarrow> bool" where
  "escape_unescaped c \<longleftrightarrow> alnum c \<or> c \<in> {64, 42, 95, 43, 45, 46, 47}"

definition pct :: "nat \<Rightarrow> jsstr" where
  "pct b = [37, hex_cu (b div 16), hex_cu (b mod 16)]"

definition encodeURIComponent :: "jsstr \<Rightarrow> jsstr option" where
  "encodeURIComponent s =
     map_option (\<lambda>ps. concat (map (\<lambda>p. if uri_unescaped p then [of_nat p]
                                      else concat (map pct (utf8_of p))) ps))
       (code_points (map unat s))"

text \<open>Two hexadecimal digits, or \<open>u\<close> and four of them, and what follows.\<close>

fun hex2 :: "nat list \<Rightarrow> (nat \<times> nat list) option" where
  "hex2 (h # l # r) = (case (hex_val h, hex_val l) of
     (Some h', Some l') \<Rightarrow> Some (16 * h' + l', r) | _ \<Rightarrow> None)"
| "hex2 _ = None"

fun hex_u4 :: "nat list \<Rightarrow> (nat \<times> nat list) option" where
  "hex_u4 (u # a # b # r) = (if u \<noteq> 117 then None else
     (case (hex2 (a # b # r)) of
        Some (hi, r') \<Rightarrow> map_option (\<lambda>(lo, r''). (256 * hi + lo, r'')) (hex2 r')
      | None \<Rightarrow> None))"
| "hex_u4 _ = None"

lemma hex2_length [termination_simp]: "hex2 cs = Some (v, r) \<Longrightarrow> length r < Suc (length cs)"
  by (induction cs rule: hex2.induct) (auto split: option.splits)

lemma hex_u4_length [termination_simp]: "hex_u4 cs = Some (v, r) \<Longrightarrow> length r < Suc (length cs)"
  by (induction cs rule: hex_u4.induct) (auto split: option.splits if_splits dest!: hex2_length)

fun unescape_nat :: "nat list \<Rightarrow> nat list" where
  "unescape_nat [] = []"
| "unescape_nat (c # cs) =
     (if c \<noteq> 37 then c # unescape_nat cs
      else case hex_u4 cs of
        Some (v, r) \<Rightarrow> v # unescape_nat r
      | None \<Rightarrow> (case hex2 cs of
          Some (v, r) \<Rightarrow> v # unescape_nat r
        | None \<Rightarrow> c # unescape_nat cs))"

declare unescape_nat.simps [simp del]

definition unescape :: "jsstr \<Rightarrow> jsstr" where
  "unescape s = map of_nat (unescape_nat (map unat s))"

definition escape :: "jsstr \<Rightarrow> jsstr" where
  "escape s = concat (map (\<lambda>c. let n = unat c in
     if escape_unescaped n then [c]
     else if n < 256 then pct n
     else [37, 117, hex_cu (n div 4096), hex_cu (n div 256 mod 16),
           hex_cu (n div 16 mod 16), hex_cu (n mod 16)]) s)"

text \<open>
  \<^verbatim>\<open>decodeURIComponent\<close>: the text is first read as literal code units and percent-encoded
  bytes (a malformed percent sequence is a \<^verbatim>\<open>URIError\<close>), then each byte sequence must be the
  shortest UTF-8 encoding of a scalar value.
\<close>

datatype utok = Lit nat | Byte nat

fun pct_tokens :: "nat list \<Rightarrow> utok list option" where
  "pct_tokens [] = Some []"
| "pct_tokens (c # cs) =
     (if c \<noteq> 37 then map_option ((#) (Lit c)) (pct_tokens cs)
      else case hex2 cs of
        Some (v, r) \<Rightarrow> map_option ((#) (Byte v)) (pct_tokens r)
      | None \<Rightarrow> None)"

declare pct_tokens.simps [simp del]

definition cont :: "nat \<Rightarrow> bool" where
  "cont b \<longleftrightarrow> 0x80 \<le> b \<and> b < 0xC0"

fun utf8_tokens :: "utok list \<Rightarrow> nat list option" where
  "utf8_tokens [] = Some []"
| "utf8_tokens (Lit c # ts) = map_option ((#) c) (utf8_tokens ts)"
| "utf8_tokens (Byte b # ts) =
     (if b < 0x80 then map_option ((#) b) (utf8_tokens ts)
      else if 0xC2 \<le> b \<and> b < 0xE0 then
        (case ts of
           Byte c # r \<Rightarrow>
             (if cont c then map_option ((#) ((b - 0xC0) * 64 + (c - 0x80))) (utf8_tokens r)
              else None)
         | _ \<Rightarrow> None)
      else if 0xE0 \<le> b \<and> b < 0xF0 then
        (case ts of
           Byte c # Byte d # r \<Rightarrow>
             (let p = (b - 0xE0) * 4096 + (c - 0x80) * 64 + (d - 0x80) in
              if cont c \<and> cont d \<and> 0x800 \<le> p \<and> scalar p
              then map_option ((@) (utf16_of p)) (utf8_tokens r) else None)
         | _ \<Rightarrow> None)
      else if 0xF0 \<le> b \<and> b < 0xF8 then
        (case ts of
           Byte c # Byte d # Byte e # r \<Rightarrow>
             (let p = (b - 0xF0) * 262144 + (c - 0x80) * 4096 + (d - 0x80) * 64 + (e - 0x80) in
              if cont c \<and> cont d \<and> cont e \<and> 0x10000 \<le> p \<and> scalar p
              then map_option ((@) (utf16_of p)) (utf8_tokens r) else None)
         | _ \<Rightarrow> None)
      else None)"

declare utf8_tokens.simps(3) [simp del]

definition decodeURIComponent :: "jsstr \<Rightarrow> jsstr option" where
  "decodeURIComponent s =
     map_option (map of_nat) (Option.bind (pct_tokens (map unat s)) utf8_tokens)"

section \<open>Base64\<close>

definition b64_cu :: "nat \<Rightarrow> nat" where
  "b64_cu d = (if d < 26 then 65 + d else if d < 52 then 71 + d else if d < 62 then d - 4
     else if d = 62 then 43 else 47)"

definition b64_val :: "nat \<Rightarrow> nat option" where
  "b64_val c = (if 65 \<le> c \<and> c \<le> 90 then Some (c - 65)
     else if 97 \<le> c \<and> c \<le> 122 then Some (c - 71)
     else if 48 \<le> c \<and> c \<le> 57 then Some (c + 4)
     else if c = 43 then Some 62 else if c = 47 then Some 63 else None)"

text \<open>The sextets of a byte string, without padding; \<^verbatim>\<open>btoa\<close> pads them to a multiple of four.\<close>

fun b64_sextets :: "nat list \<Rightarrow> nat list" where
  "b64_sextets [] = []"
| "b64_sextets [a] = [a div 4, a mod 4 * 16]"
| "b64_sextets [a, b] = [a div 4, a mod 4 * 16 + b div 16, b mod 16 * 4]"
| "b64_sextets (a # b # c # r) =
     [a div 4, a mod 4 * 16 + b div 16, b mod 16 * 4 + c div 64, c mod 64] @ b64_sextets r"

fun b64_bytes :: "nat list \<Rightarrow> nat list option" where
  "b64_bytes [] = Some []"
| "b64_bytes [a] = None"
| "b64_bytes [a, b] = Some [a * 4 + b div 16]"
| "b64_bytes [a, b, c] = Some [a * 4 + b div 16, b mod 16 * 16 + c div 4]"
| "b64_bytes (a # b # c # d # r) =
     map_option ((@) [a * 4 + b div 16, b mod 16 * 16 + c div 4, c mod 4 * 64 + d]) (b64_bytes r)"

text \<open>Base64 without padding, as the service's \<^verbatim>\<open>Payload::to_base64\<close> writes it.\<close>

definition b64_nopad :: "nat list \<Rightarrow> jsstr" where
  "b64_nopad bs = map (\<lambda>d. of_nat (b64_cu d)) (b64_sextets bs)"

definition btoa :: "jsstr \<Rightarrow> jsstr option" where
  "btoa s = (if \<forall>c \<in> set s. unat c < 256
     then let t = b64_nopad (map unat s) in Some (t @ replicate ((4 - length t mod 4) mod 4) 61)
     else None)"

text \<open>
  \<^verbatim>\<open>atob\<close> is the forgiving decoder: ASCII white space is removed, at most two padding signs
  are dropped from a text whose length is a multiple of four, the bits left over at the end
  are discarded. \<open>None\<close> is its \<^verbatim>\<open>InvalidCharacterError\<close>.
\<close>

definition ascii_ws :: "cu \<Rightarrow> bool" where
  "ascii_ws c \<longleftrightarrow> c \<in> {9, 10, 12, 13, 32}"

definition strip_pad :: "jsstr \<Rightarrow> jsstr" where
  "strip_pad s = (if length s mod 4 = 0 then
       (case rev s of
          c # d # r \<Rightarrow> (if c = 61 \<and> d = 61 then rev r else if c = 61 then rev (d # r) else s)
        | _ \<Rightarrow> s)
     else s)"

fun sequence :: "'a option list \<Rightarrow> 'a list option" where
  "sequence [] = Some []"
| "sequence (x # xs) = (case x of None \<Rightarrow> None | Some y \<Rightarrow> map_option ((#) y) (sequence xs))"

definition atob :: "jsstr \<Rightarrow> jsstr option" where
  "atob s = map_option (map of_nat)
     (Option.bind (sequence (map (\<lambda>c. b64_val (unat c)) (strip_pad (filter (\<lambda>c. \<not> ascii_ws c) s))))
        b64_bytes)"

section \<open>encode and decode of api.ts\<close>

text \<open>\<^verbatim>\<open>encode(str)\<close>: \<open>None\<close> when \<^verbatim>\<open>encodeURIComponent\<close> throws its \<^verbatim>\<open>URIError\<close>.\<close>

definition encode :: "jsstr option \<Rightarrow> jsstr option" where
  "encode str = Option.bind (map_option unescape (encodeURIComponent (opt [] str))) btoa"

definition decode :: "jsstr option \<Rightarrow> jsstr" where
  "decode b64 = (case b64 of None \<Rightarrow> []
     | Some b \<Rightarrow> (case Option.bind (map_option escape (atob b)) decodeURIComponent of
                    Some s \<Rightarrow> s | None \<Rightarrow> b))"

definition well_formed :: "jsstr \<Rightarrow> bool" where
  "well_formed s \<longleftrightarrow> code_points (map unat s) \<noteq> None"

lemma code_points_bmp: "\<forall>a \<in> set s. a < 0xD800 \<Longrightarrow> code_points s = Some s"
  by (induction s rule: code_points.induct) auto

lemma well_formed_js [simp]: "well_formed (js s)"
proof -
  have "(of_char c :: nat) < 0xD800" for c using of_char_nat_less [of c] by linarith
  then have "\<forall>a \<in> set (map unat (js s)). a < 0xD800" by (auto simp: js_def)
  then show ?thesis unfolding well_formed_def by (simp add: code_points_bmp)
qed

section \<open>Correctness of the codecs\<close>

subsection \<open>Writing the bytes\<close>


lemma utf16_of_pair:
  assumes "0xD800 \<le> a" "a < 0xDC00" "0xDC00 \<le> b" "b < 0xE000"
  shows "utf16_of (0x10000 + (a - 0xD800) * 0x400 + (b - 0xDC00)) = [a, b]"
proof -
  define x y where "x = a - 0xD800" and "y = b - 0xDC00"
  then have "y < 0x400" and "a = 0xD800 + x" and "b = 0xDC00 + y"
    using assms by auto
  then show ?thesis by (simp add: utf16_of_def)
qed

lemma utf16_of_small [simp]: "p < 0x10000 \<Longrightarrow> utf16_of p = [p]"
  by (simp add: utf16_of_def)

lemma code_points_utf16:
  "code_points s = Some ps \<Longrightarrow> \<forall>a \<in> set s. a < 65536 \<Longrightarrow> concat (map utf16_of ps) = s"
proof (induction s arbitrary: ps rule: code_points.induct)
  case 1 then show ?case by simp
next
  case (2 a) then show ?case by (auto simp: utf16_of_def split: if_splits)
next
  case (3 a b cs)
  show ?case
  proof (cases "0xD800 \<le> a \<and> a < 0xE000")
    case True
    then have a: "0xD800 \<le> a" "a < 0xDC00" and b: "0xDC00 \<le> b" "b < 0xE000"
      using "3.prems"(1) by (auto split: if_splits)
    then obtain qs where qs: "code_points cs = Some qs"
      and ps: "ps = (0x10000 + (a - 0xD800) * 0x400 + (b - 0xDC00)) # qs"
      using "3.prems"(1) by (auto split: if_splits)
    have "concat (map utf16_of qs) = cs"
      using "3.IH"(1) [OF _ a(1)[THEN conjI] b(1)[THEN conjI] qs] a b "3.prems"(2) by simp
    then show ?thesis unfolding ps by (simp add: utf16_of_pair [OF a b])
  next
    case False
    then obtain qs where qs: "code_points (b # cs) = Some qs" and ps: "ps = a # qs"
      using "3.prems"(1) by (auto split: if_splits)
    have "concat (map utf16_of qs) = b # cs"
      using "3.IH"(2) [OF _ _ qs] False "3.prems"(2) by auto
    then show ?thesis unfolding ps using "3.prems"(2) by simp
  qed
qed

lemma unat_hex_cu: "d < 16 \<Longrightarrow> unat (hex_cu d) = (if d < 10 then 48 + d else 55 + d)"
  by (simp add: hex_cu_def unat_of_nat_cu del: of_nat_add)

lemma hex_val_hex_cu [simp]: "d < 16 \<Longrightarrow> hex_val (unat (hex_cu d)) = Some d"
  by (auto simp: unat_hex_cu hex_val_def)

lemma hex_cu_not_u: "d < 16 \<Longrightarrow> unat (hex_cu d) \<noteq> 117"
  by (simp add: unat_hex_cu)

lemma hex2_pct:
  "b < 256 \<Longrightarrow> hex2 (unat (hex_cu (b div 16)) # unat (hex_cu (b mod 16)) # r) = Some (b, r)"
  by (simp add: hex_val_hex_cu)

lemma unescape_pct: "b < 256 \<Longrightarrow> unescape_nat (map unat (pct b) @ r) = b # unescape_nat r"
proof -
  assume b: "b < 256"
  then have "hex_u4 (unat (hex_cu (b div 16)) # unat (hex_cu (b mod 16)) # r) = None"
    by (cases r) (simp_all add: hex_cu_not_u)
  with b show ?thesis
    by (simp add: pct_def unescape_nat.simps(2) hex2_pct del: hex2.simps)
qed

lemma unescape_pcts:
  "\<forall>b \<in> set bs. b < 256 \<Longrightarrow>
   unescape_nat (map unat (concat (map pct bs)) @ r) = bs @ unescape_nat r"
  by (induction bs) (simp_all add: unescape_pct)

lemma uri_unescaped_small: "uri_unescaped p \<Longrightarrow> p < 128 \<and> p \<noteq> 37"
  by (auto simp: uri_unescaped_def alnum_def)

lemma unescape_enc1:
  assumes "scalar p"
  shows "unescape_nat (map unat (if uri_unescaped p then [of_nat p]
           else concat (map pct (utf8_of p))) @ r) = utf8_of p @ unescape_nat r"
proof (cases "uri_unescaped p")
  case True
  then have "p < 128" "p \<noteq> 37" using uri_unescaped_small by auto
  with True show ?thesis
    by (simp add: unat_of_nat_cu utf8_of_def unescape_nat.simps(2))
next
  case False
  have "\<forall>b \<in> set (utf8_of p). b < 256"
    using assms utf8_of_byte [of p] by (auto simp: scalar_def)
  from unescape_pcts [OF this] False show ?thesis by simp
qed

lemma unescape_enc:
  "\<forall>p \<in> set ps. scalar p \<Longrightarrow>
   unescape_nat (map unat (concat (map (\<lambda>p. if uri_unescaped p then [of_nat p]
      else concat (map pct (utf8_of p))) ps))) = concat (map utf8_of ps)"
proof (induction ps)
  case Nil
  then show ?case by (simp add: unescape_nat.simps(1))
next
  case (Cons p ps)
  then show ?case using unescape_enc1 [of p] by simp
qed

lemma map_unat_scalar: "code_points (map unat (s :: jsstr)) = Some ps \<Longrightarrow> \<forall>p \<in> set ps. scalar p"
  using code_points_scalar [of "map unat s" ps] unsigned_less [where ?'a = nat and ?'b = 16] by fastforce

theorem unescape_encodeURIComponent:
  "map_option unescape (encodeURIComponent s) =
   map_option (\<lambda>ps. map of_nat (concat (map utf8_of ps))) (code_points (map unat s))"
proof (cases "code_points (map unat s)")
  case None
  then show ?thesis by (simp add: encodeURIComponent_def)
next
  case (Some ps)
  then show ?thesis
    using unescape_enc [OF map_unat_scalar [OF Some]]
    by (simp add: encodeURIComponent_def unescape_def)
qed

subsection \<open>Reading the bytes back\<close>

definition tok :: "nat \<Rightarrow> utok" where
  "tok b = (if escape_unescaped b then Lit b else Byte b)"

lemma pct_tokens_pct: "b < 256 \<Longrightarrow> pct_tokens (map unat (pct b) @ r) = map_option ((#) (Byte b)) (pct_tokens r)"
  by (simp add: pct_def pct_tokens.simps(2) hex2_pct del: hex2.simps)

lemma pct_tokens_escape:
  "\<forall>c \<in> set s. unat c < 256 \<Longrightarrow> pct_tokens (map unat (escape s)) = Some (map (tok \<circ> unat) s)"
proof (induction s)
  case Nil
  then show ?case by (simp add: escape_def pct_tokens.simps(1))
next
  case (Cons c s)
  have IH: "pct_tokens (map unat (escape s)) = Some (map (tok \<circ> unat) s)"
    using Cons by simp
  show ?case
  proof (cases "escape_unescaped (unat c)")
    case True
    then have "unat c \<noteq> 37" by (auto simp: escape_unescaped_def alnum_def)
    with True IH show ?thesis by (simp add: escape_def tok_def pct_tokens.simps(2))
  next
    case False
    have "escape (c # s) = pct (unat c) @ escape s"
      using False Cons.prems by (simp add: escape_def)
    with False IH Cons.prems show ?thesis
      by (simp add: pct_tokens_pct tok_def)
  qed
qed

lemma utf8_tokens_tok_ascii:
  "b < 128 \<Longrightarrow> utf8_tokens (tok b # ts) = map_option ((#) b) (utf8_tokens ts)"
  by (simp add: tok_def utf8_tokens.simps(3))

lemma tok_high: "128 \<le> b \<Longrightarrow> tok b = Byte b"
  by (auto simp: tok_def escape_unescaped_def alnum_def)

lemma map_option_Cons_append: "map_option ((@) [x]) m = map_option ((#) x) m"
  by (cases m) auto

lemma sextet_split3: "p div 4096 * 4096 + p div 64 mod 64 * 64 + p mod 64 = (p :: nat)"
proof -
  have "p div 4096 = p div 64 div 64" by (simp flip: div_mult2_eq)
  then have "p div 4096 * 64 + p div 64 mod 64 = p div 64" by simp
  moreover have "p div 64 * 64 + p mod 64 = p" by simp
  ultimately show ?thesis by linarith
qed

lemma sextet_split4:
  "p div 262144 * 262144 + p div 4096 mod 64 * 4096 + p div 64 mod 64 * 64 + p mod 64 = (p :: nat)"
proof -
  have "p div 262144 = p div 64 div 4096" and "p div 4096 = p div 64 div 64"
    by (simp_all flip: div_mult2_eq)
  then have "p div 262144 * 4096 + p div 4096 mod 64 * 64 + p div 64 mod 64 = p div 64"
    using sextet_split3 [of "p div 64"] by simp
  moreover have "p div 64 * 64 + p mod 64 = p" by simp
  ultimately show ?thesis by linarith
qed

lemma utf8_tokens_utf8_of:
  assumes "scalar p"
  shows "utf8_tokens (map tok (utf8_of p) @ ts) = map_option ((@) (utf16_of p)) (utf8_tokens ts)"
proof -
  consider "p < 0x80" | "0x80 \<le> p" "p < 0x800" | "0x800 \<le> p" "p < 0x10000" | "0x10000 \<le> p"
    by linarith
  then show ?thesis
  proof cases
    case 1
    then show ?thesis
      by (simp add: utf8_of_def utf16_of_def utf8_tokens_tok_ascii map_option_Cons_append)
  next
    case 2
    have "0xC2 \<le> 0xC0 + p div 64" and "0xC0 + p div 64 < 0xE0" using 2 by auto
    then show ?thesis using 2
      by (simp add: utf8_of_def utf16_of_def tok_high utf8_tokens.simps(3) cont_def map_option_Cons_append)
  next
    case 3
    have "p div 4096 < 16" using 3 by auto
    moreover have "p div 4096 * 4096 + p div 64 mod 64 * 64 + p mod 64 = p" by (rule sextet_split3)
    ultimately show ?thesis using 3 assms
      by (simp add: utf8_of_def tok_high utf8_tokens.simps(3) cont_def Let_def)
  next
    case 4
    have "p < 0x110000" using 4 assms by (auto simp: scalar_def)
    then have "p div 262144 < 8" by auto
    moreover have "p div 262144 * 262144 + p div 4096 mod 64 * 4096 + p div 64 mod 64 * 64 + p mod 64 = p"
      by (rule sextet_split4)
    ultimately show ?thesis using 4 assms
      by (simp add: utf8_of_def tok_high utf8_tokens.simps(3) cont_def Let_def)
  qed
qed

lemma utf8_tokens_all:
  "\<forall>p \<in> set ps. scalar p \<Longrightarrow>
   utf8_tokens (map tok (concat (map utf8_of ps))) = Some (concat (map utf16_of ps))"
  by (induction ps) (simp_all add: utf8_tokens_utf8_of)



subsection \<open>Base64\<close>

lemma b64_sextets_less: "\<forall>b \<in> set bs. b < 256 \<Longrightarrow> d \<in> set (b64_sextets bs) \<Longrightarrow> d < 64"
proof (induction bs rule: b64_sextets.induct)
  case (4 a b c r)
  have "a div 4 < 64" "a mod 4 * 16 + b div 16 < 64" "b mod 16 * 4 + c div 64 < 64" "c mod 64 < 64"
    using "4.prems"(1) by auto
  with 4 show ?case by auto
qed (auto simp: div_less_iff_less_mult)

lemma b64_bytes_sextets: "\<forall>b \<in> set bs. b < 256 \<Longrightarrow> b64_bytes (b64_sextets bs) = Some bs"
proof (induction bs rule: b64_sextets.induct)
  case (4 a b c r)
  have "b div 16 < 16" and "c div 64 < 4" using "4.prems" by auto
  with 4 show ?case by (simp add: div_mult_mod_eq)
qed auto

lemma b64_cu_range: "d < 64 \<Longrightarrow> b64_cu d < 128 \<and> b64_cu d \<noteq> 61 \<and> 43 \<le> b64_cu d"
  by (auto simp: b64_cu_def)

lemma b64_val_cu: "d < 64 \<Longrightarrow> b64_val (b64_cu d) = Some d"
  by (auto simp: b64_cu_def b64_val_def)

lemma sequence_map_Some: "sequence (map Some xs) = Some xs"
  by (induction xs) auto

lemma sequence_all: "\<forall>x \<in> set xs. f x = Some (g x) \<Longrightarrow> sequence (map f xs) = Some (map g xs)"
  by (induction xs) auto

lemma b64_nopad_chars:
  assumes "\<forall>b \<in> set bs. b < 256" "c \<in> set (b64_nopad bs)"
  shows "c \<noteq> 61" and "\<not> ascii_ws c"
proof -
  obtain d where d: "d < 64" and c: "c = of_nat (b64_cu d)"
    using assms b64_sextets_less [OF assms(1)] by (auto simp: b64_nopad_def)
  have u: "unat c = b64_cu d"
    using b64_cu_range [OF d] c by (simp add: unat_of_nat_cu)
  show "c \<noteq> 61" using u b64_cu_range [OF d] by auto
  have "43 \<le> unat c" using u b64_cu_range [OF d] by simp
  then show "\<not> ascii_ws c" by (auto simp: ascii_ws_def)
qed

lemma b64_nopad_decode:
  assumes "\<forall>b \<in> set bs. b < 256"
  shows "Option.bind (sequence (map (\<lambda>c. b64_val (unat c)) (b64_nopad bs))) b64_bytes = Some bs"
proof -
  have "b64_val (unat (of_nat (b64_cu d) :: cu)) = Some d" if "d \<in> set (b64_sextets bs)" for d
    using b64_sextets_less [OF assms that] b64_cu_range [of d] by (simp add: unat_of_nat_cu b64_val_cu)
  then have "map (\<lambda>c. b64_val (unat c)) (b64_nopad bs) = map Some (b64_sextets bs)"
    by (simp add: b64_nopad_def)
  then show ?thesis
    by (simp add: sequence_map_Some b64_bytes_sextets [OF assms])
qed

lemma length_b64_sextets_mod: "length (b64_sextets bs) mod 4 \<noteq> 1"
  by (induction bs rule: b64_sextets.induct) auto

lemma strip_pad_id: "\<forall>c \<in> set t. c \<noteq> 61 \<Longrightarrow> strip_pad t = t"
  by (auto simp: strip_pad_def split: list.splits dest: arg_cong [where f = set])

lemma strip_pad_two: "length t mod 4 = 2 \<Longrightarrow> strip_pad (t @ [61, 61]) = t"
proof -
  assume "length t mod 4 = 2"
  then have "Suc (Suc (length t)) mod 4 = 0" by presburger
  then show ?thesis by (simp add: strip_pad_def)
qed

lemma strip_pad_one:
  assumes "length t mod 4 = 3" "\<forall>c \<in> set t. c \<noteq> 61"
  shows "strip_pad (t @ [61]) = t"
proof (cases t rule: rev_cases)
  case Nil
  with assms(1) show ?thesis by simp
next
  case (snoc r d)
  have "Suc (Suc (length r)) mod 4 = 0" using assms(1) snoc by simp presburger
  with snoc assms(2) show ?thesis by (simp add: strip_pad_def)
qed

lemma strip_pad_nopad:
  assumes "\<forall>c \<in> set t. c \<noteq> 61" "length t mod 4 \<noteq> 1"
  shows "strip_pad (t @ replicate ((4 - length t mod 4) mod 4) 61) = t"
proof -
  have "length t mod 4 < 4" by simp
  then consider "length t mod 4 = 0" | "length t mod 4 = 2" | "length t mod 4 = 3"
    using assms(2) by linarith
  then show ?thesis
  proof cases
    case 1
    then show ?thesis using assms(1) by (simp add: strip_pad_id)
  next
    case 2
    then have "replicate ((4 - length t mod 4) mod 4) 61 = [61, 61 :: cu]"
      by (simp add: numeral_2_eq_2)
    with 2 show ?thesis by (simp only: strip_pad_two)
  next
    case 3
    then have "replicate ((4 - length t mod 4) mod 4) 61 = [61 :: cu]" by simp
    with 3 assms(1) show ?thesis by (simp only: strip_pad_one)
  qed
qed

theorem atob_nopad:
  "\<forall>b \<in> set bs. b < 256 \<Longrightarrow> atob (b64_nopad bs) = Some (map of_nat bs)"
  by (simp add: atob_def filter_id_conv [THEN iffD2] b64_nopad_chars strip_pad_id b64_nopad_decode)

theorem atob_btoa: "btoa s = Some t \<Longrightarrow> atob t = Some s"
proof -
  assume t: "btoa s = Some t"
  let ?bs = "map unat s"
  let ?n = "b64_nopad ?bs"
  have bs: "\<forall>b \<in> set ?bs. b < 256" and tdef: "t = ?n @ replicate ((4 - length ?n mod 4) mod 4) 61"
    using t by (auto simp: btoa_def Let_def split: if_splits)
  have "length ?n mod 4 \<noteq> 1"
    using length_b64_sextets_mod by (simp add: b64_nopad_def)
  then have "strip_pad t = ?n"
    unfolding tdef using b64_nopad_chars(1) [OF bs] by (intro strip_pad_nopad) auto
  moreover have "filter (\<lambda>c. \<not> ascii_ws c) t = t"
    unfolding tdef using b64_nopad_chars(2) [OF bs] by (auto simp: filter_id_conv ascii_ws_def)
  ultimately show ?thesis
    using b64_nopad_decode [OF bs] by (simp add: atob_def o_def)
qed

subsection \<open>encode and decode\<close>

lemma unat_of_nat_byte: "b < 256 \<Longrightarrow> unat (of_nat b :: cu) = b"
  by (rule unat_of_nat_cu) simp

lemma unat_of_nat_bytes: "\<forall>b \<in> set bs. b < 256 \<Longrightarrow> map unat (map of_nat bs :: cu list) = bs"
  by (simp add: map_idI unat_of_nat_byte)

lemma concat_utf8_byte: "\<forall>p \<in> set ps. scalar p \<Longrightarrow> b \<in> set (concat (map utf8_of ps)) \<Longrightarrow> b < 256"
proof -
  assume "\<forall>p \<in> set ps. scalar p" and "b \<in> set (concat (map utf8_of ps))"
  then obtain p where "b \<in> set (utf8_of p)" and "p < 0x110000"
    by (auto simp: scalar_def)
  then show "b < 256" using utf8_of_byte by blast
qed

lemma decode_bytes:
  assumes "\<forall>p \<in> set ps. scalar p"
  shows "decodeURIComponent (escape (map of_nat (concat (map utf8_of ps))))
     = Some (map of_nat (concat (map utf16_of ps)))"
proof -
  let ?b = "concat (map utf8_of ps)"
  have small: "\<forall>b \<in> set ?b. b < 256" using concat_utf8_byte [OF assms] by blast
  have un: "map unat (map of_nat ?b :: cu list) = ?b"
    using small by (rule unat_of_nat_bytes)
  have "\<forall>c \<in> set (map of_nat ?b :: cu list). unat c < 256"
    using small by (auto simp: unat_of_nat_byte)
  from pct_tokens_escape [OF this] have
    "pct_tokens (map unat (escape (map of_nat ?b))) = Some (map tok (map unat (map of_nat ?b :: cu list)))"
    by simp
  then show ?thesis
    using utf8_tokens_all [OF assms] by (simp only: un decodeURIComponent_def) simp
qed

lemma well_formed_utf16:
  assumes "code_points (map unat (s :: jsstr)) = Some ps"
  shows "map of_nat (concat (map utf16_of ps)) = s"
proof -
  have "\<forall>a \<in> set (map unat s). a < 65536"
    using unsigned_less [where ?'a = nat and ?'b = 16] by fastforce
  from code_points_utf16 [OF assms this] show ?thesis by (simp add: map_idI)
qed

lemma encode_eq:
  "encode (Some s) = Option.bind (code_points (map unat s))
     (\<lambda>ps. btoa (map of_nat (concat (map utf8_of ps))))"
  by (cases "code_points (map unat s)") (simp_all add: encode_def unescape_encodeURIComponent)

lemma btoa_bytes: "\<forall>b \<in> set bs. b < 256 \<Longrightarrow> \<exists>t. btoa (map of_nat bs) = Some t"
  by (auto simp: btoa_def Let_def unat_of_nat_byte)

theorem encode_defined: "encode (Some s) \<noteq> None \<longleftrightarrow> well_formed s"
proof (cases "code_points (map unat s)")
  case None
  then show ?thesis by (simp add: encode_eq well_formed_def)
next
  case (Some ps)
  then show ?thesis
    using btoa_bytes [of "concat (map utf8_of ps)"] concat_utf8_byte [OF map_unat_scalar [OF Some]]
    by (auto simp: encode_eq well_formed_def)
qed

theorem decode_encode:
  assumes "encode (Some s) = Some t"
  shows "decode (Some t) = s"
proof -
  obtain ps where ps: "code_points (map unat s) = Some ps"
    and t: "btoa (map of_nat (concat (map utf8_of ps))) = Some t"
    using assms by (auto simp: encode_eq bind_eq_Some_conv)
  then show ?thesis
    by (simp add: decode_def atob_btoa [OF t] decode_bytes [OF map_unat_scalar [OF ps]]
        well_formed_utf16 [OF ps])
qed

theorem decode_nopad:
  assumes "code_points (map unat s) = Some ps"
  shows "decode (Some (b64_nopad (concat (map utf8_of ps)))) = s"
  using concat_utf8_byte [OF map_unat_scalar [OF assms]]
  by (simp add: decode_def atob_nopad decode_bytes [OF map_unat_scalar [OF assms]]
      well_formed_utf16 [OF assms])

interpretation b64: codec "\<lambda>s. the (encode (Some s))" "\<lambda>t. Some (decode (Some t))" well_formed
proof
  fix s assume "well_formed s"
  then obtain t where "encode (Some s) = Some t" using encode_defined by blast
  then show "Some (decode (Some (the (encode (Some s))))) = Some s"
    using decode_encode by (metis option.sel)
qed

end
