(* ===== verification/Json.thy ===== *)
theory Json
  imports Codec
begin

text \<open>
  JSON values and the two functions \<^verbatim>\<open>JSON.stringify\<close> and \<^verbatim>\<open>JSON.parse\<close>, through which the
  client talks to the service, to \<^verbatim>\<open>localStorage\<close> and to imported files. A JavaScript object
  is the list of its properties in insertion order with distinct keys; a number is the rational
  it denotes, written in decimal. Printing a value and parsing it gives the value back.
\<close>

section \<open>Values\<close>

datatype json =
    JNull
  | JBool bool
  | JNum number
  | JStr jsstr
  | JArr "json list"
  | JObj "(jsstr \<times> json) list"

text \<open>\<^verbatim>\<open>obj[key] = v\<close>: an existing property keeps its place, a new one comes last.\<close>

fun obj_put :: "'k \<Rightarrow> 'v \<Rightarrow> ('k \<times> 'v) list \<Rightarrow> ('k \<times> 'v) list" where
  "obj_put k v [] = [(k, v)]"
| "obj_put k v ((k', v') # ps) = (if k = k' then (k, v) # ps else (k', v') # obj_put k v ps)"

text \<open>\<^verbatim>\<open>obj.key\<close> on a value: \<open>None\<close> is \<^verbatim>\<open>undefined\<close>.\<close>

definition jget :: "string \<Rightarrow> json \<Rightarrow> json option" where
  "jget k v = (case v of JObj ps \<Rightarrow> map_of ps (js k) | _ \<Rightarrow> None)"

definition truthy :: "json \<Rightarrow> bool" where
  "truthy v = (case v of JNull \<Rightarrow> False | JBool b \<Rightarrow> b | JNum n \<Rightarrow> n \<noteq> 0 | JStr s \<Rightarrow> s \<noteq> [] | _ \<Rightarrow> True)"

section \<open>JSON.stringify\<close>

text \<open>The scale of a finite decimal: the least \<open>k\<close> such that the denominator divides \<open>10 ^ k\<close>.\<close>

function least_scale :: "int \<Rightarrow> nat \<Rightarrow> nat option" where
  "least_scale d k = (if d dvd 10 ^ k then Some k else if nat d \<le> k then None
     else least_scale d (Suc k))"
  by pat_completeness auto
termination
  by (relation "measure (\<lambda>(d, k). nat d - k)") auto

declare least_scale.simps [simp del]

definition scale_of :: "number \<Rightarrow> nat option" where
  "scale_of q = least_scale (snd (quotient_of q)) 0"

definition decimal :: "number \<Rightarrow> bool" where
  "decimal q \<longleftrightarrow> scale_of q \<noteq> None"

definition pad0 :: "nat \<Rightarrow> jsstr \<Rightarrow> jsstr" where
  "pad0 n s = replicate (n - length s) (digit_cu 0) @ s"

definition numText :: "number \<Rightarrow> jsstr" where
  "numText q = (case scale_of q of None \<Rightarrow> js ''null''
     | Some k \<Rightarrow>
        (let ds = pad0 (Suc k) (natStr (nat \<lfloor>\<bar>q\<bar> * 10 ^ k\<rfloor>)); n = length ds - k
         in (if q < 0 then js ''-'' else [])
            @ take n ds @ (if k = 0 then [] else js ''.'' @ drop n ds)))"

definition hex_lower :: "nat \<Rightarrow> cu" where
  "hex_lower d = (if d < 10 then of_nat (48 + d) else of_nat (87 + d))"

definition u_escape :: "nat \<Rightarrow> jsstr" where
  "u_escape n = [92, 117, hex_lower (n div 4096), hex_lower (n div 256 mod 16),
     hex_lower (n div 16 mod 16), hex_lower (n mod 16)]"

definition quote_cu :: "cu \<Rightarrow> jsstr" where
  "quote_cu c =
     (if c = 34 then [92, 34] else if c = 92 then [92, 92]
      else if c = 8 then [92, 98] else if c = 9 then [92, 116] else if c = 10 then [92, 110]
      else if c = 12 then [92, 102] else if c = 13 then [92, 114]
      else if unat c < 32 then u_escape (unat c) else [c])"

definition high_sur :: "cu \<Rightarrow> bool" where
  "high_sur c \<longleftrightarrow> 0xD800 \<le> unat c \<and> unat c < 0xDC00"

definition low_sur :: "cu \<Rightarrow> bool" where
  "low_sur c \<longleftrightarrow> 0xDC00 \<le> unat c \<and> unat c < 0xE000"

fun quote_body :: "jsstr \<Rightarrow> jsstr" where
  "quote_body [] = []"
| "quote_body [c] = (if high_sur c \<or> low_sur c then u_escape (unat c) else quote_cu c)"
| "quote_body (c # d # cs) =
     (if high_sur c \<and> low_sur d then c # d # quote_body cs
      else if high_sur c \<or> low_sur c then u_escape (unat c) @ quote_body (d # cs)
      else quote_cu c @ quote_body (d # cs))"

definition quote :: "jsstr \<Rightarrow> jsstr" where
  "quote s = [34] @ quote_body s @ [34]"

text \<open>
  The printer, over what it puts between tokens: \<open>nl d\<close> before an element and before the
  closing bracket at depth \<open>d\<close>, \<open>sp\<close> after a colon. \<^verbatim>\<open>JSON.stringify(v)\<close> puts nothing,
  \<^verbatim>\<open>JSON.stringify(v, null, 2)\<close> a new line, two spaces per level and a space.
\<close>

fun stringify_with :: "(nat \<Rightarrow> jsstr) \<Rightarrow> jsstr \<Rightarrow> nat \<Rightarrow> json \<Rightarrow> jsstr" where
  "stringify_with nl sp d JNull = js ''null''"
| "stringify_with nl sp d (JBool b) = (if b then js ''true'' else js ''false'')"
| "stringify_with nl sp d (JNum n) = numText n"
| "stringify_with nl sp d (JStr s) = quote s"
| "stringify_with nl sp d (JArr vs) = (if vs = [] then js ''[]'' else
     js ''['' @ nl (Suc d) @ join (js '','' @ nl (Suc d)) (map (stringify_with nl sp (Suc d)) vs)
       @ nl d @ js '']'')"
| "stringify_with nl sp d (JObj ps) = (if ps = [] then js ''{}'' else
     js ''{'' @ nl (Suc d) @ join (js '','' @ nl (Suc d))
         (map (\<lambda>(k, v). quote k @ js '':'' @ sp @ stringify_with nl sp (Suc d) v) ps)
       @ nl d @ js ''}'')"

definition stringify :: "json \<Rightarrow> jsstr" where
  "stringify v = stringify_with (\<lambda>_. []) [] 0 v"

definition stringify2 :: "json \<Rightarrow> jsstr" where
  "stringify2 v = stringify_with (\<lambda>d. LF # replicate (2 * d) SPACE) [SPACE] 0 v"

section \<open>JSON.parse\<close>

definition json_ws :: "cu \<Rightarrow> bool" where
  "json_ws c \<longleftrightarrow> c = 32 \<or> c = 9 \<or> c = 10 \<or> c = 13"

abbreviation skip_ws :: "jsstr \<Rightarrow> jsstr" where
  "skip_ws s \<equiv> dropWhile json_ws s"

definition is_digit :: "cu \<Rightarrow> bool" where
  "is_digit c \<longleftrightarrow> 48 \<le> unat c \<and> unat c \<le> 57"

definition digit_val :: "cu \<Rightarrow> nat" where
  "digit_val c = unat c - 48"

definition digits_num :: "jsstr \<Rightarrow> nat" where
  "digits_num s = digits_val 10 (map digit_val s)"

text \<open>The exponent part of a number: \<open>None\<close> is a syntax error, \<open>0\<close> stands for its absence.\<close>

definition parse_exp :: "jsstr \<Rightarrow> (int \<times> jsstr) option" where
  "parse_exp s = (case s of
     c # cs \<Rightarrow>
       (if c = 101 \<or> c = 69 then
          (let (neg, t) = (case cs of d # r \<Rightarrow> if d = 45 then (True, r) else if d = 43 then (False, r)
                             else (False, cs) | [] \<Rightarrow> (False, []));
               ds = takeWhile is_digit t
           in if ds = [] then None
              else Some ((if neg then - int (digits_num ds) else int (digits_num ds)),
                         dropWhile is_digit t))
        else Some (0, s))
   | [] \<Rightarrow> Some (0, s))"

definition parse_frac :: "jsstr \<Rightarrow> (jsstr \<times> jsstr) option" where
  "parse_frac s = (case s of
     c # cs \<Rightarrow> (if c = 46 then (let ds = takeWhile is_digit cs in
                  if ds = [] then None else Some (ds, dropWhile is_digit cs)) else Some ([], s))
   | [] \<Rightarrow> Some ([], s))"

definition ten_pow :: "int \<Rightarrow> number" where
  "ten_pow e = (if 0 \<le> e then 10 ^ nat e else 1 / 10 ^ nat (- e))"

definition parse_num :: "jsstr \<Rightarrow> (json \<times> jsstr) option" where
  "parse_num s =
     (let (neg, t) = (case s of c # cs \<Rightarrow> if c = 45 then (True, cs) else (False, s) | [] \<Rightarrow> (False, s));
          ds = takeWhile is_digit t
      in if ds = [] \<or> (hd ds = 48 \<and> tl ds \<noteq> []) then None
         else case parse_frac (dropWhile is_digit t) of
           None \<Rightarrow> None
         | Some (fs, r) \<Rightarrow>
             (case parse_exp r of
                None \<Rightarrow> None
              | Some (e, r') \<Rightarrow>
                  Some (JNum ((if neg then -1 else 1) * of_nat (digits_num (ds @ fs))
                        / 10 ^ length fs * ten_pow e), r')))"

text \<open>The text of a string after its opening quote, up to and without the closing one.\<close>

fun parse_str :: "jsstr \<Rightarrow> (jsstr \<times> jsstr) option" where
  "parse_str [] = None"
| "parse_str (c # cs) =
     (if c = 34 then Some ([], cs)
      else if unat c < 32 then None
      else if c \<noteq> 92 then map_option (\<lambda>(t, r). (c # t, r)) (parse_str cs)
      else case cs of
        [] \<Rightarrow> None
      | d # ds \<Rightarrow>
          (if d = 117 then
             (case ds of
                w # x # y # z # r \<Rightarrow>
                  (case (hex_val (unat w), hex_val (unat x), hex_val (unat y), hex_val (unat z)) of
                     (Some w', Some x', Some y', Some z') \<Rightarrow>
                       map_option (\<lambda>(t, q). (of_nat (4096 * w' + 256 * x' + 16 * y' + z') # t, q))
                         (parse_str r)
                   | _ \<Rightarrow> None)
              | _ \<Rightarrow> None)
           else if d = 34 \<or> d = 92 \<or> d = 47 then map_option (\<lambda>(t, r). (d # t, r)) (parse_str ds)
           else if d = 98 then map_option (\<lambda>(t, r). (8 # t, r)) (parse_str ds)
           else if d = 116 then map_option (\<lambda>(t, r). (9 # t, r)) (parse_str ds)
           else if d = 110 then map_option (\<lambda>(t, r). (10 # t, r)) (parse_str ds)
           else if d = 102 then map_option (\<lambda>(t, r). (12 # t, r)) (parse_str ds)
           else if d = 114 then map_option (\<lambda>(t, r). (13 # t, r)) (parse_str ds)
           else None))"

declare parse_str.simps [simp del]

definition starts :: "string \<Rightarrow> jsstr \<Rightarrow> bool" where
  "starts p s \<longleftrightarrow> take (length p) s = js p"

text \<open>
  The grammar of values, array elements and object members. The first argument bounds the
  depth of calls; \<open>2 * length s + 1\<close> is enough for a text \<open>s\<close>.
\<close>

fun parse_val :: "nat \<Rightarrow> jsstr \<Rightarrow> (json \<times> jsstr) option"
  and parse_elems :: "nat \<Rightarrow> json list \<Rightarrow> jsstr \<Rightarrow> (json \<times> jsstr) option"
  and parse_members :: "nat \<Rightarrow> (jsstr \<times> json) list \<Rightarrow> jsstr \<Rightarrow> (json \<times> jsstr) option"
where
  "parse_val 0 s = None"
| "parse_val (Suc n) s =
     (case skip_ws s of
        [] \<Rightarrow> None
      | c # cs \<Rightarrow>
         (if c = 34 then map_option (\<lambda>(t, r). (JStr t, r)) (parse_str cs)
          else if c = 91 then
            (case skip_ws cs of
               d # ds \<Rightarrow> (if d = 93 then Some (JArr [], ds) else parse_elems n [] (d # ds))
             | [] \<Rightarrow> None)
          else if c = 123 then
            (case skip_ws cs of
               d # ds \<Rightarrow> (if d = 125 then Some (JObj [], ds) else parse_members n [] (d # ds))
             | [] \<Rightarrow> None)
          else if starts ''null'' (c # cs) then Some (JNull, drop 4 (c # cs))
          else if starts ''true'' (c # cs) then Some (JBool True, drop 4 (c # cs))
          else if starts ''false'' (c # cs) then Some (JBool False, drop 5 (c # cs))
          else parse_num (c # cs)))"
| "parse_elems 0 acc s = None"
| "parse_elems (Suc n) acc s =
     (case parse_val n s of
        None \<Rightarrow> None
      | Some (v, r) \<Rightarrow>
          (case skip_ws r of
             d # ds \<Rightarrow> (if d = 44 then parse_elems n (acc @ [v]) ds
                       else if d = 93 then Some (JArr (acc @ [v]), ds) else None)
           | [] \<Rightarrow> None))"
| "parse_members 0 acc s = None"
| "parse_members (Suc n) acc s =
     (case skip_ws s of
        c # cs \<Rightarrow>
         (if c \<noteq> 34 then None else
          case parse_str cs of
            None \<Rightarrow> None
          | Some (k, r) \<Rightarrow>
             (case skip_ws r of
                e # es \<Rightarrow>
                 (if e \<noteq> 58 then None else
                  case parse_val n es of
                    None \<Rightarrow> None
                  | Some (v, r') \<Rightarrow>
                     (case skip_ws r' of
                        d # ds \<Rightarrow> (if d = 44 then parse_members n (obj_put k v acc) ds
                                  else if d = 125 then Some (JObj (obj_put k v acc), ds) else None)
                      | [] \<Rightarrow> None))
              | [] \<Rightarrow> None))
      | [] \<Rightarrow> None)"

definition json_parse :: "jsstr \<Rightarrow> json option" where
  "json_parse s = (case parse_val (2 * length s + 1) s of
     Some (v, r) \<Rightarrow> (if skip_ws r = [] then Some v else None)
   | None \<Rightarrow> None)"



section \<open>Printing and parsing\<close>

subsection \<open>Strings\<close>

lemma unat_hex_lower: "d < 16 \<Longrightarrow> unat (hex_lower d) = (if d < 10 then 48 + d else 87 + d)"
  by (simp add: hex_lower_def unat_of_nat_cu del: of_nat_add)

lemma hex_val_hex_lower [simp]: "d < 16 \<Longrightarrow> hex_val (unat (hex_lower d)) = Some d"
  by (auto simp: unat_hex_lower hex_val_def)

abbreviation emit :: "cu \<Rightarrow> (jsstr \<times> jsstr) option \<Rightarrow> (jsstr \<times> jsstr) option" where
  "emit c \<equiv> map_option (\<lambda>(t, r). (c # t, r))"

lemma hex_digits4:
  "4096 * (n div 4096) + 256 * (n div 256 mod 16) + 16 * (n div 16 mod 16) + n mod 16 = (n :: nat)"
proof -
  define a b c where "a = n div 16" and "b = a div 16" and "c = b div 16"
  define x y z where "x = n mod 16" and "y = a mod 16" and "z = b mod 16"
  have "n = 16 * a + x" and "a = 16 * b + y" and "b = 16 * c + z"
    by (simp_all add: a_def b_def c_def x_def y_def z_def)
  then have "4096 * c + 256 * z + 16 * y + x = n" by simp
  moreover have "n div 4096 = c" and "n div 256 = b"
    by (simp_all add: a_def b_def c_def flip: div_mult2_eq)
  ultimately show ?thesis by (simp add: a_def x_def y_def z_def)
qed

lemma parse_str_plain: "c \<noteq> 34 \<Longrightarrow> c \<noteq> 92 \<Longrightarrow> 32 \<le> unat c \<Longrightarrow> parse_str (c # t) = emit c (parse_str t)"
  by (simp add: parse_str.simps(2))

lemma parse_str_u_escape:
  assumes "n < 65536"
  shows "parse_str (u_escape n @ t) = emit (of_nat n) (parse_str t)"
proof -
  have "n div 4096 < 16" using assms by simp
  then show ?thesis
    using hex_digits4 [of n] by (simp add: u_escape_def parse_str.simps(2))
qed

lemma parse_str_quote_cu: "parse_str (quote_cu c @ t) = emit c (parse_str t)"
proof -
  consider "c = 34" | "c = 92" | "c = 8" | "c = 9" | "c = 10" | "c = 12" | "c = 13"
    | "c \<notin> {34, 92, 8, 9, 10, 12, 13}" "unat c < 32" | "c \<notin> {34, 92, 8, 9, 10, 12, 13}" "32 \<le> unat c"
    by fastforce
  then show ?thesis
  proof cases
    case 8
    then show ?thesis using parse_str_u_escape [of "unat c" t] by (simp add: quote_cu_def)
  next
    case 9
    then show ?thesis by (simp add: quote_cu_def parse_str_plain)
  qed (simp_all add: quote_cu_def parse_str.simps(2))
qed

lemma parse_str_sur: "high_sur c \<or> low_sur c \<Longrightarrow> parse_str (c # t) = emit c (parse_str t)"
  by (rule parse_str_plain) (auto simp: high_sur_def low_sur_def)

lemma parse_str_u_cu: "parse_str (u_escape (unat c) @ t) = emit c (parse_str t)" for c :: cu
  using parse_str_u_escape [of "unat c" t] unsigned_less [of c, where ?'a = nat] by simp

lemma parse_str_quote_body: "parse_str (quote_body s @ 34 # r) = Some (s, r)"
proof (induction s rule: quote_body.induct)
  case 1
  show ?case by (simp add: parse_str.simps(2))
next
  case (2 c)
  have "parse_str (34 # r) = Some ([], r)" by (simp add: parse_str.simps(2))
  then show ?case by (simp add: parse_str_u_cu parse_str_quote_cu)
next
  case (3 c d cs)
  then show ?case by (auto simp: parse_str_u_cu parse_str_quote_cu parse_str_sur)
qed

subsection \<open>Numbers\<close>

lemma least_scale_dvd: "least_scale d k = Some n \<Longrightarrow> d dvd 10 ^ n"
proof (induction d k rule: least_scale.induct)
  case (1 d k)
  then show ?case by (subst (asm) (2) least_scale.simps) (auto split: if_splits)
qed

lemma scale_of_int:
  assumes "scale_of q = Some k"
  obtains m where "\<bar>q\<bar> * 10 ^ k = of_nat m"
proof -
  obtain a d where ad: "quotient_of q = (a, d)" by fastforce
  then have q: "q = of_int a / of_int d" and "d > 0"
    by (auto intro: quotient_of_div quotient_of_denom_pos)
  from assms ad have "d dvd 10 ^ k" by (simp add: scale_of_def least_scale_dvd)
  then obtain e where e: "10 ^ k = d * e" by (elim dvdE)
  have "q * 10 ^ k = of_int a / of_int d * of_int (10 ^ k)" using q by simp
  also have "\<dots> = of_int (a * e)" using \<open>d > 0\<close> by (simp add: e)
  finally have "\<bar>q\<bar> * 10 ^ k = of_int \<bar>a * e\<bar>" by (metis abs_mult abs_numeral of_int_abs power_abs)
  also have "\<dots> = of_nat (nat \<bar>a * e\<bar>)" by simp
  finally show ?thesis using that by blast
qed

lemma digit_cu_digit: "d < 10 \<Longrightarrow> is_digit (digit_cu d) \<and> digit_val (digit_cu d) = d"
  by (simp add: is_digit_def digit_val_def unat_digit_cu)

lemma natStr_digit: "c \<in> set (natStr n) \<Longrightarrow> is_digit c"
  using digits_less [of 10 _ n] by (auto simp: natStr_def radix_def digit_cu_digit)

lemma digits_num_natStr: "digits_num (natStr n) = n"
proof -
  have "map digit_val (natStr n) = digits 10 n"
    using digits_less [of 10 _ n] by (auto simp: natStr_def radix_def digit_cu_digit intro!: map_idI)
  then show ?thesis
    using digits_val_digits [of 10 n] by (simp only: digits_num_def)
qed

lemma digits_num_pad0: "digits_num (pad0 k s) = digits_num s"
proof -
  have "foldl (\<lambda>a d. a * 10 + d) 0 (replicate j 0) = (0 :: nat)" for j by (induction j) auto
  then show ?thesis
    using digit_cu_digit [of 0] by (simp add: digits_num_def pad0_def)
qed

lemma digits_hd: "n \<noteq> 0 \<Longrightarrow> hd (digits b n) \<noteq> 0"
proof (induction b n rule: digits.induct)
  case (1 b n)
  show ?case
  proof (cases "b < 2 \<or> n < b")
    case True
    with 1 show ?thesis by (subst digits.simps) simp
  next
    case False
    then have "n div b \<noteq> 0" by (simp add: div_eq_0_iff)
    with 1 False show ?thesis by (subst digits.simps) simp
  qed
qed

lemma natStr_hd: "tl (natStr n) \<noteq> [] \<Longrightarrow> hd (natStr n) \<noteq> 48"
proof
  assume tl: "tl (natStr n) \<noteq> []" and "hd (natStr n) = 48"
  have "n \<noteq> 0" using tl by (cases "n = 0") (simp_all add: natStr_def radix_def digits.simps [of 10 0])
  then have "hd (digits 10 n) \<noteq> 0" by (rule digits_hd)
  moreover have "hd (digits 10 n) < 10" using digits_less [of 10 "hd (digits 10 n)" n] by simp
  moreover have "hd (natStr n) = digit_cu (hd (digits 10 n))"
    by (simp add: natStr_def radix_def hd_map)
  moreover have "unat (hd (natStr n)) = 48" using \<open>hd (natStr n) = 48\<close> by simp
  ultimately show False by (simp add: unat_digit_cu)
qed

definition num_end :: "jsstr \<Rightarrow> bool" where
  "num_end r \<longleftrightarrow> (case r of [] \<Rightarrow> True | c # _ \<Rightarrow> \<not> is_digit c \<and> c \<noteq> 46 \<and> c \<noteq> 101 \<and> c \<noteq> 69)"

lemma num_end_takeWhile:
  "num_end r \<Longrightarrow> takeWhile is_digit r = [] \<and> dropWhile is_digit r = r"
  by (cases r) (auto simp: num_end_def)

lemma num_end_exp: "num_end r \<Longrightarrow> parse_exp r = Some (0, r)"
  by (cases r) (auto simp: num_end_def parse_exp_def)

lemma num_end_frac: "num_end r \<Longrightarrow> parse_frac r = Some ([], r)"
  by (cases r) (auto simp: num_end_def parse_frac_def)

lemma takeWhile_digits:
  "\<forall>c \<in> set ds. is_digit c \<Longrightarrow> takeWhile is_digit r = [] \<Longrightarrow> takeWhile is_digit (ds @ r) = ds"
  "\<forall>c \<in> set ds. is_digit c \<Longrightarrow> takeWhile is_digit r = [] \<Longrightarrow> dropWhile is_digit (ds @ r) = r"
  by (induction ds; cases r; auto split: if_splits)+

lemma not_digit_dot: "\<not> is_digit 46"
  by (simp add: is_digit_def)

lemma parse_num_digits:
  assumes ds: "\<forall>c \<in> set (is @ fs). is_digit c" "is \<noteq> []" "hd is = 48 \<longrightarrow> tl is = []"
    and r: "num_end r" and f: "f = (if fs = [] then [] else 46 # fs) @ r"
  shows "parse_num (is @ f) = Some (JNum (of_nat (digits_num (is @ fs)) / 10 ^ length fs), r)"
    and "parse_num (45 # is @ f) = Some (JNum (- of_nat (digits_num (is @ fs)) / 10 ^ length fs), r)"
proof -
  obtain c is' where c: "is = c # is'" using ds(2) by (cases "is") auto
  have "48 \<le> unat c" using ds(1) c by (simp add: is_digit_def)
  then have "c \<noteq> 45" by auto
  have tf: "takeWhile is_digit f = []"
    using num_end_takeWhile [OF r] by (simp add: f not_digit_dot)
  have pf: "parse_frac f = Some (fs, r)"
    using ds(1) num_end_takeWhile [OF r] num_end_frac [OF r]
    by (auto simp: f parse_frac_def [of "46 # _"] takeWhile_digits)
  have tw: "takeWhile is_digit (is @ f) = is" "dropWhile is_digit (is @ f) = f"
    using takeWhile_digits [of "is", OF _ tf] ds(1) by simp_all
  have pos: "(case is @ f of c # cs \<Rightarrow> if c = 45 then (True, cs) else (False, is @ f)
     | [] \<Rightarrow> (False, is @ f)) = (False, is @ f)"
    using c \<open>c \<noteq> 45\<close> by simp
  show "parse_num (is @ f) = Some (JNum (of_nat (digits_num (is @ fs)) / 10 ^ length fs), r)"
    unfolding parse_num_def pos Let_def prod.case tw pf
    using ds(2,3) num_end_exp [OF r] by (auto simp: ten_pow_def)
  have neg: "(case 45 # is @ f of c # cs \<Rightarrow> if c = 45 then (True, cs) else (False, 45 # is @ f)
     | [] \<Rightarrow> (False, 45 # is @ f)) = (True, is @ f)" by simp
  show "parse_num (45 # is @ f) = Some (JNum (- of_nat (digits_num (is @ fs)) / 10 ^ length fs), r)"
    unfolding parse_num_def neg Let_def prod.case tw pf
    using ds(2,3) num_end_exp [OF r] by (auto simp: ten_pow_def)
qed

lemma natStr_pad0_hd:
  assumes "ds = pad0 (Suc k) (natStr m)" "i = take (length ds - k) ds"
  shows "hd i = 48 \<longrightarrow> tl i = []"
proof (cases "length (natStr m) \<le> Suc k")
  case True
  then have "length ds = Suc k" by (simp add: assms(1) pad0_def)
  then show ?thesis by (simp add: assms(2) tl_take)
next
  case False
  then have "ds = natStr m" by (simp add: assms(1) pad0_def)
  moreover have "tl (natStr m) \<noteq> []" using False by (cases "natStr m") auto
  ultimately show ?thesis using natStr_hd [of m] False by (auto simp: assms(2) hd_take)
qed

lemma parse_num_numText:
  assumes "decimal q" "num_end r"
  shows "parse_num (numText q @ r) = Some (JNum q, r)"
proof -
  obtain k where k: "scale_of q = Some k" using assms(1) by (auto simp: decimal_def)
  obtain m where m: "\<bar>q\<bar> * 10 ^ k = of_nat m" using scale_of_int [OF k] .
  define ds where "ds = pad0 (Suc k) (natStr m)"
  define i f where "i = take (length ds - k) ds" and "f = drop (length ds - k) ds"
  have len: "k < length ds" by (simp add: ds_def pad0_def)
  have dig: "\<forall>c \<in> set (i @ f). is_digit c"
    using natStr_digit digit_cu_digit [of 0] by (simp add: i_def f_def) (auto simp: ds_def pad0_def)
  have "i \<noteq> []" and lf: "length f = k" using len by (auto simp: i_def f_def)
  have hd: "hd i = 48 \<longrightarrow> tl i = []"
    using ds_def i_def by (rule natStr_pad0_hd)
  have val: "digits_num (i @ f) = m"
    by (simp add: i_def f_def ds_def digits_num_pad0 digits_num_natStr)
  have q: "\<bar>q\<bar> = of_nat m / 10 ^ k" using m by (simp add: field_simps)
  have "numText q = (if q < 0 then js ''-'' else []) @ i @ (if k = 0 then [] else js ''.'' @ f)"
    using k m by (simp add: numText_def Let_def i_def f_def ds_def)
  also have "(if k = 0 then [] else js ''.'' @ f) = (if f = [] then [] else 46 # f)"
    using lf by (auto simp: js_eval)
  finally have tx: "numText q @ r = (if q < 0 then [45] else []) @ i @ ((if f = [] then [] else 46 # f) @ r)"
    by (simp add: js_eval)
  note parse = parse_num_digits [OF dig \<open>i \<noteq> []\<close> hd assms(2) refl]
  show ?thesis
  proof (cases "q < 0")
    case True
    then have "q = - of_nat m / 10 ^ k" using q by simp
    with True show ?thesis unfolding tx using parse(2) val lf by simp
  next
    case False
    then have "q = of_nat m / 10 ^ k" using q by simp
    with False show ?thesis unfolding tx using parse(1) val lf by simp
  qed
qed



subsection \<open>Values\<close>

lemma decimal_of_int [simp]: "decimal (of_int n)"
  by (simp add: decimal_def scale_of_def least_scale.simps)

lemma decimal_of_nat [simp]: "decimal (of_nat n)"
  using decimal_of_int [of "int n"] by simp

lemma numText_of_nat: "numText (of_nat n) = natStr n"
proof -
  have "scale_of (of_nat n) = Some 0"
    using quotient_of_int [of "int n"] by (simp add: scale_of_def least_scale.simps)
  moreover have "\<lfloor>\<bar>of_nat n :: rat\<bar>\<rfloor> = int n" by simp
  moreover have "pad0 (Suc 0) (natStr n) = natStr n"
    using natStr_not_Nil [of n] by (cases "natStr n") (simp_all add: pad0_def)
  ultimately show ?thesis by (simp add: numText_def)
qed

lemma decimal_numeral [simp]: "decimal (numeral k)" "decimal 0" "decimal 1"
  using decimal_of_int [of "numeral k"] decimal_of_int [of 0] decimal_of_int [of 1] by simp_all

fun json_ok :: "json \<Rightarrow> bool" where
  "json_ok (JNum q) = decimal q"
| "json_ok (JArr vs) = (\<forall>v \<in> set vs. json_ok v)"
| "json_ok (JObj ps) = (distinct (map fst ps) \<and> (\<forall>(k, v) \<in> set ps. json_ok v))"
| "json_ok _ = True"

lemma numText_hd: "decimal q \<Longrightarrow> \<exists>c cs. numText q = c # cs \<and> (c = 45 \<or> is_digit c)"
proof -
  assume "decimal q"
  then obtain k where k: "scale_of q = Some k" by (auto simp: decimal_def)
  define ds t where "ds = pad0 (Suc k) (natStr (nat \<lfloor>\<bar>q\<bar> * 10 ^ k\<rfloor>))" and "t = take (length ds - k) ds"
  have "k < length ds" by (simp add: ds_def pad0_def)
  then have "t \<noteq> []" by (auto simp: t_def)
  moreover have "\<forall>c \<in> set ds. is_digit c"
    using natStr_digit digit_cu_digit [of 0] by (auto simp: ds_def pad0_def)
  then have "\<forall>c \<in> set t. is_digit c" by (auto simp: t_def dest: in_set_takeD)
  ultimately obtain c cs where "t = c # cs" "is_digit c" by (cases t) auto
  with k show ?thesis by (auto simp: numText_def Let_def js_eval t_def ds_def)
qed

lemma digit_not: "is_digit c \<Longrightarrow> c \<notin> {34, 91, 123, 93, 32, 9, 10, 13, 110, 116, 102}"
  by (auto simp: is_digit_def)

lemma stringify_hd:
  "json_ok v \<Longrightarrow> \<exists>c cs. stringify_with nl sp d v = c # cs \<and> \<not> json_ws c \<and> c \<noteq> 93"
  using numText_hd digit_not by (cases v) (fastforce simp: js_eval json_ws_def quote_def)+

lemma starts_head: "p \<noteq> [] \<Longrightarrow> c \<noteq> cu_of_char (hd p) \<Longrightarrow> \<not> starts p (c # cs)"
  by (cases p) (auto simp: starts_def js_def)

lemma starts_self: "starts p (js p @ r)"
  by (simp add: starts_def)

lemma obj_put_new: "k \<notin> fst ` set acc \<Longrightarrow> obj_put k v acc = acc @ [(k, v)]"
  by (induction acc) auto

lemma parse_val_Suc_other:
  assumes "c \<noteq> 34" "c \<noteq> 91" "c \<noteq> 123" "\<not> json_ws c"
    "c \<noteq> 110" "c \<noteq> 116" "c \<noteq> 102"
  shows "parse_val (Suc n) (c # cs) = parse_num (c # cs)"
  using assms starts_head [of "''null''" c cs] starts_head [of "''true''" c cs]
    starts_head [of "''false''" c cs]
  by (simp add: cu_of_char_def)

lemma parse_literal:
  "parse_val (Suc m) (js ''null'' @ r) = Some (JNull, r)"
  "parse_val (Suc m) (js ''true'' @ r) = Some (JBool True, r)"
  "parse_val (Suc m) (js ''false'' @ r) = Some (JBool False, r)"
  by (simp_all add: js_eval json_ws_def starts_def)

definition ws_str :: "jsstr \<Rightarrow> bool" where
  "ws_str w \<longleftrightarrow> (\<forall>c \<in> set w. json_ws c)"

lemma skip_ws_append [simp]: "ws_str w \<Longrightarrow> skip_ws (w @ s) = skip_ws s"
  by (induction w) (auto simp: ws_str_def)

lemma parse_val_ws: "ws_str w \<Longrightarrow> parse_val n (w @ s) = parse_val n s"
  by (cases n) simp_all

lemma parse_elems_ws: "ws_str w \<Longrightarrow> parse_elems n acc (w @ s) = parse_elems n acc s"
  by (cases n) (simp_all add: parse_val_ws del: parse_val.simps)

lemma parse_members_ws: "ws_str w \<Longrightarrow> parse_members n acc (w @ s) = parse_members n acc s"
  by (cases n) (simp_all del: parse_val.simps)

lemma num_end_ws: "ws_str w \<Longrightarrow> num_end r \<Longrightarrow> num_end (w @ r)"
  by (cases w) (auto simp: num_end_def ws_str_def json_ws_def is_digit_def)

lemma num_end_sep: "num_end []" "num_end (93 # r)" "num_end (125 # r)" "num_end (44 # r)"
  by (simp_all add: num_end_def is_digit_def)

locale json_layout =
  fixes nl :: "nat \<Rightarrow> jsstr" and sp :: jsstr
  assumes nl_ws: "ws_str (nl d)" and sp_ws: "ws_str sp"
begin

definition parses :: "json \<Rightarrow> bool" where
  "parses v \<longleftrightarrow> (\<forall>d n r. 2 * length (stringify_with nl sp d v) \<le> n \<longrightarrow> num_end r \<longrightarrow>
     parse_val n (stringify_with nl sp d v @ r) = Some (v, r))"

lemma parsesD:
  "parses v \<Longrightarrow> 2 * length (stringify_with nl sp d v) \<le> n \<Longrightarrow> num_end r \<Longrightarrow>
   parse_val n (stringify_with nl sp d v @ r) = Some (v, r)"
  by (simp add: parses_def)

lemma parse_elems_join:
  assumes "vs \<noteq> []" "\<forall>v \<in> set vs. parses v"
    and "j = join (js '','' @ nl e) (map (stringify_with nl sp e) vs)" "2 * length j < n"
  shows "parse_elems n acc (j @ nl d @ 93 # r) = Some (JArr (acc @ vs), r)"
  using assms
proof (induction vs arbitrary: n acc j)
  case (Cons v vs)
  obtain n' where n: "n = Suc n'" using Cons.prems(4) by (cases n) auto
  let ?v = "stringify_with nl sp e v"
  have v: "parses v" using Cons.prems(2) by simp
  show ?case
  proof (cases "vs = []")
    case True
    then have "parse_val n' (j @ nl d @ 93 # r) = Some (v, nl d @ 93 # r)"
      using parsesD [OF v, of e n' "nl d @ 93 # r"] Cons.prems(3,4) n
      by (simp add: num_end_ws nl_ws num_end_sep)
    with n True show ?thesis by (simp add: nl_ws json_ws_def)
  next
    case False
    define k where "k = join (js '','' @ nl e) (map (stringify_with nl sp e) vs)"
    have j: "j = ?v @ 44 # nl e @ k"
      using False Cons.prems(3) by (simp add: join_cons js_eval k_def)
    have "parse_val n' (j @ nl d @ 93 # r) = Some (v, 44 # nl e @ k @ nl d @ 93 # r)"
      using parsesD [OF v, of e n' "44 # nl e @ k @ nl d @ 93 # r"] Cons.prems(4) n j
      by (simp add: num_end_sep)
    moreover have "parse_elems n' (acc @ [v]) (k @ nl d @ 93 # r) = Some (JArr ((acc @ [v]) @ vs), r)"
      by (rule Cons.IH [OF False _ k_def]) (use Cons.prems(2,4) n j in auto)
    ultimately show ?thesis using n by (simp add: json_ws_def parse_elems_ws nl_ws)
  qed
qed simp

abbreviation member_text :: "nat \<Rightarrow> jsstr \<times> json \<Rightarrow> jsstr" where
  "member_text e \<equiv> (\<lambda>(k, v). quote k @ js '':'' @ sp @ stringify_with nl sp e v)"

lemma parse_member:
  assumes "parses v" "2 * length (stringify_with nl sp e v) \<le> n" "num_end r"
  shows "parse_members (Suc n) acc (member_text e (k, v) @ r) =
    (case skip_ws r of
       d # ds \<Rightarrow> (if d = 44 then parse_members n (obj_put k v acc) ds
                 else if d = 125 then Some (JObj (obj_put k v acc), ds) else None)
     | [] \<Rightarrow> None)"
proof -
  have "parse_val n (sp @ stringify_with nl sp e v @ r) = Some (v, r)"
    using parsesD [OF assms] by (simp add: parse_val_ws sp_ws)
  moreover have "parse_str (quote_body k @ 34 # 58 # sp @ stringify_with nl sp e v @ r)
     = Some (k, 58 # sp @ stringify_with nl sp e v @ r)"
    by (rule parse_str_quote_body)
  ultimately show ?thesis by (simp add: json_ws_def quote_def js_eval)
qed

lemma parse_members_join:
  assumes "ps \<noteq> []" "\<forall>(k, v) \<in> set ps. parses v" "distinct (map fst (acc @ ps))"
    and "j = join (js '','' @ nl e) (map (member_text e) ps)" "2 * length j < n"
  shows "parse_members n acc (j @ nl d @ 125 # r) = Some (JObj (acc @ ps), r)"
  using assms
proof (induction ps arbitrary: n acc j)
  case (Cons p ps)
  obtain k v where p: "p = (k, v)" by fastforce
  obtain n' where n: "n = Suc n'" using Cons.prems(5) by (cases n) auto
  have v: "parses v" using Cons.prems(2) p by simp
  have new: "obj_put k v acc = acc @ [(k, v)]"
    using Cons.prems(3) p by (intro obj_put_new) auto
  show ?case
  proof (cases "ps = []")
    case True
    then have j: "j = member_text e (k, v)" using Cons.prems(4) p by simp
    have "2 * length (stringify_with nl sp e v) \<le> n'" using Cons.prems(5) n j by simp
    from parse_member [OF v this, of "nl d @ 125 # r" acc k] n True p new show ?thesis
      unfolding j by (simp add: num_end_ws nl_ws num_end_sep json_ws_def)
  next
    case False
    define i where "i = join (js '','' @ nl e) (map (member_text e) ps)"
    have j: "j = member_text e (k, v) @ 44 # nl e @ i"
      using False Cons.prems(4) p by (simp add: join_cons js_eval i_def)
    have len: "2 * length (stringify_with nl sp e v) \<le> n'" using Cons.prems(5) n j by simp
    have "parse_members n' (acc @ [(k, v)]) (i @ nl d @ 125 # r) = Some (JObj ((acc @ [(k, v)]) @ ps), r)"
      by (rule Cons.IH [OF False _ _ i_def]) (use Cons.prems(2,3,5) n j p in auto)
    then show ?thesis
      using parse_member [OF v len, of "44 # nl e @ i @ nl d @ 125 # r" acc k] n new p
      unfolding j by (simp add: num_end_sep json_ws_def parse_members_ws nl_ws)
  qed
qed simp

lemma parsesI:
  assumes "\<And>d m r. num_end r \<Longrightarrow> parse_val (Suc m) (stringify_with nl sp d v @ r) = Some (v, r)"
    and "\<And>d. stringify_with nl sp d v \<noteq> []"
  shows "parses v"
  unfolding parses_def
proof (intro allI impI)
  fix d n r assume "2 * length (stringify_with nl sp d v) \<le> n" "num_end r"
  moreover then obtain m where "n = Suc m" using assms(2) [of d] by (cases n) auto
  ultimately show "parse_val n (stringify_with nl sp d v @ r) = Some (v, r)" using assms(1) by blast
qed

lemma parses_literal: "parses JNull" "parses (JBool b)"
  by (rule parsesI; cases b; simp only: stringify_with.simps parse_literal if_True if_False; simp)+

lemma parses_num:
  assumes "decimal q"
  shows "parses (JNum q)"
proof -
  obtain c cs where q: "numText q = c # cs" and c: "c = 45 \<or> is_digit c"
    using numText_hd [OF assms] by auto
  have "c \<notin> {34, 91, 123, 32, 9, 10, 13, 110, 116, 102}"
    using c digit_not [of c] by auto
  then have "parse_val (Suc m) (numText q @ r) = parse_num (numText q @ r)" for m r
    using q parse_val_Suc_other [of c m "cs @ r"] by (simp add: json_ws_def)
  moreover have "parse_num (numText q @ r) = Some (JNum q, r)" if "num_end r" for r
    using assms that by (simp add: parse_num_numText)
  ultimately show ?thesis
    using q by (intro parsesI) (simp_all only: stringify_with.simps list.distinct not_False_eq_True)
qed

lemma parses_str: "parses (JStr s)"
proof -
  have "parse_val (Suc m) (quote s @ r) = Some (JStr s, r)" for m r
    using parse_str_quote_body [of s r] by (simp add: quote_def json_ws_def)
  then show ?thesis by (intro parsesI) (simp_all only: stringify_with.simps, simp add: quote_def)
qed

lemma parses_arr:
  assumes "\<forall>v \<in> set vs. parses v \<and> json_ok v"
  shows "parses (JArr vs)"
proof (cases vs)
  case Nil
  then show ?thesis by (intro parsesI) (simp_all add: js_eval json_ws_def)
next
  case (Cons w ws)
  show ?thesis unfolding parses_def
  proof (intro allI impI)
    fix d n r assume n: "2 * length (stringify_with nl sp d (JArr vs)) \<le> n"
    define j where "j = join (js '','' @ nl (Suc d)) (map (stringify_with nl sp (Suc d)) vs)"
    have tx: "stringify_with nl sp d (JArr vs) = 91 # nl (Suc d) @ j @ nl d @ [93]"
      using Cons by (simp add: j_def js_eval)
    with n obtain m where m: "n = Suc m" by (cases n) auto
    have len: "2 * length j < m" using n unfolding tx m by simp
    obtain c cs where w: "stringify_with nl sp (Suc d) w = c # cs" "\<not> json_ws c" "c \<noteq> 93"
      using stringify_hd [of w nl sp "Suc d"] assms Cons by auto
    have "\<exists>k. j = c # k" using w Cons by (cases ws) (auto simp: j_def)
    moreover have "parse_elems m [] (j @ nl d @ 93 # r) = Some (JArr ([] @ vs), r)"
      by (rule parse_elems_join [OF _ _ j_def]) (use assms Cons len in auto)
    ultimately show "parse_val n (stringify_with nl sp d (JArr vs) @ r) = Some (JArr vs, r)"
      unfolding tx using m w by (auto simp: json_ws_def nl_ws)
  qed
qed

lemma parses_obj:
  assumes "\<forall>(k, v) \<in> set ps. parses v" "distinct (map fst ps)"
  shows "parses (JObj ps)"
proof (cases ps)
  case Nil
  then show ?thesis by (intro parsesI) (simp_all add: js_eval json_ws_def)
next
  case (Cons w ws)
  show ?thesis unfolding parses_def
  proof (intro allI impI)
    fix d n r assume n: "2 * length (stringify_with nl sp d (JObj ps)) \<le> n"
    define j where "j = join (js '','' @ nl (Suc d)) (map (member_text (Suc d)) ps)"
    have tx: "stringify_with nl sp d (JObj ps) = 123 # nl (Suc d) @ j @ nl d @ [125]"
      using Cons by (simp add: j_def js_eval)
    with n obtain m where m: "n = Suc m" by (cases n) auto
    have len: "2 * length j < m" using n unfolding tx m by simp
    have "\<exists>k. j = 34 # k" using Cons by (cases ws; cases w) (auto simp: j_def quote_def)
    moreover have "parse_members m [] (j @ nl d @ 125 # r) = Some (JObj ([] @ ps), r)"
      by (rule parse_members_join [OF _ _ _ j_def]) (use assms Cons len in auto)
    ultimately show "parse_val n (stringify_with nl sp d (JObj ps) @ r) = Some (JObj ps, r)"
      unfolding tx using m by (auto simp: json_ws_def nl_ws)
  qed
qed

lemma parses_json_ok: "json_ok v \<Longrightarrow> parses v"
proof (induction v)
  case (JObj ps)
  then show ?case by (intro parses_obj) fastforce+
qed (simp_all add: parses_literal parses_num parses_str parses_arr)

lemma json_parse_print: "json_ok v \<Longrightarrow> json_parse (stringify_with nl sp d v) = Some v"
  using parsesD [OF parses_json_ok, of v d "2 * length (stringify_with nl sp d v) + 1" "[]"]
  by (simp add: json_parse_def num_end_sep del: parse_val.simps)

end

interpretation compact: json_layout "\<lambda>_. []" "[]"
  by unfold_locales (simp_all add: ws_str_def)

interpretation indented: json_layout "\<lambda>d. LF # replicate (2 * d) SPACE" "[SPACE]"
  by unfold_locales (auto simp: ws_str_def json_ws_def)

interpretation jtext: codec stringify json_parse json_ok
  by unfold_locales (simp add: stringify_def compact.json_parse_print)

interpretation jtext2: codec stringify2 json_parse json_ok
  by unfold_locales (simp add: stringify2_def indented.json_parse_print)

end
