(* ===== verification/Storage.thy ===== *)
theory Storage
  imports Json
begin

text \<open>
  The browser's \<^verbatim>\<open>localStorage\<close>, the only durable state of the client. It may be denied (every
  access throws), and a write throws when it would exceed the quota; the callers catch both. The
  laws the callers rely on are the locale \<open>kv_store\<close>; a value kept under one key by a printer
  and read back by a parser is the locale \<open>cell\<close>, interpreted by the components that persist
  something.
\<close>

record storage =
  items :: "(jsstr \<times> jsstr) list"
  allowed :: bool
  quota :: nat

definition used :: "(jsstr \<times> jsstr) list \<Rightarrow> nat" where
  "used kvs = sum_list (map (\<lambda>(k, v). length k + length v) kvs)"

text \<open>\<open>None\<close> is the exception.\<close>

definition getItem :: "storage \<Rightarrow> jsstr \<Rightarrow> jsstr option option" where
  "getItem st k = (if allowed st then Some (map_of (items st) k) else None)"

definition setItem :: "storage \<Rightarrow> jsstr \<Rightarrow> jsstr \<Rightarrow> storage option" where
  "setItem st k v =
     (let kvs = obj_put k v (items st)
      in if allowed st \<and> used kvs \<le> quota st then Some (st\<lparr>items := kvs\<rparr>) else None)"

definition removeItem :: "storage \<Rightarrow> jsstr \<Rightarrow> storage option" where
  "removeItem st k =
     (if allowed st then Some (st\<lparr>items := filter (\<lambda>(k', _). k' \<noteq> k) (items st)\<rparr>) else None)"

text \<open>The three shapes in which the source uses it: \<^verbatim>\<open>try { ... } catch { /* noop */ }\<close>.\<close>

definition safeRead :: "storage \<Rightarrow> jsstr \<Rightarrow> jsstr option" where
  "safeRead st k = opt None (getItem st k)"

definition tryWrite :: "storage \<Rightarrow> jsstr \<Rightarrow> jsstr \<Rightarrow> storage" where
  "tryWrite st k v = opt st (setItem st k v)"

definition tryRemove :: "storage \<Rightarrow> jsstr \<Rightarrow> storage" where
  "tryRemove st k = opt st (removeItem st k)"

definition fits :: "storage \<Rightarrow> jsstr \<Rightarrow> jsstr \<Rightarrow> bool" where
  "fits st k v \<longleftrightarrow> setItem st k v \<noteq> None"

section \<open>The contract of a key-value store\<close>

locale kv_store =
  fixes rd :: "'s \<Rightarrow> 'k \<Rightarrow> 'v option"
    and wr :: "'s \<Rightarrow> 'k \<Rightarrow> 'v \<Rightarrow> 's"
    and rm :: "'s \<Rightarrow> 'k \<Rightarrow> 's"
    and accepts :: "'s \<Rightarrow> 'k \<Rightarrow> 'v \<Rightarrow> bool"
    and available :: "'s \<Rightarrow> bool"
  assumes read_write: "accepts s k v \<Longrightarrow> rd (wr s k v) k = Some v"
    and read_write_other: "k' \<noteq> k \<Longrightarrow> rd (wr s k v) k' = rd s k'"
    and write_rejected: "\<not> accepts s k v \<Longrightarrow> wr s k v = s"
    and read_remove: "rd (rm s k) k = None"
    and read_remove_other: "k' \<noteq> k \<Longrightarrow> rd (rm s k) k' = rd s k'"
    and available_write: "available (wr s k v) = available s"
    and unavailable_read: "\<not> available s \<Longrightarrow> rd s k = None"
begin

lemma read_write_cases: "rd (wr s k v) k' =
  (if k' = k \<and> accepts s k v then Some v else rd s k')"
  using read_write read_write_other write_rejected by (metis (full_types))

lemma write_commutes:
  "k \<noteq> k' \<Longrightarrow> accepts s k v \<Longrightarrow> accepts (wr s k v) k' v' \<Longrightarrow>
   rd (wr (wr s k v) k' v') k = Some v"
  by (simp add: read_write read_write_other)

lemma remove_write_other:
  "k \<noteq> k' \<Longrightarrow> rd (rm (wr s k v) k) k' = rd s k'"
  by (simp add: read_write_other read_remove_other)

end

lemma map_of_obj_put: "map_of (obj_put k v ps) = (map_of ps)(k \<mapsto> v)"
  by (induction k v ps rule: obj_put.induct) auto

lemma keys_obj_put: "map fst (obj_put k v ps) = (if k \<in> fst ` set ps then map fst ps else map fst ps @ [k])"
  by (induction k v ps rule: obj_put.induct) auto

lemma distinct_obj_put: "distinct (map fst ps) \<Longrightarrow> distinct (map fst (obj_put k v ps))"
  by (auto simp: keys_obj_put)

lemma set_obj_put: "x \<in> set (obj_put k v ps) \<Longrightarrow> x = (k, v) \<or> x \<in> set ps"
  by (induction k v ps rule: obj_put.induct) (auto split: if_splits)

lemma map_of_filter_key: "map_of (filter (\<lambda>(k', _). k' \<noteq> k) ps) k' = (if k' = k then None else map_of ps k')"
  by (induction ps) auto

lemmas storage_ops = getItem_def setItem_def removeItem_def safeRead_def tryWrite_def
  tryRemove_def fits_def Let_def

lemma allowed_tryWrite [simp]: "allowed (tryWrite st k v) = allowed st"
  by (simp add: storage_ops)

lemma quota_tryWrite [simp]: "quota (tryWrite st k v) = quota st"
  by (simp add: storage_ops)

text \<open>A denied store reads as empty, so removing from it also reads as empty afterwards.\<close>

interpretation web: kv_store safeRead tryWrite tryRemove fits allowed
  by unfold_locales (auto simp: storage_ops map_of_obj_put map_of_filter_key split: if_splits)

section \<open>A value kept under a key\<close>

locale cell =
  kv_store rd wr rm accepts available + codec enc dec valid
  for rd :: "'s \<Rightarrow> 'k \<Rightarrow> 'v option" and wr rm accepts available
    and enc :: "'a \<Rightarrow> 'v" and dec valid +
  fixes key :: 'k and dflt :: 'a and load :: "'s \<Rightarrow> 'a" and save :: "'s \<Rightarrow> 'a \<Rightarrow> 's"
  assumes load_eq: "load s = (case rd s key of None \<Rightarrow> dflt | Some t \<Rightarrow> opt dflt (dec t))"
    and save_eq: "save s x = wr s key (enc x)"
begin

lemma load_save: "valid x \<Longrightarrow> accepts s key (enc x) \<Longrightarrow> load (save s x) = x"
  by (simp add: load_eq save_eq read_write dec_enc)

lemma load_save_rejected: "\<not> accepts s key (enc x) \<Longrightarrow> load (save s x) = load s"
  by (simp add: save_eq write_rejected)

lemma save_other: "k \<noteq> key \<Longrightarrow> rd (save s x) k = rd s k"
  by (simp add: save_eq read_write_other)

lemma load_other: "k \<noteq> key \<Longrightarrow> load (wr s k t) = load s"
  by (simp add: load_eq read_write_other)

lemma load_unavailable: "\<not> available s \<Longrightarrow> load s = dflt"
  by (simp add: load_eq unavailable_read)

lemma load_save_unavailable: "\<not> available s \<Longrightarrow> load (save s x) = dflt"
  by (simp add: load_unavailable save_eq available_write)

end

end
