(* ===== verification/Status.thy ===== *)
theory Status
  imports Json
begin

text \<open>
  The status of a submission: the vocabulary of the service
  (\<^verbatim>\<open>crates/zerocode-core/src/status.rs\<close>) with the JSON it serialises to, and what the client
  makes of that JSON (\<^verbatim>\<open>statusKind\<close>, \<^verbatim>\<open>statusLabel\<close>, \<^verbatim>\<open>statusDetail\<close> of \<^verbatim>\<open>shared/api.ts\<close> and
  the verdict tables of \<^verbatim>\<open>playground/data.ts\<close>). The lemmas relate the two sides: a status the
  client takes for pending is one the service has not finished, and every status of the service
  has a short name, a label and a colour.
\<close>

section \<open>The service's vocabulary\<close>

datatype time_limit_kind = Wall | Cpu

datatype signal =
    Sigsegv | Sigfpe | Sigabrt | Sigxfsz | Sigpipe | Sigkill | Sigterm | Sigill | Sigbus
  | Other int

datatype status =
    Queued
  | Processing
  | Accepted
  | TimeLimitExceeded time_limit_kind
  | CompileError
  | MemoryLimitExceeded
  | OutputLimitExceeded
  | RuntimeError signal
  | NonZeroExit int
  | SandboxFailure
  | InternalError
  | Cancelled
  | Expired

definition is_terminal :: "status \<Rightarrow> bool" where
  "is_terminal s \<longleftrightarrow> s \<noteq> Queued \<and> s \<noteq> Processing"

fun is_verdict :: "status \<Rightarrow> bool" where
  "is_verdict Accepted = True"
| "is_verdict (TimeLimitExceeded _) = True"
| "is_verdict CompileError = True"
| "is_verdict MemoryLimitExceeded = True"
| "is_verdict OutputLimitExceeded = True"
| "is_verdict (RuntimeError _) = True"
| "is_verdict (NonZeroExit _) = True"
| "is_verdict Queued = False"
| "is_verdict Processing = False"
| "is_verdict SandboxFailure = False"
| "is_verdict InternalError = False"
| "is_verdict Cancelled = False"
| "is_verdict Expired = False"

definition is_retryable :: "status \<Rightarrow> bool" where
  "is_retryable s \<longleftrightarrow> s = SandboxFailure \<or> s = InternalError"

fun kind :: "status \<Rightarrow> string" where
  "kind Queued = ''queued''"
| "kind Processing = ''processing''"
| "kind Accepted = ''accepted''"
| "kind (TimeLimitExceeded _) = ''time_limit_exceeded''"
| "kind CompileError = ''compile_error''"
| "kind MemoryLimitExceeded = ''memory_limit_exceeded''"
| "kind OutputLimitExceeded = ''output_limit_exceeded''"
| "kind (RuntimeError _) = ''runtime_error''"
| "kind (NonZeroExit _) = ''non_zero_exit''"
| "kind SandboxFailure = ''sandbox_failure''"
| "kind InternalError = ''internal_error''"
| "kind Cancelled = ''cancelled''"
| "kind Expired = ''expired''"

definition from_raw :: "int \<Rightarrow> signal" where
  "from_raw n =
     (if n = 4 then Sigill else if n = 6 then Sigabrt else if n = 7 then Sigbus
      else if n = 8 then Sigfpe else if n = 9 then Sigkill else if n = 11 then Sigsegv
      else if n = 13 then Sigpipe else if n = 15 then Sigterm else if n = 25 then Sigxfsz
      else Other n)"

fun signal_name :: "signal \<Rightarrow> string" where
  "signal_name Sigsegv = ''sigsegv''"
| "signal_name Sigfpe = ''sigfpe''"
| "signal_name Sigabrt = ''sigabrt''"
| "signal_name Sigxfsz = ''sigxfsz''"
| "signal_name Sigpipe = ''sigpipe''"
| "signal_name Sigkill = ''sigkill''"
| "signal_name Sigterm = ''sigterm''"
| "signal_name Sigill = ''sigill''"
| "signal_name Sigbus = ''sigbus''"
| "signal_name (Other _) = ''other''"

text \<open>
  The serde attributes: \<^verbatim>\<open>tag = "kind", content = "detail"\<close> for a status, and
  \<^verbatim>\<open>tag = "name", content = "raw"\<close> for a signal; a variant without data has no content field.
\<close>

definition signal_json :: "signal \<Rightarrow> json" where
  "signal_json s = JObj ((js ''name'', JStr (js (signal_name s)))
     # (case s of Other n \<Rightarrow> [(js ''raw'', JNum (of_int n))] | _ \<Rightarrow> []))"

fun detail_json :: "status \<Rightarrow> json option" where
  "detail_json (TimeLimitExceeded Wall) = Some (JStr (js ''wall''))"
| "detail_json (TimeLimitExceeded Cpu) = Some (JStr (js ''cpu''))"
| "detail_json (RuntimeError s) = Some (signal_json s)"
| "detail_json (NonZeroExit n) = Some (JNum (of_int n))"
| "detail_json _ = None"

definition status_json :: "status \<Rightarrow> json" where
  "status_json s = JObj ((js ''kind'', JStr (js (kind s)))
     # (case detail_json s of None \<Rightarrow> [] | Some d \<Rightarrow> [(js ''detail'', d)]))"

section \<open>The client's reading of a status\<close>

text \<open>\<^verbatim>\<open>String(v)\<close>; a nested \<^verbatim>\<open>null\<close> of an array prints as nothing.\<close>

fun toStr :: "json \<Rightarrow> jsstr" where
  "toStr JNull = js ''null''"
| "toStr (JBool b) = (if b then js ''true'' else js ''false'')"
| "toStr (JNum n) = numText n"
| "toStr (JStr s) = s"
| "toStr (JArr vs) = join [COMMA] (map (\<lambda>v. if v = JNull then [] else toStr v) vs)"
| "toStr (JObj _) = js ''[object Object]''"

text \<open>
  \<^verbatim>\<open>statusKind\<close> returns one of the short names for a known kind and, through its casts, any
  other string as it came. The argument \<open>None\<close> is \<^verbatim>\<open>undefined\<close>.
\<close>

definition kind_switch :: "(string \<times> string) list" where
  "kind_switch =
    [(''accepted'', ''accepted''), (''queued'', ''queued''), (''processing'', ''processing''),
     (''time_limit_exceeded'', ''tle''), (''memory_limit_exceeded'', ''mle''),
     (''output_limit_exceeded'', ''ole''), (''compile_error'', ''ce''),
     (''runtime_error'', ''re''), (''non_zero_exit'', ''nze''),
     (''sandbox_failure'', ''se''), (''internal_error'', ''se''),
     (''cancelled'', ''cancelled''), (''expired'', ''expired'')]"

definition statusKind :: "json option \<Rightarrow> jsstr" where
  "statusKind s = (case s of
     None \<Rightarrow> js ''idle''
   | Some v \<Rightarrow>
       (if \<not> truthy v then js ''idle'' else
        case v of
          JStr t \<Rightarrow> toLowerCase t
        | _ \<Rightarrow>
            (case jget ''kind'' v of
               None \<Rightarrow> js ''idle''
             | Some k \<Rightarrow>
                 (case k of
                    JStr t \<Rightarrow>
                      (case map_of (map (map_prod js js) kind_switch) t of
                         Some r \<Rightarrow> r
                       | None \<Rightarrow> if t = [] then js ''idle'' else t)
                  | _ \<Rightarrow> if truthy k then toStr k else js ''idle''))))"

definition LABELS :: "(string \<times> string) list" where
  "LABELS =
    [(''idle'', ''idle''), (''queued'', ''queued''), (''processing'', ''processing''),
     (''accepted'', ''accepted''), (''tle'', ''time limit''), (''mle'', ''memory limit''),
     (''ole'', ''output limit''), (''ce'', ''compile error''), (''re'', ''runtime error''),
     (''nze'', ''non-zero exit''), (''se'', ''sandbox error''), (''cancelled'', ''cancelled''),
     (''expired'', ''expired'')]"

text \<open>\<^verbatim>\<open>TABLE[k]\<close> for one of the tables whose keys and values are literals.\<close>

definition table :: "(string \<times> string) list \<Rightarrow> jsstr \<Rightarrow> jsstr option" where
  "table t k = map_of (map (map_prod js js) t) k"

definition statusLabel :: "json option \<Rightarrow> jsstr" where
  "statusLabel s = (let k = statusKind s in opt k (table LABELS k))"

text \<open>\<^verbatim>\<open>statusDetail\<close>: \<open>None\<close> is \<^verbatim>\<open>null\<close>; a truthy \<^verbatim>\<open>name\<close> or \<^verbatim>\<open>kind\<close> is returned as it is.\<close>

definition truthy_field :: "string \<Rightarrow> json \<Rightarrow> json option" where
  "truthy_field k v = (case jget k v of Some x \<Rightarrow> if truthy x then Some x else None | None \<Rightarrow> None)"

definition statusDetail :: "json option \<Rightarrow> json option" where
  "statusDetail s = (case s of
     None \<Rightarrow> None
   | Some v \<Rightarrow>
       (if \<not> truthy v then None else
        case v of
          JStr _ \<Rightarrow> None
        | _ \<Rightarrow>
            (case jget ''detail'' v of
               None \<Rightarrow> None
             | Some JNull \<Rightarrow> None
             | Some (JStr d) \<Rightarrow> Some (JStr d)
             | Some (JBool b) \<Rightarrow> Some (JStr (toStr (JBool b)))
             | Some (JNum n) \<Rightarrow> Some (JStr (toStr (JNum n)))
             | Some d \<Rightarrow>
                 (case truthy_field ''name'' d of
                    Some x \<Rightarrow> Some x
                  | None \<Rightarrow>
                      (case truthy_field ''kind'' d of
                         Some x \<Rightarrow> Some x
                       | None \<Rightarrow> Some (JStr (stringify d)))))))"

definition VERDICT_COLOR :: "(string \<times> string) list" where
  "VERDICT_COLOR =
    [(''idle'', ''var(--fg-3)''), (''queued'', ''var(--st-queued)''),
     (''processing'', ''var(--st-processing)''), (''accepted'', ''var(--st-accepted)''),
     (''tle'', ''var(--st-tle)''), (''mle'', ''var(--st-mle)''), (''ole'', ''var(--st-tle)''),
     (''ce'', ''var(--st-ce)''), (''re'', ''var(--st-re)''), (''nze'', ''var(--st-re)''),
     (''se'', ''var(--st-se)''), (''cancelled'', ''var(--fg-3)''), (''expired'', ''var(--fg-3)'')]"

definition VERDICT_LABEL :: "(string \<times> string) list" where
  "VERDICT_LABEL =
    [(''idle'', ''idle''), (''queued'', ''queued''), (''processing'', ''processing''),
     (''accepted'', ''accepted''), (''tle'', ''time limit''), (''mle'', ''memory limit''),
     (''ole'', ''output limit''), (''ce'', ''compile error''), (''re'', ''runtime error''),
     (''nze'', ''non-zero exit''), (''se'', ''sandbox error''), (''cancelled'', ''cancelled''),
     (''expired'', ''expired'')]"

text \<open>The condition under which \<^verbatim>\<open>poll\<close> asks again.\<close>

definition pending_kind :: "jsstr \<Rightarrow> bool" where
  "pending_kind k \<longleftrightarrow> k = js ''queued'' \<or> k = js ''processing''"

section \<open>The two sides agree\<close>

lemma map_of_js:
  "map_of (map (map_prod js js) t) (js k) = map_option js (map_of t k)"
  by (induction t) auto

lemma table_js: "table t (js k) = map_option js (map_of t k)"
  by (simp add: table_def map_of_js)

lemma jget_status_kind [simp]: "jget ''kind'' (status_json s) = Some (JStr (js (kind s)))"
  by (simp add: jget_def status_json_def)

lemma jget_status_detail [simp]: "jget ''detail'' (status_json s) = detail_json s"
  by (simp add: jget_def status_json_def split: option.split)

lemma statusKind_json:
  "statusKind (Some (status_json s)) = js (the (map_of kind_switch (kind s)))"
proof -
  have "map_of kind_switch (kind s) \<noteq> None" by (cases s) (simp_all add: kind_switch_def)
  then show ?thesis
    by (auto simp: statusKind_def status_json_def truthy_def map_of_js jget_def)
qed

lemma pending_iff_not_terminal: "pending_kind (statusKind (Some (status_json s))) \<longleftrightarrow> \<not> is_terminal s"
  by (cases s) (simp_all add: statusKind_json pending_kind_def kind_switch_def is_terminal_def)

lemma statusKind_never_idle: "statusKind (Some (status_json s)) \<noteq> js ''idle''"
  by (cases s) (simp_all add: statusKind_json kind_switch_def)

lemma statusLabel_json:
  "statusLabel (Some (status_json s)) = js (the (map_of LABELS (the (map_of kind_switch (kind s)))))"
  by (cases s) (simp_all add: statusLabel_def Let_def statusKind_json table_js kind_switch_def LABELS_def)

lemma labels_agree: "VERDICT_LABEL = LABELS"
  by (simp add: VERDICT_LABEL_def LABELS_def)

lemma statusKind_same_iff:
  "statusKind (Some (status_json s)) = statusKind (Some (status_json t)) \<longleftrightarrow>
   kind s = kind t \<or> (is_retryable s \<and> is_retryable t)"
  by (cases s; cases t) (simp_all add: statusKind_json kind_switch_def is_retryable_def)

text \<open>Strings that reach \<^verbatim>\<open>statusKind\<close> as bare strings are only lowered, not translated.\<close>

lemma statusKind_string: "t \<noteq> [] \<Longrightarrow> statusKind (Some (JStr t)) = toLowerCase t"
  by (simp add: statusKind_def truthy_def)

lemma statusDetail_json:
  "statusDetail (Some (status_json s)) = (case s of
     TimeLimitExceeded Wall \<Rightarrow> Some (JStr (js ''wall''))
   | TimeLimitExceeded Cpu \<Rightarrow> Some (JStr (js ''cpu''))
   | RuntimeError g \<Rightarrow> Some (JStr (js (signal_name g)))
   | NonZeroExit n \<Rightarrow> Some (JStr (numText (of_int n)))
   | _ \<Rightarrow> None)"
proof -
  have "signal_name g \<noteq> []" for g by (cases g) simp_all
  then have f: "truthy_field ''name'' (JObj ps) = Some (JStr (js (signal_name g)))"
    if "signal_json g = JObj ps" for g ps
    using that by (auto simp: truthy_field_def jget_def signal_json_def truthy_def)
  obtain ps where s: "status_json s = JObj ps" by (simp add: status_json_def)
  then have d: "jget ''detail'' (JObj ps) = detail_json s" using jget_status_detail [of s] by simp
  obtain qs where g: "signal_json g = JObj (qs g)" for g by (simp add: signal_json_def)
  show ?thesis
    unfolding s using d
    by (cases s) (simp_all add: statusDetail_def truthy_def g f [OF g] split: time_limit_kind.split)
qed

end
