(* ===== verification/Api.thy ===== *)
theory Api
  imports Storage Status
begin

text \<open>
  The browser client of the REST API (\<^verbatim>\<open>shared/api.ts\<close>): where it sends requests and with which
  key (\<^verbatim>\<open>readConfig\<close>, \<^verbatim>\<open>setBase\<close>, \<^verbatim>\<open>setKey\<close>), the requests it builds, how it reads a reply
  (\<^verbatim>\<open>jsonFetch\<close>), the two polling loops, the probe with its fallback, and the idempotency key.
  The network is a parameter: \<open>net w q\<close> is the reply to the request \<open>q\<close> in the world \<open>w\<close>
  and the world after it, so that a theorem holds for every server.
\<close>

section \<open>Configuration\<close>

record location =
  protocol :: jsstr
  origin :: jsstr
  hostname :: jsstr

text \<open>
  What the page gives the module: the query parameters in order, the content of the meta element
  and the location (\<open>None\<close> when \<^verbatim>\<open>typeof location === 'undefined'\<close>).
\<close>

record page =
  qs_params :: "(jsstr \<times> jsstr) list"
  META :: "jsstr option"
  loc :: "location option"

datatype base_source = Query | Meta | FromStorage | Default

record probe_result =
  ok :: bool
  rbase :: jsstr
  authed :: "bool option"
  hint :: "jsstr option"
  error :: "jsstr option"

record api =
  base :: jsstr
  key :: "jsstr option"
  baseSource :: base_source
  probeCache :: "probe_result option"

definition STORAGE_BASE :: jsstr where "STORAGE_BASE = js ''zerocode.api''"
definition STORAGE_KEY :: jsstr where "STORAGE_KEY = js ''zerocode.key''"

definition qs_get :: "page \<Rightarrow> string \<Rightarrow> jsstr option" where
  "qs_get pg k = (if loc pg = None then None else map_of (qs_params pg) (js k))"

definition inferDefaultBase :: "page \<Rightarrow> jsstr" where
  "inferDefaultBase pg = (case loc pg of
     None \<Rightarrow> js ''http://localhost:8080''
   | Some l \<Rightarrow> if protocol l = js ''file:'' then js ''http://localhost:8080'' else origin l)"

text \<open>\<^verbatim>\<open>s.replace(/\/$/, '')\<close>: one trailing slash.\<close>

definition strip_slash :: "jsstr \<Rightarrow> jsstr" where
  "strip_slash s = (if s \<noteq> [] \<and> last s = 47 then butlast s else s)"

text \<open>A string or \<^verbatim>\<open>null\<close> in a condition or before \<^verbatim>\<open>||\<close>.\<close>

definition present :: "jsstr option \<Rightarrow> bool" where
  "present s \<longleftrightarrow> s \<noteq> None \<and> s \<noteq> Some []"

definition readConfig :: "page \<Rightarrow> storage \<Rightarrow> api" where
  "readConfig pg st =
     (let fromQuery = qs_get pg ''api''; fromStorage = safeRead st STORAGE_BASE;
          (b, src) =
            (if present fromQuery then (strip_slash (the fromQuery), Query)
             else if present (META pg) then (strip_slash (the (META pg)), Meta)
             else if present fromStorage then (strip_slash (the fromStorage), FromStorage)
             else (strip_slash (inferDefaultBase pg), Default));
          k = qs_get pg ''key''
      in \<lparr>base = b, key = (if present k then k else safeRead st STORAGE_KEY),
          baseSource = src, probeCache = None\<rparr>)"

definition setBase :: "page \<Rightarrow> storage \<Rightarrow> jsstr option \<Rightarrow> storage \<times> api" where
  "setBase pg st url =
     (let st' = (if present url then tryWrite st STORAGE_BASE (the url)
                 else tryRemove st STORAGE_BASE)
      in (st', readConfig pg st'))"

definition setKey :: "page \<Rightarrow> storage \<Rightarrow> jsstr option \<Rightarrow> storage \<times> api" where
  "setKey pg st k =
     (let st' = (if present k then tryWrite st STORAGE_KEY (the k)
                 else tryRemove st STORAGE_KEY)
      in (st', readConfig pg st'))"

section \<open>Requests and replies\<close>

record request =
  url :: jsstr
  http_method :: jsstr
  hdrs :: "(jsstr \<times> jsstr) list"
  body :: "jsstr option"

text \<open>A reply with its status and text, or a rejected \<^verbatim>\<open>fetch\<close> with its message.\<close>

datatype reply = NetError jsstr | Reply nat jsstr

type_synonym 'w net = "'w \<Rightarrow> request \<Rightarrow> reply \<times> 'w"

text \<open>
  What a promise of this module is rejected with: the network's \<^verbatim>\<open>TypeError\<close>, the \<^verbatim>\<open>ApiError\<close>
  of \<^verbatim>\<open>jsonFetch\<close> (status, detail, body), the \<^verbatim>\<open>URIError\<close> of \<^verbatim>\<open>encodeURIComponent\<close>, the
  \<^verbatim>\<open>DOMException\<close> of an abort, and the \<^verbatim>\<open>TypeError\<close> of reading a property of \<^verbatim>\<open>undefined\<close>.
\<close>

datatype api_error =
    NetFail jsstr
  | HttpError nat jsstr json
  | UriMalformed
  | Aborted
  | NoProperty

fun message :: "api_error \<Rightarrow> jsstr" where
  "message (NetFail m) = m"
| "message (HttpError n d _) = js ''HTTP '' @ natStr n @ [SPACE, MIDDOT, SPACE] @ d"
| "message UriMalformed = js ''URI malformed''"
| "message Aborted = js ''aborted''"
| "message NoProperty = js ''Cannot read properties of undefined''"

definition headers :: "api \<Rightarrow> (jsstr \<times> jsstr) list \<Rightarrow> (jsstr \<times> jsstr) list" where
  "headers a extra =
     (let h = foldl (\<lambda>h (k, v). obj_put k v h) [(js ''Accept'', js ''application/json'')] extra
      in if present (key a) then obj_put (js ''Authorization'') (js ''Bearer '' @ the (key a)) h else h)"

text \<open>\<^verbatim>\<open>r.ok\<close>.\<close>

definition ok_status :: "nat \<Rightarrow> bool" where
  "ok_status n \<longleftrightarrow> 200 \<le> n \<and> n \<le> 299"

definition reply_body :: "jsstr \<Rightarrow> json" where
  "reply_body t = (if t = [] then JNull else opt (JStr t) (json_parse t))"

definition error_detail :: "json \<Rightarrow> jsstr" where
  "error_detail b = (case b of
     JStr t \<Rightarrow> t
   | _ \<Rightarrow>
       (case truthy_field ''error'' b of
          Some e \<Rightarrow> toStr e
        | None \<Rightarrow>
            (case truthy_field ''message'' b of
               Some m \<Rightarrow> toStr m
             | None \<Rightarrow> if stringify b \<noteq> [] then stringify b else js ''request failed'')))"

definition jsonFetch :: "'w net \<Rightarrow> api \<Rightarrow> jsstr \<Rightarrow> request \<Rightarrow> 'w \<Rightarrow> (api_error + json) \<times> 'w" where
  "jsonFetch net a path q w =
     (case net w (q\<lparr>url := base a @ path\<rparr>) of
        (NetError m, w') \<Rightarrow> (Inl (NetFail m), w')
      | (Reply n t, w') \<Rightarrow>
          (let b = reply_body t
           in if ok_status n then (Inr b, w') else (Inl (HttpError n (error_detail b) b), w')))"

definition GET :: "(jsstr \<times> jsstr) list \<Rightarrow> request" where
  "GET hs = \<lparr>url = [], http_method = js ''GET'', hdrs = hs, body = None\<rparr>"

definition POST :: "(jsstr \<times> jsstr) list \<Rightarrow> json \<Rightarrow> request" where
  "POST hs b = \<lparr>url = [], http_method = js ''POST'', hdrs = hs, body = Some (stringify b)\<rparr>"

definition health :: "'w net \<Rightarrow> api \<Rightarrow> 'w \<Rightarrow> (api_error + json) \<times> 'w" where
  "health net a w = jsonFetch net a (js ''/v1/health'') (GET []) w"

definition ready :: "'w net \<Rightarrow> api \<Rightarrow> 'w \<Rightarrow> (api_error + json) \<times> 'w" where
  "ready net a w = jsonFetch net a (js ''/v1/ready'') (GET []) w"

definition languages :: "'w net \<Rightarrow> api \<Rightarrow> 'w \<Rightarrow> (api_error + json) \<times> 'w" where
  "languages net a w = jsonFetch net a (js ''/v1/languages'') (GET (headers a [])) w"

record limits =
  cpu_time :: "number option"
  wall_time :: "number option"
  memory_mb :: "number option"

record submit_params =
  language_id :: nat
  source_code :: jsstr
  stdin :: "jsstr option"
  plimits :: "limits option"
  callback_url :: "jsstr option"
  idempotency_key :: "jsstr option"
  wait :: bool

text \<open>The three assignments that \<^verbatim>\<open>submit\<close> and \<^verbatim>\<open>submitBatch\<close> make from \<^verbatim>\<open>params.limits\<close>.\<close>

definition limit_fields :: "limits option \<Rightarrow> (jsstr \<times> json) list" where
  "limit_fields l = (case l of None \<Rightarrow> [] | Some l \<Rightarrow>
     (case cpu_time l of None \<Rightarrow> [] | Some x \<Rightarrow> [(js ''cpu_time_limit'', JNum x)])
     @ (case wall_time l of None \<Rightarrow> [] | Some x \<Rightarrow> [(js ''wall_time_limit'', JNum x)])
     @ (case memory_mb l of None \<Rightarrow> [] | Some x \<Rightarrow> [(js ''memory_limit_mb'', JNum x)]))"

text \<open>\<open>None\<close>: \<^verbatim>\<open>encode\<close> threw.\<close>

definition submit_body :: "submit_params \<Rightarrow> json option" where
  "submit_body p =
     (case encode (Some (source_code p)) of
        None \<Rightarrow> None
      | Some src \<Rightarrow>
          (case (if present (stdin p) then map_option (\<lambda>s. [(js ''stdin'', JStr s)]) (encode (stdin p))
                 else Some []) of
             None \<Rightarrow> None
           | Some inp \<Rightarrow>
               Some (JObj ([(js ''language_id'', JNum (of_nat (language_id p))),
                            (js ''source_code'', JStr src),
                            (js ''base64_encoded'', JBool True)]
                 @ inp @ limit_fields (plimits p)
                 @ (if present (callback_url p)
                    then [(js ''callback_url'', JStr (the (callback_url p)))] else [])))))"

definition submit :: "'w net \<Rightarrow> api \<Rightarrow> submit_params \<Rightarrow> 'w \<Rightarrow> (api_error + json) \<times> 'w" where
  "submit net a p w =
     (case submit_body p of
        None \<Rightarrow> (Inl UriMalformed, w)
      | Some b \<Rightarrow>
          (let h = headers a [(js ''Content-Type'', js ''application/json'')];
               h' = (if present (idempotency_key p)
                     then obj_put (js ''Idempotency-Key'') (the (idempotency_key p)) h else h);
               path = js ''/v1/submissions'' @ (if wait p then js ''?wait=true'' else [])
           in jsonFetch net a path (POST h' b) w))"

definition get :: "'w net \<Rightarrow> api \<Rightarrow> jsstr \<Rightarrow> 'w \<Rightarrow> (api_error + json) \<times> 'w" where
  "get net a token w =
     (case encodeURIComponent token of
        None \<Rightarrow> (Inl UriMalformed, w)
      | Some t \<Rightarrow> jsonFetch net a (js ''/v1/submissions/'' @ t @ js ''?base64_encoded=true'')
                    (GET (headers a [])) w)"

record batch_params =
  blanguage_id :: nat
  bsource_code :: jsstr
  test_cases :: "jsstr option list"
  blimits :: "limits option"

definition batch_case :: "jsstr option \<Rightarrow> json option" where
  "batch_case t =
     (if present t then map_option (\<lambda>s. JObj [(js ''stdin'', JStr s)]) (encode t)
      else Some (JObj [(js ''stdin'', JNull)]))"

definition batch_body :: "batch_params \<Rightarrow> json option" where
  "batch_body p =
     (case encode (Some (bsource_code p)) of
        None \<Rightarrow> None
      | Some src \<Rightarrow>
          (case sequence (map batch_case (test_cases p)) of
             None \<Rightarrow> None
           | Some cs \<Rightarrow>
               Some (JObj ([(js ''language_id'', JNum (of_nat (blanguage_id p))),
                            (js ''source_code'', JStr src),
                            (js ''base64_encoded'', JBool True),
                            (js ''test_cases'', JArr cs)]
                 @ limit_fields (blimits p)))))"

definition submitBatch :: "'w net \<Rightarrow> api \<Rightarrow> batch_params \<Rightarrow> 'w \<Rightarrow> (api_error + json) \<times> 'w" where
  "submitBatch net a p w =
     (case batch_body p of
        None \<Rightarrow> (Inl UriMalformed, w)
      | Some b \<Rightarrow> jsonFetch net a (js ''/v1/submissions/batch'')
          (POST (headers a [(js ''Content-Type'', js ''application/json'')]) b) w)"

definition getBatch :: "'w net \<Rightarrow> api \<Rightarrow> jsstr \<Rightarrow> 'w \<Rightarrow> (api_error + json) \<times> 'w" where
  "getBatch net a batchId w =
     (case encodeURIComponent batchId of
        None \<Rightarrow> (Inl UriMalformed, w)
      | Some t \<Rightarrow> jsonFetch net a (js ''/v1/batches/'' @ t @ js ''?base64_encoded=true'')
                    (GET (headers a [])) w)"

section \<open>Polling\<close>

text \<open>
  The signal and the timer of a loop: \<open>aborted\<close> reads \<^verbatim>\<open>signal?.aborted\<close>, and \<open>sleep\<close> is the
  wait of \<^verbatim>\<open>intervalMs\<close>, which yields \<open>True\<close> when the abort event came first. One turn of a
  loop ends it with a result (\<open>Inl\<close>) or leads to the next turn (\<open>Inr\<close>); a loop that never
  ends is the value \<open>None\<close>.
\<close>

record 'w scheduler =
  aborted :: "'w \<Rightarrow> bool"
  sleep :: "'w \<Rightarrow> bool \<times> 'w"

partial_function (option) loop :: "('s \<Rightarrow> 'r + 's) \<Rightarrow> 's \<Rightarrow> 'r option" where
  "loop turn s = (case turn s of Inl r \<Rightarrow> Some r | Inr s' \<Rightarrow> loop turn s')"

declare loop.simps [code]

definition poll_turn ::
  "'w net \<Rightarrow> api \<Rightarrow> jsstr \<Rightarrow> 'w scheduler \<Rightarrow> 'w \<Rightarrow> (api_error + json) \<times> 'w + 'w" where
  "poll_turn net a token sc w =
     (if aborted sc w then Inl (Inl Aborted, w)
      else case get net a token w of
        (Inl e, w') \<Rightarrow> Inl (Inl e, w')
      | (Inr sub, w') \<Rightarrow>
          (if sub = JNull then Inl (Inl NoProperty, w')
           else if \<not> pending_kind (statusKind (jget ''status'' sub)) then Inl (Inr sub, w')
           else case sleep sc w' of
             (True, w'') \<Rightarrow> Inl (Inl Aborted, w'')
           | (False, w'') \<Rightarrow> Inr w''))"

definition poll ::
  "'w net \<Rightarrow> api \<Rightarrow> jsstr \<Rightarrow> 'w scheduler \<Rightarrow> 'w \<Rightarrow> ((api_error + json) \<times> 'w) option" where
  "poll net a token sc w = loop (poll_turn net a token sc) w"

text \<open>
  \<^verbatim>\<open>view.summary.queued + view.summary.processing\<close>; \<open>None\<close> is the \<^verbatim>\<open>TypeError\<close> of a view
  without a summary. \<^verbatim>\<open>null\<close> and the booleans add up as numbers; any other field makes the sum
  a string or \<^verbatim>\<open>NaN\<close>, which is not \<^verbatim>\<open>0\<close>.
\<close>

definition addend :: "json option \<Rightarrow> number option" where
  "addend v = (case v of Some (JNum n) \<Rightarrow> Some n | Some JNull \<Rightarrow> Some 0
     | Some (JBool b) \<Rightarrow> Some (of_bool b) | _ \<Rightarrow> None)"

definition summary_pending :: "json \<Rightarrow> bool option" where
  "summary_pending view = (case jget ''summary'' view of
     None \<Rightarrow> None
   | Some JNull \<Rightarrow> None
   | Some s \<Rightarrow>
       (case (addend (jget ''queued'' s), addend (jget ''processing'' s)) of
          (Some q, Some p) \<Rightarrow> Some (q + p \<noteq> 0)
        | _ \<Rightarrow> Some True))"

text \<open>The state of \<^verbatim>\<open>pollBatch\<close> is the world and the views its \<^verbatim>\<open>onUpdate\<close> was called with.\<close>

definition batch_turn ::
  "'w net \<Rightarrow> api \<Rightarrow> jsstr \<Rightarrow> 'w scheduler \<Rightarrow> 'w \<times> json list \<Rightarrow>
   (api_error + json) \<times> 'w \<times> json list + 'w \<times> json list" where
  "batch_turn net a batchId sc = (\<lambda>(w, seen).
     (if aborted sc w then Inl (Inl Aborted, w, seen)
      else case getBatch net a batchId w of
        (Inl e, w') \<Rightarrow> Inl (Inl e, w', seen)
      | (Inr view, w') \<Rightarrow>
          (case summary_pending view of
             None \<Rightarrow> Inl (Inl NoProperty, w', seen @ [view])
           | Some False \<Rightarrow> Inl (Inr view, w', seen @ [view])
           | Some True \<Rightarrow>
               (case sleep sc w' of
                  (True, w'') \<Rightarrow> Inl (Inl Aborted, w'', seen @ [view])
                | (False, w'') \<Rightarrow> Inr (w'', seen @ [view])))))"

definition pollBatch ::
  "'w net \<Rightarrow> api \<Rightarrow> jsstr \<Rightarrow> 'w scheduler \<Rightarrow> 'w \<Rightarrow> ((api_error + json) \<times> 'w \<times> json list) option" where
  "pollBatch net a batchId sc w = loop (batch_turn net a batchId sc) (w, [])"

section \<open>The probe\<close>

definition fallbackBase :: "page \<Rightarrow> api \<Rightarrow> jsstr option" where
  "fallbackBase pg a =
     (if baseSource a \<noteq> Default then None
      else case loc pg of
        None \<Rightarrow> None
      | Some l \<Rightarrow>
          (let host = hostname l
           in if host \<notin> {js ''localhost'', js ''127.0.0.1''} then None
              else (let candidate = js ''http://'' @ host @ js '':8080''
                    in if candidate = base a then None else Some candidate)))"

text \<open>A health check and, if it succeeds, whether the languages can be listed with the key.\<close>

definition probe_at :: "'w net \<Rightarrow> api \<Rightarrow> 'w \<Rightarrow> (api_error + bool) \<times> 'w" where
  "probe_at net a w =
     (case jsonFetch net a (js ''/v1/health'') (GET []) w of
        (Inl e, w') \<Rightarrow> (Inl e, w')
      | (Inr _, w') \<Rightarrow>
          (case languages net a w' of
             (Inl _, w'') \<Rightarrow> (Inr False, w'')
           | (Inr _, w'') \<Rightarrow> (Inr True, w'')))"

definition fallback_hint :: "jsstr \<Rightarrow> jsstr \<Rightarrow> jsstr" where
  "fallback_hint b prev = js ''defaulted to '' @ b @ js '' after '' @ prev @ js '' did not respond''"

definition probe :: "'w net \<Rightarrow> page \<Rightarrow> api \<Rightarrow> 'w \<Rightarrow> probe_result \<times> api \<times> 'w" where
  "probe net pg a w = (case probeCache a of
     Some r \<Rightarrow> (r, a, w)
   | None \<Rightarrow>
       (case probe_at net a w of
          (Inr au, w') \<Rightarrow>
            (let r = \<lparr>ok = True, rbase = base a, authed = Some au, hint = None, error = None\<rparr>
             in (r, a\<lparr>probeCache := Some r\<rparr>, w'))
        | (Inl e, w') \<Rightarrow>
            (let failed = (\<lambda>w. let r = \<lparr>ok = False, rbase = base a, authed = None, hint = None,
                                         error = Some (message e)\<rparr>
                                in (r, a\<lparr>probeCache := Some r\<rparr>, w))
             in case fallbackBase pg a of
                  None \<Rightarrow> failed w'
                | Some fb \<Rightarrow>
                    (let a' = a\<lparr>base := fb\<rparr>
                     in case probe_at net a' w' of
                          (Inl _, w'') \<Rightarrow> failed w''
                        | (Inr au, w'') \<Rightarrow>
                            (let r = \<lparr>ok = True, rbase = fb, authed = Some au,
                                      hint = Some (fallback_hint fb (base a)), error = None\<rparr>
                             in (r, a'\<lparr>probeCache := Some r\<rparr>, w''))))))"

definition resetProbe :: "api \<Rightarrow> api" where
  "resetProbe a = a\<lparr>probeCache := None\<rparr>"

section \<open>The idempotency key\<close>

text \<open>
  \<^verbatim>\<open>((h * 33) ^ c) >>> 0\<close>: the product is exact, the exclusive or takes it to 32 bits and the
  shift reads it back unsigned.
\<close>

definition hash_step :: "nat \<Rightarrow> cu \<Rightarrow> nat" where
  "hash_step h c = unat ((word_of_nat (h * 33) :: 32 word) XOR ucast c)"

definition idemHash :: "jsstr \<Rightarrow> nat" where
  "idemHash s = foldl hash_step 5381 s"

text \<open>The argument \<open>now\<close> is \<^verbatim>\<open>Date.now()\<close>.\<close>

definition idemKey :: "json \<Rightarrow> nat \<Rightarrow> jsstr" where
  "idemKey parts now = js ''zc-ui-'' @ radix 36 (idemHash (stringify parts)) @ js ''-'' @ radix 36 now"

section \<open>Configuration: lemmas\<close>

lemma present_Some [simp]: "present (Some s) \<longleftrightarrow> s \<noteq> []" and present_None [simp]: "\<not> present None"
  by (simp_all add: present_def)

lemma storage_keys_differ [simp]: "STORAGE_BASE \<noteq> STORAGE_KEY" "STORAGE_KEY \<noteq> STORAGE_BASE"
  by (simp_all add: STORAGE_BASE_def STORAGE_KEY_def)

lemma key_readConfig:
  "key (readConfig pg st) = (if present (qs_get pg ''key'') then qs_get pg ''key'' else safeRead st STORAGE_KEY)"
  by (simp add: readConfig_def Let_def)

lemma probeCache_readConfig [frame]: "probeCache (readConfig pg st) = None"
  by (simp add: readConfig_def Let_def)

text \<open>The base and its source depend on the storage only through the entry for the base.\<close>

lemma readConfig_base_cong:
  "safeRead st STORAGE_BASE = safeRead st' STORAGE_BASE \<Longrightarrow>
   base (readConfig pg st) = base (readConfig pg st') \<and>
   baseSource (readConfig pg st) = baseSource (readConfig pg st')"
  by (simp add: readConfig_def Let_def)

lemma readConfig_key_cong:
  "safeRead st STORAGE_KEY = safeRead st' STORAGE_KEY \<Longrightarrow>
   key (readConfig pg st) = key (readConfig pg st')"
  by (simp add: key_readConfig)

lemma setKey_keeps_base [frame]:
  "base (snd (setKey pg st k)) = base (readConfig pg st)"
  "baseSource (snd (setKey pg st k)) = baseSource (readConfig pg st)"
proof -
  have "safeRead (fst (setKey pg st k)) STORAGE_BASE = safeRead st STORAGE_BASE"
    by (auto simp: setKey_def Let_def web.read_write_other web.read_remove_other)
  from readConfig_base_cong [OF this]
  show "base (snd (setKey pg st k)) = base (readConfig pg st)"
    "baseSource (snd (setKey pg st k)) = baseSource (readConfig pg st)"
    by (simp_all add: setKey_def Let_def)
qed

lemma setBase_keeps_key [frame]: "key (snd (setBase pg st u)) = key (readConfig pg st)"
proof -
  have "safeRead (fst (setBase pg st u)) STORAGE_KEY = safeRead st STORAGE_KEY"
    by (auto simp: setBase_def Let_def web.read_write_other web.read_remove_other)
  from readConfig_key_cong [OF this] show ?thesis by (simp add: setBase_def Let_def)
qed

lemma setKey_key:
  assumes "\<not> present (qs_get pg ''key'')" "\<And>v. k = Some v \<Longrightarrow> fits st STORAGE_KEY v"
  shows "key (snd (setKey pg st k)) = (if present k then k else None)"
  using assms
  by (cases k) (auto simp: setKey_def Let_def key_readConfig web.read_write web.read_remove)

section \<open>Headers and replies: lemmas\<close>

lemma authorization_headers:
  assumes "js ''Authorization'' \<notin> fst ` set extra"
  shows "map_of (headers a extra) (js ''Authorization'') =
    (if present (key a) then Some (js ''Bearer '' @ the (key a)) else None)"
proof -
  have "map_of (foldl (\<lambda>h (k, v). obj_put k v h) h extra) (js ''Authorization'') =
    map_of h (js ''Authorization'')" for h
    using assms by (induction extra arbitrary: h) (auto simp: map_of_obj_put)
  then show ?thesis by (simp add: headers_def Let_def map_of_obj_put)
qed

lemma jsonFetch_ok_iff:
  "(\<exists>b w'. jsonFetch net a path q w = (Inr b, w')) \<longleftrightarrow>
   (\<exists>n t w'. net w (q\<lparr>url := base a @ path\<rparr>) = (Reply n t, w') \<and> ok_status n)"
  by (cases "net w (q\<lparr>url := base a @ path\<rparr>)") (auto simp: jsonFetch_def Let_def split: reply.splits)

lemma jsonFetch_json:
  assumes "net w (q\<lparr>url := base a @ path\<rparr>) = (Reply n (stringify v), w')"
    "ok_status n" "json_ok v"
  shows "jsonFetch net a path q w = (Inr v, w')"
proof -
  have "json_parse (stringify v) = Some v" using assms(3) by (rule jtext.dec_enc)
  moreover from this have "stringify v \<noteq> []" by (auto simp: json_parse_def)
  ultimately show ?thesis using assms by (simp add: jsonFetch_def reply_body_def)
qed

section \<open>The wire format: lemmas\<close>

definition limits_ok :: "limits option \<Rightarrow> bool" where
  "limits_ok l \<longleftrightarrow> (case l of None \<Rightarrow> True | Some l \<Rightarrow>
     (\<forall>x. cpu_time l = Some x \<or> wall_time l = Some x \<or> memory_mb l = Some x \<longrightarrow> decimal x))"

lemma limit_fields_keys:
  "fst ` set (limit_fields l) \<subseteq> {js ''cpu_time_limit'', js ''wall_time_limit'', js ''memory_limit_mb''}"
  by (auto simp: limit_fields_def split: option.splits)

lemma limit_field_key [simp]:
  "k \<noteq> js ''cpu_time_limit'' \<Longrightarrow> k \<noteq> js ''wall_time_limit'' \<Longrightarrow> k \<noteq> js ''memory_limit_mb'' \<Longrightarrow>
   (k, v) \<notin> set (limit_fields l)"
  using limit_fields_keys [of l] by force

lemma limit_fields_distinct: "distinct (map fst (limit_fields l))"
  by (auto simp: limit_fields_def split: option.splits)

lemma limit_fields_ok: "limits_ok l \<Longrightarrow> (k, v) \<in> set (limit_fields l) \<Longrightarrow> json_ok v"
  by (auto simp: limit_fields_def limits_ok_def split: option.splits)

lemma map_of_limit_fields:
  "k \<notin> {js ''cpu_time_limit'', js ''wall_time_limit'', js ''memory_limit_mb''} \<Longrightarrow>
   map_of (limit_fields l) k = None"
  using limit_fields_keys [of l] by (auto simp: map_of_eq_None_iff)

lemma submit_body_Some:
  assumes "submit_body p = Some b"
  shows "\<exists>src. encode (Some (source_code p)) = Some src \<and>
    jget ''source_code'' b = Some (JStr src)"
    and "present (stdin p) \<Longrightarrow> \<exists>inp. encode (stdin p) = Some inp \<and> jget ''stdin'' b = Some (JStr inp)"
    and "\<not> present (stdin p) \<Longrightarrow> jget ''stdin'' b = None"
  using assms
  by (auto simp: submit_body_def jget_def map_add_def map_of_limit_fields split: option.splits if_splits)

lemma submit_body_ok:
  assumes "submit_body p = Some b" "limits_ok (plimits p)"
  shows "json_ok b"
  using assms limit_fields_distinct [of "plimits p"]
  by (auto simp: submit_body_def limit_fields_ok split: option.splits if_splits)

lemma submit_body_defined:
  "submit_body p \<noteq> None \<longleftrightarrow>
   well_formed (source_code p) \<and> (present (stdin p) \<longrightarrow> well_formed (the (stdin p)))"
  using encode_defined [of "source_code p"] encode_defined [of "the (stdin p)"]
  by (cases "stdin p") (auto simp: submit_body_def split: option.splits if_splits)

lemma sequence_length: "sequence xs = Some ys \<Longrightarrow> length ys = length xs"
  by (induction xs arbitrary: ys rule: sequence.induct) (auto split: option.splits)

lemma sequence_nth: "sequence xs = Some ys \<Longrightarrow> i < length xs \<Longrightarrow> xs ! i = Some (ys ! i)"
  by (induction xs arbitrary: ys i rule: sequence.induct)
    (auto simp: less_Suc_eq_0_disj split: option.splits)

lemma batch_case_ok: "batch_case t = Some c \<Longrightarrow> json_ok c"
  by (auto simp: batch_case_def split: if_splits)

lemma batch_case_stdin:
  "batch_case t = Some c \<Longrightarrow>
   (if present t then \<exists>s. jget ''stdin'' c = Some (JStr s) \<and> decode (Some s) = the t
    else jget ''stdin'' c = Some JNull)"
  using decode_encode [of "the t"] by (cases t) (auto simp: batch_case_def jget_def split: if_splits)

lemma sequence_ok:
  "sequence (map batch_case ts) = Some cs \<Longrightarrow> c \<in> set cs \<Longrightarrow> json_ok c"
  using sequence_length [of "map batch_case ts" cs] sequence_nth [of "map batch_case ts" cs]
  by (metis batch_case_ok in_set_conv_nth length_map nth_map)

lemma batch_body_ok:
  assumes "batch_body p = Some b" "limits_ok (blimits p)"
  shows "json_ok b"
  using assms limit_fields_distinct [of "blimits p"]
  by (auto simp: batch_body_def limit_fields_ok sequence_ok split: option.splits)

section \<open>Polling: lemmas\<close>

text \<open>The loop after at most \<open>n\<close> turns; it ends exactly if some number of turns is enough.\<close>

fun turns :: "('s \<Rightarrow> 'r + 's) \<Rightarrow> nat \<Rightarrow> 's \<Rightarrow> 'r + 's" where
  "turns turn 0 s = Inr s"
| "turns turn (Suc n) s = (case turn s of Inl r \<Rightarrow> Inl r | Inr s' \<Rightarrow> turns turn n s')"

lemma loop_Inl: "turn s = Inl r \<Longrightarrow> loop turn s = Some r"
  by (subst loop.simps) simp

lemma loop_Inr: "turn s = Inr s' \<Longrightarrow> loop turn s = loop turn s'"
  by (subst loop.simps) simp

lemma loop_turns: "turns turn n s = Inl r \<Longrightarrow> loop turn s = Some r"
  by (induction n arbitrary: s) (auto simp: loop_Inl loop_Inr split: sum.splits)

lemma turns_step:
  assumes "(case turn s of Inl r \<Rightarrow> Some r | Inr s' \<Rightarrow> f s') = Some r"
    and "\<And>s' r. f s' = Some r \<Longrightarrow> \<exists>n. turns turn n s' = Inl r"
  shows "\<exists>n. turns turn n s = Inl r"
proof (cases "turn s")
  case (Inl x)
  then have "turns turn (Suc 0) s = Inl r" using assms by simp
  then show ?thesis by blast
next
  case (Inr s')
  then obtain n where "turns turn n s' = Inl r" using assms by auto
  then have "turns turn (Suc n) s = Inl r" using Inr by simp
  then show ?thesis by blast
qed

lemma turns_loop:
  assumes "loop turn s = Some r"
  shows "\<exists>n. turns turn n s = Inl r"
  by (rule loop.raw_induct [where P = "\<lambda>turn s r. \<exists>n. turns turn n s = Inl r", OF _ assms])
    (rule turns_step)

theorem loop_iff_turns: "loop turn s = Some r \<longleftrightarrow> (\<exists>n. turns turn n s = Inl r)"
  using loop_turns turns_loop by metis

lemma loop_last: "loop turn s = Some r \<Longrightarrow> \<exists>s'. turn s' = Inl r"
proof -
  have "turns turn n s = Inl r \<Longrightarrow> \<exists>s'. turn s' = Inl r" for n
    by (induction n arbitrary: s) (auto split: sum.splits)
  then show "loop turn s = Some r \<Longrightarrow> \<exists>s'. turn s' = Inl r" by (auto simp: loop_iff_turns)
qed

text \<open>
  What the two loops share. A turn ends the loop with a value only when the value is final, and
  an aborted loop ends at the start of its turn.
\<close>

locale poller =
  fixes turn :: "'s \<Rightarrow> (api_error + 'v) \<times> 'o + 's"
    and stopped :: "'s \<Rightarrow> bool" and final :: "'v \<Rightarrow> bool"
  assumes turn_final: "turn s = Inl (Inr v, x) \<Longrightarrow> final v"
    and turn_stopped: "stopped s \<Longrightarrow> \<exists>x. turn s = Inl (Inl Aborted, x)"
begin

lemma turns_final: "turns turn n s = Inl (Inr v, x) \<Longrightarrow> final v"
  by (induction n arbitrary: s) (auto simp: turn_final split: sum.splits)

lemma loop_final: "loop turn s = Some (Inr v, x) \<Longrightarrow> final v"
  by (auto simp: loop_iff_turns turns_final)

lemma loop_stopped: "stopped s \<Longrightarrow> \<exists>x. loop turn s = Some (Inl Aborted, x)"
  using turn_stopped loop_Inl by metis

lemma loop_ends:
  assumes "\<And>s. (\<exists>v x. turn s = Inl (Inr v, x)) \<or> (\<exists>s'. turn s = Inr s' \<and> m s' < (m s :: nat))"
  shows "\<exists>v x. loop turn s = Some (Inr v, x) \<and> final v"
proof (induction "m s" arbitrary: s rule: less_induct)
  case less
  from assms [of s] show ?case
  proof (elim disjE exE conjE)
    fix v x assume "turn s = Inl (Inr v, x)"
    then show ?thesis using turn_final loop_Inl by metis
  next
    fix s' assume "turn s = Inr s'" "m s' < m s"
    then show ?thesis using less [of s'] by (simp add: loop_Inr)
  qed
qed

end

interpretation single: poller "poll_turn net a token sc" "aborted sc"
  "\<lambda>sub. \<not> pending_kind (statusKind (jget ''status'' sub))"
  by unfold_locales (auto simp: poll_turn_def split: if_splits prod.splits sum.splits bool.splits)

interpretation batch: poller "batch_turn net a batchId sc" "\<lambda>(w, seen). aborted sc w"
  "\<lambda>view. summary_pending view = Some False"
  by unfold_locales
    (auto simp: batch_turn_def split: if_splits prod.splits sum.splits bool.splits option.splits)

lemma poll_turn_value:
  "poll_turn net a token sc w = Inl (Inr sub, w') \<Longrightarrow> get net a token w = (Inr sub, w')"
  by (auto simp: poll_turn_def split: if_splits prod.splits sum.splits bool.splits)

lemma batch_turn_InrD:
  "batch_turn net a batchId sc (w, seen) = Inr (w', seen') \<Longrightarrow>
   \<exists>view. seen' = seen @ [view] \<and> summary_pending view = Some True"
  by (auto simp: batch_turn_def split: if_splits prod.splits sum.splits bool.splits option.splits)

lemma batch_turn_InlD:
  "batch_turn net a batchId sc (w, seen) = Inl (Inr view, w', seen') \<Longrightarrow> seen' = seen @ [view]"
  by (auto simp: batch_turn_def split: if_splits prod.splits sum.splits bool.splits option.splits)

lemma batch_turns_seen:
  assumes "turns (batch_turn net a batchId sc) n (w, seen) = Inl (Inr view, w', seen')"
  shows "\<exists>vs. seen' = seen @ vs @ [view] \<and> (\<forall>v \<in> set vs. summary_pending v = Some True)"
  using assms
proof (induction n arbitrary: w seen)
  case (Suc n)
  show ?case
  proof (cases "batch_turn net a batchId sc (w, seen)")
    case (Inl r)
    then have "seen' = seen @ [] @ [view]" using Suc.prems batch_turn_InlD by fastforce
    then show ?thesis by fastforce
  next
    case (Inr x)
    then obtain w1 v where x: "x = (w1, seen @ [v])" "summary_pending v = Some True"
      using batch_turn_InrD by (metis surj_pair)
    then obtain vs where "seen' = (seen @ [v]) @ vs @ [view]" "\<forall>v \<in> set vs. summary_pending v = Some True"
      using Suc Inr by fastforce
    then have "seen' = seen @ (v # vs) @ [view]" "\<forall>u \<in> set (v # vs). summary_pending u = Some True"
      using x by simp_all
    then show ?thesis by blast
  qed
qed simp

section \<open>The probe: lemmas\<close>

lemma probe_cached: "probeCache a = Some r \<Longrightarrow> probe net pg a w = (r, a, w)"
  by (simp add: probe_def)

lemma probe_cases:
  assumes "probe net pg a w = (r, a', w')" "probeCache a = None"
  shows "probeCache a' = Some r" "rbase r = base a'" "key a' = key a" "baseSource a' = baseSource a"
    and "base a' \<noteq> base a \<Longrightarrow> fallbackBase pg a = Some (base a') \<and> ok r \<and> hint r \<noteq> None"
    and "ok r \<longleftrightarrow> error r = None" "ok r \<longleftrightarrow> authed r \<noteq> None"
  using assms by (auto simp: probe_def Let_def split: prod.splits sum.splits option.splits)

section \<open>The idempotency key: lemmas\<close>

lemma hash_step_bound: "hash_step h c < 2 ^ 32"
proof -
  have "unat (x :: 32 word) < 2 ^ 32" for x using unsigned_less [of x, where ?'a = nat] by simp
  then show ?thesis unfolding hash_step_def by blast
qed

lemma idemHash_bound: "idemHash s < 2 ^ 32"
proof (cases s rule: rev_cases)
  case Nil
  then show ?thesis by (simp add: idemHash_def)
next
  case (snoc t c)
  then show ?thesis using hash_step_bound by (simp add: idemHash_def)
qed

lemma radix_no_dash: "2 \<le> b \<Longrightarrow> b \<le> 36 \<Longrightarrow> 45 \<notin> set (radix b n)"
proof
  assume b: "2 \<le> b" "b \<le> 36" and "45 \<in> set (radix b n)"
  then obtain d where d: "d \<in> set (digits b n)" "digit_cu d = 45" by (auto simp: radix_def)
  then have "d < 36" using digits_less b by fastforce
  then show False using unat_digit_cu [of d] d by (auto split: if_splits)
qed

lemma append_sep_inject:
  "x \<notin> set s \<Longrightarrow> x \<notin> set t \<Longrightarrow> s @ x # s' = t @ x # t' \<longleftrightarrow> s = t \<and> s' = t'"
  by (induction s arbitrary: t) (case_tac t; auto)+

lemma idemKey_inject:
  "idemKey p m = idemKey q n \<longleftrightarrow> idemHash (stringify p) = idemHash (stringify q) \<and> m = n"
  using radix_no_dash [of 36] radix_inject [of 36]
  by (auto simp: idemKey_def js_eval append_sep_inject)

section \<open>Properties\<close>

text \<open>The precedence that the head of the module documents, as a list of candidates.\<close>

definition documented_base :: "page \<Rightarrow> storage \<Rightarrow> jsstr \<times> base_source" where
  "documented_base pg st =
     (case find (\<lambda>(v, _). present v)
             [(qs_get pg ''api'', Query), (META pg, Meta), (safeRead st STORAGE_BASE, FromStorage)] of
        Some (v, src) \<Rightarrow> (strip_slash (the v), src)
      | None \<Rightarrow> (strip_slash (inferDefaultBase pg), Default))"

text \<open>After the user stores a base and a key, the module's base is the first one present
  in the documented order (query parameter, meta element, storage, default), the key is the query
  parameter's or else the stored one, an empty or missing value deletes the entry, storing one
  leaves the other as it was, and every change forgets the cached probe.\<close>

theorem configuration_precedence:
  assumes "setBase pg st u = (st1, a1)" "setKey pg st1 k = (st2, a2)"
    and "\<forall>v. u = Some v \<longrightarrow> fits st STORAGE_BASE v" "\<forall>v. k = Some v \<longrightarrow> fits st1 STORAGE_KEY v"
  shows "(base a2, baseSource a2) = documented_base pg st2 \<and>
    (base a2, baseSource a2) = (base a1, baseSource a1) \<and>
    key a2 = (if present (qs_get pg ''key'') then qs_get pg ''key'' else if present k then k else None) \<and>
    safeRead st2 STORAGE_BASE = (if present u then u else None) \<and>
    probeCache a1 = None \<and> probeCache a2 = None"
proof -
  have st1: "st1 = (if present u then tryWrite st STORAGE_BASE (the u) else tryRemove st STORAGE_BASE)"
    and a1: "a1 = readConfig pg st1"
    using assms(1) by (auto simp: setBase_def Let_def)
  have st2: "st2 = (if present k then tryWrite st1 STORAGE_KEY (the k) else tryRemove st1 STORAGE_KEY)"
    and a2: "a2 = readConfig pg st2"
    using assms(2) by (auto simp: setKey_def Let_def)
  have "(base a2, baseSource a2) = documented_base pg st2"
    by (auto simp: a2 readConfig_def documented_base_def Let_def)
  moreover have same: "safeRead st2 STORAGE_BASE = safeRead st1 STORAGE_BASE"
    by (simp add: st2 web.read_write_other web.read_remove_other)
  then have "base a2 = base a1 \<and> baseSource a2 = baseSource a1"
    unfolding a1 a2 by (rule readConfig_base_cong)
  moreover have "safeRead st2 STORAGE_KEY = (if present k then k else None)"
    using assms(4) by (cases k) (auto simp: st2 web.read_write web.read_remove)
  moreover have "safeRead st1 STORAGE_BASE = (if present u then u else None)"
    using assms(3) by (cases u) (auto simp: st1 web.read_write web.read_remove)
  ultimately show ?thesis
    using same by (simp add: key_readConfig a1 a2 frame)
qed

definition sample_location :: location where
  "sample_location = \<lparr>protocol = js ''http:'', origin = js ''http://localhost:5173'', hostname = js ''localhost''\<rparr>"

definition sample_page :: page where
  "sample_page = \<lparr>qs_params = [], META = None, loc = Some sample_location\<rparr>"

definition sample_storage :: storage where
  "sample_storage = \<lparr>items = [], allowed = True, quota = 5000\<rparr>"

lemma sample_fits: "length v < 4000 \<Longrightarrow> fits sample_storage STORAGE_BASE v"
  "length u < 400 \<Longrightarrow> length v < 400 \<Longrightarrow>
   fits (fst (setBase sample_page sample_storage (Some u))) STORAGE_KEY v"
  by (auto simp: storage_ops sample_storage_def used_def setBase_def STORAGE_KEY_def STORAGE_BASE_def)

theorem configuration_precedence_witness:
  "\<exists>st1 a1 st2 a2. setBase sample_page sample_storage (Some (js ''http://api/'')) = (st1, a1) \<and>
     setKey sample_page st1 (Some (js ''k1'')) = (st2, a2) \<and> key a2 = Some (js ''k1'')"
proof -
  obtain st1 a1 where 1: "setBase sample_page sample_storage (Some (js ''http://api/'')) = (st1, a1)"
    by fastforce
  obtain st2 a2 where 2: "setKey sample_page st1 (Some (js ''k1'')) = (st2, a2)" by fastforce
  have "fits st1 STORAGE_KEY (js ''k1'')"
    using sample_fits(2) [of "js ''http://api/''" "js ''k1''"] 1 by simp
  then have "key a2 = Some (js ''k1'')"
    using configuration_precedence [OF 1 2] sample_fits(1) [of "js ''http://api/''"]
    by (simp add: qs_get_def sample_page_def)
  with 1 2 show ?thesis by blast
qed

text \<open>C1. The wire format of a submission. When the source and the input hold no lone
  surrogate and the limits are decimals, \<^verbatim>\<open>submit\<close> makes one POST whose body is JSON; what the
  service decodes from its \<^verbatim>\<open>source_code\<close> and \<^verbatim>\<open>stdin\<close> fields is exactly what the user typed, an
  empty input is left out, and the bearer key goes with it exactly if one is configured.\<close>

theorem submit_wire:
  assumes "well_formed (source_code p)" "present (stdin p) \<longrightarrow> well_formed (the (stdin p))"
    and "limits_ok (plimits p)"
  shows "\<exists>q b t. submit net a p w =
      jsonFetch net a (js ''/v1/submissions'' @ (if wait p then js ''?wait=true'' else [])) q w \<and>
    http_method q = js ''POST'' \<and> map_option json_parse (body q) = Some (Some b) \<and>
    jget ''source_code'' b = Some (JStr t) \<and> decode (Some t) = source_code p \<and>
    (if present (stdin p) then \<exists>i. jget ''stdin'' b = Some (JStr i) \<and> decode (Some i) = the (stdin p)
     else jget ''stdin'' b = None) \<and>
    map_of (hdrs q) (js ''Authorization'') =
      (if present (key a) then Some (js ''Bearer '' @ the (key a)) else None)"
proof -
  obtain b where b: "submit_body p = Some b" using submit_body_defined [of p] assms by blast
  define h where "h = headers a [(js ''Content-Type'', js ''application/json'')]"
  define h' where "h' = (if present (idempotency_key p)
    then obj_put (js ''Idempotency-Key'') (the (idempotency_key p)) h else h)"
  have parse: "json_parse (stringify b) = Some b"
    using submit_body_ok [OF b assms(3)] by (rule jtext.dec_enc)
  obtain t where t: "encode (Some (source_code p)) = Some t" "jget ''source_code'' b = Some (JStr t)"
    using submit_body_Some(1) [OF b] by blast
  have inp: "if present (stdin p) then \<exists>i. jget ''stdin'' b = Some (JStr i) \<and> decode (Some i) = the (stdin p)
     else jget ''stdin'' b = None"
    using submit_body_Some(2,3) [OF b] decode_encode [of "the (stdin p)"] by (auto simp: present_def)
  have auth: "map_of h' (js ''Authorization'') =
      (if present (key a) then Some (js ''Bearer '' @ the (key a)) else None)"
    by (simp add: h'_def h_def map_of_obj_put authorization_headers)
  have "submit net a p w =
      jsonFetch net a (js ''/v1/submissions'' @ (if wait p then js ''?wait=true'' else [])) (POST h' b) w"
    by (simp add: submit_def b h_def h'_def Let_def)
  then show ?thesis
    using parse t inp auth decode_encode
    by (intro exI [of _ "POST h' b"] exI [of _ b] exI [of _ t]) (simp add: POST_def)
qed

definition sample_submit :: submit_params where
  "sample_submit = \<lparr>language_id = 71, source_code = js ''print(1)'', stdin = Some (js ''7''),
     plimits = Some \<lparr>cpu_time = Some 5, wall_time = None, memory_mb = Some 256\<rparr>,
     callback_url = None, idempotency_key = None, wait = False\<rparr>"

definition sample_api :: api where
  "sample_api = \<lparr>base = js ''http://localhost:8080'', key = None, baseSource = Default, probeCache = None\<rparr>"

theorem submit_wire_witness:
  "\<exists>q b t. submit (\<lambda>w q. (Reply 202 [], w)) sample_api sample_submit () =
      jsonFetch (\<lambda>w q. (Reply 202 [], w)) sample_api (js ''/v1/submissions'') q () \<and>
    map_option json_parse (body q) = Some (Some b) \<and>
    jget ''source_code'' b = Some (JStr t) \<and> decode (Some t) = js ''print(1)''"
proof -
  have "well_formed (source_code sample_submit)" "well_formed (the (stdin sample_submit))"
    by (simp_all add: sample_submit_def)
  moreover have "limits_ok (plimits sample_submit)"
    by (auto simp: limits_ok_def sample_submit_def)
  ultimately show ?thesis
    using submit_wire [of sample_submit "\<lambda>w q. (Reply 202 [], w)" sample_api "()"]
    by (auto simp: sample_submit_def)
qed

text \<open>A source or an input with a lone surrogate cannot be sent: \<^verbatim>\<open>submit\<close> rejects with
  the \<^verbatim>\<open>URIError\<close> of \<^verbatim>\<open>encodeURIComponent\<close> before any request is made, whatever the network
  would do, and it does so only then.\<close>

theorem submit_rejects_lone_surrogates:
  "(\<forall>net w. submit net a p (w :: 'w) = (Inl UriMalformed, w)) \<longleftrightarrow>
   \<not> list_all well_formed (source_code p # (if present (stdin p) then [the (stdin p)] else []))"
proof (cases "submit_body p")
  case None
  then show ?thesis using submit_body_defined [of p] by (auto simp: submit_def)
next
  case (Some b)
  then have "\<exists>v. fst (submit (\<lambda>w q. (Reply 200 [], w)) a p (undefined :: 'w)) = Inr v"
    by (simp add: submit_def Let_def jsonFetch_def ok_status_def)
  then have "\<not> (\<forall>net w. submit net a p (w :: 'w) = (Inl UriMalformed, w))"
    by (metis fst_conv sum.distinct(1))
  then show ?thesis using submit_body_defined [of p] Some by auto
qed

text \<open>C30. The wire format of a batch: one test case per input, in order, each decoding to the
  input it was made from, and \<^verbatim>\<open>null\<close> exactly for the empty ones.\<close>

theorem submitBatch_wire:
  assumes "batch_body p = Some b" "limits_ok (blimits p)" "i < length (test_cases p)"
  shows "json_parse (stringify b) = Some b \<and>
    (\<exists>t. jget ''source_code'' b = Some (JStr t) \<and> decode (Some t) = bsource_code p) \<and>
    (\<exists>cs. jget ''test_cases'' b = Some (JArr cs) \<and> length cs = length (test_cases p) \<and>
      (if present (test_cases p ! i)
       then \<exists>t. jget ''stdin'' (cs ! i) = Some (JStr t) \<and> decode (Some t) = the (test_cases p ! i)
       else jget ''stdin'' (cs ! i) = Some JNull))"
proof -
  obtain src cs where src: "encode (Some (bsource_code p)) = Some src"
    and cs: "sequence (map batch_case (test_cases p)) = Some cs"
    and b: "jget ''source_code'' b = Some (JStr src)" "jget ''test_cases'' b = Some (JArr cs)"
    using assms(1) by (auto simp: batch_body_def jget_def split: option.splits)
  have "batch_case (test_cases p ! i) = Some (cs ! i)"
    using sequence_nth [OF cs] assms(3) by simp
  then have "if present (test_cases p ! i)
       then \<exists>t. jget ''stdin'' (cs ! i) = Some (JStr t) \<and> decode (Some t) = the (test_cases p ! i)
       else jget ''stdin'' (cs ! i) = Some JNull"
    by (simp add: batch_case_stdin)
  moreover have "json_parse (stringify b) = Some b"
    using batch_body_ok [OF assms(1,2)] by (rule jtext.dec_enc)
  ultimately show ?thesis
    using b decode_encode [OF src] sequence_length [OF cs] by simp
qed

definition sample_batch :: batch_params where
  "sample_batch = \<lparr>blanguage_id = 71, bsource_code = js ''x'', test_cases = [None, Some (js ''7'')], blimits = None\<rparr>"

theorem submitBatch_wire_witness:
  "\<exists>b cs t. batch_body sample_batch = Some b \<and> jget ''test_cases'' b = Some (JArr cs) \<and>
     length cs = 2 \<and> jget ''stdin'' (cs ! 1) = Some (JStr t) \<and> decode (Some t) = js ''7''"
proof -
  have "encode (Some (js ''x'')) \<noteq> None" "encode (Some (js ''7'')) \<noteq> None"
    using encode_defined well_formed_js by blast+
  then have "batch_body sample_batch \<noteq> None"
    by (auto simp: batch_body_def sample_batch_def batch_case_def split: option.splits)
  then obtain b where b: "batch_body sample_batch = Some b" by blast
  then show ?thesis
    using submitBatch_wire [OF b, of 1] by (auto simp: sample_batch_def limits_ok_def)
qed

text \<open>C13. Polling ends. If the service answers every poll of the token with a well-formed view
  of its status, and between two polls the job gets closer to its end (\<open>m\<close> counts what is left),
  then \<^verbatim>\<open>poll\<close> returns, and what it returns is a view whose status the service counts as
  terminal.\<close>

theorem poll_returns_terminal:
  fixes m :: "'w \<Rightarrow> nat"
  assumes "\<forall>w. \<not> aborted sc w \<and> \<not> fst (sleep sc w)"
    and "\<forall>w. \<exists>sub. get net a token w = (Inr sub, tick w) \<and> sub \<noteq> JNull \<and>
      jget ''status'' sub = Some (status_json (job w))"
    and "\<forall>w. \<not> is_terminal (job w) \<longrightarrow> m (snd (sleep sc (tick w))) < m w"
  shows "\<exists>sub w' u. poll net a token sc w = Some (Inr sub, w') \<and>
    jget ''status'' sub = Some (status_json (job u)) \<and> is_terminal (job u)"
proof -
  have "(\<exists>v x. poll_turn net a token sc u = Inl (Inr v, x)) \<or>
    (\<exists>u'. poll_turn net a token sc u = Inr u' \<and> m u' < m u)" for u
  proof -
    obtain sub where sub: "get net a token u = (Inr sub, tick u)" "sub \<noteq> JNull"
      "jget ''status'' sub = Some (status_json (job u))"
      using assms(2) by blast
    obtain u' where "sleep sc (tick u) = (False, u')" "\<not> aborted sc u"
      using assms(1) by (metis (full_types) prod.collapse)
    then show ?thesis
      using assms(3) [rule_format, of u] sub
      by (auto simp: poll_turn_def pending_iff_not_terminal)
  qed
  from single.loop_ends [of net a token sc m, OF this]
  obtain sub w' where r: "loop (poll_turn net a token sc) w = Some (Inr sub, w')"
    and final: "\<not> pending_kind (statusKind (jget ''status'' sub))"
    by blast
  obtain u where "get net a token u = (Inr sub, w')"
    using loop_last [OF r] by (auto dest: poll_turn_value)
  then have "jget ''status'' sub = Some (status_json (job u))"
    using assms(2) [rule_format, of u] by auto
  then show ?thesis using r final pending_iff_not_terminal unfolding poll_def by metis
qed

text \<open>A service whose job needs \<open>n\<close> more polls, the world being that number.\<close>

definition counting_net :: "nat net" where
  "counting_net n q = (Reply 200 (stringify (JObj
     [(js ''status'', status_json (if n = 0 then Accepted else Processing))])), n - 1)"

definition free_run :: "'w scheduler" where
  "free_run = \<lparr>aborted = \<lambda>_. False, sleep = \<lambda>w. (False, w)\<rparr>"

lemma get_counting:
  "\<exists>sub. get counting_net sample_api (js ''t'') n = (Inr sub, n - 1) \<and> sub \<noteq> JNull \<and>
     jget ''status'' sub = Some (status_json (if n = 0 then Accepted else Processing))"
proof -
  obtain t where t: "encodeURIComponent (js ''t'') = Some t"
    using encode_defined [of "js ''t''"] by (auto simp: encode_def bind_eq_Some_conv split: option.splits)
  let ?v = "JObj [(js ''status'', status_json (if n = 0 then Accepted else Processing))]"
  have "json_ok ?v" by (simp add: status_json_def)
  then have "get counting_net sample_api (js ''t'') n = (Inr ?v, n - 1)"
    unfolding get_def t option.case
    by (intro jsonFetch_json) (simp_all only: counting_net_def, simp_all add: ok_status_def)
  then show ?thesis by (simp add: jget_def)
qed

theorem poll_returns_terminal_witness:
  "\<exists>sub w' (u :: nat). poll counting_net sample_api (js ''t'') free_run 3 = Some (Inr sub, w') \<and>
    jget ''status'' sub = Some (status_json (if u = 0 then Accepted else Processing)) \<and>
    is_terminal (if u = 0 then Accepted else Processing)"
  by (rule poll_returns_terminal [where tick = "\<lambda>n. n - 1" and m = id
        and job = "\<lambda>n. if n = 0 then Accepted else Processing"])
    (use get_counting in \<open>auto simp: free_run_def is_terminal_def\<close>)

text \<open>C17. \<^verbatim>\<open>pollBatch\<close> hands every view it receives to \<^verbatim>\<open>onUpdate\<close>, in order, and resolves with
  the last of them only: its summary counts no queued and no processing case, and every earlier
  view counted some. Aborted before a turn, it rejects with the abort and makes no request.\<close>

theorem pollBatch_result:
  "(pollBatch net a batchId sc w = Some (Inr view, w', seen) \<longrightarrow>
     summary_pending view = Some False \<and>
     (\<exists>vs. seen = vs @ [view] \<and> (\<forall>v \<in> set vs. summary_pending v = Some True))) \<and>
   (aborted sc w \<longrightarrow> pollBatch net a batchId sc w = Some (Inl Aborted, w, []))"
proof (intro conjI impI)
  assume r: "pollBatch net a batchId sc w = Some (Inr view, w', seen)"
  then show "summary_pending view = Some False" unfolding pollBatch_def by (rule batch.loop_final)
  from r obtain n where "turns (batch_turn net a batchId sc) n (w, []) = Inl (Inr view, w', seen)"
    by (auto simp: pollBatch_def loop_iff_turns)
  from batch_turns_seen [OF this]
  show "\<exists>vs. seen = vs @ [view] \<and> (\<forall>v \<in> set vs. summary_pending v = Some True)" by simp
next
  assume "aborted sc w"
  then show "pollBatch net a batchId sc w = Some (Inl Aborted, w, [])"
    by (simp add: pollBatch_def loop_Inl batch_turn_def)
qed

definition done_view :: json where
  "done_view = JObj [(js ''summary'', JObj [(js ''queued'', JNum 0), (js ''processing'', JNum 0)])]"

definition done_net :: "unit net" where
  "done_net w q = (Reply 200 (stringify done_view), w)"

lemma pollBatch_done: "pollBatch done_net sample_api (js ''b'') free_run () = Some (Inr done_view, (), [done_view])"
proof -
  obtain t where t: "encodeURIComponent (js ''b'') = Some t"
    using encode_defined [of "js ''b''"] by (auto simp: encode_def bind_eq_Some_conv split: option.splits)
  have "json_ok done_view" by (simp add: done_view_def)
  then have "getBatch done_net sample_api (js ''b'') () = (Inr done_view, ())"
    unfolding getBatch_def t option.case
    by (intro jsonFetch_json) (simp_all only: done_net_def, simp_all add: ok_status_def)
  moreover have "summary_pending done_view = Some False"
    by (simp add: summary_pending_def done_view_def jget_def addend_def)
  ultimately show ?thesis
    by (simp add: pollBatch_def loop_Inl batch_turn_def free_run_def)
qed

theorem pollBatch_result_witness:
  "pollBatch done_net sample_api (js ''b'') free_run () = Some (Inr done_view, (), [done_view]) \<and>
   summary_pending done_view = Some False"
  using pollBatch_result [of done_net sample_api "js ''b''" free_run "()" done_view "()" "[done_view]"]
    pollBatch_done by simp

text \<open>The probe. It answers from its cache without a request once it has run; a fresh probe
  is cached, reports the base that later requests will use, leaves the key alone, and moves the
  base only to port 8080 of a local host, only from a default base, only when the health check
  there succeeded, and then says so in its hint.\<close>

theorem probe_result:
  assumes "probeCache a = None" "probe net pg a w = (r, a', w')"
  shows "probe net' pg a' v = (r, a', v) \<and> rbase r = base a' \<and> key a' = key a \<and>
    (ok r \<longleftrightarrow> error r = None) \<and>
    (base a' \<noteq> base a \<longrightarrow> ok r \<and> hint r \<noteq> None \<and> baseSource a = Default \<and>
      (\<exists>l. loc pg = Some l \<and> hostname l \<in> {js ''localhost'', js ''127.0.0.1''} \<and>
        base a' = js ''http://'' @ hostname l @ js '':8080''))"
proof -
  note cs = probe_cases [OF assms(2,1)]
  have "probe net' pg a' v = (r, a', v)" using cs(1) by (rule probe_cached)
  moreover have "ok r \<and> hint r \<noteq> None \<and> baseSource a = Default \<and>
      (\<exists>l. loc pg = Some l \<and> hostname l \<in> {js ''localhost'', js ''127.0.0.1''} \<and>
        base a' = js ''http://'' @ hostname l @ js '':8080'')" if "base a' \<noteq> base a"
    using cs(5) [OF that] by (auto simp: fallbackBase_def Let_def split: if_splits option.splits)
  ultimately show ?thesis using cs by blast
qed

text \<open>A server that listens on port 8080 only, for a page served from another local port.\<close>

definition port_8080_net :: "unit net" where
  "port_8080_net w q = (if take 21 (url q) = js ''http://localhost:8080'' then Reply 200 [] else NetError (js ''refused''), w)"

definition dev_api :: api where
  "dev_api = \<lparr>base = js ''http://localhost:5173'', key = None, baseSource = Default, probeCache = None\<rparr>"

lemma probe_falls_back:
  "fst (snd (probe port_8080_net sample_page dev_api ())) = dev_api\<lparr>base := js ''http://localhost:8080'',
     probeCache := Some (fst (probe port_8080_net sample_page dev_api ()))\<rparr>"
  by (simp add: probe_def dev_api_def probe_at_def jsonFetch_def port_8080_net_def languages_def
      GET_def fallbackBase_def sample_page_def sample_location_def ok_status_def Let_def js_append [symmetric])

theorem probe_result_witness:
  "base (fst (snd (probe port_8080_net sample_page dev_api ()))) = js ''http://localhost:8080'' \<and>
   ok (fst (probe port_8080_net sample_page dev_api ()))"
proof -
  obtain r a' w' where p: "probe port_8080_net sample_page dev_api () = (r, a', w')"
    by (metis prod_cases3)
  then have a': "base a' = js ''http://localhost:8080''" using probe_falls_back by simp
  then have "base a' \<noteq> base dev_api" by (simp add: dev_api_def)
  moreover have "probeCache dev_api = None" by (simp add: dev_api_def)
  ultimately have "ok r" using probe_result [OF _ p, of done_net "()"] by blast
  then show ?thesis using p a' by simp
qed

text \<open>C34. The idempotency key: its hash stays an unsigned 32-bit number at every step (the
  product by 33 never loses a bit of the reduced value), and two keys are equal exactly if the
  hashes of the printed parts and the times are.\<close>

theorem idemKey_sound:
  "idemHash (s @ [c]) = unat ((33 * word_of_nat (idemHash s) :: 32 word) XOR ucast c) \<and>
   idemHash s < 2 ^ 32 \<and> idemHash s * 33 < 2 ^ 53 \<and>
   (idemKey p m = idemKey q n \<longleftrightarrow> idemHash (stringify p) = idemHash (stringify q) \<and> m = n)"
proof -
  have "idemHash (s @ [c]) = unat ((33 * word_of_nat (idemHash s) :: 32 word) XOR ucast c)"
    by (simp add: idemHash_def hash_step_def mult.commute)
  moreover have "idemHash s * 33 < 2 ^ 53" using idemHash_bound [of s] by simp
  ultimately show ?thesis using idemHash_bound idemKey_inject by blast
qed

text \<open>C33. A request resolves exactly if the server replied with a status between 200 and 299;
  every other reply is an error carrying that status, and its message is the server's own words: a
  text that is not JSON as it came, the \<^verbatim>\<open>error\<close> field of a JSON object if it is a non-empty
  string, else its \<^verbatim>\<open>message\<close> field.\<close>

theorem jsonFetch_outcome:
  assumes "net w (q\<lparr>url := base a @ path\<rparr>) = (Reply n t, w')"
  shows "(if ok_status n then jsonFetch net a path q w = (Inr (reply_body t), w')
    else \<exists>d. jsonFetch net a path q w = (Inl (HttpError n d (reply_body t)), w') \<and>
      (t \<noteq> [] \<longrightarrow> json_parse t = None \<longrightarrow> d = t) \<and>
      (\<forall>v e. json_ok v \<longrightarrow> t = stringify v \<longrightarrow> e \<noteq> [] \<longrightarrow>
         (jget ''error'' v = Some (JStr e) \<longrightarrow> d = e) \<and>
         (jget ''error'' v = None \<longrightarrow> jget ''message'' v = Some (JStr e) \<longrightarrow> d = e)))"
proof (cases "ok_status n")
  case True
  then show ?thesis using assms by (simp add: jsonFetch_def Let_def)
next
  case False
  have d: "error_detail (reply_body t) = e"
    if "json_ok v" "t = stringify v" "e \<noteq> []" "jget ''error'' v = Some (JStr e) \<or>
      jget ''error'' v = None \<and> jget ''message'' v = Some (JStr e)" for v e
  proof -
    have "json_parse t = Some v" using that jtext.dec_enc by simp
    moreover from this have "t \<noteq> []" by (auto simp: json_parse_def)
    ultimately have "reply_body t = v" by (simp add: reply_body_def)
    then show ?thesis
      using that by (cases v) (auto simp: error_detail_def truthy_field_def jget_def truthy_def)
  qed
  have "error_detail (reply_body t) = t" if "t \<noteq> []" "json_parse t = None"
    using that by (simp add: reply_body_def error_detail_def)
  then show ?thesis
    using False assms d by (auto simp: jsonFetch_def Let_def)
qed

definition refused_net :: "unit net" where
  "refused_net w q = (Reply 422 (stringify (JObj [(js ''error'', JStr (js ''cpu_time''))])), w)"

theorem jsonFetch_outcome_witness:
  "\<exists>b. jsonFetch refused_net sample_api (js ''/v1/submissions'') (GET []) () =
     (Inl (HttpError 422 (js ''cpu_time'') b), ())"
proof -
  let ?v = "JObj [(js ''error'', JStr (js ''cpu_time''))]"
  have "refused_net () ((GET [])\<lparr>url := base sample_api @ js ''/v1/submissions''\<rparr>) = (Reply 422 (stringify ?v), ())"
    by (simp only: refused_net_def)
  from jsonFetch_outcome [where net = refused_net and w = "()" and q = "GET []" and a = sample_api, OF this] obtain d
    where d: "jsonFetch refused_net sample_api (js ''/v1/submissions'') (GET []) () =
      (Inl (HttpError 422 d (reply_body (stringify ?v))), ())"
    "\<forall>v e. json_ok v \<longrightarrow> stringify ?v = stringify v \<longrightarrow> e \<noteq> [] \<longrightarrow>
         (jget ''error'' v = Some (JStr e) \<longrightarrow> d = e)"
    by (auto simp: ok_status_def)
  from d(2) [rule_format, of ?v "js ''cpu_time''"] have "d = js ''cpu_time''" by (simp add: jget_def)
  with d show ?thesis by blast
qed

end
