(* ===== verification/TestStore.thy ===== *)
theory TestStore
  imports Api
begin

text \<open>
  Persistence of the test cases (\<^verbatim>\<open>loadStore\<close>, \<^verbatim>\<open>saveStore\<close>, \<^verbatim>\<open>loadBucket\<close>, \<^verbatim>\<open>saveBucket\<close> of
  \<^verbatim>\<open>playground/TestsPanel.tsx\<close>): one JSON object under one key of the storage, with a bucket per
  source. The store is a \<open>cell\<close> of the storage; the lemmas give what a bucket reads as after a
  save, which buckets an overflow drops and how many there can be.
\<close>

definition TESTS_KEY :: jsstr where
  "TESTS_KEY = js ''zerocode.playground.tests''"

text \<open>Stable-ish hash of the source, in base 36.\<close>

definition sourceHash :: "jsstr \<Rightarrow> jsstr" where
  "sourceHash s = radix 36 (foldl hash_step 5381 s)"

text \<open>
  \<^verbatim>\<open>JSON.parse(item || '{}')\<close>, kept if it is an object. An array is an object too: it has no
  bucket, and a bucket assigned to it is not printed.
\<close>

definition is_object :: "json \<Rightarrow> bool" where
  "is_object v \<longleftrightarrow> (case v of JObj _ \<Rightarrow> True | JArr _ \<Rightarrow> True | _ \<Rightarrow> False)"

definition parse_store :: "jsstr \<Rightarrow> json option" where
  "parse_store t = (case json_parse (if t = [] then js ''{}'' else t) of
     Some v \<Rightarrow> if is_object v then Some v else Some (JObj [])
   | None \<Rightarrow> None)"

definition loadStore :: "storage \<Rightarrow> json" where
  "loadStore st = (case safeRead st TESTS_KEY of
     None \<Rightarrow> JObj [] | Some t \<Rightarrow> opt (JObj []) (parse_store t))"

definition saveStore :: "storage \<Rightarrow> json \<Rightarrow> storage" where
  "saveStore st v = tryWrite st TESTS_KEY (stringify v)"

definition loadBucket :: "storage \<Rightarrow> jsstr \<Rightarrow> json option" where
  "loadBucket st k = (case loadStore st of
     JObj ps \<Rightarrow> (case map_of ps k of Some JNull \<Rightarrow> None | b \<Rightarrow> b)
   | _ \<Rightarrow> None)"

text \<open>The store of \<^verbatim>\<open>saveBucket\<close> before the new bucket is put into it.\<close>

definition make_room :: "jsstr \<Rightarrow> (jsstr \<times> json) list \<Rightarrow> (jsstr \<times> json) list" where
  "make_room k ps =
     (let ks = map fst ps
      in if length ks > 30 \<and> k \<notin> set ks
         then filter (\<lambda>(k', _). k' \<notin> set (take (length ks - 29) ks)) ps else ps)"

definition saveBucket :: "storage \<Rightarrow> jsstr \<Rightarrow> json \<Rightarrow> storage" where
  "saveBucket st k b = (case loadStore st of
     JObj ps \<Rightarrow> saveStore st (JObj (obj_put k b (make_room k ps)))
   | JArr vs \<Rightarrow>
       (let n = length vs - 29
        in saveStore st (JArr (if length vs > 30 then replicate n JNull @ drop n vs else vs)))
   | _ \<Rightarrow> st)"

section \<open>The store is a cell of the storage\<close>

definition store_valid :: "json \<Rightarrow> bool" where
  "store_valid v \<longleftrightarrow> json_ok v \<and> is_object v"

lemma stringify_not_Nil: "json_ok v \<Longrightarrow> stringify v \<noteq> []"
  using jtext.dec_enc [of v] by (auto simp: json_parse_def)

interpretation tests: cell safeRead tryWrite tryRemove fits allowed stringify parse_store store_valid
  TESTS_KEY "JObj []" loadStore saveStore
proof unfold_locales
  fix v assume "store_valid v"
  then show "parse_store (stringify v) = Some v"
    using stringify_not_Nil jtext.dec_enc by (simp add: parse_store_def store_valid_def)
qed (simp_all add: loadStore_def saveStore_def)

lemma is_object_loadStore: "is_object (loadStore st)"
  by (auto simp: loadStore_def parse_store_def is_object_def split: option.splits json.splits)

subsection \<open>Making room\<close>

lemma make_room_take_drop:
  "distinct (map fst ps) \<Longrightarrow> make_room k ps =
     (if length ps > 30 \<and> k \<notin> fst ` set ps then drop (length ps - 29) ps else ps)"
proof -
  assume d: "distinct (map fst ps)"
  define n where "n = length ps - 29"
  have "set (take n (map fst ps)) \<inter> set (map fst (drop n ps)) = {}"
    using d by (metis append_take_drop_id distinct_append drop_map)
  then have "filter (\<lambda>(k', _). k' \<notin> set (take n (map fst ps))) (drop n ps) = drop n ps"
    by (intro filter_True) force
  moreover have "filter (\<lambda>(k', _). k' \<notin> set (take n (map fst ps))) (take n ps) = []"
    by (force simp: filter_empty_conv take_map)
  ultimately have "filter (\<lambda>(k', _). k' \<notin> set (take n (map fst ps))) ps = drop n ps"
    by (metis append_Nil append_take_drop_id filter_append)
  then show ?thesis by (simp add: make_room_def Let_def n_def)
qed

lemma make_room_sub: "set (make_room k ps) \<subseteq> set ps"
  by (auto simp: make_room_def Let_def)

lemma distinct_make_room: "distinct (map fst ps) \<Longrightarrow> distinct (map fst (make_room k ps))"
  by (simp add: make_room_take_drop drop_map [symmetric])

lemma json_ok_obj_put:
  assumes "json_ok (JObj ps)" "json_ok b"
  shows "json_ok (JObj (obj_put k b (make_room k ps)))"
proof -
  have "distinct (map fst (obj_put k b (make_room k ps)))"
    using assms by (simp add: distinct_make_room distinct_obj_put)
  moreover have "json_ok v" if "(k', v) \<in> set (obj_put k b (make_room k ps))" for k' v
    using set_obj_put [OF that] make_room_sub [of k ps] assms by auto
  ultimately show ?thesis by auto
qed

text \<open>The store after a save: the bucket is put in, or the write was rejected and nothing changes.\<close>

lemma loadStore_saveBucket:
  assumes "loadStore st = JObj ps" "json_ok (JObj ps)" "json_ok b"
  shows "loadStore (saveBucket st k b) = (if fits st TESTS_KEY (stringify (JObj (obj_put k b (make_room k ps))))
    then JObj (obj_put k b (make_room k ps)) else JObj ps)"
proof -
  have "store_valid (JObj (obj_put k b (make_room k ps)))"
    using json_ok_obj_put [OF assms(2,3)] by (simp add: store_valid_def is_object_def)
  then show ?thesis
    using assms(1) tests.load_save tests.load_save_rejected by (simp add: saveBucket_def)
qed

section \<open>Properties\<close>

text \<open>Saving the tests of a source. When the write is accepted, the bucket reads back as it
  was saved, the buckets of the other sources that were not dropped read as before (the 29 most
  recent ones are never dropped), and no other entry of the storage is touched.\<close>

theorem bucket_roundtrip:
  assumes "loadStore st = JObj ps" "json_ok (JObj ps)" "json_ok b" "b \<noteq> JNull"
    and "fits st TESTS_KEY (stringify (JObj (obj_put k b (make_room k ps))))"
    and "k' \<in> set (map fst (drop (length ps - 29) ps))" "k' \<noteq> k" "e \<noteq> TESTS_KEY"
  shows "loadBucket (saveBucket st k b) k = Some b \<and>
    loadBucket (saveBucket st k b) k' = loadBucket st k' \<and>
    safeRead (saveBucket st k b) e = safeRead st e"
proof -
  have s: "loadStore (saveBucket st k b) = JObj (obj_put k b (make_room k ps))"
    using loadStore_saveBucket [OF assms(1-3)] assms(5) by simp
  have "loadBucket (saveBucket st k b) k = Some b"
    using assms(4) by (simp add: loadBucket_def s map_of_obj_put split: json.split)
  moreover have "map_of (make_room k ps) k' = map_of ps k'"
  proof -
    have d: "distinct (map fst ps)" using assms(2) by simp
    then have "k' \<notin> set (map fst (take (length ps - 29) ps))"
      using assms(6) by (metis append_take_drop_id disjoint_iff distinct_append map_append)
    then have "map_of (take (length ps - 29) ps) k' = None" by (simp add: map_of_eq_None_iff)
    moreover have "map_of ps = map_of (drop (length ps - 29) ps) ++ map_of (take (length ps - 29) ps)"
      by (metis append_take_drop_id map_of_append)
    ultimately have "map_of (drop (length ps - 29) ps) k' = map_of ps k'" by (simp add: map_add_def)
    then show ?thesis using make_room_take_drop [OF d] by simp
  qed
  then have "loadBucket (saveBucket st k b) k' = loadBucket st k'"
    using assms(1,7) by (simp add: loadBucket_def s map_of_obj_put)
  moreover have "safeRead (saveBucket st k b) e = safeRead st e"
    using assms(1,8) tests.save_other by (simp add: saveBucket_def)
  ultimately show ?thesis by blast
qed

definition one_bucket :: storage where
  "one_bucket = saveBucket sample_storage [97] (JObj [])"

lemma stringify_small:
  "stringify (JObj [([97], JObj [])]) = js ''{'' @ [34, 97, 34] @ js '':{}}''"
  "stringify (JObj [([97], JObj []), ([98], JObj [])]) = js ''{'' @ [34, 97, 34] @ js '':{},'' @ [34, 98, 34] @ js '':{}}''"
  by (simp_all add: stringify_def quote_def quote_cu_def high_sur_def low_sur_def js_eval)

lemma one_bucket_items: "items one_bucket = [(TESTS_KEY, stringify (JObj [([97], JObj [])]))]"
  "allowed one_bucket" "quota one_bucket = 5000"
  by (simp_all add: one_bucket_def saveBucket_def loadStore_def saveStore_def make_room_def storage_ops
      sample_storage_def used_def stringify_small TESTS_KEY_def)

lemma one_bucket_store: "loadStore one_bucket = JObj [([97], JObj [])]"
proof -
  have "loadStore sample_storage = JObj []"
    by (simp add: loadStore_def storage_ops sample_storage_def)
  moreover have "fits sample_storage TESTS_KEY (stringify (JObj (obj_put [97] (JObj []) (make_room [97] []))))"
    by (simp add: make_room_def storage_ops sample_storage_def used_def stringify_small TESTS_KEY_def)
  ultimately show ?thesis
    using loadStore_saveBucket [of sample_storage "[]" "JObj []" "[97]"]
    by (simp add: one_bucket_def make_room_def)
qed

theorem bucket_roundtrip_witness:
  "loadBucket (saveBucket one_bucket [98] (JObj [])) [98] = Some (JObj []) \<and>
   loadBucket (saveBucket one_bucket [98] (JObj [])) [97] = Some (JObj [])"
proof -
  have "fits one_bucket TESTS_KEY (stringify (JObj (obj_put [98] (JObj []) (make_room [98] [([97], JObj [])]))))"
    by (simp add: make_room_def storage_ops one_bucket_items used_def stringify_small TESTS_KEY_def)
  then have "loadBucket (saveBucket one_bucket [98] (JObj [])) [98] = Some (JObj []) \<and>
    loadBucket (saveBucket one_bucket [98] (JObj [])) [97] = loadBucket one_bucket [97]"
    using bucket_roundtrip [OF one_bucket_store, of "JObj []" "[98]" "[97]" "[]"]
    by (simp add: TESTS_KEY_def)
  then show ?thesis by (simp add: loadBucket_def one_bucket_store)
qed

text \<open>The store stays bounded, by 31 sources and not by the 30 of its comment: a save into a
  store of at most 31 sources leaves at most 31, a 31st source is added without dropping any, and
  only the next new one cuts the store back to 30.\<close>

theorem store_bounded:
  assumes "loadStore st = JObj ps" "json_ok (JObj ps)" "json_ok b" "length ps \<le> 31"
    and "fits st TESTS_KEY (stringify (JObj (obj_put k b (make_room k ps))))"
  shows "\<exists>qs. loadStore (saveBucket st k b) = JObj qs \<and> length qs =
    (if k \<in> fst ` set ps then length ps else if length ps \<le> 30 then length ps + 1 else 30)"
proof -
  let ?qs = "obj_put k b (make_room k ps)"
  have "loadStore (saveBucket st k b) = JObj ?qs"
    using loadStore_saveBucket [OF assms(1-3)] assms(5) by simp
  moreover have "length ?qs = length (map fst ?qs)" by simp
  moreover have "k \<notin> fst ` set (drop n ps)" if "k \<notin> fst ` set ps" for n
    using that set_drop_subset by fastforce
  ultimately show ?thesis
    using assms(2,4) unfolding keys_obj_put by (auto simp: make_room_take_drop)
qed

theorem store_bounded_witness:
  "\<exists>qs. loadStore (saveBucket one_bucket [98] (JObj [])) = JObj qs \<and> length qs = 2"
proof -
  have "fits one_bucket TESTS_KEY (stringify (JObj (obj_put [98] (JObj []) (make_room [98] [([97], JObj [])]))))"
    by (simp add: make_room_def storage_ops one_bucket_items used_def stringify_small TESTS_KEY_def)
  then show ?thesis
    using store_bounded [OF one_bucket_store, of "JObj []" "[98]"] by (simp add: numeral_2_eq_2)
qed

end
