(* ===== verification/TestFiles.thy ===== *)
theory TestFiles
  imports Json
begin

text \<open>
  Import and export of test cases (\<^verbatim>\<open>parseCSV\<close>, \<^verbatim>\<open>exportJSON\<close>, \<^verbatim>\<open>exportCSV\<close> and the parsing
  part of \<^verbatim>\<open>onImportFile\<close> in \<^verbatim>\<open>playground/TestsPanel.tsx\<close>). An exported file, in either format,
  imports as the cases it was made from; for CSV this needs a carriage return to stand in a
  quoted field, since the parser drops it elsewhere.
\<close>

section \<open>CSV\<close>

type_synonym io_pair = "jsstr \<times> jsstr"

text \<open>
  The scanner of \<^verbatim>\<open>parseCSV\<close>: the rows so far, the current row, the current field and whether it is
  inside quotes. At the end of the text an open field or row is pushed, even inside quotes.
\<close>

fun csv_rows :: "jsstr \<Rightarrow> jsstr list list \<Rightarrow> jsstr list \<Rightarrow> jsstr \<Rightarrow> bool \<Rightarrow> jsstr list list" where
  "csv_rows [] rows row field q =
     (if field \<noteq> [] \<or> row \<noteq> [] then rows @ [row @ [field]] else rows)"
| "csv_rows (c # cs) rows row field q =
     (if q then
        (if c = DQUOTE \<and> cs \<noteq> [] \<and> hd cs = DQUOTE then csv_rows (tl cs) rows row (field @ [DQUOTE]) True
         else if c = DQUOTE then csv_rows cs rows row field False
         else csv_rows cs rows row (field @ [c]) True)
      else if c = DQUOTE then csv_rows cs rows row field True
      else if c = COMMA then csv_rows cs rows (row @ [field]) [] False
      else if c = CR then csv_rows cs rows row field False
      else if c = LF then csv_rows cs (rows @ [row @ [field]]) [] [] False
      else csv_rows cs rows row (field @ [c]) False)"

text \<open>\<^verbatim>\<open>const [stdin = '', expected = ''] = row\<close>.\<close>

definition row_pair :: "jsstr list \<Rightarrow> io_pair" where
  "row_pair row = (case row of [] \<Rightarrow> ([], []) | [s] \<Rightarrow> (s, []) | s # e # _ \<Rightarrow> (s, e))"

text \<open>\<^verbatim>\<open>/^stdin$/i.test(rows[0][0] || '')\<close>.\<close>

definition is_header :: "jsstr list \<Rightarrow> bool" where
  "is_header row \<longleftrightarrow> row \<noteq> [] \<and> toLowerCase (hd row) = js ''stdin''"

definition parseCSV :: "jsstr \<Rightarrow> io_pair list" where
  "parseCSV src =
     (let rows = csv_rows src [] [] [] False
      in if rows = [] then []
         else filter (\<lambda>(s, e). \<not> (s = [] \<and> e = []))
                (map row_pair (if is_header (hd rows) then tl rows else rows)))"

text \<open>\<^verbatim>\<open>s.replace(/"/g, '""')\<close>.\<close>

definition double_quotes :: "jsstr \<Rightarrow> jsstr" where
  "double_quotes s = concat (map (\<lambda>c. if c = DQUOTE then [DQUOTE, DQUOTE] else [c]) s)"

definition csv_special :: "jsstr \<Rightarrow> bool" where
  "csv_special s \<longleftrightarrow> DQUOTE \<in> set s \<or> COMMA \<in> set s \<or> LF \<in> set s"

definition csv_esc :: "jsstr \<Rightarrow> jsstr" where
  "csv_esc s = (if csv_special s then [DQUOTE] @ double_quotes s @ [DQUOTE] else s)"

definition exportCSV :: "io_pair list \<Rightarrow> jsstr" where
  "exportCSV tests =
     join [LF] (js ''stdin,expected'' # map (\<lambda>(s, e). csv_esc s @ [COMMA] @ csv_esc e) tests) @ [LF]"

section \<open>JSON\<close>

definition exportJSON :: "io_pair list \<Rightarrow> jsstr" where
  "exportJSON tests =
     stringify2 (JArr (map (\<lambda>(s, e). JObj [(js ''stdin'', JStr s), (js ''expected'', JStr e)]) tests))"

text \<open>What makes an import fail: \<^verbatim>\<open>JSON.parse\<close>, or a row that is \<^verbatim>\<open>null\<close>.\<close>

datatype import_error = BadJson | NullRow

definition str_field :: "string \<Rightarrow> json \<Rightarrow> jsstr option" where
  "str_field k r = (case jget k r of Some (JStr s) \<Rightarrow> Some s | _ \<Rightarrow> None)"

definition import_row :: "json \<Rightarrow> io_pair option" where
  "import_row r =
     (if r = JNull then None
      else Some (opt [] (str_field ''stdin'' r),
                 (case str_field ''expected'' r of
                    Some e \<Rightarrow> e
                  | None \<Rightarrow> opt [] (str_field ''expected_output'' r))))"

definition import_rows :: "jsstr \<Rightarrow> import_error + io_pair list" where
  "import_rows tx =
     (let trimmed = trim tx
      in if trimmed \<noteq> [] \<and> (hd trimmed = 91 \<or> hd trimmed = 123)
         then (case json_parse tx of
                 None \<Rightarrow> Inl BadJson
               | Some j \<Rightarrow>
                   (case sequence (map import_row (case j of JArr vs \<Rightarrow> vs | _ \<Rightarrow> [j])) of
                      None \<Rightarrow> Inl NullRow
                    | Some rows \<Rightarrow> Inr rows))
         else Inr (parseCSV tx))"

section \<open>Round trips\<close>

subsection \<open>One field\<close>

definition csv_plain :: "cu \<Rightarrow> bool" where
  "csv_plain c \<longleftrightarrow> c \<noteq> DQUOTE \<and> c \<noteq> COMMA \<and> c \<noteq> LF \<and> c \<noteq> CR"

lemma csv_rows_plain:
  "\<forall>c \<in> set f. csv_plain c \<Longrightarrow>
   csv_rows (f @ r) rows row acc False = csv_rows r rows row (acc @ f) False"
  by (induction f arbitrary: acc) (auto simp: csv_plain_def)

lemma csv_rows_quoted:
  "r = [] \<or> hd r \<noteq> DQUOTE \<Longrightarrow>
   csv_rows (double_quotes f @ DQUOTE # r) rows row acc True = csv_rows r rows row (acc @ f) False"
  by (induction f arbitrary: acc) (auto simp: double_quotes_def)

definition csv_safe :: "jsstr \<Rightarrow> bool" where
  "csv_safe f \<longleftrightarrow> csv_special f \<or> CR \<notin> set f"

lemma csv_rows_field:
  assumes "csv_safe f" "hd r \<noteq> DQUOTE" "r \<noteq> []"
  shows "csv_rows (csv_esc f @ r) rows row [] False = csv_rows r rows row f False"
proof (cases "csv_special f")
  case True
  then show ?thesis using assms csv_rows_quoted [of r f rows row "[]"] by (simp add: csv_esc_def)
next
  case False
  then have "\<forall>c \<in> set f. csv_plain c" using assms by (auto simp: csv_plain_def csv_safe_def csv_special_def)
  then show ?thesis using False csv_rows_plain [of f r rows row "[]"] by (simp add: csv_esc_def)
qed

subsection \<open>A file\<close>

lemma csv_rows_line:
  assumes "csv_safe s" "csv_safe e"
  shows "csv_rows (csv_esc s @ COMMA # csv_esc e @ LF # r) rows [] [] False =
    csv_rows r (rows @ [[s, e]]) [] [] False"
proof -
  have "csv_rows (csv_esc s @ COMMA # csv_esc e @ LF # r) rows [] [] False =
    csv_rows (csv_esc e @ LF # r) rows [s] [] False"
    using csv_rows_field [OF assms(1), of "COMMA # csv_esc e @ LF # r"] by simp
  also have "\<dots> = csv_rows r (rows @ [[s, e]]) [] [] False"
    using csv_rows_field [OF assms(2), of "LF # r"] by simp
  finally show ?thesis .
qed

lemma csv_rows_lines:
  "\<forall>(s, e) \<in> set ts. csv_safe s \<and> csv_safe e \<Longrightarrow>
   csv_rows (concat (map (\<lambda>(s, e). csv_esc s @ COMMA # csv_esc e @ [LF]) ts)) rows [] [] False =
   rows @ map (\<lambda>(s, e). [s, e]) ts"
proof (induction ts arbitrary: rows)
  case (Cons t ts)
  obtain s e where t: "t = (s, e)" by fastforce
  then show ?case
    using Cons csv_rows_line [of s e "concat (map (\<lambda>(s, e). csv_esc s @ COMMA # csv_esc e @ [LF]) ts)" rows]
    by simp
qed simp

lemma join_LF_lines: "ls \<noteq> [] \<Longrightarrow> join [LF] ls @ [LF] = concat (map (\<lambda>l. l @ [LF]) ls)"
  by (induction "[LF]" ls rule: join.induct) auto

lemma exportCSV_lines:
  "exportCSV ts = concat (map (\<lambda>(s, e). csv_esc s @ COMMA # csv_esc e @ [LF]) ((js ''stdin'', js ''expected'') # ts))"
proof -
  have "csv_esc (js ''stdin'') = js ''stdin''" "csv_esc (js ''expected'') = js ''expected''"
    by (simp_all add: csv_esc_def csv_special_def js_eval)
  moreover have "js ''stdin,expected'' = js ''stdin'' @ COMMA # js ''expected''" by (simp add: js_eval)
  moreover have "(\<lambda>l. l @ [LF]) \<circ> (\<lambda>(s, e). csv_esc s @ COMMA # csv_esc e) =
    (\<lambda>(s, e). csv_esc s @ COMMA # csv_esc e @ [LF])" by (auto simp: fun_eq_iff)
  ultimately show ?thesis
    unfolding exportCSV_def by (subst join_LF_lines) simp_all
qed

theorem parseCSV_exportCSV:
  assumes "\<forall>(s, e) \<in> set ts. csv_safe s \<and> csv_safe e"
  shows "parseCSV (exportCSV ts) = filter (\<lambda>(s, e). \<not> (s = [] \<and> e = [])) ts"
proof -
  have "csv_safe (js ''stdin'')" "csv_safe (js ''expected'')"
    by (simp_all add: csv_safe_def js_eval)
  then have "csv_rows (exportCSV ts) [] [] [] False = [js ''stdin'', js ''expected''] # map (\<lambda>(s, e). [s, e]) ts"
    using csv_rows_lines [of "(js ''stdin'', js ''expected'') # ts" "[]"] assms
    unfolding exportCSV_lines by simp
  moreover have "is_header [js ''stdin'', js ''expected'']"
    by (simp add: is_header_def toLowerCase_def js_eval ascii_lower_def)
  moreover have "map (row_pair \<circ> (\<lambda>(s, e). [s, e])) ts = ts"
    by (induction ts) (auto simp: row_pair_def)
  ultimately show ?thesis by (simp add: parseCSV_def Let_def)
qed

lemma trim_hd: "\<not> is_ws c \<Longrightarrow> \<exists>r'. trim (c # r) = c # r'"
  by (auto simp: trim_def dropWhile_append intro: exI [of _ "rev (dropWhile is_ws (rev r))"])

lemma import_row_json:
  "import_row (JObj [(js ''stdin'', JStr s), (js ''expected'', JStr e)]) = Some (s, e)"
  by (simp add: import_row_def str_field_def jget_def)

lemma import_exportJSON:
  assumes "ts \<noteq> []"
  shows "import_rows (exportJSON ts) = Inr ts"
proof -
  let ?row = "\<lambda>(s, e). JObj [(js ''stdin'', JStr s), (js ''expected'', JStr e)]"
  have parse: "json_parse (exportJSON ts) = Some (JArr (map ?row ts))"
    unfolding exportJSON_def by (rule jtext2.dec_enc) auto
  have "\<exists>r. exportJSON ts = 91 # r"
    using assms by (simp add: exportJSON_def stringify2_def js_eval)
  then obtain r where r: "exportJSON ts = 91 # r" by blast
  have "\<not> is_ws 91" by (simp add: is_ws_def)
  then obtain r' where "trim (exportJSON ts) = 91 # r'"
    unfolding r using trim_hd by blast
  moreover have "sequence (map import_row (map ?row ts)) = Some ts"
    by (induction ts) (auto simp: import_row_json)
  ultimately show ?thesis using parse by (simp add: import_rows_def Let_def)
qed

lemma exportCSV_hd: "\<exists>r. exportCSV ts = 115 # r"
  unfolding exportCSV_def by (cases ts) (simp_all add: js_eval)

lemma import_exportCSV:
  assumes "\<forall>(s, e) \<in> set ts. csv_safe s \<and> csv_safe e"
  shows "import_rows (exportCSV ts) = Inr (filter (\<lambda>(s, e). \<not> (s = [] \<and> e = [])) ts)"
proof -
  obtain r where r: "exportCSV ts = 115 # r" using exportCSV_hd by blast
  have "\<not> is_ws 115" by (simp add: is_ws_def)
  then obtain r' where "trim (exportCSV ts) = 115 # r'"
    unfolding r using trim_hd by blast
  then show ?thesis using parseCSV_exportCSV [OF assms] by (simp add: import_rows_def Let_def)
qed

section \<open>Properties\<close>



text \<open>A carriage return in a field that the exporter does not quote is lost: the file
  imports as the case without it.\<close>

theorem csv_loses_bare_cr:
  assumes "\<not> csv_special s" "\<not> csv_special e" "filter (\<lambda>c. c \<noteq> CR) s \<noteq> []"
  shows "import_rows (exportCSV [(s, e)]) =
    Inr [(filter (\<lambda>c. c \<noteq> CR) s, filter (\<lambda>c. c \<noteq> CR) e)]"
proof -
  have field: "csv_rows (f @ r) rows row acc False =
      csv_rows r rows row (acc @ filter (\<lambda>c. c \<noteq> CR) f) False"
    if "\<not> csv_special f" for f r rows row acc
    using that by (induction f arbitrary: acc) (auto simp: csv_special_def)
  have "csv_esc (js ''stdin'') = js ''stdin''" "csv_esc (js ''expected'') = js ''expected''"
    "\<not> csv_special (js ''stdin'')" "\<not> csv_special (js ''expected'')"
    "filter (\<lambda>c. c \<noteq> CR) (js ''stdin'') = js ''stdin''" "filter (\<lambda>c. c \<noteq> CR) (js ''expected'') = js ''expected''"
    by (simp_all add: csv_esc_def csv_special_def js_eval)
  then have "csv_rows (exportCSV [(s, e)]) [] [] [] False =
    [[js ''stdin'', js ''expected''], [filter (\<lambda>c. c \<noteq> CR) s, filter (\<lambda>c. c \<noteq> CR) e]]"
    using assms unfolding exportCSV_lines by (simp add: csv_esc_def field)
  moreover have "is_header [js ''stdin'', js ''expected'']"
    by (simp add: is_header_def toLowerCase_def js_eval ascii_lower_def)
  ultimately have "parseCSV (exportCSV [(s, e)]) = [(filter (\<lambda>c. c \<noteq> CR) s, filter (\<lambda>c. c \<noteq> CR) e)]"
    using assms(3) by (simp add: parseCSV_def row_pair_def)
  moreover have "hd (trim (exportCSV [(s, e)])) \<noteq> 91 \<and> hd (trim (exportCSV [(s, e)])) \<noteq> 123"
  proof -
    obtain r where r: "exportCSV [(s, e)] = 115 # r" using exportCSV_hd by blast
    have "\<not> is_ws 115" by (simp add: is_ws_def)
    then obtain r' where "trim (exportCSV [(s, e)]) = 115 # r'"
      unfolding r using trim_hd by blast
    then show ?thesis by simp
  qed
  ultimately show ?thesis by (simp add: import_rows_def Let_def)
qed

theorem csv_loses_bare_cr_witness:
  "import_rows (exportCSV [([97, 13, 98], [99])]) = Inr [([97, 98], [99])]"
  using csv_loses_bare_cr [of "[97, 13, 98]" "[99]"] by (simp add: csv_special_def)

end
