(* ===== verification/Compare.thy ===== *)
theory Compare
  imports JsPrelude
begin

text \<open>
  Grading of a test case (\<^verbatim>\<open>compare\<close> and \<^verbatim>\<open>lineDiff\<close> of \<^verbatim>\<open>playground/TestsPanel.tsx\<close>). Each
  comparison mode is equality of a normal form, the contract \<open>comparison\<close>; the modes are ordered
  from the strictest to the most lenient. The line diff is a walk through the table of the lengths
  of longest common subsequences; it replays both texts and keeps as many lines as possible.
\<close>

section \<open>Comparison modes\<close>

datatype comparison_mode = Exact | Trim | IgnoreWs | Tokens

text \<open>\<^verbatim>\<open>s.replace(/[ \t]+(\r?\n)/g, '$1')\<close>: a run of blanks goes if a line break follows it.\<close>

definition blank :: "cu \<Rightarrow> bool" where
  "blank c \<longleftrightarrow> c = SPACE \<or> c = TAB"

definition at_break :: "jsstr \<Rightarrow> bool" where
  "at_break s \<longleftrightarrow> (case s of [] \<Rightarrow> False | c # cs \<Rightarrow> c = LF \<or> (c = CR \<and> cs \<noteq> [] \<and> hd cs = LF))"

fun strip_eol :: "jsstr \<Rightarrow> jsstr" where
  "strip_eol [] = []"
| "strip_eol (c # cs) =
     (if blank c \<and> at_break (dropWhile blank cs) then strip_eol (dropWhile blank cs)
      else c # strip_eol cs)"

text \<open>\<^verbatim>\<open>s.replace(/\r?\n$/, '')\<close>.\<close>

definition drop_final_break :: "jsstr \<Rightarrow> jsstr" where
  "drop_final_break s =
     (if s \<noteq> [] \<and> last s = LF
      then (let t = butlast s in if t \<noteq> [] \<and> last t = CR then butlast t else t) else s)"

definition trim_norm :: "jsstr \<Rightarrow> jsstr" where
  "trim_norm s = drop_final_break (strip_eol s)"

definition remove_ws :: "jsstr \<Rightarrow> jsstr" where
  "remove_ws s = filter (\<lambda>c. \<not> is_ws c) s"

definition tokens :: "jsstr \<Rightarrow> jsstr list" where
  "tokens s = split_ws (trim s)"

definition compare :: "jsstr \<Rightarrow> jsstr \<Rightarrow> comparison_mode \<Rightarrow> bool" where
  "compare actual expected mode =
     (if expected = [] then True
      else case mode of
        Exact \<Rightarrow> actual = expected
      | Trim \<Rightarrow> trim_norm actual = trim_norm expected
      | IgnoreWs \<Rightarrow> remove_ws actual = remove_ws expected
      | Tokens \<Rightarrow>
          (let a = tokens actual; b = tokens expected
           in length a = length b \<and> (\<forall>i < length a. a ! i = b ! i)))"

definition MODE_LABEL :: "comparison_mode \<Rightarrow> string" where
  "MODE_LABEL m = (case m of Exact \<Rightarrow> ''exact match'' | Trim \<Rightarrow> ''trim trailing space''
     | IgnoreWs \<Rightarrow> ''ignore all whitespace'' | Tokens \<Rightarrow> ''token-by-token'')"

definition MODE_HINT :: "comparison_mode \<Rightarrow> string" where
  "MODE_HINT m = (case m of Exact \<Rightarrow> ''byte-for-byte equal''
     | Trim \<Rightarrow> ''strip trailing spaces + final newline''
     | IgnoreWs \<Rightarrow> ''remove every space/tab/newline before compare''
     | Tokens \<Rightarrow> ''split on whitespace, compare each token'')"

subsection \<open>Words\<close>

definition words :: "jsstr \<Rightarrow> jsstr list" where
  "words s = filter (\<lambda>w. w \<noteq> []) (split_ws s)"

lemma words_drop_ws: "words (dropWhile is_ws s) = words s"
  by (cases s) (auto simp: words_def)

lemma words_ws [simp]: "is_ws c \<Longrightarrow> words (c # s) = words s"
  using words_drop_ws [of "c # s"] words_drop_ws [of s] by simp

lemma words_Nil [simp]: "words [] = []"
  by (simp add: words_def)

lemma split_ws_hd: "hd (split_ws s) = [] \<longleftrightarrow> s = [] \<or> is_ws (hd s)"
  by (induction s rule: split_ws.induct) (auto simp: cons_hd_def split: list.splits)

lemma words_cons:
  "\<not> is_ws c \<Longrightarrow> words (c # s) =
     (if s = [] \<or> is_ws (hd s) then [c] # words s else cons_hd c (words s))"
  using split_ws_hd [of s] by (cases "split_ws s") (auto simp: words_def)

lemma words_append_ws: "\<forall>c \<in> set r. is_ws c \<Longrightarrow> words (s @ r) = words s"
proof (induction s)
  case Nil
  then show ?case by (induction r) auto
next
  case (Cons c s)
  then show ?case by (cases s; cases r; cases "is_ws c") (auto simp: words_cons)
qed

lemma words_trim: "words (trim s) = words s"
proof -
  define t where "t = dropWhile is_ws s"
  have "t = rev (dropWhile is_ws (rev t)) @ rev (takeWhile is_ws (rev t))"
    by (metis rev_append rev_rev_ident takeWhile_dropWhile_id)
  moreover have "\<forall>c \<in> set (rev (takeWhile is_ws (rev t))). is_ws c"
    using set_takeWhileD by fastforce
  ultimately have "words t = words (rev (dropWhile is_ws (rev t)))"
    by (metis words_append_ws)
  then show ?thesis by (simp add: trim_def t_def words_drop_ws)
qed

lemma split_ws_full:
  "s \<noteq> [] \<Longrightarrow> \<not> is_ws (last s) \<Longrightarrow> [] \<notin> set (tl (split_ws s))"
proof (induction s rule: split_ws.induct)
  case (2 c cs)
  show ?case
  proof (cases "is_ws c")
    case True
    then have "cs \<noteq> []" "\<not> is_ws (last cs)" using True 2(4) by (auto split: if_splits)
    then have r: "dropWhile is_ws cs \<noteq> []" by (metis dropWhile_eq_Nil_conv last_in_set)
    then have "\<not> is_ws (last (dropWhile is_ws cs))" "\<not> is_ws (hd (dropWhile is_ws cs))"
      using \<open>\<not> is_ws (last cs)\<close> by (metis dropWhile_eq_Nil_conv last_appendR takeWhile_dropWhile_id, metis hd_dropWhile)
    then have "[] \<notin> set (tl (split_ws (dropWhile is_ws cs)))" "hd (split_ws (dropWhile is_ws cs)) \<noteq> []"
      using 2(1) [OF True r] r split_ws_hd by auto
    then show ?thesis using True by (metis list.sel(3) list.set_cases list.sel(1) split_ws.simps(2))
  next
    case False
    then show ?thesis using 2 by (cases cs; cases "split_ws cs") auto
  qed
qed simp

lemma tokens_words: "tokens s = (if words s = [] then [[]] else words s)"
proof (cases "trim s = []")
  case True
  then show ?thesis using words_trim [of s] by (simp add: tokens_def)
next
  case False
  define t where "t = dropWhile is_ws s"
  have t: "trim s = rev (dropWhile is_ws (rev t))" by (simp add: trim_def t_def)
  have last: "\<not> is_ws (last (trim s))"
    using False unfolding t by (simp add: last_rev hd_dropWhile)
  have "t \<noteq> []" using False t by auto
  then have "\<not> is_ws (hd t)" unfolding t_def by (simp add: hd_dropWhile)
  moreover have "prefix (trim s) t"
    unfolding t by (metis prefixI rev_append rev_rev_ident takeWhile_dropWhile_id)
  then have "hd (trim s) = hd t" using False by (metis hd_append2 prefixE)
  ultimately have "hd (split_ws (trim s)) \<noteq> []" using split_ws_hd [of "trim s"] False by simp
  then have "[] \<notin> set (split_ws (trim s))"
    using split_ws_full [OF False last] by (cases "split_ws (trim s)") auto
  then have "words (trim s) = split_ws (trim s)" unfolding words_def
    by (intro filter_True) auto
  then show ?thesis using words_trim [of s] by (auto simp: tokens_def)
qed

lemma concat_split_ws: "concat (split_ws s) = remove_ws s"
proof (induction s rule: split_ws.induct)
  case (2 c cs)
  have "remove_ws (dropWhile is_ws cs) = remove_ws cs" by (induction cs) (auto simp: remove_ws_def)
  then show ?case using 2 by (cases "split_ws cs") (auto simp: remove_ws_def)
qed (simp add: remove_ws_def)

lemma remove_ws_words: "remove_ws s = concat (words s)"
proof -
  have "concat (filter (\<lambda>w. w \<noteq> []) ls) = concat ls" for ls :: "jsstr list" by (induction ls) auto
  then show ?thesis by (simp add: words_def concat_split_ws)
qed

lemma ws_of_blank: "blank c \<Longrightarrow> is_ws c"
  by (auto simp: blank_def is_ws_def)

lemma ws_of_break: "at_break s \<Longrightarrow> s \<noteq> [] \<and> is_ws (hd s)"
  by (auto simp: at_break_def is_ws_def split: list.splits)

lemma strip_eol_hd: "(strip_eol s = [] \<longleftrightarrow> s = []) \<and> (s \<noteq> [] \<longrightarrow> is_ws (hd (strip_eol s)) = is_ws (hd s))"
proof (induction s rule: strip_eol.induct)
  case (2 c cs)
  then show ?case
    using ws_of_blank [of c] ws_of_break [of "dropWhile blank cs"]
    by (cases "blank c \<and> at_break (dropWhile blank cs)") auto
qed simp

lemma words_strip_eol: "words (strip_eol s) = words s"
proof (induction s rule: strip_eol.induct)
  case (2 c cs)
  show ?case
  proof (cases "blank c \<and> at_break (dropWhile blank cs)")
    case True
    have "words (dropWhile blank cs) = words cs"
      by (induction cs) (auto simp: ws_of_blank)
    then show ?thesis using True 2 by (simp add: ws_of_blank)
  next
    case False
    then show ?thesis
      using 2 strip_eol_hd [of cs] by (cases "is_ws c") (auto simp: words_cons)
  qed
qed simp

lemma words_drop_final_break: "words (drop_final_break s) = words s"
proof -
  have a: "words (butlast t) = words t" if "t \<noteq> []" "is_ws (last t)" for t
    using words_append_ws [of "[last t]" "butlast t"] that by simp
  have "is_ws LF" "is_ws CR" by (simp_all add: is_ws_def)
  then show ?thesis
    using a [of s] a [of "butlast s"] by (simp add: drop_final_break_def Let_def)
qed

lemma words_trim_norm: "words (trim_norm s) = words s"
  by (simp add: trim_norm_def words_drop_final_break words_strip_eol)

lemma trim_norm_plain:
  assumes "LF \<notin> set s"
  shows "trim_norm s = s"
proof -
  have "\<not> at_break t" if "LF \<notin> set t" for t
    using that by (cases t; cases "tl t") (auto simp: at_break_def)
  moreover have "LF \<notin> set (dropWhile blank t)" if "LF \<notin> set t" for t
    using that set_dropWhileD by fastforce
  ultimately have "strip_eol s = s" using assms by (induction s) auto
  moreover have "s = [] \<or> last s \<noteq> LF" using assms last_in_set [of s] by metis
  ultimately show ?thesis by (auto simp: trim_norm_def drop_final_break_def)
qed

subsection \<open>The contract of a comparison\<close>

locale comparison =
  fixes agree :: "'a \<Rightarrow> 'a \<Rightarrow> bool" and norm :: "'a \<Rightarrow> 'n"
  assumes agree_iff: "agree x y \<longleftrightarrow> norm x = norm y"
begin

lemma agree_refl: "agree x x"
  by (simp add: agree_iff)

lemma agree_sym: "agree x y \<longleftrightarrow> agree y x"
  by (auto simp: agree_iff)

lemma agree_trans: "agree x y \<Longrightarrow> agree y z \<Longrightarrow> agree x z"
  by (simp add: agree_iff)

end

text \<open>A comparison that only looks at what a stricter one looks at.\<close>

locale coarser = comparison agree norm for agree :: "'a \<Rightarrow> 'a \<Rightarrow> bool" and norm :: "'a \<Rightarrow> 'n" +
  fixes norm' :: "'n \<Rightarrow> 'm" and agree' :: "'a \<Rightarrow> 'a \<Rightarrow> bool"
  assumes agree'_iff: "agree' x y \<longleftrightarrow> norm' (norm x) = norm' (norm y)"
begin

lemma agree_imp: "agree x y \<Longrightarrow> agree' x y"
  by (simp add: agree_iff agree'_iff)

end

sublocale coarser \<subseteq> coarse: comparison agree' "\<lambda>x. norm' (norm x)"
  by unfold_locales (rule agree'_iff)

text \<open>\<^verbatim>\<open>compare\<close> without its first line, for each mode.\<close>

definition matches :: "comparison_mode \<Rightarrow> jsstr \<Rightarrow> jsstr \<Rightarrow> bool" where
  "matches m x y \<longleftrightarrow> compare x y m \<and> y \<noteq> [] \<or> y = [] \<and> (case m of
     Exact \<Rightarrow> x = [] | Trim \<Rightarrow> trim_norm x = [] | IgnoreWs \<Rightarrow> remove_ws x = [] | Tokens \<Rightarrow> words x = [])"

lemma tokens_eq_iff: "tokens x = tokens y \<longleftrightarrow> words x = words y"
proof -
  have "words z \<noteq> [[]]" for z by (metis (mono_tags) filter_eq_ConsD words_def)
  then have "words x \<noteq> [[]]" "words y \<noteq> [[]]" by blast+
  then show ?thesis by (auto simp: tokens_words)
qed

lemma matches_iff:
  "matches Exact x y \<longleftrightarrow> x = y"
  "matches Trim x y \<longleftrightarrow> trim_norm x = trim_norm y"
  "matches Tokens x y \<longleftrightarrow> words x = words y"
  "matches IgnoreWs x y \<longleftrightarrow> remove_ws x = remove_ws y"
  by (auto simp: matches_def compare_def Let_def list_eq_iff_nth_eq [symmetric] tokens_eq_iff
      trim_norm_def drop_final_break_def remove_ws_def)

interpretation exact: coarser "matches Exact" id trim_norm "matches Trim"
  by unfold_locales (simp_all add: matches_iff)

interpretation trimmed: coarser "matches Trim" trim_norm words "matches Tokens"
  by unfold_locales (simp_all add: matches_iff words_trim_norm)

interpretation tokenwise: coarser "matches Tokens" words concat "matches IgnoreWs"
  by unfold_locales (simp_all add: matches_iff remove_ws_words)

lemma compare_matches: "compare x y m \<longleftrightarrow> y = [] \<or> matches m x y"
  by (auto simp: matches_def compare_def split: comparison_mode.split)

section \<open>The line diff\<close>

datatype diff_kind = Same | Add | Del

type_synonym diff_line = "diff_kind \<times> jsstr"

text \<open>
  The table \<^verbatim>\<open>dp\<close>, from its last row up and each row from its end: \<open>dp_row x b nx\<close> is the row of
  a line \<open>x\<close> above the row \<open>nx\<close>.
\<close>

fun dp_row :: "'a \<Rightarrow> 'a list \<Rightarrow> nat list \<Rightarrow> nat list" where
  "dp_row x [] nx = [0]"
| "dp_row x (y # ys) nx =
     (let r = dp_row x ys (tl nx)
      in (if x = y then hd (tl nx) + 1 else max (hd nx) (hd r)) # r)"

fun lcs_table :: "'a list \<Rightarrow> 'a list \<Rightarrow> nat list list" where
  "lcs_table [] b = [replicate (length b + 1) 0]"
| "lcs_table (x # a) b = (let t = lcs_table a b in dp_row x b (hd t) # t)"

function walk :: "jsstr list \<Rightarrow> jsstr list \<Rightarrow> nat list list \<Rightarrow> nat \<Rightarrow> nat \<Rightarrow> diff_line list" where
  "walk a b dp i j =
     (if i < length a \<and> j < length b then
        (if a ! i = b ! j then (Same, a ! i) # walk a b dp (i + 1) (j + 1)
         else if dp ! (i + 1) ! j \<ge> dp ! i ! (j + 1) then (Del, a ! i) # walk a b dp (i + 1) j
         else (Add, b ! j) # walk a b dp i (j + 1))
      else map (Pair Del) (drop i a) @ map (Pair Add) (drop j b))"
  by pat_completeness auto
termination
  by (relation "measure (\<lambda>(a, b, dp, i, j). (length a - i) + (length b - j))") auto

declare walk.simps [simp del]

definition lineDiff :: "jsstr \<Rightarrow> jsstr \<Rightarrow> diff_line list" where
  "lineDiff a b = (let aL = split_crlf a; bL = split_crlf b in walk aL bL (lcs_table aL bL) 0 0)"

subsection \<open>The table holds the lengths of longest common subsequences\<close>

fun lcs :: "'a list \<Rightarrow> 'a list \<Rightarrow> nat" where
  "lcs [] ys = 0"
| "lcs xs [] = 0"
| "lcs (x # xs) (y # ys) =
     (if x = y then lcs xs ys + 1 else max (lcs xs (y # ys)) (lcs (x # xs) ys))"

lemma lcs_Nil [simp]: "lcs xs [] = 0"
  by (cases xs) auto

lemma lcs_upper: "subseq zs xs \<Longrightarrow> subseq zs ys \<Longrightarrow> length zs \<le> lcs xs ys"
proof (induction xs ys arbitrary: zs rule: lcs.induct)
  case (3 x xs y ys)
  show ?case
  proof (cases zs)
    case (Cons z zs')
    show ?thesis
    proof (cases "x = y")
      case True
      then have "subseq zs' xs" "subseq zs' ys"
        using 3(4,5) Cons by (auto simp: subseq_Cons2_iff dest: subseq_Cons' split: if_splits)
      then show ?thesis using 3(1) True Cons by simp
    next
      case False
      then have "subseq zs xs \<or> subseq zs ys"
        using 3(4,5) Cons by (auto simp: subseq_Cons2_iff split: if_splits)
      then show ?thesis using 3(2,3) [OF False] 3(4,5) False by (auto simp: le_max_iff_disj)
    qed
  qed simp
qed auto

lemma lcs_table_not_Nil [simp]: "lcs_table a b \<noteq> []"
  by (cases a) (auto simp: Let_def)

lemma dp_row_length [simp]: "length (dp_row x b nx) = length b + 1"
  by (induction x b nx rule: dp_row.induct) (auto simp: Let_def)

lemma dp_row_lcs:
  "(\<forall>j \<le> length b. nx ! j = lcs a (drop j b)) \<Longrightarrow> length nx = length b + 1 \<Longrightarrow>
   j \<le> length b \<Longrightarrow> dp_row x b nx ! j = lcs (x # a) (drop j b)"
proof (induction x b nx arbitrary: j rule: dp_row.induct)
  case (2 x y ys nx)
  obtain n ms where nx: "nx = n # ms" using 2(3) by (cases nx) auto
  have ms: "\<forall>j \<le> length ys. ms ! j = lcs a (drop j ys)"
  proof (intro allI impI)
    fix j assume "j \<le> length ys"
    then show "ms ! j = lcs a (drop j ys)" using 2(2) [rule_format, of "Suc j"] nx by simp
  qed
  note row = 2(1) [unfolded nx list.sel, OF ms]
  have "ms \<noteq> []" using 2(3) nx by auto
  moreover have "dp_row x ys ms \<noteq> []" by (metis add_is_0 dp_row_length length_0_conv zero_neq_one)
  ultimately have "hd ms = lcs a ys" "hd (dp_row x ys ms) = lcs (x # a) ys" "n = lcs a (y # ys)"
    using ms row [of 0] 2(2) [rule_format, of 0] 2(3) nx
    by (auto simp: hd_conv_nth)
  then show ?case using row 2(3,4) nx by (cases j) (auto simp: Let_def)
qed simp

lemma lcs_table_lcs:
  "i \<le> length a \<Longrightarrow> j \<le> length b \<Longrightarrow> lcs_table a b ! i ! j = lcs (drop i a) (drop j b)"
  "length (hd (lcs_table a b)) = length b + 1"
proof -
  show "length (hd (lcs_table a b)) = length b + 1" by (cases a) (auto simp: Let_def)
  have "\<forall>i \<le> length a. \<forall>j \<le> length b. lcs_table a b ! i ! j = lcs (drop i a) (drop j b)"
  proof (induction a)
    case (Cons x a)
    have l: "length (hd (lcs_table a b)) = length b + 1" by (cases a) (auto simp: Let_def)
    have "\<forall>j \<le> length b. hd (lcs_table a b) ! j = lcs a (drop j b)"
      using Cons [rule_format, of 0] by (simp add: hd_conv_nth)
    note row = dp_row_lcs [OF this l]
    show ?case
    proof (intro allI impI)
      fix i j assume "i \<le> length (x # a)" "j \<le> length b"
      then show "lcs_table (x # a) b ! i ! j = lcs (drop i (x # a)) (drop j b)"
        using Cons row by (cases i) (auto simp: Let_def)
    qed
  qed (simp add: nth_replicate del: replicate.simps)
  then show "i \<le> length a \<Longrightarrow> j \<le> length b \<Longrightarrow> lcs_table a b ! i ! j = lcs (drop i a) (drop j b)"
    by blast
qed

subsection \<open>The walk\<close>

definition side :: "diff_kind \<Rightarrow> diff_line list \<Rightarrow> jsstr list" where
  "side k ds = map snd (filter (\<lambda>(k', _). k' = k \<or> k' = Same) ds)"

lemma side_simps [simp]:
  "side k [] = []" "side k (d # ds) = (if fst d = k \<or> fst d = Same then [snd d] else []) @ side k ds"
  "side k (ds @ es) = side k ds @ side k es"
  by (auto simp: side_def split: prod.splits)

lemma side_map_Pair: "k' \<noteq> Same \<Longrightarrow> side k (map (Pair k') xs) = (if k' = k then xs else [])"
  by (induction xs) auto

lemma walk_replays:
  "i \<le> length a \<Longrightarrow> j \<le> length b \<Longrightarrow>
   side Del (walk a b dp i j) = drop i a \<and> side Add (walk a b dp i j) = drop j b"
proof (induction a b dp i j rule: walk.induct)
  case (1 a b dp i j)
  show ?case
  proof (cases "i < length a \<and> j < length b")
    case True
    then have "drop i a = a ! i # drop (Suc i) a" "drop j b = b ! j # drop (Suc j) b"
      by (simp_all add: Cons_nth_drop_Suc)
    then show ?thesis
      using 1 True by (subst (1 2) walk.simps) auto
  next
    case False
    then have "walk a b dp i j = map (Pair Del) (drop i a) @ map (Pair Add) (drop j b)"
      by (subst walk.simps) auto
    then show ?thesis by (simp add: side_map_Pair)
  qed
qed

lemma walk_same:
  assumes "\<And>i j. i \<le> length a \<Longrightarrow> j \<le> length b \<Longrightarrow> dp ! i ! j = lcs (drop i a) (drop j b)"
  shows "i \<le> length a \<Longrightarrow> j \<le> length b \<Longrightarrow>
    length (side Same (walk a b dp i j)) = lcs (drop i a) (drop j b)"
  using assms
proof (induction a b dp i j rule: walk.induct)
  case (1 a b dp i j)
  show ?case
  proof (cases "i < length a \<and> j < length b")
    case True
    have d: "drop i a = a ! i # drop (Suc i) a" "drop j b = b ! j # drop (Suc j) b"
      using True by (simp_all add: Cons_nth_drop_Suc)
    show ?thesis
      using True 1(1-3) [OF True] 1(6) [of "Suc i" j] 1(6) [of i "Suc j"] 1(6)
      by (subst walk.simps) (simp add: d max_def)
  next
    case False
    then have "drop i a = [] \<or> drop j b = []" by auto
    then show ?thesis using False by (subst walk.simps) (auto simp: side_map_Pair)
  qed
qed

section \<open>Properties\<close>

text \<open>C23. The comparison modes are ordered: an output that passes exactly passes with trailing
  blanks trimmed, then token by token, then with all white space removed. Token by token means the
  same sequence of words, and an empty expectation accepts everything.\<close>

theorem comparison_modes_ordered:
  "(compare a e Exact \<longrightarrow> compare a e Trim) \<and> (compare a e Trim \<longrightarrow> compare a e Tokens) \<and>
   (compare a e Tokens \<longrightarrow> compare a e IgnoreWs) \<and>
   (compare a e Tokens \<longleftrightarrow> e = [] \<or> words a = words e) \<and>
   (compare a e IgnoreWs \<longleftrightarrow> e = [] \<or> concat (words a) = concat (words e))"
proof -
  have "compare a e Exact \<longrightarrow> compare a e Trim"
    unfolding compare_matches using exact.agree_imp by blast
  moreover have "compare a e Trim \<longrightarrow> compare a e Tokens"
    unfolding compare_matches using trimmed.agree_imp by blast
  moreover have "compare a e Tokens \<longrightarrow> compare a e IgnoreWs"
    unfolding compare_matches using tokenwise.agree_imp by blast
  ultimately show ?thesis by (simp add: compare_matches matches_iff remove_ws_words)
qed

theorem comparison_modes_ordered_witness:
  "compare (js ''a b'') (js ''a b'') Exact \<and> compare (js ''a b'') (js ''a b'') IgnoreWs"
  using comparison_modes_ordered [of "js ''a b''" "js ''a b''"] by (simp add: compare_def)

text \<open>Trailing blanks are trimmed only before a line break: on texts without one, the mode
  that is said to strip trailing spaces is the exact comparison, so an output with a space after
  its last, unterminated line fails.\<close>

theorem trim_keeps_last_line:
  assumes "LF \<notin> set a" "LF \<notin> set e" "e \<noteq> []"
  shows "compare a e Trim \<longleftrightarrow> a = e"
  using assms trim_norm_plain by (simp add: compare_def)

theorem trim_keeps_last_line_witness:
  "\<not> compare (js ''42 '') (js ''42'') Trim \<and> compare (js ''42 '') (js ''42'') Tokens"
proof -
  have "\<not> compare (js ''42 '') (js ''42'') Trim"
    using trim_keeps_last_line [of "js ''42 ''" "js ''42''"] by (simp add: js_eval)
  moreover have "compare (js ''42 '') (js ''42'') Tokens"
    by (simp add: compare_matches matches_iff words_def js_eval is_ws_def)
  ultimately show ?thesis by blast
qed

text \<open>C22. The line diff is correct and minimal: its kept and deleted lines are the lines of the
  first text in order, its kept and added lines those of the second, and no common subsequence of
  the two is longer than the sequence of the lines it keeps.\<close>

theorem lineDiff_minimal:
  assumes "subseq zs (split_crlf a)" "subseq zs (split_crlf b)"
  shows "side Del (lineDiff a b) = split_crlf a \<and> side Add (lineDiff a b) = split_crlf b \<and>
    length zs \<le> length (filter (\<lambda>(k, _). k = Same) (lineDiff a b))"
proof -
  let ?a = "split_crlf a" and ?b = "split_crlf b"
  have "length (side Same (lineDiff a b)) = lcs ?a ?b"
    using walk_same [of ?a ?b "lcs_table ?a ?b" 0 0] lcs_table_lcs(1) [of _ ?a _ ?b]
    by (simp add: lineDiff_def Let_def)
  moreover have "side Same ds = map snd (filter (\<lambda>(k, _). k = Same) ds)" for ds
    by (simp add: side_def)
  ultimately have "length (filter (\<lambda>(k, _). k = Same) (lineDiff a b)) = lcs ?a ?b" by simp
  then show ?thesis
    using lcs_upper [OF assms] walk_replays [of 0 ?a 0 ?b "lcs_table ?a ?b"]
    by (simp add: lineDiff_def Let_def)
qed

theorem lineDiff_minimal_witness:
  "length (filter (\<lambda>(k, _). k = Same) (lineDiff [97, 10, 98] [97, 10, 99])) \<ge> 1"
  using lineDiff_minimal [of "[[97]]" "[97, 10, 98]" "[97, 10, 99]"] by simp

end
