(* ===== verification/Machine.thy ===== *)
theory Machine
  imports JsPrelude
begin

text \<open>
  Transition systems. A component whose behaviour depends on the order of events is a set of
  initial states and a step relation; \<open>reach\<close> is the set of states its runs can come to. The
  locale \<open>machine\<close> is the contract of an invariant: it holds initially and every step keeps it.
  The locale \<open>simulation\<close> is the contract of a refinement: every step of the concrete machine is
  matched by the abstract one, or leaves the abstract state alone.
\<close>

inductive reach :: "('s \<Rightarrow> bool) \<Rightarrow> ('s \<Rightarrow> 's \<Rightarrow> bool) \<Rightarrow> 's \<Rightarrow> bool"
  for start :: "'s \<Rightarrow> bool" and step :: "'s \<Rightarrow> 's \<Rightarrow> bool" where
  reach_start: "start s \<Longrightarrow> reach start step s"
| reach_step: "reach start step s \<Longrightarrow> step s s' \<Longrightarrow> reach start step s'"

lemma reach_steps: "step\<^sup>*\<^sup>* s s' \<Longrightarrow> reach start step s \<Longrightarrow> reach start step s'"
  by (induction rule: rtranclp_induct) (auto intro: reach_step)

locale machine =
  fixes start :: "'s \<Rightarrow> bool" and step :: "'s \<Rightarrow> 's \<Rightarrow> bool" and inv :: "'s \<Rightarrow> bool"
  assumes start_inv: "start s \<Longrightarrow> inv s"
    and step_inv: "inv s \<Longrightarrow> step s s' \<Longrightarrow> inv s'"
begin

lemma reach_inv: "reach start step s \<Longrightarrow> inv s"
  by (induction rule: reach.induct) (auto intro: start_inv step_inv)

lemma steps_inv: "step\<^sup>*\<^sup>* s s' \<Longrightarrow> inv s \<Longrightarrow> inv s'"
  by (induction rule: rtranclp_induct) (auto intro: step_inv)

end

locale simulation =
  fixes start :: "'s \<Rightarrow> bool" and step :: "'s \<Rightarrow> 's \<Rightarrow> bool" and inv :: "'s \<Rightarrow> bool"
    and abs :: "'s \<Rightarrow> 'a" and astart :: "'a \<Rightarrow> bool" and astep :: "'a \<Rightarrow> 'a \<Rightarrow> bool"
  assumes sim_start: "start s \<Longrightarrow> inv s \<and> astart (abs s)"
    and sim_step: "inv s \<Longrightarrow> step s s' \<Longrightarrow> inv s' \<and> (astep (abs s) (abs s') \<or> abs s' = abs s)"

sublocale simulation \<subseteq> machine start step inv
  by unfold_locales (use sim_start sim_step in blast)+

context simulation
begin

lemma reach_abs: "reach start step s \<Longrightarrow> reach astart astep (abs s)"
proof (induction rule: reach.induct)
  case (reach_start s)
  then show ?case using sim_start by (auto intro: reach.reach_start)
next
  case (reach_step s s')
  then show ?case using sim_step [OF reach_inv] by (metis reach.reach_step)
qed

end

end
