(* ===== verification/TestsPanel.thy ===== *)
theory TestsPanel
  imports TestStore TestFiles Compare Machine
begin

text \<open>
  The test-case panel (\<^verbatim>\<open>playground/TestsPanel.tsx\<close>): the state of the component, the operations
  its controls call, the asynchronous run of a batch cut at its awaits, and the two effects that
  load and save the cases of a source. A step of the panel is one of these; the invariants are
  proved over every sequence of steps. \<^verbatim>\<open>Math.random\<close> is an argument: an operation that makes a
  case is given its identifier.
\<close>

section \<open>State\<close>

datatype passed = Pass | Fail | Unchecked

record test_case =
  tc_id :: jsstr
  tc_stdin :: jsstr
  tc_expected :: jsstr
  tc_status :: "jsstr option"
  tc_statusDetail :: "jsstr option"
  tc_stdout :: "jsstr option"
  tc_stderr :: "jsstr option"
  tc_compileOutput :: "jsstr option"
  tc_time :: "number option"
  tc_memory :: "number option"
  tc_exitCode :: "number option"
  tc_token :: "jsstr option"
  tc_passed :: "passed option"

text \<open>\<open>r\<close> is \<^verbatim>\<open>Math.random().toString(36)\<close>.\<close>

definition newId :: "jsstr \<Rightarrow> jsstr" where
  "newId r = js ''tc_'' @ slice 2 10 r"

definition plainCase :: "jsstr \<Rightarrow> jsstr \<Rightarrow> jsstr \<Rightarrow> test_case" where
  "plainCase i s e = \<lparr>tc_id = i, tc_stdin = s, tc_expected = e, tc_status = None,
     tc_statusDetail = None, tc_stdout = None, tc_stderr = None, tc_compileOutput = None,
     tc_time = None, tc_memory = None, tc_exitCode = None, tc_token = None, tc_passed = None\<rparr>"

definition emptyCase :: "jsstr \<Rightarrow> test_case" where
  "emptyCase i = plainCase i [] []"

text \<open>\<^verbatim>\<open>{ id: t.id, stdin: t.stdin, expected: t.expected }\<close>.\<close>

definition stripCase :: "test_case \<Rightarrow> test_case" where
  "stripCase t = plainCase (tc_id t) (tc_stdin t) (tc_expected t)"

definition isReal :: "test_case \<Rightarrow> bool" where
  "isReal t \<longleftrightarrow> tc_stdin t \<noteq> [] \<or> tc_expected t \<noteq> []"

text \<open>
  Where the asynchronous \<^verbatim>\<open>runAll\<close> is: not running, waiting for the acknowledgement of the batch,
  inside \<^verbatim>\<open>pollBatch\<close> (the last flag tells whether it waits for its timer or for a view), or waiting
  for the final \<^verbatim>\<open>getBatch\<close>; with the values its closures hold: the tokens, the mode of
  \<^verbatim>\<open>applyView\<close> and \<^verbatim>\<open>stopOnFail\<close> of the render it was started in.
\<close>

datatype run =
    NoRun
  | Submitting jsstr bool
  | Polling "jsstr list" jsstr bool bool
  | Syncing "jsstr list" jsstr

record panel =
  tests :: "test_case list"
  mode :: jsstr
  stopOnFail :: bool
  running :: bool
  batchError :: "jsstr option"
  collapsed :: "jsstr set"
  hydratedFor :: "jsstr option"
  cancelRef :: bool
  ctlAborted :: bool
  run :: run

definition initial_panel :: "jsstr \<Rightarrow> panel" where
  "initial_panel i = \<lparr>tests = [emptyCase i], mode = js ''trim'', stopOnFail = False, running = False,
     batchError = None, collapsed = {}, hydratedFor = None, cancelRef = False, ctlAborted = False,
     run = NoRun\<rparr>"

text \<open>
  The comparison mode is kept by name. A name the panel does not know, which only a foreign entry
  of the storage can bring in, falls through the \<^verbatim>\<open>switch\<close> of \<^verbatim>\<open>compare\<close> and fails the case.
\<close>

definition mode_of :: "jsstr \<Rightarrow> comparison_mode option" where
  "mode_of m = map_of [(js ''exact'', Exact), (js ''trim'', Trim), (js ''ignore-ws'', IgnoreWs),
     (js ''tokens'', Tokens)] m"

definition grade :: "jsstr \<Rightarrow> jsstr \<Rightarrow> jsstr \<Rightarrow> bool" where
  "grade actual expected m =
     (if expected = [] then True else case mode_of m of None \<Rightarrow> False | Some c \<Rightarrow> compare actual expected c)"

section \<open>Operations on the cases\<close>

definition addCase :: "jsstr \<Rightarrow> panel \<Rightarrow> panel" where
  "addCase i p =
     (if length (tests p) \<ge> 100 then p\<lparr>batchError := Some (js ''Maximum 100 test cases per batch.'')\<rparr>
      else p\<lparr>tests := tests p @ [emptyCase i]\<rparr>)"

definition deleteCase :: "jsstr \<Rightarrow> jsstr \<Rightarrow> panel \<Rightarrow> panel" where
  "deleteCase i new p =
     p\<lparr>tests := (if length (tests p) = 1 then [emptyCase new] else filter (\<lambda>t. tc_id t \<noteq> i) (tests p))\<rparr>"

definition patchCase :: "jsstr \<Rightarrow> (test_case \<Rightarrow> test_case) \<Rightarrow> panel \<Rightarrow> panel" where
  "patchCase i patch p = p\<lparr>tests := map (\<lambda>t. if tc_id t = i then patch t else t) (tests p)\<rparr>"

text \<open>The two patches that the text areas of a row send.\<close>

definition editStdin :: "jsstr \<Rightarrow> test_case \<Rightarrow> test_case" where
  "editStdin v t = t\<lparr>tc_stdin := v, tc_passed := None, tc_stdout := None, tc_stderr := None, tc_status := None\<rparr>"

definition editExpected :: "jsstr \<Rightarrow> test_case \<Rightarrow> test_case" where
  "editExpected v t = t\<lparr>tc_expected := v, tc_passed := None\<rparr>"

definition toggleCollapsed :: "jsstr \<Rightarrow> panel \<Rightarrow> panel" where
  "toggleCollapsed i p =
     p\<lparr>collapsed := (if i \<in> collapsed p then collapsed p - {i} else insert i (collapsed p))\<rparr>"

definition clearResults :: "panel \<Rightarrow> panel" where
  "clearResults p = p\<lparr>tests := map stripCase (tests p), batchError := None\<rparr>"

definition clearAll :: "bool \<Rightarrow> jsstr \<Rightarrow> panel \<Rightarrow> panel" where
  "clearAll confirmed i p =
     (if running p then p else if \<not> confirmed then p
      else p\<lparr>tests := [emptyCase i], batchError := None\<rparr>)"

section \<open>Derived values\<close>

record summary =
  sm_total :: nat
  sm_pass :: nat
  sm_fail :: nat
  sm_unchecked :: nat
  sm_errors :: nat

definition count_case :: "summary \<Rightarrow> test_case \<Rightarrow> summary" where
  "count_case s t =
     (let s1 = s\<lparr>sm_total := sm_total s + 1\<rparr>;
          s2 = (case tc_passed t of
                  Some Pass \<Rightarrow> s1\<lparr>sm_pass := sm_pass s1 + 1\<rparr>
                | Some Fail \<Rightarrow> s1\<lparr>sm_fail := sm_fail s1 + 1\<rparr>
                | Some Unchecked \<Rightarrow> s1\<lparr>sm_unchecked := sm_unchecked s1 + 1\<rparr>
                | None \<Rightarrow> s1)
      in if present (tc_status t) \<and> tc_status t \<noteq> Some (js ''accepted'') \<and> tc_status t \<noteq> Some (js ''idle'')
         then s2\<lparr>sm_errors := sm_errors s2 + 1\<rparr> else s2)"

definition panel_summary :: "test_case list \<Rightarrow> summary" where
  "panel_summary ts =
     foldl count_case \<lparr>sm_total = 0, sm_pass = 0, sm_fail = 0, sm_unchecked = 0, sm_errors = 0\<rparr> ts"

definition hasResults :: "panel \<Rightarrow> bool" where
  "hasResults p \<longleftrightarrow> (\<exists>t \<in> set (tests p). tc_status t \<noteq> None)"

section \<open>Running all cases\<close>

text \<open>A field of a view by its declared type; \<open>None\<close> is absent or \<^verbatim>\<open>null\<close>.\<close>

definition num_field :: "string \<Rightarrow> json \<Rightarrow> number option" where
  "num_field k v = (case jget k v of Some (JNum n) \<Rightarrow> Some n | _ \<Rightarrow> None)"

definition text_field :: "string \<Rightarrow> json \<Rightarrow> jsstr" where
  "text_field k v = (case str_field k v of Some s \<Rightarrow> decode (Some s) | None \<Rightarrow> [])"

definition view_detail :: "json \<Rightarrow> jsstr option" where
  "view_detail sub = (case jget ''status'' sub of
     Some (JObj ps) \<Rightarrow>
       (case truthy_field ''detail'' (JObj ps) of Some (JStr d) \<Rightarrow> Some d | _ \<Rightarrow> None)
   | _ \<Rightarrow> None)"

definition verdict :: "jsstr \<Rightarrow> jsstr \<Rightarrow> jsstr \<Rightarrow> jsstr \<Rightarrow> passed option" where
  "verdict kd stdoutText expected m =
     (if kd = js ''queued'' \<or> kd = js ''processing'' then None
      else if expected = [] then Some Unchecked
      else if kd \<noteq> js ''accepted'' then Some Fail
      else if grade stdoutText expected m then Some Pass else Some Fail)"

definition applyItem :: "jsstr \<Rightarrow> json \<Rightarrow> test_case \<Rightarrow> test_case" where
  "applyItem m sub t =
     (let kd = statusKind (jget ''status'' sub); stdoutText = text_field ''stdout'' sub
      in t\<lparr>tc_status := Some kd, tc_statusDetail := view_detail sub,
           tc_stdout := Some stdoutText, tc_stderr := Some (text_field ''stderr'' sub),
           tc_compileOutput := Some (text_field ''compile_output'' sub),
           tc_time := num_field ''wall_time'' sub, tc_memory := num_field ''memory'' sub,
           tc_exitCode := num_field ''exit_code'' sub,
           tc_passed := verdict kd stdoutText (tc_expected t) m\<rparr>)"

definition applyCase :: "jsstr \<Rightarrow> jsstr list \<Rightarrow> json list \<Rightarrow> test_case \<Rightarrow> test_case" where
  "applyCase m tokenIds its t =
     (case index_of (opt [] (tc_token t)) tokenIds of
        None \<Rightarrow> t
      | Some idx \<Rightarrow>
          (if idx < length its \<and> truthy (its ! idx) then applyItem m (its ! idx) t else t))"

definition applyView :: "jsstr \<Rightarrow> json list \<Rightarrow> jsstr list \<Rightarrow> panel \<Rightarrow> panel" where
  "applyView m its tokenIds p = p\<lparr>tests := map (applyCase m tokenIds its) (tests p)\<rparr>"

text \<open>The synchronous part of \<^verbatim>\<open>runAll\<close>; the second component is the batch it submits.\<close>

record run_limits =
  memoryMb :: number
  timeS :: number

definition runAll :: "nat \<Rightarrow> jsstr \<Rightarrow> run_limits \<Rightarrow> bool \<Rightarrow> panel \<Rightarrow> panel \<times> batch_params option" where
  "runAll lang code rl apiOnline p =
     (if running p then (p, None)
      else if \<not> apiOnline then
        (p\<lparr>batchError := Some (js ''No ZeroCode API is reachable. Start the service and reload.'')\<rparr>, None)
      else if trim code = [] then
        (p\<lparr>batchError := Some (js ''No source code to run. Type something in the editor first.'')\<rparr>, None)
      else
        (let realCases = filter isReal (tests p)
         in if realCases = [] then
              (p\<lparr>batchError := Some (js ''Add at least one test case with stdin or expected output.'')\<rparr>, None)
            else
              (p\<lparr>batchError := None, running := True, tests := map stripCase (tests p),
                 cancelRef := True, ctlAborted := False, run := Submitting (mode p) (stopOnFail p)\<rparr>,
               Some \<lparr>blanguage_id = lang, bsource_code = code,
                     test_cases = map (\<lambda>t. Some (tc_stdin t)) realCases,
                     blimits = Some \<lparr>cpu_time = Some (timeS rl), wall_time = Some (timeS rl),
                                     memory_mb = Some (memoryMb rl)\<rparr>\<rparr>)))"

text \<open>The \<^verbatim>\<open>finally\<close> block.\<close>

definition finishRun :: "panel \<Rightarrow> panel" where
  "finishRun p = p\<lparr>running := False, cancelRef := False, run := NoRun\<rparr>"

text \<open>The \<^verbatim>\<open>catch\<close> block: an abort ends the run in silence.\<close>

definition runFailed :: "api_error \<Rightarrow> panel \<Rightarrow> panel" where
  "runFailed e p =
     finishRun (if e = Aborted then p
                else p\<lparr>batchError := Some (js ''Batch run failed: '' @ message e)\<rparr>)"

fun pairTokens :: "jsstr list \<Rightarrow> test_case list \<Rightarrow> test_case list" where
  "pairTokens toks [] = []"
| "pairTokens toks (t # ts) =
     (if isReal t
      then t\<lparr>tc_token := (if toks = [] then None else Some (hd toks)), tc_status := Some (js ''queued'')\<rparr>
           # pairTokens (tl toks) ts
      else t # pairTokens toks ts)"

text \<open>The acknowledgement arrives; \<^verbatim>\<open>pollBatch\<close> first looks at the signal.\<close>

definition batchAcked :: "jsstr list \<Rightarrow> panel \<Rightarrow> panel" where
  "batchAcked toks p = (case run p of
     Submitting m stop \<Rightarrow>
       (let p' = p\<lparr>tests := pairTokens toks (tests p)\<rparr>
        in if ctlAborted p' then runFailed Aborted p' else p'\<lparr>run := Polling toks m stop False\<rparr>)
   | _ \<Rightarrow> p)"

text \<open>
  A view of the batch arrives in \<^verbatim>\<open>pollBatch\<close>: the callback applies it and may abort the run; then
  the loop ends, with the final synchronisation to come, or waits and looks at the signal.
\<close>

definition anyFailedSoFar :: "json list \<Rightarrow> bool" where
  "anyFailedSoFar its \<longleftrightarrow> (\<exists>it \<in> set its.
     let k = statusKind (jget ''status'' it)
     in k \<noteq> js ''queued'' \<and> k \<noteq> js ''processing'' \<and> k \<noteq> js ''accepted'')"

definition viewArrived :: "json list \<Rightarrow> nat \<Rightarrow> panel \<Rightarrow> panel" where
  "viewArrived its pending p = (case run p of
     Polling toks m stop False \<Rightarrow>
       (let p1 = applyView m its toks p;
            p2 = (if stop \<and> anyFailedSoFar its then p1\<lparr>ctlAborted := True\<rparr> else p1)
        in if pending = 0 then p2\<lparr>run := Syncing toks m\<rparr> else p2\<lparr>run := Polling toks m stop True\<rparr>)
   | _ \<Rightarrow> p)"

text \<open>The timer fires and the loop starts over, at its look at the signal.\<close>

definition timerFired :: "panel \<Rightarrow> panel" where
  "timerFired p = (case run p of
     Polling toks m stop True \<Rightarrow>
       (if ctlAborted p then runFailed Aborted p else p\<lparr>run := Polling toks m stop False\<rparr>)
   | _ \<Rightarrow> p)"

definition finalView :: "json list \<Rightarrow> panel \<Rightarrow> panel" where
  "finalView its p = (case run p of
     Syncing toks m \<Rightarrow> finishRun (applyView m its toks p)
   | _ \<Rightarrow> p)"

text \<open>
  \<^verbatim>\<open>cancelRun\<close>. A loop that waits for its timer listens to the signal and ends at once, unless the
  signal was aborted before it began to listen.
\<close>

definition cancelRun :: "panel \<Rightarrow> panel" where
  "cancelRun p =
     (if \<not> cancelRef p then p
      else case run p of
        Polling _ _ _ True \<Rightarrow> if ctlAborted p then p else runFailed Aborted (p\<lparr>ctlAborted := True\<rparr>)
      | _ \<Rightarrow> p\<lparr>ctlAborted := True\<rparr>)"

text \<open>A rejected request ends the run wherever it is.\<close>

definition requestFailed :: "api_error \<Rightarrow> panel \<Rightarrow> panel" where
  "requestFailed e p = (case run p of
     NoRun \<Rightarrow> p
   | Polling _ _ _ True \<Rightarrow> p
   | _ \<Rightarrow> runFailed e p)"

section \<open>Import and export\<close>

text \<open>
  The \<^verbatim>\<open>onload\<close> handler. The engine's words for an exception are the argument \<open>em\<close>, the new
  identifiers the argument \<open>ids\<close>.
\<close>

definition onImportFile :: "(import_error \<Rightarrow> jsstr) \<Rightarrow> jsstr list \<Rightarrow> jsstr \<Rightarrow> panel \<Rightarrow> panel" where
  "onImportFile em ids tx p = (case import_rows tx of
     Inl e \<Rightarrow> p\<lparr>batchError := Some (js ''Import failed: '' @ em e)\<rparr>
   | Inr parsed \<Rightarrow>
       (if parsed = [] then p\<lparr>batchError := Some (js ''No test cases found in the imported file.'')\<rparr>
        else
          (let p1 = (if length parsed > 100
                     then p\<lparr>batchError := Some (js ''File has '' @ natStr (length parsed) @ js '' cases; capping at 100.'')\<rparr>
                     else p);
               capped = (if length parsed > 100 then take 100 parsed else parsed);
               p2 = p1\<lparr>tests := map (\<lambda>(i, (s, e)). plainCase i s e) (zip ids capped)\<rparr>
           in p2\<lparr>batchError := None\<rparr>)))"

text \<open>\<^verbatim>\<open>doExport\<close>: the file it offers for download, with its name and type.\<close>

definition doExport :: "bool \<Rightarrow> nat \<Rightarrow> panel \<Rightarrow> panel \<times> (jsstr \<times> jsstr \<times> string) option" where
  "doExport json lang p =
     (let realCases = filter isReal (tests p); pairs = map (\<lambda>t. (tc_stdin t, tc_expected t)) realCases;
          name = js ''zerocode-tests-'' @ natStr lang @ js ''.'' @ (if json then js ''json'' else js ''csv'')
      in if realCases = []
         then (p\<lparr>batchError := Some (js ''Nothing to export '' @ [EMDASH] @ js '' add some test cases first.'')\<rparr>, None)
         else (p, Some (name, if json then exportJSON pairs else exportCSV pairs,
                        if json then ''application/json'' else ''text/csv'')))"

section \<open>Loading and saving the cases of a source\<close>

definition srcKey :: "nat \<Rightarrow> jsstr \<Rightarrow> jsstr" where
  "srcKey lang code = natStr lang @ js '':'' @ sourceHash code"

definition bucket_json :: "panel \<Rightarrow> json" where
  "bucket_json p = JObj
     [(js ''tests'', JArr (map (\<lambda>t. JObj [(js ''id'', JStr (tc_id t)), (js ''stdin'', JStr (tc_stdin t)),
         (js ''expected'', JStr (tc_expected t))]) (tests p))),
      (js ''mode'', JStr (mode p)), (js ''stopOnFail'', JBool (stopOnFail p))]"

text \<open>
  The effect that hydrates. A stored case is read by the declared types of its fields; one of
  another type, which the panel never writes, counts as absent. \<open>ids\<close> are the identifiers for the
  stored cases without one.
\<close>

definition hydrate_case :: "jsstr \<Rightarrow> json \<Rightarrow> test_case" where
  "hydrate_case i v =
     plainCase (if present (str_field ''id'' v) then the (str_field ''id'' v) else i)
       (opt [] (str_field ''stdin'' v)) (opt [] (str_field ''expected'' v))"

definition hydrate :: "jsstr list \<Rightarrow> storage \<Rightarrow> jsstr \<Rightarrow> panel \<Rightarrow> panel" where
  "hydrate ids st k p =
     (if hydratedFor p = Some k then p
      else
        (let p1 = p\<lparr>hydratedFor := Some k\<rparr>;
             p2 = (case loadBucket st k of
                     Some b \<Rightarrow>
                       (case jget ''tests'' b of
                          Some (JArr vs) \<Rightarrow>
                            (if vs = [] then p1\<lparr>tests := [emptyCase (hd ids)]\<rparr>
                             else p1\<lparr>tests := map (\<lambda>(i, v). hydrate_case i v) (zip ids vs),
                                     mode := (if present (str_field ''mode'' b) then the (str_field ''mode'' b) else js ''trim''),
                                     stopOnFail := (case jget ''stopOnFail'' b of Some x \<Rightarrow> truthy x | None \<Rightarrow> False)\<rparr>)
                        | _ \<Rightarrow> p1\<lparr>tests := [emptyCase (hd ids)]\<rparr>)
                   | None \<Rightarrow> p1\<lparr>tests := [emptyCase (hd ids)]\<rparr>)
         in p2\<lparr>collapsed := {}\<rparr>))"

text \<open>The effect that saves.\<close>

definition persist :: "jsstr \<Rightarrow> panel \<Rightarrow> storage \<Rightarrow> storage" where
  "persist k p st = saveBucket st k (bucket_json p)"

text \<open>
  A render for the key \<open>k\<close>: both effects run after it, in order, the second with the cases of that
  render; what the first one sets is rendered next and saved again.
\<close>

definition render_key :: "jsstr list \<Rightarrow> jsstr \<Rightarrow> panel \<Rightarrow> storage \<Rightarrow> panel \<times> storage" where
  "render_key ids k p st =
     (let p' = hydrate ids st k p; st' = persist k p st
      in if hydratedFor p = Some k then (p', st') else (p', persist k p' st'))"

section \<open>Views\<close>

definition passColor :: "test_case \<Rightarrow> string" where
  "passColor t =
     (if tc_passed t = Some Pass then ''var(--st-accepted)''
      else if tc_passed t = Some Fail then ''var(--st-re)''
      else if tc_status t = Some (js ''tle'') then ''var(--st-tle)''
      else if tc_status t = Some (js ''mle'') then ''var(--st-mle)''
      else if tc_status t = Some (js ''ce'') then ''var(--st-ce)''
      else if tc_status t = Some (js ''re'') then ''var(--st-re)''
      else ''var(--fg-3)'')"

definition verdictText :: "test_case \<Rightarrow> jsstr" where
  "verdictText t =
     (if tc_passed t = Some Pass then [10003] @ js '' pass''
      else if tc_passed t = Some Fail then [10007] @ js '' wrong''
      else if present (tc_status t)
      then opt (the (tc_status t)) (table VERDICT_LABEL (the (tc_status t)))
      else [EMDASH])"

definition showDiff :: "test_case \<Rightarrow> bool" where
  "showDiff t \<longleftrightarrow> tc_passed t = Some Fail \<and> tc_expected t \<noteq> [] \<and> tc_stdout t \<noteq> None"

definition row_memory :: "number \<Rightarrow> jsstr" where
  "row_memory m = (if m < 1024 then intStr (mathRound m) @ js '' KB'' else toFixed 1 (m / 1024) @ js '' MB'')"

definition row_time :: "number \<Rightarrow> jsstr" where
  "row_time t = toFixed 0 (t * 1000) @ js ''ms''"

text \<open>\<^verbatim>\<open>DiffView\<close>: class, gutter and text of each row; an empty line shows a zero-width space.\<close>

definition DiffView :: "jsstr \<Rightarrow> jsstr \<Rightarrow> (string \<times> jsstr \<times> jsstr) list" where
  "DiffView expected actual = map (\<lambda>(k, t).
     ((case k of Same \<Rightarrow> ''same'' | Add \<Rightarrow> ''add'' | Del \<Rightarrow> ''del''),
      (case k of Add \<Rightarrow> js ''+'' | Del \<Rightarrow> [8722] | Same \<Rightarrow> js '' ''),
      (if t = [] then [8203] else t))) (lineDiff expected actual)"

section \<open>The panel as a machine\<close>

text \<open>
  The steps, on the panel and the storage. The guards are the \<^verbatim>\<open>disabled\<close> attributes of the
  controls; deleting and editing a case are possible during a run. \<^verbatim>\<open>newId\<close> is assumed not to repeat
  the identifier of a case that is there (the premises on \<open>i\<close>, \<open>ids\<close>).
\<close>

definition ids_of :: "panel \<Rightarrow> jsstr set" where
  "ids_of p = tc_id ` set (tests p)"

inductive panel_step :: "panel \<times> storage \<Rightarrow> panel \<times> storage \<Rightarrow> bool" where
  s_add: "\<not> running p \<Longrightarrow> i \<noteq> [] \<Longrightarrow> i \<notin> ids_of p \<Longrightarrow> panel_step (p, st) (addCase i p, st)"
| s_delete: "new \<noteq> [] \<Longrightarrow> panel_step (p, st) (deleteCase i new p, st)"
| s_stdin: "panel_step (p, st) (patchCase i (editStdin v) p, st)"
| s_expected: "panel_step (p, st) (patchCase i (editExpected v) p, st)"
| s_toggle: "panel_step (p, st) (toggleCollapsed i p, st)"
| s_mode: "\<not> running p \<Longrightarrow> mode_of m \<noteq> None \<Longrightarrow> panel_step (p, st) (p\<lparr>mode := m\<rparr>, st)"
| s_stop: "\<not> running p \<Longrightarrow> panel_step (p, st) (p\<lparr>stopOnFail := b\<rparr>, st)"
| s_dismiss: "panel_step (p, st) (p\<lparr>batchError := None\<rparr>, st)"
| s_clear: "\<not> running p \<Longrightarrow> panel_step (p, st) (clearResults p, st)"
| s_clear_all: "i \<noteq> [] \<Longrightarrow> panel_step (p, st) (clearAll c i p, st)"
| s_import: "\<not> running p \<Longrightarrow> distinct ids \<Longrightarrow> [] \<notin> set ids \<Longrightarrow> length ids = 100 \<Longrightarrow>
    panel_step (p, st) (onImportFile em ids tx p, st)"
| s_export: "\<not> running p \<Longrightarrow> panel_step (p, st) (fst (doExport j lang p), st)"
| s_run: "panel_step (p, st) (fst (runAll lang code rl online p), st)"
| s_acked: "panel_step (p, st) (batchAcked toks p, st)"
| s_view: "panel_step (p, st) (viewArrived its pending p, st)"
| s_timer: "panel_step (p, st) (timerFired p, st)"
| s_final: "panel_step (p, st) (finalView its p, st)"
| s_failed: "panel_step (p, st) (requestFailed e p, st)"
| s_cancel: "panel_step (p, st) (cancelRun p, st)"
| s_render: "[] \<notin> set ids \<Longrightarrow> length ids = 100 \<Longrightarrow> panel_step (p, st) (render_key ids k p st)"

inductive_cases panel_stepE: "panel_step s s'"

definition panel_start :: "panel \<times> storage \<Rightarrow> bool" where
  "panel_start s \<longleftrightarrow> (\<exists>i st. s = (initial_panel i, st) \<and> i \<noteq> [] \<and> loadStore st = JObj [])"

subsection \<open>The invariant\<close>

definition tests_ok :: "test_case list \<Rightarrow> bool" where
  "tests_ok ts \<longleftrightarrow> ts \<noteq> [] \<and> length ts \<le> 100 \<and> distinct (map tc_id ts) \<and> [] \<notin> tc_id ` set ts"

definition case_ok :: "test_case \<Rightarrow> bool" where
  "case_ok t \<longleftrightarrow> (case tc_passed t of
     None \<Rightarrow> True
   | Some Unchecked \<Rightarrow> tc_expected t = []
   | Some Fail \<Rightarrow> tc_expected t \<noteq> []
   | Some Pass \<Rightarrow> tc_expected t \<noteq> [] \<and> tc_status t = Some (js ''accepted'') \<and>
       (\<exists>out m. tc_stdout t = Some out \<and> grade out (tc_expected t) m))"

definition run_ok :: "panel \<Rightarrow> bool" where
  "run_ok p \<longleftrightarrow> (running p \<longleftrightarrow> run p \<noteq> NoRun) \<and> (cancelRef p \<longleftrightarrow> running p) \<and>
     (case run p of Submitting _ _ \<Rightarrow> list_all (\<lambda>t. tc_passed t = None) (tests p) | _ \<Rightarrow> True)"

definition bucket_ok :: "json \<Rightarrow> bool" where
  "bucket_ok b \<longleftrightarrow> (case jget ''tests'' b of
     Some (JArr vs) \<Rightarrow> length vs \<le> 100 \<and> distinct (map (str_field ''id'') vs) \<and>
       (\<forall>v \<in> set vs. present (str_field ''id'' v))
   | _ \<Rightarrow> True)"

definition store_ok :: "storage \<Rightarrow> bool" where
  "store_ok st \<longleftrightarrow> (\<exists>ps. loadStore st = JObj ps \<and> json_ok (JObj ps) \<and> (\<forall>(k, b) \<in> set ps. bucket_ok b))"

definition panel_ok :: "panel \<Rightarrow> bool" where
  "panel_ok p \<longleftrightarrow> tests_ok (tests p) \<and> list_all case_ok (tests p) \<and> run_ok p"

definition panel_inv :: "panel \<times> storage \<Rightarrow> bool" where
  "panel_inv s \<longleftrightarrow> panel_ok (fst s) \<and> store_ok (snd s)"

lemmas panel_defs = panel_ok_def run_ok_def

lemma plainCase_simps [simp]:
  "tc_id (plainCase i s e) = i" "tc_stdin (plainCase i s e) = s" "tc_expected (plainCase i s e) = e"
  "tc_passed (plainCase i s e) = None" "tc_status (plainCase i s e) = None" "tc_token (plainCase i s e) = None"
  by (simp_all add: plainCase_def)

lemma emptyCase_simps [simp]:
  "tc_id (emptyCase i) = i" "tc_passed (emptyCase i) = None" "\<not> isReal (emptyCase i)"
  by (simp_all add: emptyCase_def isReal_def)

lemma tests_okI:
  "ts \<noteq> [] \<Longrightarrow> length ts \<le> 100 \<Longrightarrow> map tc_id ts = xs \<Longrightarrow> distinct xs \<Longrightarrow> [] \<notin> set xs \<Longrightarrow> tests_ok ts"
  by (auto simp: tests_ok_def)

lemma case_ok_fresh [simp]: "tc_passed t = None \<Longrightarrow> case_ok t"
  by (simp add: case_ok_def)

lemma stripCase_simps [simp]:
  "tc_id (stripCase t) = tc_id t" "tc_stdin (stripCase t) = tc_stdin t"
  "tc_expected (stripCase t) = tc_expected t" "tc_passed (stripCase t) = None" "isReal (stripCase t) = isReal t"
  by (simp_all add: stripCase_def isReal_def)

lemma tests_ok_single: "i \<noteq> [] \<Longrightarrow> tests_ok [emptyCase i]"
  by (simp add: tests_ok_def)

lemma tests_ok_map: "(\<And>t. tc_id (f t) = tc_id t) \<Longrightarrow> tests_ok (map f ts) = tests_ok ts"
  by (simp add: tests_ok_def image_image comp_def)

lemma tests_ok_filter:
  assumes "tests_ok ts" "length ts \<noteq> 1"
  shows "tests_ok (filter (\<lambda>t. tc_id t \<noteq> i) ts)"
proof -
  obtain a b rest where ts: "ts = a # b # rest"
    using assms by (cases ts; cases "tl ts") (auto simp: tests_ok_def)
  then have "tc_id a \<noteq> tc_id b" using assms by (auto simp: tests_ok_def)
  then have "filter (\<lambda>t. tc_id t \<noteq> i) ts \<noteq> []" using ts by (auto simp: filter_empty_conv)
  moreover have "length (filter (\<lambda>t. tc_id t \<noteq> i) ts) \<le> 100"
    by (rule order_trans [OF length_filter_le]) (use assms(1) in \<open>simp add: tests_ok_def\<close>)
  moreover have "distinct (map tc_id (filter (\<lambda>t. tc_id t \<noteq> i) ts))"
    using assms(1) distinct_map_filter by (auto simp: tests_ok_def)
  ultimately show ?thesis using assms(1) by (auto simp: tests_ok_def)
qed

lemma tc_id_applyCase [simp]: "tc_id (applyCase m toks its t) = tc_id t"
  by (simp add: applyCase_def applyItem_def Let_def split: option.split)

lemma case_ok_applyCase: "case_ok t \<Longrightarrow> case_ok (applyCase m toks its t)"
  by (auto simp: applyCase_def applyItem_def Let_def case_ok_def verdict_def split: option.split)

lemma pairTokens_ids: "map tc_id (pairTokens toks ts) = map tc_id ts"
  by (induction toks ts rule: pairTokens.induct) auto

lemma pairTokens_ok: "list_all (\<lambda>t. tc_passed t = None) ts \<Longrightarrow> list_all (\<lambda>t. tc_passed t = None) (pairTokens toks ts)"
  by (induction toks ts rule: pairTokens.induct) auto

subsection \<open>Every operation keeps the invariant\<close>

lemma ok_addCase: "panel_ok p \<Longrightarrow> i \<noteq> [] \<Longrightarrow> i \<notin> ids_of p \<Longrightarrow> panel_ok (addCase i p)"
  by (auto simp: panel_defs addCase_def tests_ok_def ids_of_def split: run.splits)

lemma ok_deleteCase: "panel_ok p \<Longrightarrow> new \<noteq> [] \<Longrightarrow> panel_ok (deleteCase i new p)"
  by (auto simp: panel_defs deleteCase_def tests_ok_single tests_ok_filter list_all_iff
      split: run.splits)

lemma ok_patchCase:
  assumes "panel_ok p" "\<And>t. tc_id (f t) = tc_id t" "\<And>t. tc_passed (f t) = None"
  shows "panel_ok (patchCase i f p)"
proof -
  have "tests_ok (map (\<lambda>t. if tc_id t = i then f t else t) (tests p))"
    using assms(1,2) tests_ok_map [of "\<lambda>t. if tc_id t = i then f t else t" "tests p"] by (simp add: panel_ok_def)
  then show ?thesis using assms by (auto simp: panel_defs patchCase_def list_all_iff split: run.splits)
qed

lemma ok_map_strip:
  "panel_ok p \<Longrightarrow> tests_ok (map stripCase (tests p)) \<and> list_all case_ok (map stripCase (tests p))
     \<and> list_all (\<lambda>t. tc_passed t = None) (map stripCase (tests p))"
  by (simp add: panel_ok_def tests_ok_map list_all_iff)

lemma ok_clearResults: "panel_ok p \<Longrightarrow> panel_ok (clearResults p)"
  using ok_map_strip [of p] by (auto simp: panel_defs clearResults_def split: run.splits)

lemma ok_clearAll: "panel_ok p \<Longrightarrow> i \<noteq> [] \<Longrightarrow> panel_ok (clearAll c i p)"
  by (auto simp: panel_defs clearAll_def tests_ok_single)

lemma imported_tests_ok:
  assumes "distinct ids" "[] \<notin> set ids" "length ids = 100" "parsed \<noteq> []" "length parsed \<le> 100"
  shows "tests_ok (map (\<lambda>(i, (s, e)). plainCase i s e) (zip ids parsed))"
proof -
  have m: "map tc_id (map (\<lambda>(i, (s, e)). plainCase i s e) (zip ids parsed)) = take (length parsed) ids"
    using assms by (auto simp: comp_def case_prod_beta map_fst_zip_take)
  show ?thesis
  proof (rule tests_okI [OF _ _ m])
    show "map (\<lambda>(i, (s, e)). plainCase i s e) (zip ids parsed) \<noteq> []" using assms by auto
    show "[] \<notin> set (take (length parsed) ids)" using assms set_take_subset by fastforce
  qed (use assms in auto)
qed

lemma ok_onImportFile:
  assumes "panel_ok p" "\<not> running p" "distinct ids" "[] \<notin> set ids" "length ids = 100"
  shows "panel_ok (onImportFile em ids tx p)"
proof (cases "import_rows tx")
  case (Inl e)
  then show ?thesis using assms by (simp add: onImportFile_def panel_defs)
next
  case (Inr parsed)
  define capped where "capped = (if length parsed > 100 then take 100 parsed else parsed)"
  have "tests_ok (map (\<lambda>(i, (s, e)). plainCase i s e) (zip ids capped))" if "parsed \<noteq> []"
    using imported_tests_ok [OF assms(3-5), of capped] that by (auto simp: capped_def)
  moreover have "run p = NoRun" using assms by (simp add: panel_defs)
  ultimately show ?thesis
    using Inr assms by (auto simp: onImportFile_def Let_def capped_def panel_defs list_all_iff)
qed

lemma ok_runAll: "panel_ok p \<Longrightarrow> panel_ok (fst (runAll lang code rl online p))"
  using ok_map_strip [of p] by (auto simp: runAll_def Let_def panel_defs split: run.splits)

lemma ok_finishRun: "panel_ok p \<Longrightarrow> panel_ok (finishRun p)"
  by (simp add: finishRun_def panel_defs)

lemma ok_runFailed: "panel_ok p \<Longrightarrow> panel_ok (runFailed e p)"
  unfolding runFailed_def by (rule ok_finishRun) (auto simp: panel_defs split: run.splits)

lemma ok_applyView:
  "panel_ok p \<Longrightarrow> \<forall>m s. run p \<noteq> Submitting m s \<Longrightarrow> panel_ok (applyView m its toks p)"
  by (auto simp: applyView_def panel_defs tests_ok_map list_all_iff case_ok_applyCase split: run.splits)

lemma ok_batchAcked:
  assumes "panel_ok p"
  shows "panel_ok (batchAcked toks p)"
proof (cases "run p")
  case (Submitting m stop)
  let ?ts = "pairTokens toks (tests p)"
  have none: "list_all (\<lambda>t. tc_passed t = None) ?ts"
    using assms Submitting pairTokens_ok by (simp add: panel_defs)
  have l: "length ?ts = length (tests p)" and s: "tc_id ` set ?ts = tc_id ` set (tests p)"
    using pairTokens_ids [of toks "tests p"] by (metis length_map, metis list.set_map)
  then have "tests_ok ?ts"
    using assms pairTokens_ids [of toks "tests p"] by (auto simp: panel_ok_def tests_ok_def)
  moreover have "list_all case_ok ?ts" using none by (auto simp: list_all_iff)
  ultimately have "panel_ok (p\<lparr>tests := ?ts\<rparr>)" using assms none Submitting by (simp add: panel_defs)
  then show ?thesis
    using Submitting ok_runFailed by (auto simp: batchAcked_def Let_def panel_defs)
qed (use assms in \<open>simp_all add: batchAcked_def\<close>)

lemma ok_viewArrived:
  assumes "panel_ok p"
  shows "panel_ok (viewArrived its pending p)"
proof (cases "run p")
  case (Polling toks m stop waits)
  have "panel_ok (applyView m its toks p)" using ok_applyView [OF assms] Polling by simp
  moreover have "run (applyView m its toks p) = run p" by (simp add: applyView_def)
  ultimately show ?thesis
    using assms Polling by (cases waits) (simp_all add: viewArrived_def Let_def panel_defs)
qed (use assms in \<open>simp_all add: viewArrived_def\<close>)

lemma ok_timerFired:
  assumes "panel_ok p"
  shows "panel_ok (timerFired p)"
proof (cases "run p")
  case (Polling toks m stop waits)
  then show ?thesis
    using assms ok_runFailed [OF assms] by (cases waits) (simp_all add: timerFired_def panel_defs)
qed (use assms in \<open>simp_all add: timerFired_def\<close>)

lemma ok_finalView: "panel_ok p \<Longrightarrow> panel_ok (finalView its p)"
  using ok_applyView [of p] ok_finishRun by (auto simp: finalView_def split: run.splits)

lemma ok_requestFailed: "panel_ok p \<Longrightarrow> panel_ok (requestFailed e p)"
  using ok_runFailed by (auto simp: requestFailed_def split: run.splits bool.splits)

lemma ok_cancelRun:
  assumes "panel_ok p"
  shows "panel_ok (cancelRun p)"
proof -
  have "panel_ok (p\<lparr>ctlAborted := True\<rparr>)" using assms by (auto simp: panel_defs split: run.splits)
  then show ?thesis using assms ok_runFailed by (auto simp: cancelRun_def split: run.splits bool.splits)
qed

subsection \<open>The effects keep the invariant\<close>

lemma str_field_simps [simp]:
  "str_field ''id'' (JObj [(js ''id'', JStr i), (js ''stdin'', JStr s), (js ''expected'', JStr e)]) = Some i"
  "str_field ''stdin'' (JObj [(js ''id'', JStr i), (js ''stdin'', JStr s), (js ''expected'', JStr e)]) = Some s"
  "str_field ''expected'' (JObj [(js ''id'', JStr i), (js ''stdin'', JStr s), (js ''expected'', JStr e)]) = Some e"
  by (simp_all add: str_field_def jget_def)

lemma bucket_json_ok: "json_ok (bucket_json p)" "bucket_json p \<noteq> JNull"
  by (auto simp: bucket_json_def)

lemma jget_bucket [simp]:
  "jget ''tests'' (bucket_json p) = Some (JArr (map (\<lambda>t. JObj [(js ''id'', JStr (tc_id t)),
     (js ''stdin'', JStr (tc_stdin t)), (js ''expected'', JStr (tc_expected t))]) (tests p)))"
  "str_field ''mode'' (bucket_json p) = Some (mode p)"
  "jget ''stopOnFail'' (bucket_json p) = Some (JBool (stopOnFail p))"
  by (simp_all add: bucket_json_def jget_def str_field_def)

lemma bucket_ok_json: "tests_ok (tests p) \<Longrightarrow> bucket_ok (bucket_json p)"
  by (auto simp: bucket_ok_def tests_ok_def comp_def distinct_map inj_on_def image_iff)

lemma store_ok_persist:
  assumes "store_ok st" "tests_ok (tests p)"
  shows "store_ok (persist k p st)"
proof -
  obtain ps where ps: "loadStore st = JObj ps" "json_ok (JObj ps)" "\<forall>(k, b) \<in> set ps. bucket_ok b"
    using assms(1) by (auto simp: store_ok_def)
  let ?qs = "obj_put k (bucket_json p) (make_room k ps)"
  have "\<forall>(k', b) \<in> set ?qs. bucket_ok b"
    using set_obj_put [of _ k "bucket_json p" "make_room k ps"] make_room_sub [of k ps] ps(3)
      bucket_ok_json [OF assms(2)] by fastforce
  moreover have "json_ok (JObj ?qs)" using json_ok_obj_put [OF ps(2) bucket_json_ok(1)] .
  ultimately show ?thesis
    using loadStore_saveBucket [OF ps(1,2) bucket_json_ok(1), of k p] ps
    unfolding store_ok_def persist_def by auto
qed

lemma bucket_ok_load:
  assumes "store_ok st" "loadBucket st k = Some b"
  shows "bucket_ok b"
proof -
  obtain ps where "loadStore st = JObj ps" "\<forall>(k, b) \<in> set ps. bucket_ok b"
    using assms(1) by (auto simp: store_ok_def)
  then show ?thesis
    using assms(2) by (auto simp: loadBucket_def dest!: map_of_SomeD split: option.splits json.splits)
qed

lemma hydrated_tests_ok:
  assumes "bucket_ok b" "jget ''tests'' b = Some (JArr vs)" "vs \<noteq> []" "length ids = 100"
  shows "tests_ok (map (\<lambda>(i, v). hydrate_case i v) (zip ids vs))"
proof -
  have b: "length vs \<le> 100" "distinct (map (str_field ''id'') vs)" "\<forall>v \<in> set vs. present (str_field ''id'' v)"
    using assms(1,2) by (simp_all add: bucket_ok_def)
  have "map tc_id (map (\<lambda>(i, v). hydrate_case i v) (zip ids vs)) = map (\<lambda>v. the (str_field ''id'' v)) (map snd (zip ids vs))"
    using b(3) by (auto simp: hydrate_case_def dest: set_zip_rightD)
  also have "map snd (zip ids vs) = vs" using b(1) assms(4) by (simp add: map_snd_zip_take)
  finally have m: "map tc_id (map (\<lambda>(i, v). hydrate_case i v) (zip ids vs)) = map (\<lambda>v. the (str_field ''id'' v)) vs" .
  have "inj_on the (set (map (str_field ''id'') vs))"
    using b(3) by (auto simp: inj_on_def present_def) (metis option.sel)
  then have "distinct (map (\<lambda>v. the (str_field ''id'' v)) vs)"
    using b(2) distinct_map [of the "map (str_field ''id'') vs"] by (simp add: comp_def)
  moreover have "[] \<notin> set (map (\<lambda>v. the (str_field ''id'' v)) vs)"
    using b(3) by (fastforce simp: present_def)
  moreover have "map (\<lambda>(i, v). hydrate_case i v) (zip ids vs) \<noteq> []"
    using assms(3,4) by (cases vs; cases ids) auto
  ultimately show ?thesis using b(1) by (intro tests_okI [OF _ _ m]) auto
qed

lemma hydrate_tests:
  assumes "hydratedFor p \<noteq> Some k"
  shows "(\<exists>b vs. loadBucket st k = Some b \<and> jget ''tests'' b = Some (JArr vs) \<and> vs \<noteq> [] \<and>
      tests (hydrate ids st k p) = map (\<lambda>(i, v). hydrate_case i v) (zip ids vs)) \<or>
    tests (hydrate ids st k p) = [emptyCase (hd ids)]"
  using assms by (auto simp: hydrate_def Let_def split: option.split json.split)

lemma hydrate_frame [frame]:
  "running (hydrate ids st k p) = running p" "run (hydrate ids st k p) = run p"
  "cancelRef (hydrate ids st k p) = cancelRef p" "ctlAborted (hydrate ids st k p) = ctlAborted p"
  by (auto simp: hydrate_def Let_def split: option.split json.split)

lemma ok_hydrate:
  assumes "panel_ok p" "store_ok st" "[] \<notin> set ids" "length ids = 100"
  shows "panel_ok (hydrate ids st k p)"
proof (cases "hydratedFor p = Some k")
  case True
  then show ?thesis using assms by (simp add: hydrate_def)
next
  case False
  have "hd ids \<noteq> []" using assms(3,4) by (cases ids) auto
  then have "tests_ok (tests (hydrate ids st k p))"
    using hydrate_tests [OF False, of st ids] hydrated_tests_ok [OF bucket_ok_load [OF assms(2)] _ _ assms(4)]
    by (auto simp: tests_ok_single)
  moreover have "list_all (\<lambda>t. tc_passed t = None) (tests (hydrate ids st k p))"
    using hydrate_tests [OF False, of st ids] by (auto simp: list_all_iff hydrate_case_def)
  moreover from this have "list_all case_ok (tests (hydrate ids st k p))"
    by (auto simp: list_all_iff)
  ultimately show ?thesis using assms(1) by (simp add: panel_defs frame split: run.split)
qed

lemma inv_render_key:
  assumes "panel_inv (p, st)" "[] \<notin> set ids" "length ids = 100"
  shows "panel_inv (render_key ids k p st)"
proof -
  have p: "panel_ok p" "store_ok st" using assms(1) by (simp_all add: panel_inv_def)
  have p': "panel_ok (hydrate ids st k p)" using ok_hydrate [OF p assms(2,3)] .
  have st: "store_ok (persist k p st)" using store_ok_persist p by (simp add: panel_ok_def)
  then have "store_ok (persist k (hydrate ids st k p) (persist k p st))"
    using store_ok_persist p' by (simp add: panel_ok_def)
  then show ?thesis using p' st by (simp add: panel_inv_def render_key_def Let_def)
qed

lemma panel_step_inv: "panel_step s s' \<Longrightarrow> panel_inv s \<Longrightarrow> panel_inv s'"
proof (induction rule: panel_step.induct)
  case (s_export p j lang st)
  then show ?case by (auto simp: panel_inv_def doExport_def Let_def panel_defs split: run.splits)
next
  case (s_render ids p st k)
  then show ?case by (intro inv_render_key)
qed (auto simp: panel_inv_def editStdin_def editExpected_def toggleCollapsed_def
    intro: ok_addCase ok_deleteCase ok_patchCase ok_clearResults ok_clearAll ok_onImportFile ok_runAll
      ok_batchAcked ok_viewArrived ok_timerFired ok_finalView ok_requestFailed ok_cancelRun,
    (auto simp: panel_defs split: run.splits)+)

lemma panel_start_inv: "panel_start s \<Longrightarrow> panel_inv s"
  by (auto simp: panel_start_def panel_inv_def initial_panel_def panel_defs tests_ok_single store_ok_def)

interpretation panel: machine panel_start panel_step panel_inv
  by unfold_locales (use panel_start_inv panel_step_inv in blast)+

end
