(* ===== verification/PanelProps.thy ===== *)
theory PanelProps
  imports TestsPanel
begin

text \<open>
  What the test-case panel guarantees, over every sequence of its steps and across the components
  it calls (the batch it submits, the views it receives, the store it saves to), and the places
  where its behaviour departs from what its comments and the service's documentation say.
\<close>

section \<open>Lemmas\<close>

lemma isReal_applyCase [simp]: "isReal (applyCase m toks its t) = isReal t"
  by (simp add: applyCase_def applyItem_def isReal_def Let_def split: option.split)

lemma filter_map_keep: "(\<And>t. P (f t) = P t) \<Longrightarrow> filter P (map f ts) = map f (filter P ts)"
  by (induction ts) auto

text \<open>What a case gets when its token arrives.\<close>

definition queue_with :: "jsstr \<Rightarrow> test_case \<Rightarrow> test_case" where
  "queue_with k t = t\<lparr>tc_token := Some k, tc_status := Some (js ''queued'')\<rparr>"

lemma pairTokens_real:
  "length toks = length (filter isReal ts) \<Longrightarrow>
   filter isReal (pairTokens toks ts) = map2 queue_with toks (filter isReal ts)"
proof (induction toks ts rule: pairTokens.induct)
  case (2 toks t ts)
  show ?case
  proof (cases "isReal t")
    case True
    then obtain k rest where "toks = k # rest" using 2(3) by (cases toks) auto
    then show ?thesis using True 2 by (simp add: queue_with_def isReal_def)
  qed (use 2 in simp)
qed simp

lemma nth_map2: "i < length xs \<Longrightarrow> i < length ys \<Longrightarrow> map2 f xs ys ! i = f (xs ! i) (ys ! i)"
  by simp

lemma applyCase_token:
  assumes "distinct toks" "i < length toks" "i < length its" "truthy (its ! i)"
  shows "applyCase m toks its (queue_with (toks ! i) t) = applyItem m (its ! i) (queue_with (toks ! i) t)"
  using assms by (simp add: applyCase_def queue_with_def index_of_nth)

section \<open>Properties\<close>

text \<open>C9. Whatever the user does and the service answers, in whatever order: the panel has between
  1 and 100 cases with distinct identifiers, a run is in progress exactly if the panel says so and
  exactly then there is something to cancel, and every stored bucket can be loaded.\<close>

theorem panel_invariant:
  assumes "reach panel_start panel_step (p, st)"
  shows "1 \<le> length (tests p) \<and> length (tests p) \<le> 100 \<and> distinct (map tc_id (tests p)) \<and>
    (running p \<longleftrightarrow> run p \<noteq> NoRun) \<and> (cancelRef p \<longleftrightarrow> running p) \<and> store_ok st"
proof -
  have "panel_inv (p, st)" using panel.reach_inv [OF assms] .
  then show ?thesis by (auto simp: panel_inv_def panel_ok_def run_ok_def tests_ok_def Suc_le_eq)
qed

definition first_panel :: panel where "first_panel = initial_panel (js ''tc_1'')"

lemma reach_first: "reach panel_start panel_step (first_panel, sample_storage)"
proof (rule reach_start)
  have "loadStore sample_storage = JObj []" by (simp add: loadStore_def storage_ops sample_storage_def)
  then show "panel_start (first_panel, sample_storage)" by (auto simp: panel_start_def first_panel_def)
qed

theorem panel_invariant_witness:
  "length (tests (addCase (js ''tc_2'') first_panel)) = 2 \<and>
   distinct (map tc_id (tests (addCase (js ''tc_2'') first_panel)))"
proof -
  have "reach panel_start panel_step (addCase (js ''tc_2'') first_panel, sample_storage)"
    by (rule reach_step [OF reach_first s_add])
      (simp_all add: first_panel_def initial_panel_def ids_of_def)
  from panel_invariant [OF this] show ?thesis
    by (simp add: addCase_def first_panel_def initial_panel_def)
qed

text \<open>C10. A green case is deserved: in every reachable state, a case marked as passed has an
  expectation, the service accepted its run, and the output shown matches the expectation now
  shown in one of the comparison modes; edits since the run cannot leave a stale mark.\<close>

theorem passed_is_deserved:
  assumes "reach panel_start panel_step (p, st)" "t \<in> set (tests p)" "tc_passed t = Some Pass"
  shows "tc_expected t \<noteq> [] \<and> tc_status t = Some (js ''accepted'') \<and>
    (\<exists>out c. tc_stdout t = Some out \<and> compare out (tc_expected t) c)"
proof -
  have "case_ok t"
    using panel.reach_inv [OF assms(1)] assms(2) by (auto simp: panel_inv_def panel_ok_def list_all_iff)
  then show ?thesis
    using assms(3) by (auto simp: case_ok_def grade_def split: option.splits)
qed

text \<open>A run of the panel with one case that expects \<open>x\<close>.\<close>

definition edited_panel :: panel where
  "edited_panel = patchCase (js ''tc_1'') (editExpected (js ''x'')) first_panel"

definition sample_limits :: run_limits where
  "sample_limits = \<lparr>memoryMb = 256, timeS = 5\<rparr>"

definition submitted_panel :: panel where
  "submitted_panel = fst (runAll 71 (js ''print'') sample_limits True edited_panel)"

definition polled_panel :: panel where
  "polled_panel = batchAcked [js ''tok''] submitted_panel"

definition accepted_item :: "jsstr \<Rightarrow> json" where
  "accepted_item out = JObj [(js ''status'', status_json Accepted), (js ''stdout'', JStr out)]"

lemma edited_tests: "tests edited_panel = [plainCase (js ''tc_1'') [] (js ''x'')]"
  by (simp add: edited_panel_def patchCase_def first_panel_def initial_panel_def editExpected_def
      emptyCase_def plainCase_def)

lemma trim_print: "trim (js ''print'') \<noteq> []"
  by (simp add: trim_def js_eval is_ws_def)

lemma submitted_fields:
  "tests submitted_panel = [plainCase (js ''tc_1'') [] (js ''x'')]"
  "run submitted_panel = Submitting (js ''trim'') False" "\<not> ctlAborted submitted_panel"
  using trim_print edited_tests
  by (simp_all add: submitted_panel_def runAll_def isReal_def stripCase_def edited_panel_def patchCase_def
      first_panel_def initial_panel_def)

lemma polled_fields:
  "tests polled_panel = [queue_with (js ''tok'') (plainCase (js ''tc_1'') [] (js ''x''))]"
  "run polled_panel = Polling [js ''tok''] (js ''trim'') False False"
  using submitted_fields by (simp_all add: polled_panel_def batchAcked_def Let_def isReal_def queue_with_def)

lemma reach_polled: "reach panel_start panel_step (polled_panel, sample_storage)"
proof -
  have "reach panel_start panel_step (edited_panel, sample_storage)"
    unfolding edited_panel_def by (rule reach_step [OF reach_first s_expected])
  then have "reach panel_start panel_step (submitted_panel, sample_storage)"
    unfolding submitted_panel_def using reach_step s_run by metis
  then show ?thesis unfolding polled_panel_def using reach_step s_acked by metis
qed

lemma accepted_item_fields:
  "jget ''status'' (accepted_item out) = Some (status_json Accepted)"
  "text_field ''stdout'' (accepted_item out) = decode (Some out)" "truthy (accepted_item out)"
  by (simp_all add: accepted_item_def jget_def text_field_def str_field_def truthy_def)

lemma statusKind_accepted: "statusKind (Some (status_json Accepted)) = js ''accepted''"
  by (simp add: statusKind_json kind_switch_def)

theorem passed_is_deserved_witness:
  "\<exists>out t. t \<in> set (tests (viewArrived [accepted_item out] 0 polled_panel)) \<and> tc_passed t = Some Pass \<and>
     tc_status t = Some (js ''accepted'')"
proof -
  obtain out where "encode (Some (js ''x'')) = Some out" using encode_defined [of "js ''x''"] by auto
  then have out: "decode (Some out) = js ''x''" by (rule decode_encode)
  let ?p = "viewArrived [accepted_item out] 0 polled_panel"
  let ?t = "applyItem (js ''trim'') (accepted_item out) (queue_with (js ''tok'') (plainCase (js ''tc_1'') [] (js ''x'')))"
  have ts: "tests ?p = [?t]"
    using applyCase_token [of "[js ''tok'']" 0 "[accepted_item out]"]
    by (simp add: viewArrived_def polled_fields Let_def applyView_def accepted_item_fields)
  have "grade (js ''x'') (js ''x'') (js ''trim'')"
    by (simp add: grade_def mode_of_def compare_def)
  then have "tc_passed ?t = Some Pass"
    by (simp add: applyItem_def Let_def accepted_item_fields statusKind_accepted out verdict_def queue_with_def)
  moreover have "reach panel_start panel_step (?p, sample_storage)"
    by (rule reach_step [OF reach_polled s_view])
  moreover have "?t \<in> set (tests ?p)" unfolding ts by simp
  ultimately show ?thesis using passed_is_deserved [of ?p sample_storage ?t] by metis
qed

text \<open>C12. Results land on their cases. The batch that \<^verbatim>\<open>runAll\<close> submits has the input of every
  non-blank case, in order; when the service answers with distinct tokens in that order and then
  with a view, and no case was changed in between, the \<open>i\<close>-th non-blank case shows exactly the
  \<open>i\<close>-th item, graded in the mode of the run, and a blank case shows nothing.\<close>

theorem results_land_on_their_cases:
  assumes "runAll lang code rl online p0 = (p, Some b)"
    and "distinct toks" "[] \<notin> set toks" "length toks = length (test_cases b)"
    and "length its = length toks" "list_all truthy its" "i < length toks"
  shows "test_cases b ! i = Some (tc_stdin (filter isReal (tests p0) ! i)) \<and>
    filter isReal (tests (viewArrived its n (batchAcked toks p))) ! i =
      applyItem (mode p0) (its ! i) (queue_with (toks ! i) (stripCase (filter isReal (tests p0) ! i))) \<and>
    filter (\<lambda>t. \<not> isReal t) (tests (viewArrived its n (batchAcked toks p))) =
      map stripCase (filter (\<lambda>t. \<not> isReal t) (tests p0))"
proof -
  have p: "tests p = map stripCase (tests p0)" "run p = Submitting (mode p0) (stopOnFail p0)" "\<not> ctlAborted p"
    and b: "test_cases b = map (\<lambda>t. Some (tc_stdin t)) (filter isReal (tests p0))"
    using assms(1) by (auto simp: runAll_def Let_def split: if_splits)
  have real: "filter isReal (tests p) = map stripCase (filter isReal (tests p0))"
    by (simp add: p filter_map_keep)
  then have len: "length toks = length (filter isReal (tests p))" using assms(4) b by simp
  define q where "q = batchAcked toks p"
  have q: "tests q = pairTokens toks (tests p)" "run q = Polling toks (mode p0) (stopOnFail p0) False"
    using p by (simp_all add: q_def batchAcked_def Let_def)
  have v: "tests (viewArrived its n q) = map (applyCase (mode p0) toks its) (tests q)"
    by (simp add: viewArrived_def q Let_def applyView_def)
  have "filter isReal (tests (viewArrived its n q)) =
      map (applyCase (mode p0) toks its) (map2 queue_with toks (filter isReal (tests p)))"
    by (simp only: v q(1) pairTokens_real [OF len] filter_map_keep isReal_applyCase)
  then have "filter isReal (tests (viewArrived its n q)) ! i =
      applyCase (mode p0) toks its (queue_with (toks ! i) (filter isReal (tests p) ! i))"
    using assms(7) len by simp
  moreover have "i < length its" "truthy (its ! i)" using assms(5-7) by (auto simp: list_all_length)
  ultimately have 1: "filter isReal (tests (viewArrived its n q)) ! i =
      applyItem (mode p0) (its ! i) (queue_with (toks ! i) (stripCase (filter isReal (tests p0) ! i)))"
    using applyCase_token [OF assms(2,7)] assms(4,7) real b by simp
  have "index_of [] toks = None" using assms(3) by simp
  then have "applyCase (mode p0) toks its (stripCase t) = stripCase t" for t
    by (simp add: applyCase_def stripCase_def del: index_of_None)
  moreover have "filter (\<lambda>t. \<not> isReal t) (pairTokens toks ts) = filter (\<lambda>t. \<not> isReal t) ts" for ts
    by (induction toks ts rule: pairTokens.induct) (auto simp: isReal_def)
  ultimately have "filter (\<lambda>t. \<not> isReal t) (tests (viewArrived its n q)) =
      map stripCase (filter (\<lambda>t. \<not> isReal t) (tests p0))"
    by (simp add: v q filter_map_keep p)
  then show ?thesis using 1 b assms(4,7) by (simp add: q_def)
qed

theorem results_land_on_their_cases_witness:
  "filter isReal (tests (viewArrived [accepted_item []] 0 (batchAcked [js ''tok''] submitted_panel))) ! 0 =
   applyItem (mode edited_panel) (accepted_item [])
     (queue_with (js ''tok'') (stripCase (filter isReal (tests edited_panel) ! 0)))"
proof -
  obtain b where b: "runAll 71 (js ''print'') sample_limits True edited_panel = (submitted_panel, Some b)"
    "length (test_cases b) = 1"
    using trim_print edited_tests
    by (simp add: submitted_panel_def runAll_def isReal_def edited_panel_def patchCase_def first_panel_def
        initial_panel_def)
  show ?thesis
    using results_land_on_their_cases [OF b(1), of "[js ''tok'']" "[accepted_item []]" 0 0] b(2)
    by (simp add: accepted_item_fields)
qed

text \<open>What \<^verbatim>\<open>runAll\<close> sends is admissible for the batch endpoint: for a panel that keeps its
  invariant the batch has between 1 and 100 cases, its source is not blank, and nothing is sent
  while a run is in progress, while the service is offline or when every case is blank. The time
  limits are the user's, without the cap of 30 seconds that a single run applies.\<close>

theorem runAll_admissible:
  assumes "panel_ok p" "runAll lang code rl online p = (p', r)"
  shows "(r \<noteq> None \<longleftrightarrow> \<not> running p \<and> online \<and> trim code \<noteq> [] \<and> (\<exists>t \<in> set (tests p). isReal t)) \<and>
    (running p' \<longleftrightarrow> running p \<or> r \<noteq> None) \<and>
    (\<forall>b. r = Some b \<longrightarrow> 1 \<le> length (test_cases b) \<and> length (test_cases b) \<le> 100 \<and>
      bsource_code b = code \<and> (\<exists>l. blimits b = Some l \<and> cpu_time l = Some (timeS rl)))"
proof -
  have "length (filter isReal (tests p)) \<le> 100"
    by (rule order_trans [OF length_filter_le]) (use assms(1) in \<open>simp add: panel_ok_def tests_ok_def\<close>)
  moreover have "filter isReal (tests p) = [] \<longleftrightarrow> \<not> (\<exists>t \<in> set (tests p). isReal t)"
    by (auto simp: filter_empty_conv)
  ultimately show ?thesis
    using assms(2) by (auto simp: runAll_def Let_def Suc_le_eq split: if_splits)
qed

theorem runAll_admissible_witness:
  "snd (runAll 71 (js ''print'') sample_limits True edited_panel) \<noteq> None"
proof -
  have "reach panel_start panel_step (edited_panel, sample_storage)"
    unfolding edited_panel_def by (rule reach_step [OF reach_first s_expected])
  then have "panel_ok edited_panel" using panel.reach_inv by (fastforce simp: panel_inv_def)
  moreover have "\<not> running edited_panel"
    by (simp add: edited_panel_def patchCase_def first_panel_def initial_panel_def)
  ultimately show ?thesis
    using runAll_admissible [of edited_panel 71 "js ''print''" sample_limits True] trim_print edited_tests
    by (cases "runAll 71 (js ''print'') sample_limits True edited_panel") (simp add: isReal_def)
qed

text \<open>The verdict on a case as a function of the service's status: none while the job is not
  finished, unchecked without an expectation, the comparison for an accepted run, and wrong for
  every other finished status, also those that are no judgement of the program (a sandbox failure,
  an internal error, a cancelled or expired job).\<close>

theorem verdict_of_status:
  "verdict (statusKind (Some (status_json s))) out expected m =
     (if \<not> is_terminal s then None
      else if expected = [] then Some Unchecked
      else if s = Accepted \<and> grade out expected m then Some Pass else Some Fail)"
  by (cases s) (simp_all add: verdict_def statusKind_json kind_switch_def is_terminal_def)


text \<open>Tokens are paired with the cases that are there when they arrive. If the user deletes
  the first case while the batch is being submitted, the second case gets the token, and hence the
  results, of the deleted one.\<close>

theorem delete_shifts_tokens:
  assumes "run p = Submitting m stop" "tests p = a # b # rest" "isReal a" "isReal b"
    and "tc_id a \<noteq> tc_id b" "toks \<noteq> []"
  shows "hd (tests (batchAcked toks (deleteCase (tc_id a) new p))) = queue_with (hd toks) b"
  using assms
  by (simp add: batchAcked_def deleteCase_def Let_def runFailed_def finishRun_def queue_with_def)

definition two_case_panel :: panel where
  "two_case_panel = first_panel\<lparr>tests := [plainCase [97] [49] [], plainCase [98] [50] []],
     run := Submitting (js ''trim'') False\<rparr>"

theorem delete_shifts_tokens_witness:
  "hd (tests (batchAcked [[116], [117]] (deleteCase [97] [99] two_case_panel))) =
   queue_with [116] (plainCase [98] [50] [])"
  using delete_shifts_tokens [of two_case_panel "js ''trim''" False "plainCase [97] [49] []" "plainCase [98] [50] []"
      "[]" "[[116], [117]]" "[99]"]
  by (simp add: two_case_panel_def isReal_def)

text \<open>An edit does not clear the token: when the user changes the input of a case during a
  run, the next view shows the status and output of the old input beside the new one.\<close>

theorem edit_keeps_token:
  assumes "run p = Polling toks m stop False" "t \<in> set (tests p)" "tc_token t = Some (toks ! i)"
    and "distinct toks" "i < length toks" "i < length its" "truthy (its ! i)"
  shows "\<exists>t' \<in> set (tests (viewArrived its n (patchCase (tc_id t) (editStdin v) p))).
    tc_id t' = tc_id t \<and> tc_stdin t' = v \<and> tc_status t' = Some (statusKind (jget ''status'' (its ! i))) \<and>
    tc_stdout t' = Some (text_field ''stdout'' (its ! i))"
proof -
  let ?f = "\<lambda>u. if tc_id u = tc_id t then editStdin v u else u"
  have "tests (viewArrived its n (patchCase (tc_id t) (editStdin v) p)) = map (applyCase m toks its) (map ?f (tests p))"
    using assms(1) by (simp add: viewArrived_def patchCase_def Let_def applyView_def)
  then have mem: "applyCase m toks its (editStdin v t) \<in> set (tests (viewArrived its n (patchCase (tc_id t) (editStdin v) p)))"
    using assms(2) by (auto intro!: image_eqI [of _ _ t])
  have "applyCase m toks its (editStdin v t) = applyItem m (its ! i) (editStdin v t)"
    using assms by (simp add: applyCase_def editStdin_def index_of_nth)
  then show ?thesis
    by (intro bexI [OF _ mem]) (simp add: applyItem_def Let_def editStdin_def)
qed

theorem edit_keeps_token_witness:
  "\<exists>t' \<in> set (tests (viewArrived [accepted_item []] 1 (patchCase (js ''tc_1'') (editStdin (js ''new'')) polled_panel))).
    tc_stdin t' = js ''new'' \<and> tc_status t' = Some (js ''accepted'')"
proof -
  let ?t = "queue_with (js ''tok'') (plainCase (js ''tc_1'') [] (js ''x''))"
  have "?t \<in> set (tests polled_panel)" "tc_token ?t = Some ([js ''tok''] ! 0)"
    by (simp_all add: polled_fields queue_with_def)
  from edit_keeps_token [OF polled_fields(2) this, of "[accepted_item []]" 1 "js ''new''"]
  show ?thesis by (auto simp: accepted_item_fields statusKind_accepted queue_with_def)
qed



text \<open>Importing a file with more than 100 cases keeps the first 100 and shows no message: the
  one about the cap is cleared before it can be rendered.\<close>

theorem import_cap_is_silent:
  assumes "import_rows tx = Inr parsed" "length parsed > 100" "length ids = 100"
  shows "length (tests (onImportFile em ids tx p)) = 100 \<and> batchError (onImportFile em ids tx p) = None \<and>
    map (\<lambda>t. (tc_stdin t, tc_expected t)) (tests (onImportFile em ids tx p)) = take 100 parsed"
proof -
  have "map (\<lambda>t. (tc_stdin t, tc_expected t)) (map (\<lambda>(i, (s, e)). plainCase i s e) (zip ids (take 100 parsed))) =
    map snd (zip ids (take 100 parsed))" by auto
  also have "\<dots> = take 100 parsed" using assms(2,3) by (simp add: map_snd_zip_take)
  finally show ?thesis using assms by (auto simp: onImportFile_def Let_def)
qed

theorem import_cap_is_silent_witness:
  "batchError (onImportFile (\<lambda>_. []) (replicate 100 [97]) (exportJSON (replicate 101 ([49], [50]))) first_panel) = None"
proof -
  have "import_rows (exportJSON (replicate 101 ([49], [50]))) = Inr (replicate 101 ([49], [50]))"
    by (rule import_exportJSON) simp
  from import_cap_is_silent [OF this, of "replicate 100 [97]" "\<lambda>_. []" first_panel] show ?thesis
    by (simp)
qed

text \<open>C20. Coming back to a source restores its cases: when the panel was saved under a key and the
  write was accepted, loading that key later yields the same cases without their results, the same
  mode and the same stop flag.\<close>

theorem saved_cases_come_back:
  assumes "panel_inv (p, st)" "mode p \<noteq> []" "hydratedFor q \<noteq> Some k" "length ids = 100"
    and "loadStore st = JObj ps" "fits st TESTS_KEY (stringify (JObj (obj_put k (bucket_json p) (make_room k ps))))"
  shows "tests (hydrate ids (persist k p st) k q) = map stripCase (tests p) \<and>
    mode (hydrate ids (persist k p st) k q) = mode p \<and>
    stopOnFail (hydrate ids (persist k p st) k q) = stopOnFail p"
proof -
  have ok: "tests_ok (tests p)" "json_ok (JObj ps)"
    using assms(1,5) by (auto simp: panel_inv_def panel_ok_def store_ok_def)
  have b: "loadBucket (persist k p st) k = Some (bucket_json p)"
    using loadStore_saveBucket [OF assms(5) ok(2) bucket_json_ok(1), of k p] assms(6) bucket_json_ok(2) [of p]
    by (simp add: persist_def loadBucket_def map_of_obj_put split: json.split)
  have ts: "tests p \<noteq> []" "length (tests p) \<le> 100" "[] \<notin> tc_id ` set (tests p)"
    using ok(1) by (auto simp: tests_ok_def)
  let ?row = "\<lambda>t. JObj [(js ''id'', JStr (tc_id t)), (js ''stdin'', JStr (tc_stdin t)), (js ''expected'', JStr (tc_expected t))]"
  have row: "hydrate_case i (?row t) = stripCase t" if "t \<in> set (tests p)" for i t
    using that ts(3) by (force simp: hydrate_case_def stripCase_def present_def)
  have "map (\<lambda>(i, v). hydrate_case i v) (zip ids (map ?row (tests p))) =
    map stripCase (map snd (zip ids (tests p)))"
    using row by (auto simp: zip_map2 dest: set_zip_rightD)
  also have "map snd (zip ids (tests p)) = tests p" using ts assms(4) by (simp add: map_snd_zip_take)
  finally show ?thesis
    using assms(2,3) ts(1) b by (simp add: hydrate_def Let_def truthy_def)
qed

theorem saved_cases_come_back_witness:
  "tests (hydrate (replicate 100 [97]) (persist [107] first_panel sample_storage) [107] first_panel) =
   map stripCase (tests first_panel)"
proof -
  have inv: "panel_inv (first_panel, sample_storage)" using panel.reach_inv [OF reach_first] .
  have st: "loadStore sample_storage = JObj []" by (simp add: loadStore_def storage_ops sample_storage_def)
  have "length (stringify (JObj [([107], bucket_json first_panel)])) \<le> 200"
    by (simp add: bucket_json_def first_panel_def initial_panel_def emptyCase_def stringify_def quote_def
        quote_cu_def high_sur_def low_sur_def js_eval)
  then have "fits sample_storage TESTS_KEY (stringify (JObj (obj_put [107] (bucket_json first_panel) (make_room [107] []))))"
    by (simp add: make_room_def storage_ops sample_storage_def used_def TESTS_KEY_def)
  from saved_cases_come_back [OF inv _ _ _ st this, of first_panel "replicate 100 [97]"] show ?thesis
    by (simp add: first_panel_def initial_panel_def)
qed

text \<open>The summary counts what the rows show: every case once, and each of passed, wrong and
  unchecked exactly; the three never exceed the number of cases.\<close>

theorem summary_counts:
  "sm_total (panel_summary ts) = length ts \<and>
   sm_pass (panel_summary ts) = length (filter (\<lambda>t. tc_passed t = Some Pass) ts) \<and>
   sm_fail (panel_summary ts) = length (filter (\<lambda>t. tc_passed t = Some Fail) ts) \<and>
   sm_unchecked (panel_summary ts) = length (filter (\<lambda>t. tc_passed t = Some Unchecked) ts) \<and>
   sm_pass (panel_summary ts) + sm_fail (panel_summary ts) + sm_unchecked (panel_summary ts) \<le> sm_total (panel_summary ts)"
proof (induction ts rule: rev_induct)
  case (snoc t ts)
  then show ?case
    by (auto simp: panel_summary_def count_case_def Let_def split: option.split passed.split)
qed (simp add: panel_summary_def)

end
