(* ===== verification/Persist.thy ===== *)
theory Persist
  imports Storage
begin

text \<open>
  What the playground keeps in the storage between visits (\<^verbatim>\<open>playground/App.tsx\<close>): the history of
  runs, the draft, the layout of the panes and the run mode. History and layout are cells of the
  storage, so that what was saved is what is loaded; the layout is validated member by member and the
  history is cut to its twenty newest entries on both ways.
\<close>

section \<open>Run metrics and limits\<close>

record run_metrics =
  m_time :: "number option"
  m_memory :: "number option"
  m_exitCode :: "number option"
  m_signal :: "jsstr option"

definition no_metrics :: run_metrics where
  "no_metrics = \<lparr>m_time = None, m_memory = None, m_exitCode = None, m_signal = None\<rparr>"

record app_limits =
  memoryMb :: number
  timeS :: number

record ceilings =
  c_memoryMb :: number
  c_timeS :: number

definition clamp :: "number \<Rightarrow> number \<Rightarrow> number \<Rightarrow> number" where
  "clamp n lo hi = max lo (min hi n)"

definition formatMem :: "number option \<Rightarrow> jsstr" where
  "formatMem mb = (case mb of
     None \<Rightarrow> [EMDASH]
   | Some m \<Rightarrow>
       (let kib = m * 1024
        in if kib < 1 then intStr (mathRound (kib * 1024)) @ js '' B''
           else if kib < 1024 then
             (if kib < 10 then toFixed 1 kib @ js '' KB'' else intStr (mathRound kib) @ js '' KB'')
           else if m < 100 then toFixed 1 m @ js '' MB'' else intStr (mathRound m) @ js '' MB''))"

section \<open>History\<close>

definition HISTORY_KEY :: jsstr where "HISTORY_KEY = js ''zerocode.playground.history''"
definition STATE_KEY :: jsstr where "STATE_KEY = js ''zerocode.playground.state''"
definition MODE_KEY :: jsstr where "MODE_KEY = js ''zerocode.playground.mode''"
definition LAYOUT_KEY :: jsstr where "LAYOUT_KEY = js ''zerocode:pg:layout-v3''"

record history_entry =
  h_name :: jsstr
  h_verdict :: jsstr
  h_time :: "number option"
  h_token :: jsstr
  h_when :: number

definition num_or_null :: "number option \<Rightarrow> json" where
  "num_or_null n = (case n of Some q \<Rightarrow> JNum q | None \<Rightarrow> JNull)"

definition entry_json :: "history_entry \<Rightarrow> json" where
  "entry_json h = JObj [(js ''name'', JStr (h_name h)), (js ''verdict'', JStr (h_verdict h)),
     (js ''time'', num_or_null (h_time h)), (js ''token'', JStr (h_token h)), (js ''when'', JNum (h_when h))]"

text \<open>
  The entries are not validated when they are loaded: any array of JSON values becomes the history.
\<close>

definition parse_history :: "jsstr \<Rightarrow> json list option" where
  "parse_history t = (case json_parse (if t = [] then js ''[]'' else t) of
     None \<Rightarrow> None
   | Some v \<Rightarrow> Some (case v of JArr vs \<Rightarrow> take 20 vs | _ \<Rightarrow> []))"

definition loadHistory :: "storage \<Rightarrow> json list" where
  "loadHistory st = (case safeRead st HISTORY_KEY of None \<Rightarrow> [] | Some t \<Rightarrow> opt [] (parse_history t))"

definition history_text :: "json list \<Rightarrow> jsstr" where
  "history_text h = stringify (JArr (take 20 h))"

definition saveHistory :: "storage \<Rightarrow> json list \<Rightarrow> storage" where
  "saveHistory st h = tryWrite st HISTORY_KEY (history_text h)"

definition history_ok :: "json list \<Rightarrow> bool" where
  "history_ok h \<longleftrightarrow> length h \<le> 20 \<and> (\<forall>v \<in> set h. json_ok v)"

lemma printed_not_Nil: "json_ok v \<Longrightarrow> stringify v \<noteq> []"
  using jtext.dec_enc [of v] by (auto simp: json_parse_def)

interpretation hist: cell safeRead tryWrite tryRemove fits allowed history_text parse_history history_ok
  HISTORY_KEY "[]" loadHistory saveHistory
proof unfold_locales
  fix h assume "history_ok h"
  then have "json_ok (JArr h)" "take 20 h = h" by (auto simp: history_ok_def)
  then show "parse_history (history_text h) = Some h"
    using printed_not_Nil [of "JArr h"] jtext.dec_enc [of "JArr h"]
    by (simp add: parse_history_def history_text_def history_ok_def)
qed (simp_all add: loadHistory_def saveHistory_def)

lemma length_loadHistory: "length (loadHistory st) \<le> 20"
  by (auto simp: loadHistory_def parse_history_def split: option.splits json.splits)

section \<open>Draft\<close>

record draft =
  dr_langId :: number
  dr_code :: jsstr
  dr_stdin :: jsstr
  dr_limits :: app_limits

definition draft_json :: "draft \<Rightarrow> json" where
  "draft_json d = JObj [(js ''langId'', JNum (dr_langId d)), (js ''code'', JStr (dr_code d)),
     (js ''stdin'', JStr (dr_stdin d)),
     (js ''limits'', JObj [(js ''memoryMb'', JNum (memoryMb (dr_limits d))), (js ''timeS'', JNum (timeS (dr_limits d)))])]"

definition parse_draft :: "jsstr \<Rightarrow> json option" where
  "parse_draft t = json_parse (if t = [] then js ''null'' else t)"

definition loadDraft :: "storage \<Rightarrow> json" where
  "loadDraft st = (case safeRead st STATE_KEY of None \<Rightarrow> JNull | Some t \<Rightarrow> opt JNull (parse_draft t))"

definition saveDraft :: "storage \<Rightarrow> draft \<Rightarrow> storage" where
  "saveDraft st d = tryWrite st STATE_KEY (stringify (draft_json d))"

interpretation drafts: cell safeRead tryWrite tryRemove fits allowed stringify parse_draft json_ok
  STATE_KEY JNull loadDraft "\<lambda>st v. tryWrite st STATE_KEY (stringify v)"
proof unfold_locales
  fix v assume "json_ok v"
  then show "parse_draft (stringify v) = Some v"
    using printed_not_Nil jtext.dec_enc by (simp add: parse_draft_def)
qed (simp_all add: loadDraft_def)

definition draft_ok :: "draft \<Rightarrow> bool" where
  "draft_ok d \<longleftrightarrow> decimal (dr_langId d) \<and> decimal (memoryMb (dr_limits d)) \<and> decimal (timeS (dr_limits d))"

lemma json_ok_draft: "draft_ok d \<Longrightarrow> json_ok (draft_json d)"
  by (auto simp: draft_ok_def draft_json_def)

lemma loadDraft_saveDraft:
  "draft_ok d \<Longrightarrow> fits st STATE_KEY (stringify (draft_json d)) \<Longrightarrow> loadDraft (saveDraft st d) = draft_json d"
  using drafts.load_save [OF json_ok_draft] by (simp add: saveDraft_def)

section \<open>Layout\<close>

record layout =
  rail :: number
  editor :: number
  stdinW :: number
  historyH :: number

definition LAYOUT_DEFAULT :: layout where
  "LAYOUT_DEFAULT = \<lparr>rail = 240, editor = 420, stdinW = 360, historyH = 200\<rparr>"

definition num_member :: "string \<Rightarrow> number \<Rightarrow> json \<Rightarrow> number" where
  "num_member k dflt v = (case jget k v of Some (JNum n) \<Rightarrow> n | _ \<Rightarrow> dflt)"

text \<open>\<^verbatim>\<open>JSON.parse\<close> may give \<^verbatim>\<open>null\<close>, whose members cannot be read: the default is returned.\<close>

definition parse_layout :: "jsstr \<Rightarrow> layout option" where
  "parse_layout j = (if j = [] then Some LAYOUT_DEFAULT else
     (case json_parse j of
        None \<Rightarrow> None
      | Some JNull \<Rightarrow> None
      | Some v \<Rightarrow> Some \<lparr>rail = num_member ''rail'' (rail LAYOUT_DEFAULT) v,
          editor = num_member ''editor'' (editor LAYOUT_DEFAULT) v,
          stdinW = num_member ''stdinW'' (stdinW LAYOUT_DEFAULT) v,
          historyH = num_member ''historyH'' (historyH LAYOUT_DEFAULT) v\<rparr>))"

definition loadLayout :: "storage \<Rightarrow> layout" where
  "loadLayout st = (case safeRead st LAYOUT_KEY of
     None \<Rightarrow> LAYOUT_DEFAULT | Some j \<Rightarrow> opt LAYOUT_DEFAULT (parse_layout j))"

definition layout_json :: "layout \<Rightarrow> json" where
  "layout_json l = JObj [(js ''rail'', JNum (rail l)), (js ''editor'', JNum (editor l)),
     (js ''stdinW'', JNum (stdinW l)), (js ''historyH'', JNum (historyH l))]"

definition saveLayout :: "storage \<Rightarrow> layout \<Rightarrow> storage" where
  "saveLayout st l = tryWrite st LAYOUT_KEY (stringify (layout_json l))"

definition layout_ok :: "layout \<Rightarrow> bool" where
  "layout_ok l \<longleftrightarrow> decimal (rail l) \<and> decimal (editor l) \<and> decimal (stdinW l) \<and> decimal (historyH l)"

interpretation lay: cell safeRead tryWrite tryRemove fits allowed "\<lambda>l. stringify (layout_json l)" parse_layout
  layout_ok LAYOUT_KEY LAYOUT_DEFAULT loadLayout saveLayout
proof unfold_locales
  fix l :: layout assume "layout_ok l"
  then have "json_ok (layout_json l)" by (auto simp: layout_ok_def layout_json_def)
  then have "json_parse (stringify (layout_json l)) = Some (layout_json l)" "stringify (layout_json l) \<noteq> []"
    using printed_not_Nil jtext.dec_enc by auto
  then show "parse_layout (stringify (layout_json l)) = Some l"
    by (simp add: parse_layout_def layout_json_def num_member_def jget_def)
qed (simp_all add: loadLayout_def saveLayout_def)

section \<open>Properties\<close>

lemma storage_keys_distinct:
  "distinct [HISTORY_KEY, STATE_KEY, MODE_KEY, LAYOUT_KEY]"
  by (simp add: HISTORY_KEY_def STATE_KEY_def MODE_KEY_def LAYOUT_KEY_def)

text \<open>
  C19. The playground comes back as it was left: after the layout, the draft and the history have been
  saved, in this order and with room for each, all three load as they were saved, and the history that
  loads is never longer than twenty entries, whatever the storage holds.
\<close>

theorem session_comes_back:
  assumes "layout_ok l" "draft_ok d" "history_ok h"
    and "fits st LAYOUT_KEY (stringify (layout_json l))"
    and "st1 = saveLayout st l" "fits st1 STATE_KEY (stringify (draft_json d))"
    and "st2 = saveDraft st1 d" "fits st2 HISTORY_KEY (history_text h)"
  shows "loadLayout (saveHistory st2 h) = l \<and> loadDraft (saveHistory st2 h) = draft_json d
    \<and> loadHistory (saveHistory st2 h) = h \<and> length (loadHistory any) \<le> 20"
proof -
  have n: "LAYOUT_KEY \<noteq> STATE_KEY" "LAYOUT_KEY \<noteq> HISTORY_KEY" "STATE_KEY \<noteq> HISTORY_KEY"
    using storage_keys_distinct by auto
  have "loadLayout (saveHistory st2 h) = loadLayout st1"
    using lay.load_other n by (metis saveHistory_def saveDraft_def assms(7))
  moreover have "loadLayout st1 = l" using lay.load_save assms(1,4,5) by simp
  moreover have "loadDraft (saveHistory st2 h) = loadDraft st2"
    using drafts.load_other n by (metis saveHistory_def)
  moreover have "loadDraft st2 = draft_json d" using loadDraft_saveDraft assms(2,6,7) by simp
  moreover have "loadHistory (saveHistory st2 h) = h" using hist.load_save assms(3,8) by simp
  ultimately show ?thesis using length_loadHistory by simp
qed

definition sample_draft :: draft where
  "sample_draft = \<lparr>dr_langId = 71, dr_code = js ''print(1)'', dr_stdin = [], dr_limits = \<lparr>memoryMb = 1024, timeS = 30\<rparr>\<rparr>"

text \<open>An empty storage with just enough room for the three values.\<close>

definition sample_session :: storage where
  "sample_session = \<lparr>items = [], allowed = True,
     quota = length LAYOUT_KEY + length (stringify (layout_json LAYOUT_DEFAULT))
       + (length STATE_KEY + length (stringify (draft_json sample_draft)))
       + (length HISTORY_KEY + length (history_text [JNull]))\<rparr>"

theorem session_comes_back_witness:
  "\<exists>st. loadLayout st = LAYOUT_DEFAULT \<and> loadDraft st = draft_json sample_draft \<and> loadHistory st = [JNull]"
proof -
  let ?l = LAYOUT_DEFAULT and ?d = sample_draft and ?st = sample_session
  have n: "LAYOUT_KEY \<noteq> STATE_KEY" "LAYOUT_KEY \<noteq> HISTORY_KEY" "STATE_KEY \<noteq> HISTORY_KEY"
    using storage_keys_distinct by auto
  define st1 where "st1 = saveLayout ?st ?l"
  define st2 where "st2 = saveDraft st1 ?d"
  have 0: "layout_ok ?l" "draft_ok ?d" "history_ok [JNull]"
    by (simp_all add: layout_ok_def LAYOUT_DEFAULT_def draft_ok_def sample_draft_def history_ok_def decimal_numeral)
  have 1: "fits ?st LAYOUT_KEY (stringify (layout_json ?l))"
    by (simp add: sample_session_def storage_ops used_def)
  have s1: "st1 = ?st\<lparr>items := [(LAYOUT_KEY, stringify (layout_json ?l))]\<rparr>"
    by (simp add: st1_def saveLayout_def sample_session_def storage_ops used_def)
  then have 2: "fits st1 STATE_KEY (stringify (draft_json ?d))"
    using n by (simp add: sample_session_def storage_ops used_def)
  have s2: "st2 = ?st\<lparr>items := [(LAYOUT_KEY, stringify (layout_json ?l)), (STATE_KEY, stringify (draft_json ?d))]\<rparr>"
    using n s1 by (simp add: st2_def saveDraft_def sample_session_def storage_ops used_def)
  then have 3: "fits st2 HISTORY_KEY (history_text [JNull])"
    using n by (simp add: sample_session_def storage_ops used_def)
  show ?thesis
    using session_comes_back [OF 0 1 st1_def 2 st2_def 3] by blast
qed

end
