(* ===== verification/Sse.thy ===== *)
theory Sse
  imports Api
begin

text \<open>
  The event stream of a submission (\<^verbatim>\<open>stream\<close> in \<^verbatim>\<open>shared/api.ts\<close>): the bytes that arrive are
  decoded as UTF-8 by a \<^verbatim>\<open>TextDecoder\<close> in streaming mode, the text is cut at blank lines and each
  frame becomes an event. The lemmas show that the events do not depend on how the bytes were cut
  into chunks, and that an event the service prints is the event the client sees.
\<close>

section \<open>The streaming decoder\<close>

text \<open>
  The UTF-8 decoder of the Encoding Standard: the code point so far, the continuation bytes seen and
  needed, the bounds of the next byte, and whether the place of a byte order mark has passed. A
  malformed sequence yields U+FFFD, and the byte that broke it is looked at again.
\<close>

record decoder =
  d_cp :: nat
  d_seen :: nat
  d_needed :: nat
  d_lower :: nat
  d_upper :: nat
  d_bom :: bool

definition decoder0 :: decoder where
  "decoder0 = \<lparr>d_cp = 0, d_seen = 0, d_needed = 0, d_lower = 0x80, d_upper = 0xBF, d_bom = False\<rparr>"

definition d_reset :: "decoder \<Rightarrow> decoder" where
  "d_reset d = d\<lparr>d_cp := 0, d_seen := 0, d_needed := 0, d_lower := 0x80, d_upper := 0xBF\<rparr>"

definition lead_byte :: "decoder \<Rightarrow> nat \<Rightarrow> decoder \<times> nat list" where
  "lead_byte d b =
     (if b < 0x80 then (d, [b])
      else if 0xC2 \<le> b \<and> b \<le> 0xDF then (d\<lparr>d_needed := 1, d_cp := b mod 32\<rparr>, [])
      else if 0xE0 \<le> b \<and> b \<le> 0xEF then
        (d\<lparr>d_needed := 2, d_cp := b mod 16,
           d_lower := (if b = 0xE0 then 0xA0 else 0x80), d_upper := (if b = 0xED then 0x9F else 0xBF)\<rparr>, [])
      else if 0xF0 \<le> b \<and> b \<le> 0xF4 then
        (d\<lparr>d_needed := 3, d_cp := b mod 8,
           d_lower := (if b = 0xF0 then 0x90 else 0x80), d_upper := (if b = 0xF4 then 0x8F else 0xBF)\<rparr>, [])
      else (d, [0xFFFD]))"

definition decode_byte :: "decoder \<Rightarrow> nat \<Rightarrow> decoder \<times> nat list" where
  "decode_byte d b =
     (if d_needed d = 0 then lead_byte d b
      else if b < d_lower d \<or> d_upper d < b then
        (let (d', ps) = lead_byte (d_reset d) b in (d', 0xFFFD # ps))
      else
        (let d1 = d\<lparr>d_lower := 0x80, d_upper := 0xBF, d_cp := d_cp d * 64 + (b - 0x80),
                     d_seen := d_seen d + 1\<rparr>
         in if d_seen d1 = d_needed d1 then (d_reset d1, [d_cp d1]) else (d1, [])))"

text \<open>The first code point of the stream is dropped if it is a byte order mark.\<close>

definition skip_bom :: "decoder \<Rightarrow> nat list \<Rightarrow> decoder \<times> nat list" where
  "skip_bom d ps =
     (if d_bom d \<or> ps = [] then (d, ps)
      else (d\<lparr>d_bom := True\<rparr>, if hd ps = 0xFEFF then tl ps else ps))"

fun decode_all :: "decoder \<Rightarrow> nat list \<Rightarrow> decoder \<times> nat list" where
  "decode_all d [] = (d, [])"
| "decode_all d (b # bs) =
     (let (d1, ps) = decode_byte d b; (d2, qs) = skip_bom d1 ps; (d3, rs) = decode_all d2 bs
      in (d3, qs @ rs))"

text \<open>\<^verbatim>\<open>dec.decode(value, { stream: true })\<close>.\<close>

definition decode_chunk :: "decoder \<Rightarrow> nat list \<Rightarrow> decoder \<times> jsstr" where
  "decode_chunk d bs =
     (let (d', ps) = decode_all d bs in (d', map of_nat (concat (map utf16_of ps))))"

section \<open>Frames\<close>

record sse_event =
  event :: jsstr
  ejson :: json
  raw :: jsstr

definition starts_with :: "string \<Rightarrow> jsstr \<Rightarrow> bool" where
  "starts_with p s \<longleftrightarrow> take (length p) s = js p"

definition frame_line :: "jsstr \<times> jsstr \<Rightarrow> jsstr \<Rightarrow> jsstr \<times> jsstr" where
  "frame_line = (\<lambda>(ev, data) ln.
     (if starts_with ''event:'' ln then (trim (drop 6 ln), data)
      else if starts_with ''data:'' ln then (ev, data @ (if data \<noteq> [] then [LF] else []) @ trim (drop 5 ln))
      else (ev, data)))"

definition frame_event :: "jsstr \<Rightarrow> sse_event option" where
  "frame_event frame =
     (let (ev, data) = foldl frame_line (js ''message'', []) (split_on LF frame)
      in if ev = [] \<and> data = [] then None
         else Some \<lparr>event = ev, ejson = (if data = [] then JNull else opt JNull (json_parse data)), raw = data\<rparr>)"

lemma index_sub_drop_less [termination_simp]:
  "index_sub [LF, LF] buf = Some i \<Longrightarrow> length buf - Suc (Suc i) < length buf"
  using index_sub_less [of "[LF, LF]" buf i] by simp

function take_frames :: "jsstr \<Rightarrow> jsstr list \<times> jsstr" where
  "take_frames buf = (case index_sub [LF, LF] buf of
     None \<Rightarrow> ([], buf)
   | Some i \<Rightarrow> (let (fs, rest) = take_frames (drop (i + 2) buf) in (take i buf # fs, rest)))"
  by pat_completeness auto
termination
  by (relation "measure length") (auto dest: index_sub_drop_less)

declare take_frames.simps [simp del]

section \<open>The read loop\<close>

record sse =
  dec :: decoder
  buf :: jsstr

definition sse0 :: sse where
  "sse0 = \<lparr>dec = decoder0, buf = []\<rparr>"

definition feed :: "sse \<Rightarrow> nat list \<Rightarrow> sse \<times> sse_event list" where
  "feed s bs =
     (let (d, t) = decode_chunk (dec s) bs; (fs, rest) = take_frames (buf s @ t)
      in (\<lparr>dec = d, buf = rest\<rparr>, List.map_filter frame_event fs))"

text \<open>
  What a reader's \<^verbatim>\<open>read\<close> gives, and how the loop ends: the stream was closed by the server, the
  read failed (\<^verbatim>\<open>onError\<close> is called) or more is to come. The flag of each read tells whether the
  caller had cancelled by then.
\<close>

datatype sse_read = Chunk "nat list" | ReadDone | ReadFail
datatype stream_end = More | Closed | Failed | Stopped

fun read_loop :: "sse \<Rightarrow> (bool \<times> sse_read) list \<Rightarrow> sse_event list \<times> stream_end" where
  "read_loop s [] = ([], More)"
| "read_loop s ((ab, r) # rs) = (case r of
     ReadFail \<Rightarrow> ([], if ab then Stopped else Failed)
   | ReadDone \<Rightarrow> ([], if ab then Stopped else Closed)
   | Chunk bs \<Rightarrow>
       (if ab then ([], Stopped)
        else (let (s', es) = feed s bs; (es', e) = read_loop s' rs in (es @ es', e))))"

text \<open>
  \<^verbatim>\<open>stream\<close>: the request, then the loop. \<open>connect\<close> gives the status of the reply and whether it has a
  body, or nothing when \<^verbatim>\<open>fetch\<close> rejects; \<open>ab\<close> tells whether the caller had cancelled by then.
\<close>

definition stream_request :: "api \<Rightarrow> jsstr \<Rightarrow> request option" where
  "stream_request a token = map_option (\<lambda>t.
     \<lparr>url = base a @ js ''/v1/submissions/'' @ t @ js ''/stream'', http_method = js ''GET'',
      hdrs = obj_put (js ''Accept'') (js ''text/event-stream'') (headers a []), body = None\<rparr>)
     (encodeURIComponent token)"

definition stream :: "api \<Rightarrow> jsstr \<Rightarrow> (request \<Rightarrow> (nat \<times> bool) option) \<Rightarrow> bool \<Rightarrow> (bool \<times> sse_read) list
    \<Rightarrow> sse_event list \<times> stream_end" where
  "stream a token connect ab reads = (case stream_request a token of
     None \<Rightarrow> ([], Failed)
   | Some q \<Rightarrow>
       (case connect q of
          None \<Rightarrow> ([], if ab then Stopped else Failed)
        | Some (n, has_body) \<Rightarrow>
            if ok_status n \<and> has_body then read_loop sse0 reads
            else ([], if ab then Stopped else Failed)))"

section \<open>Chunks do not matter\<close>

lemma decode_all_append:
  "decode_all d (as @ bs) =
     (let (d1, ps) = decode_all d as; (d2, qs) = decode_all d1 bs in (d2, ps @ qs))"
  by (induction d as rule: decode_all.induct) (auto simp: Let_def split: prod.splits)

lemma decode_chunk_append:
  "decode_chunk d (as @ bs) =
     (let (d1, s) = decode_chunk d as; (d2, t) = decode_chunk d1 bs in (d2, s @ t))"
  by (simp add: decode_chunk_def decode_all_append Let_def split: prod.splits)

lemma prefix_append_mono: "prefix n h \<Longrightarrow> prefix n (h @ t)"
  by (auto simp: prefix_def)

lemma index_sub_append: "index_sub n a = Some i \<Longrightarrow> n \<noteq> [] \<Longrightarrow> index_sub n (a @ b) = Some i"
proof (induction a arbitrary: i)
  case (Cons x a)
  show ?case
  proof (cases "prefix n (x # a)")
    case True
    then show ?thesis using Cons prefix_append_mono [OF True, of b] by simp
  next
    case False
    then obtain j where j: "index_sub n a = Some j" "i = Suc j" using Cons.prems by auto
    have "j + length n \<le> length a" using index_sub_SomeD [OF j(1)] by auto
    then have "length n \<le> length (x # a)" by simp
    then have "\<not> prefix n (x # a @ b)" using False by (metis append_Cons prefix_append prefix_length_prefix prefix_order.refl prefix_prefix)
    then show ?thesis using Cons.IH [OF j(1)] Cons.prems(2) j(2) by simp
  qed
qed simp

lemma take_frames_append:
  "take_frames (a @ b) =
     (let (fs, r) = take_frames a; (gs, r') = take_frames (r @ b) in (fs @ gs, r'))"
proof (induction a rule: take_frames.induct)
  case (1 a)
  show ?case
  proof (cases "index_sub [LF, LF] a")
    case None
    then show ?thesis by (simp add: take_frames.simps [of a])
  next
    case (Some i)
    have "i + 2 \<le> length a" using index_sub_SomeD [OF Some] by auto
    then have d: "take i (a @ b) = take i a" "drop (i + 2) (a @ b) = drop (i + 2) a @ b" by simp_all
    have "take_frames (a @ b) = (let (fs, rest) = take_frames (drop (i + 2) (a @ b)) in (take i (a @ b) # fs, rest))"
      using index_sub_append [OF Some] by (subst take_frames.simps) simp
    then show ?thesis
      unfolding d using 1 [OF Some] Some
      by (subst (2) take_frames.simps) (auto simp: Let_def split: prod.splits)
  qed
qed

lemma map_filter_append: "List.map_filter f (xs @ ys) = List.map_filter f xs @ List.map_filter f ys"
  by (simp add: List.map_filter_def)

lemma feed_append:
  "feed s (as @ bs) = (let (s1, es) = feed s as; (s2, fs) = feed s1 bs in (s2, es @ fs))"
proof -
  obtain d1 t1 where 1: "decode_chunk (dec s) as = (d1, t1)" by fastforce
  obtain d2 t2 where 2: "decode_chunk d1 bs = (d2, t2)" by fastforce
  obtain fs r where 3: "take_frames (buf s @ t1) = (fs, r)" by fastforce
  obtain gs r' where 4: "take_frames (r @ t2) = (gs, r')" by fastforce
  have "take_frames (buf s @ t1 @ t2) = (fs @ gs, r')"
    using take_frames_append [of "buf s @ t1" t2] 3 4 by simp
  then show ?thesis
    using 1 2 3 4 by (simp add: feed_def decode_chunk_append Let_def map_filter_append)
qed

lemma feed_Nil: "buf s = r \<Longrightarrow> take_frames r = ([], r) \<Longrightarrow> feed s [] = (s, [])"
  by (simp add: feed_def decode_chunk_def List.map_filter_def)

lemma take_frames_rest: "take_frames a = (fs, r) \<Longrightarrow> take_frames r = ([], r)"
proof (induction a arbitrary: fs rule: take_frames.induct)
  case (1 a)
  show ?case
  proof (cases "index_sub [LF, LF] a")
    case None
    then show ?thesis using 1(2) by (auto simp: take_frames.simps [of a] take_frames.simps [of r])
  next
    case (Some i)
    then show ?thesis using 1(1) [OF Some] 1(2) by (subst (asm) take_frames.simps) (auto split: prod.splits)
  qed
qed

text \<open>The events of a whole stream, from the text it decodes to.\<close>

definition stream_events :: "nat list \<Rightarrow> sse_event list" where
  "stream_events bs = List.map_filter frame_event (fst (take_frames (snd (decode_chunk decoder0 bs))))"

section \<open>What the service writes is what the client reads\<close>

definition printable :: "jsstr \<Rightarrow> bool" where
  "printable s \<longleftrightarrow> (\<forall>c \<in> set s. 32 \<le> unat c)"

lemma printable_simps [simp]:
  "printable []" "printable (c # s) \<longleftrightarrow> 32 \<le> unat c \<and> printable s"
  "printable (s @ t) \<longleftrightarrow> printable s \<and> printable t"
  by (auto simp: printable_def)

lemma printable_join: "printable sep \<Longrightarrow> \<forall>l \<in> set ls. printable l \<Longrightarrow> printable (join sep ls)"
  by (induction sep ls rule: join.induct) auto

lemma printable_digits: "printable (natStr n)"
proof -
  have "32 \<le> unat (digit_cu d)" if "d < 36" for d using that unat_digit_cu [of d] by simp
  moreover have "d < 36" if "d \<in> set (digits 10 n)" for d using that digits_less [of 10] by fastforce
  ultimately show ?thesis by (auto simp: natStr_def radix_def printable_def)
qed

lemma printable_numText: "printable (numText q)"
proof -
  have z: "32 \<le> unat (digit_cu 0)" using unat_digit_cu [of 0] by simp
  have "printable (pad0 k (natStr n))" for k n
    using printable_digits [of n] z by (auto simp: pad0_def printable_def)
  then have "printable (take m (pad0 k (natStr n)))" "printable (drop m (pad0 k (natStr n)))" for m k n
    by (metis printable_simps(3) append_take_drop_id)+
  then show ?thesis by (auto simp: numText_def Let_def js_eval split: option.split)
qed

lemma printable_u_escape: "n < 65536 \<Longrightarrow> printable (u_escape n)"
proof -
  have "32 \<le> unat (hex_lower d)" if "d < 16" for d
    using that by (simp add: hex_lower_def unat_of_nat_cu del: of_nat_add)
  then show "n < 65536 \<Longrightarrow> printable (u_escape n)" by (auto simp: u_escape_def)
qed

lemma printable_quote_cu: "printable (quote_cu c)"
proof -
  have "unat c < 65536" using unsigned_less [of c, where ?'a = nat] by simp
  then show ?thesis using printable_u_escape by (auto simp: quote_cu_def)
qed

lemma printable_quote: "printable (quote s)"
proof -
  have u: "unat c < 65536" for c :: cu using unsigned_less [of c, where ?'a = nat] by simp
  have "printable (quote_body s)"
    by (induction s rule: quote_body.induct)
      (auto simp: printable_quote_cu printable_u_escape u high_sur_def low_sur_def)
  then show ?thesis by (simp add: quote_def)
qed

lemma printable_stringify: "printable (stringify_with (\<lambda>_. []) [] d v)"
proof (induction v arbitrary: d)
  case (JArr vs)
  then show ?case by (auto simp: js_eval intro!: printable_join)
next
  case (JObj ps)
  then show ?case by (auto simp: js_eval printable_quote intro!: printable_join)
qed (auto simp: js_eval printable_numText printable_quote)

text \<open>The frame of an event with a JSON object, as the service writes it.\<close>

definition server_frame :: "jsstr \<Rightarrow> (jsstr \<times> json) list \<Rightarrow> jsstr" where
  "server_frame ev ps = js ''event: '' @ ev @ [LF] @ js ''data: '' @ stringify (JObj ps)"

lemma trim_ends:
  "s \<noteq> [] \<Longrightarrow> \<not> is_ws (hd s) \<Longrightarrow> \<not> is_ws (last s) \<Longrightarrow> trim (SPACE # s) = s"
proof -
  assume s: "s \<noteq> []" "\<not> is_ws (hd s)" "\<not> is_ws (last s)"
  have "dropWhile is_ws (SPACE # s) = s" using s by (cases s) (auto simp: is_ws_def)
  moreover have "dropWhile is_ws (rev s) = rev s" using s by (cases s rule: rev_cases) auto
  ultimately show ?thesis by (simp add: trim_def)
qed

lemma trim_stringify_obj: "trim (SPACE # stringify (JObj ps)) = stringify (JObj ps)"
proof (rule trim_ends)
  have "hd (stringify (JObj ps)) = 123 \<and> last (stringify (JObj ps)) = 125"
    by (simp add: stringify_def js_eval)
  then show "\<not> is_ws (hd (stringify (JObj ps)))" "\<not> is_ws (last (stringify (JObj ps)))"
    by (simp_all add: is_ws_def)
qed (simp add: stringify_def js_eval)

definition event_name :: "jsstr \<Rightarrow> bool" where
  "event_name ev \<longleftrightarrow> ev \<noteq> [] \<and> printable ev \<and> \<not> is_ws (hd ev) \<and> \<not> is_ws (last ev)"

lemma printable_no_LF: "printable s \<Longrightarrow> LF \<notin> set s"
  by (auto simp: printable_def)

lemma frame_event_server:
  assumes "event_name ev" "json_ok (JObj ps)"
  shows "frame_event (server_frame ev ps) = Some \<lparr>event = ev, ejson = JObj ps, raw = stringify (JObj ps)\<rparr>"
proof -
  let ?d = "stringify (JObj ps)"
  have "LF \<notin> set (js ''event: '' @ ev)" "LF \<notin> set (js ''data: '' @ ?d)"
    using assms(1) printable_stringify [of 0 "JObj ps"] printable_no_LF
    by (auto simp: event_name_def stringify_def js_eval)
  then have "split_on LF (server_frame ev ps) = [js ''event: '' @ ev, js ''data: '' @ ?d]"
    using split_on_append [of LF "js ''event: '' @ ev" "js ''data: '' @ ?d"]
      split_on_no_sep [of LF "js ''data: '' @ ?d"]
    by (simp add: server_frame_def)
  moreover have "starts_with ''event:'' (js ''event: '' @ ev)" "drop 6 (js ''event: '' @ ev) = SPACE # ev"
    "\<not> starts_with ''event:'' (js ''data: '' @ ?d)" "starts_with ''data:'' (js ''data: '' @ ?d)"
    "drop 5 (js ''data: '' @ ?d) = SPACE # ?d"
    by (simp_all add: starts_with_def js_eval)
  moreover have "trim (SPACE # ev) = ev" using assms(1) trim_ends by (simp add: event_name_def)
  moreover have "json_parse ?d = Some (JObj ps)" using assms(2) by (rule jtext.dec_enc)
  moreover from this have "?d \<noteq> []" by (auto simp: json_parse_def)
  ultimately show ?thesis
    by (simp add: frame_event_def frame_line_def trim_stringify_obj)
qed

subsection \<open>A sequence of frames\<close>

lemma index_sub_skip:
  "LF \<notin> set s \<Longrightarrow> index_sub [LF, LF] (s @ t) = map_option (\<lambda>i. length s + i) (index_sub [LF, LF] t)"
  by (induction s) (cases "index_sub [LF, LF] t"; simp)+

lemma index_sub_frame:
  assumes "LF \<notin> set a" "LF \<notin> set b" "b \<noteq> []"
  shows "index_sub [LF, LF] ((a @ LF # b) @ LF # LF # r) = Some (length (a @ LF # b))"
proof -
  obtain c b' where b: "b = c # b'" "c \<noteq> LF" using assms(2,3) by (cases b) auto
  have "index_sub [LF, LF] (b @ LF # LF # r) = Some (length b)"
    using index_sub_skip [OF assms(2), of "LF # LF # r"] by simp
  then have "index_sub [LF, LF] (LF # b @ LF # LF # r) = Some (Suc (length b))" using b by simp
  then show ?thesis using index_sub_skip [OF assms(1), of "LF # b @ LF # LF # r"] by simp
qed

lemma take_frames_server:
  assumes "event_name ev"
  shows "take_frames (server_frame ev ps @ LF # LF # r) =
    (let (fs, rest) = take_frames r in (server_frame ev ps # fs, rest))"
proof -
  let ?a = "js ''event: '' @ ev" and ?b = "js ''data: '' @ stringify (JObj ps)"
  have f: "server_frame ev ps = ?a @ LF # ?b" by (simp add: server_frame_def)
  have "LF \<notin> set ?a" "LF \<notin> set ?b"
    using assms printable_stringify [of 0 "JObj ps"] printable_no_LF
    by (auto simp: event_name_def stringify_def js_eval)
  then have "index_sub [LF, LF] (server_frame ev ps @ LF # LF # r) = Some (length (server_frame ev ps))"
    unfolding f by (rule index_sub_frame) simp
  then show ?thesis by (subst take_frames.simps) simp
qed

definition server_text :: "(jsstr \<times> (jsstr \<times> json) list) list \<Rightarrow> jsstr" where
  "server_text es = concat (map (\<lambda>(ev, ps). server_frame ev ps @ [LF, LF]) es)"

lemma frames_of_server_text:
  assumes "\<forall>(ev, ps) \<in> set es. event_name ev \<and> json_ok (JObj ps)"
  shows "List.map_filter frame_event (fst (take_frames (server_text es))) =
    map (\<lambda>(ev, ps). \<lparr>event = ev, ejson = JObj ps, raw = stringify (JObj ps)\<rparr>) es"
  using assms
proof (induction es)
  case Nil
  then show ?case by (simp add: server_text_def take_frames.simps List.map_filter_def)
next
  case (Cons e es)
  obtain ev ps where e: "e = (ev, ps)" by fastforce
  have t: "server_text (e # es) = server_frame ev ps @ LF # LF # server_text es"
    by (simp add: server_text_def e)
  have ok: "event_name ev" "json_ok (JObj ps)" using Cons.prems e by auto
  obtain fs rest where fs: "take_frames (server_text es) = (fs, rest)" by fastforce
  then have "fst (take_frames (server_text (e # es))) = server_frame ev ps # fs"
    using take_frames_server [OF ok(1)] by (simp add: t)
  then show ?case
    using Cons fs e frame_event_server [OF ok] by (simp add: List.map_filter_def)
qed

subsection \<open>Bytes\<close>

definition idle :: "decoder \<Rightarrow> bool" where
  "idle d \<longleftrightarrow> d_needed d = 0 \<and> d_reset d = d"

lemma idle_fields: "idle d \<Longrightarrow> d_cp d = 0 \<and> d_seen d = 0 \<and> d_needed d = 0 \<and> d_lower d = 0x80 \<and> d_upper d = 0xBF"
  by (cases d) (auto simp: idle_def d_reset_def)

lemma idle_decoder0: "idle decoder0"
  by (simp add: idle_def d_reset_def decoder0_def)

lemma skip_bom_Nil [simp]: "skip_bom d [] = (d, [])"
  by (simp add: skip_bom_def)

lemma d_reset_idle: "idle d \<Longrightarrow> d_bom d' = d_bom d \<Longrightarrow> d_reset d' = d"
  by (cases d; cases d') (auto simp: idle_def d_reset_def)

text \<open>A decoder that waits for \<open>n\<close> of \<open>z\<close> continuation bytes, \<open>x\<close> being the bits so far.\<close>

definition waiting :: "decoder \<Rightarrow> nat \<Rightarrow> nat \<Rightarrow> nat \<Rightarrow> nat \<Rightarrow> nat \<Rightarrow> decoder" where
  "waiting d x y z l u = d\<lparr>d_cp := x, d_seen := y, d_needed := z, d_lower := l, d_upper := u\<rparr>"

lemma decode_cont:
  assumes "idle d" "0 < z" "l \<le> 0x80 + r" "0x80 + r \<le> u" "y < z"
  shows "decode_byte (waiting d x y z l u) (0x80 + r) =
    (if y + 1 = z then (d, [x * 64 + r]) else (waiting d (x * 64 + r) (y + 1) z 0x80 0xBF, []))"
proof -
  have "d_reset d' = d" if "d_bom d' = d_bom d" for d' using d_reset_idle [OF assms(1) that] .
  then show ?thesis
    using assms by (simp add: decode_byte_def Let_def waiting_def)
qed

lemma decode_lead2:
  assumes "idle d" "2 \<le> q" "q < 32"
  shows "decode_byte d (0xC0 + q) = (waiting d q 0 1 0x80 0xBF, [])"
proof -
  have "(0xC0 + q) mod 32 = q" using mod_mult_self1 [of q 6 32] assms(3) by (simp add: add.commute)
  then show ?thesis
    using assms idle_fields [OF assms(1)] by (cases d) (simp add: decode_byte_def lead_byte_def waiting_def)
qed

lemma decode_lead3:
  assumes "idle d" "q < 16"
  shows "decode_byte d (0xE0 + q) = (waiting d q 0 2 (if q = 0 then 0xA0 else 0x80) (if q = 13 then 0x9F else 0xBF), [])"
proof -
  have "(0xE0 + q) mod 16 = q" using mod_mult_self1 [of q 14 16] assms(2) by (simp add: add.commute)
  then show ?thesis
    using assms idle_fields [OF assms(1)] by (cases d) (simp add: decode_byte_def lead_byte_def waiting_def)
qed

lemma decode_lead4:
  assumes "idle d" "q < 5"
  shows "decode_byte d (0xF0 + q) = (waiting d q 0 3 (if q = 0 then 0x90 else 0x80) (if q = 4 then 0x8F else 0xBF), [])"
proof -
  have "(0xF0 + q) mod 8 = q" using mod_mult_self1 [of q 30 8] assms(2) by (simp add: add.commute)
  then show ?thesis
    using assms idle_fields [OF assms(1)] by (cases d) (simp add: decode_byte_def lead_byte_def waiting_def)
qed

lemma decode_all_step: "decode_byte d b = (d', []) \<Longrightarrow> decode_all d (b # bs) = decode_all d' bs"
  by (simp split: prod.splits)

lemma decode_all_last: "decode_byte d b = (d', [p]) \<Longrightarrow> decode_all d [b] = skip_bom d' [p]"
  by (simp split: prod.splits)

lemma decode_one:
  assumes "idle d" "scalar p"
  shows "decode_all d (utf8_of p) = skip_bom d [p]"
proof -
  define q2 q3 q4 r s t where d: "q2 = p div 64" "q3 = p div 4096" "q4 = p div 262144"
    "r = p mod 64" "s = p div 64 mod 64" "t = p div 4096 mod 64"
  have lt: "r < 64" "s < 64" "t < 64" by (simp_all add: d)
  have eq: "q2 * 64 + r = p" "(q3 * 64 + s) * 64 + r = p" "((q4 * 64 + t) * 64 + s) * 64 + r = p"
  proof -
    have "p div 4096 = p div 64 div 64" "p div 262144 = p div 4096 div 64"
      by (simp_all add: div_mult2_eq [symmetric])
    then have "q3 * 64 + s = p div 64" "q4 * 64 + t = p div 4096" by (simp_all add: d)
    then show "q2 * 64 + r = p" "(q3 * 64 + s) * 64 + r = p" "((q4 * 64 + t) * 64 + s) * 64 + r = p"
      using \<open>p div 4096 = p div 64 div 64\<close> by (simp_all add: d)
  qed
  consider "p < 0x80" | "0x80 \<le> p" "p < 0x800" | "0x800 \<le> p" "p < 0x10000" | "0x10000 \<le> p"
    by linarith
  then show ?thesis
  proof cases
    case 1
    then show ?thesis
      using idle_fields [OF assms(1)] by (simp add: utf8_of_def decode_byte_def lead_byte_def split: prod.splits)
  next
    case 2
    then have "2 \<le> q2" "q2 < 32" by (simp_all add: d)
    moreover have "utf8_of p = [0xC0 + q2, 0x80 + r]" using 2 by (simp add: utf8_of_def d)
    ultimately show ?thesis
      using decode_lead2 [OF assms(1)] decode_cont [OF assms(1), of 1 "0x80" r "0xBF" 0 q2] lt eq
      by (simp split: prod.splits)
  next
    case 3
    then have q: "q3 < 16" by (simp add: d)
    define l u :: nat where lu: "l = (if q3 = 0 then 0xA0 else 0x80)" "u = (if q3 = 13 then 0x9F else 0xBF)"
    have "q3 = 0 \<Longrightarrow> 32 \<le> s" "q3 = 13 \<Longrightarrow> s < 32"
      using 3 eq(2) lt assms(2) by (auto simp: scalar_def)
    then have b: "l \<le> 0x80 + s" "0x80 + s \<le> u" using lt by (auto simp: lu)
    have "utf8_of p = [0xE0 + q3, 0x80 + s, 0x80 + r]" using 3 by (simp add: utf8_of_def d)
    moreover have "decode_byte d (0xE0 + q3) = (waiting d q3 0 2 l u, [])"
      using decode_lead3 [OF assms(1) q] by (simp only: lu)
    moreover have "decode_byte (waiting d q3 0 2 l u) (0x80 + s) = (waiting d (q3 * 64 + s) 1 2 0x80 0xBF, [])"
      using decode_cont [OF assms(1), of 2 l s u 0 q3] b by simp
    moreover have "decode_byte (waiting d (q3 * 64 + s) 1 2 0x80 0xBF) (0x80 + r) = (d, [p])"
      using decode_cont [OF assms(1), of 2 "0x80" r "0xBF" 1 "q3 * 64 + s"] lt eq by simp
    ultimately show ?thesis by (simp only: decode_all_step decode_all_last)
  next
    case 4
    then have q: "q4 < 5" using assms(2) by (simp add: d scalar_def)
    define l u :: nat where lu: "l = (if q4 = 0 then 0x90 else 0x80)" "u = (if q4 = 4 then 0x8F else 0xBF)"
    have "q4 = 0 \<Longrightarrow> 16 \<le> t" "q4 = 4 \<Longrightarrow> t < 16"
      using 4 eq(3) lt assms(2) by (auto simp: scalar_def)
    then have b: "l \<le> 0x80 + t" "0x80 + t \<le> u" using lt by (auto simp: lu)
    have "utf8_of p = [0xF0 + q4, 0x80 + t, 0x80 + s, 0x80 + r]" using 4 by (simp add: utf8_of_def d)
    moreover have "decode_byte d (0xF0 + q4) = (waiting d q4 0 3 l u, [])"
      using decode_lead4 [OF assms(1) q] by (simp only: lu)
    moreover have "decode_byte (waiting d q4 0 3 l u) (0x80 + t) = (waiting d (q4 * 64 + t) 1 3 0x80 0xBF, [])"
      using decode_cont [OF assms(1), of 3 l t u 0 q4] b by simp
    moreover have "decode_byte (waiting d (q4 * 64 + t) 1 3 0x80 0xBF) (0x80 + s)
        = (waiting d ((q4 * 64 + t) * 64 + s) 2 3 0x80 0xBF, [])"
      using decode_cont [OF assms(1), of 3 "0x80" s "0xBF" 1 "q4 * 64 + t"] lt by (simp add: numeral_2_eq_2)
    moreover have "decode_byte (waiting d ((q4 * 64 + t) * 64 + s) 2 3 0x80 0xBF) (0x80 + r) = (d, [p])"
      using decode_cont [OF assms(1), of 3 "0x80" r "0xBF" 2 "(q4 * 64 + t) * 64 + s"] lt eq by simp
    ultimately show ?thesis by (simp only: decode_all_step decode_all_last)
  qed
qed

text \<open>UTF-8 of a string, \<open>None\<close> if it has an unpaired surrogate.\<close>

definition utf8_bytes :: "jsstr \<Rightarrow> nat list option" where
  "utf8_bytes s = map_option (\<lambda>ps. concat (map utf8_of ps)) (code_points (map unat s))"

lemma decode_scalars:
  assumes "idle d" "d_bom d" "\<forall>p \<in> set ps. scalar p"
  shows "decode_all d (concat (map utf8_of ps)) = (d, ps)"
  using assms(3)
proof (induction ps)
  case (Cons p ps)
  then have "decode_all d (utf8_of p) = (d, [p])"
    using decode_one [OF assms(1), of p] assms(2) by (simp add: skip_bom_def)
  then show ?case using Cons by (simp add: decode_all_append)
qed simp

lemma decode_chunk_utf8:
  assumes "utf8_bytes s = Some bs" "s \<noteq> []" "hd s \<noteq> 0xFEFF"
  shows "snd (decode_chunk decoder0 bs) = s"
proof -
  obtain ps where ps: "code_points (map unat s) = Some ps" "bs = concat (map utf8_of ps)"
    using assms(1) by (auto simp: utf8_bytes_def)
  have sc: "\<forall>p \<in> set ps. scalar p" using map_unat_scalar [OF ps(1)] .
  have u: "\<forall>a \<in> set (map unat s). a < 65536" using unsigned_less [where ?'a = nat and ?'b = 16] by auto
  have units: "concat (map utf16_of ps) = map unat s" using code_points_utf16 [OF ps(1) u] .
  then obtain p qs where p: "ps = p # qs" using assms(2) by (cases ps) auto
  have "p \<noteq> 0xFEFF"
  proof
    assume "p = 0xFEFF"
    then have "unat (hd s) = 0xFEFF" using units p assms(2) by (cases s) (auto simp: utf16_of_def)
    then have "hd s = 0xFEFF" by (simp add: word_unat_eq_iff)
    then show False using assms(3) by simp
  qed
  define d where "d = decoder0\<lparr>d_bom := True\<rparr>"
  have d: "idle d" "d_bom d" by (simp_all add: d_def idle_def d_reset_def decoder0_def)
  have "decode_all decoder0 (utf8_of p) = (d, [p])"
    using decode_one [OF idle_decoder0, of p] sc p \<open>p \<noteq> 0xFEFF\<close>
    by (simp add: skip_bom_def d_def decoder0_def)
  moreover have "decode_all d (concat (map utf8_of qs)) = (d, qs)"
    using decode_scalars [OF d] sc p by simp
  ultimately have "decode_all decoder0 bs = (d, ps)" by (simp add: ps(2) p decode_all_append)
  then show ?thesis by (simp add: decode_chunk_def units comp_def)
qed

lemma server_text_head: "es \<noteq> [] \<Longrightarrow> server_text es \<noteq> [] \<and> hd (server_text es) = 101"
  by (cases es) (auto simp: server_text_def server_frame_def js_eval)

lemma stream_events_server:
  assumes "\<forall>(ev, ps) \<in> set es. event_name ev \<and> json_ok (JObj ps)" "utf8_bytes (server_text es) = Some bs"
  shows "stream_events bs = map (\<lambda>(ev, ps). \<lparr>event = ev, ejson = JObj ps, raw = stringify (JObj ps)\<rparr>) es"
proof (cases "es = []")
  case True
  then have "bs = []" using assms(2) by (simp add: server_text_def utf8_bytes_def)
  then show ?thesis
    using True by (simp add: stream_events_def decode_chunk_def take_frames.simps List.map_filter_def)
next
  case False
  then have "snd (decode_chunk decoder0 bs) = server_text es"
    using decode_chunk_utf8 [OF assms(2)] server_text_head [of es] by simp
  then show ?thesis unfolding stream_events_def using frames_of_server_text [OF assms(1)] by simp
qed

lemma read_loop_chunks:
  "take_frames (buf s) = ([], buf s) \<Longrightarrow>
   read_loop s (map (\<lambda>c. (False, Chunk c)) cs @ (ab, ReadDone) # rs) =
     (snd (feed s (concat cs)), if ab then Stopped else Closed)"
proof (induction cs arbitrary: s)
  case Nil
  then show ?case by (simp add: feed_Nil)
next
  case (Cons c cs)
  obtain s1 es where f: "feed s c = (s1, es)" by fastforce
  then have "take_frames (buf s1) = ([], buf s1)"
    by (auto simp: feed_def Let_def split: prod.splits dest: take_frames_rest)
  from Cons.IH [OF this] show ?case
    using f by (auto simp: feed_append Let_def split: prod.splits)
qed

lemma feed_sse0: "snd (feed sse0 bs) = stream_events bs"
  by (simp add: feed_def sse0_def stream_events_def Let_def split: prod.splits)

lemma take_frames_sse0: "take_frames (buf sse0) = ([], buf sse0)"
  by (simp add: sse0_def take_frames.simps)

section \<open>Properties\<close>

text \<open>
  C3. What the service writes is what the handler sees. When the service sends the events
  \<open>es\<close>, each with a name and a JSON object, as UTF-8 text, then however the network cuts those bytes
  into chunks (inside a code point, inside a line, between the two line feeds of a frame),
  \<^verbatim>\<open>stream\<close> calls its handler with exactly those events, in order, with the object the service
  printed, and ends without an error when the service closes the stream.
\<close>

theorem stream_delivers_events:
  assumes "stream_request a token = Some q" "connect q = Some (n, True)" "ok_status n"
    and "\<forall>(ev, ps) \<in> set es. event_name ev \<and> json_ok (JObj ps)"
    and "utf8_bytes (server_text es) = Some (concat cs)"
  shows "stream a token connect ab (map (\<lambda>c. (False, Chunk c)) cs @ [(False, ReadDone)]) =
    (map (\<lambda>(ev, ps). \<lparr>event = ev, ejson = JObj ps, raw = stringify (JObj ps)\<rparr>) es, Closed)"
  using assms(1-3) read_loop_chunks [OF take_frames_sse0, of cs False "[]"] feed_sse0
    stream_events_server [OF assms(4,5)]
  by (simp add: stream_def)

text \<open>The frame of an accepted run, cut after every byte.\<close>

definition sample_frames :: "(jsstr \<times> (jsstr \<times> json) list) list" where
  "sample_frames = [(js ''finished'', [(js ''ok'', JBool True)])]"

lemma utf8_bytes_ascii: "\<forall>c \<in> set s. unat c < 0x80 \<Longrightarrow> utf8_bytes s = Some (map unat s)"
proof -
  assume a: "\<forall>c \<in> set s. unat c < 0x80"
  then have "code_points (map unat s) = Some (map unat s)" by (intro code_points_bmp) fastforce
  moreover have "concat (map utf8_of (map unat s)) = map unat s"
    using a by (induction s) (auto simp: utf8_of_def)
  ultimately show ?thesis by (simp add: utf8_bytes_def)
qed

lemma sample_frames_text:
  "server_text sample_frames = js ''event: finished'' @ [LF] @ js ''data: {'' @ [DQUOTE] @ js ''ok'' @ [DQUOTE] @ js '':true}'' @ [LF, LF]"
  by (simp add: server_text_def sample_frames_def server_frame_def stringify_def quote_def js_eval
      quote_body.simps quote_cu_def high_sur_def low_sur_def)

theorem stream_delivers_events_witness:
  "fst (stream sample_api (js ''t'') (\<lambda>_. Some (200, True)) False
     (map (\<lambda>c. (False, Chunk c)) (map (\<lambda>b. [b]) (map unat (server_text sample_frames))) @ [(False, ReadDone)])) =
   [\<lparr>event = js ''finished'', ejson = JObj [(js ''ok'', JBool True)], raw = stringify (JObj [(js ''ok'', JBool True)])\<rparr>]"
proof -
  have "encodeURIComponent (js ''t'') \<noteq> None" by (simp add: encodeURIComponent_def well_formed_js [unfolded well_formed_def])
  then obtain q where "stream_request sample_api (js ''t'') = Some q"
    by (auto simp: stream_request_def)
  moreover have "event_name (js ''finished'')"
    by (simp add: event_name_def js_eval is_ws_def)
  moreover have "\<forall>c \<in> set (server_text sample_frames). unat c < 0x80"
    unfolding sample_frames_text by (simp add: js_eval)
  then have "utf8_bytes (server_text sample_frames) = Some (concat (map (\<lambda>b. [b]) (map unat (server_text sample_frames))))"
    by (simp add: utf8_bytes_ascii concat_map_singleton comp_def)
  ultimately show ?thesis
    using stream_delivers_events [of sample_api "js ''t''" _ "\<lambda>_. Some (200, True)" 200 sample_frames
        "map (\<lambda>b. [b]) (map unat (server_text sample_frames))" False]
    by (simp add: sample_frames_def ok_status_def)
qed

end
