(* ===== verification/ShareLink.thy ===== *)
theory ShareLink
  imports Sse
begin

text \<open>
  The share link of the playground (\<^verbatim>\<open>readShareHash\<close>, \<^verbatim>\<open>writeShareHash\<close> in
  \<^verbatim>\<open>playground/App.tsx\<close>): language, source, standard input and token in the fragment of the
  address, as \<^verbatim>\<open>URLSearchParams\<close> prints and parses them. The lemmas show that a link that was
  written reads back, and when reading one throws.
\<close>

section \<open>URLSearchParams\<close>

text \<open>
  A value put into the parameters is a \<^verbatim>\<open>USVString\<close>: an unpaired surrogate becomes U+FFFD.
\<close>

fun usv_points :: "nat list \<Rightarrow> nat list" where
  "usv_points [] = []"
| "usv_points [a] = [if 0xD800 \<le> a \<and> a < 0xE000 then 0xFFFD else a]"
| "usv_points (a # b # cs) =
     (if 0xD800 \<le> a \<and> a < 0xDC00 \<and> 0xDC00 \<le> b \<and> b < 0xE000
      then (0x10000 + (a - 0xD800) * 0x400 + (b - 0xDC00)) # usv_points cs
      else (if 0xD800 \<le> a \<and> a < 0xE000 then 0xFFFD else a) # usv_points (b # cs))"

definition usv_bytes :: "jsstr \<Rightarrow> nat list" where
  "usv_bytes s = concat (map utf8_of (usv_points (map unat s)))"

text \<open>The serializer of \<^verbatim>\<open>application/x-www-form-urlencoded\<close>: letters, digits and \<open>*-._\<close> stay.\<close>

definition form_byte :: "nat \<Rightarrow> nat list" where
  "form_byte b = (if b = 32 then [43]
     else if alnum b \<or> b \<in> {42, 45, 46, 95} then [b] else map unat (pct b))"

definition form_ser :: "jsstr \<Rightarrow> nat list" where
  "form_ser s = concat (map form_byte (usv_bytes s))"

type_synonym params = "(jsstr \<times> jsstr) list"

definition params_string :: "params \<Rightarrow> jsstr" where
  "params_string ps = map of_nat (join [38] (map (\<lambda>(k, v). form_ser k @ 61 # form_ser v) ps))"

text \<open>\<^verbatim>\<open>p.set(k, v)\<close> on parameters whose keys are distinct, and \<^verbatim>\<open>p.get(k)\<close>.\<close>

definition params_set :: "string \<Rightarrow> jsstr \<Rightarrow> params \<Rightarrow> params" where
  "params_set k v ps = obj_put (js k) v ps"

definition params_get :: "string \<Rightarrow> params \<Rightarrow> jsstr option" where
  "params_get k ps = map_of ps (js k)"

text \<open>The parser: pieces at \<open>&\<close>, split at the first \<open>=\<close>, then \<open>+\<close> and percent signs decoded.\<close>

fun pct_decode :: "nat list \<Rightarrow> nat list" where
  "pct_decode [] = []"
| "pct_decode (c # cs) =
     (if c \<noteq> 37 then c # pct_decode cs
      else case hex2 cs of Some (v, r) \<Rightarrow> v # pct_decode r | None \<Rightarrow> c # pct_decode cs)"

declare pct_decode.simps(2) [simp del]

text \<open>UTF-8 decode without BOM: a truncated sequence at the end gives U+FFFD.\<close>

definition utf8_lossy :: "nat list \<Rightarrow> nat list" where
  "utf8_lossy bs = (let (d, ps) = decode_all (decoder0\<lparr>d_bom := True\<rparr>) bs
     in ps @ (if d_needed d \<noteq> 0 then [0xFFFD] else []))"

definition form_dec :: "nat list \<Rightarrow> jsstr" where
  "form_dec bs = map of_nat (concat (map utf16_of
     (utf8_lossy (pct_decode (map (\<lambda>b. if b = 43 then 32 else b) bs)))))"

definition form_pair :: "nat list \<Rightarrow> jsstr \<times> jsstr" where
  "form_pair p = (case index_sub [61] p of
     None \<Rightarrow> (form_dec p, form_dec [])
   | Some i \<Rightarrow> (form_dec (take i p), form_dec (drop (i + 1) p)))"

definition params_parse :: "jsstr \<Rightarrow> params" where
  "params_parse s =
     (let t = (case s of c # r \<Rightarrow> if c = 63 then r else s | [] \<Rightarrow> [])
      in map form_pair (filter (\<lambda>p. p \<noteq> []) (split_on 38 (usv_bytes t))))"

section \<open>The link\<close>

record share_hash =
  sh_lang :: "jsstr option"
  sh_token :: "jsstr option"
  sh_code :: "jsstr option"
  sh_stdin :: jsstr

text \<open>\<^verbatim>\<open>decodeURIComponent(escape(atob(b)))\<close>, with \<open>None\<close> when one of them throws.\<close>

definition b64_text :: "jsstr \<Rightarrow> jsstr option" where
  "b64_text b = Option.bind (map_option escape (atob b)) decodeURIComponent"

text \<open>The outer \<open>None\<close> is an exception, the inner one is \<^verbatim>\<open>null\<close>.\<close>

definition readShareHash :: "jsstr \<Rightarrow> share_hash option option" where
  "readShareHash hash =
     (let h = (case hash of c # r \<Rightarrow> if c = 35 then r else hash | [] \<Rightarrow> [])
      in if h = [] then Some None
         else let p = params_parse h; codeParam = params_get ''code'' p; stdinParam = params_get ''stdin'' p
              in case (if present codeParam then map_option Some (b64_text (the codeParam)) else Some None) of
                   None \<Rightarrow> None
                 | Some code \<Rightarrow>
                     (case (if present stdinParam then b64_text (the stdinParam) else Some []) of
                        None \<Rightarrow> None
                      | Some stdin' \<Rightarrow>
                          Some (Some \<lparr>sh_lang = params_get ''lang'' p, sh_token = params_get ''token'' p,
                                      sh_code = code, sh_stdin = stdin'\<rparr>)))"

record share =
  s_langId :: "number option"
  s_code :: "jsstr option"
  s_stdin :: "jsstr option"
  s_token :: "jsstr option"

definition set_text :: "string \<Rightarrow> jsstr option \<Rightarrow> params \<Rightarrow> params option" where
  "set_text k t p = (if present t then map_option (\<lambda>b. params_set k b p) (encode t) else Some p)"

definition share_params :: "share \<Rightarrow> params option" where
  "share_params s =
     (let p0 = (case s_langId s of Some n \<Rightarrow> params_set ''lang'' (numText n) [] | None \<Rightarrow> [])
      in case set_text ''code'' (s_code s) p0 of
           None \<Rightarrow> None
         | Some p1 \<Rightarrow>
             (case set_text ''stdin'' (s_stdin s) p1 of
                None \<Rightarrow> None
              | Some p2 \<Rightarrow> Some (if present (s_token s) then params_set ''token'' (the (s_token s)) p2 else p2)))"

text \<open>The address that \<^verbatim>\<open>history.replaceState\<close> is given, \<open>None\<close> when a text cannot be encoded.\<close>

definition writeShareHash :: "jsstr \<Rightarrow> share \<Rightarrow> jsstr option" where
  "writeShareHash pathname s = map_option
     (\<lambda>p. let qs = params_string p in if qs \<noteq> [] then 35 # qs else pathname) (share_params s)"

text \<open>
  \<^verbatim>\<open>location.hash\<close> after that: a fragment of characters the address keeps as they are, or none when the
  address is the path of the page.
\<close>

definition hash_of :: "jsstr \<Rightarrow> jsstr" where
  "hash_of u = (case u of c # r \<Rightarrow> if c = 35 \<and> r \<noteq> [] then u else [] | [] \<Rightarrow> [])"

section \<open>Serializing and parsing\<close>

lemma usv_points_well_formed: "code_points s = Some ps \<Longrightarrow> usv_points s = ps"
  by (induction s arbitrary: ps rule: code_points.induct) (auto split: if_splits)

lemma usv_points_scalar: "\<forall>a \<in> set s. a < 65536 \<Longrightarrow> p \<in> set (usv_points s) \<Longrightarrow> scalar p"
  by (induction s rule: usv_points.induct) (auto simp: scalar_def split: if_splits)

lemma units_small: "\<forall>a \<in> set (map unat (s :: jsstr)). a < 65536"
  using unsigned_less [where ?'a = nat and ?'b = 16] by fastforce

lemma usv_bytes_byte: "b \<in> set (usv_bytes s) \<Longrightarrow> b < 256"
proof -
  assume "b \<in> set (usv_bytes s)"
  then obtain p where "p \<in> set (usv_points (map unat s))" "b \<in> set (utf8_of p)"
    by (auto simp: usv_bytes_def)
  then show ?thesis
    using usv_points_scalar [OF units_small, of p s] utf8_of_byte [of p b] by (auto simp: scalar_def)
qed

definition form_safe :: "nat \<Rightarrow> bool" where
  "form_safe c \<longleftrightarrow> alnum c \<or> c \<in> {42, 45, 46, 95, 43, 37}"

lemma form_byte_safe: "b < 256 \<Longrightarrow> c \<in> set (form_byte b) \<Longrightarrow> form_safe c"
proof -
  have h: "form_safe (unat (hex_cu d))" if "d < 16" for d
    using that by (auto simp: unat_hex_cu form_safe_def alnum_def)
  assume "b < 256" "c \<in> set (form_byte b)"
  then consider "c = 43" | "c = b" "alnum b \<or> b \<in> {42, 45, 46, 95}" | "c = 37"
    | "c = unat (hex_cu (b div 16))" | "c = unat (hex_cu (b mod 16))"
    by (auto simp: form_byte_def pct_def split: if_split_asm)
  then show ?thesis
  proof cases
    case 4
    then show ?thesis using h [of "b div 16"] \<open>b < 256\<close> by simp
  next
    case 5
    then show ?thesis using h [of "b mod 16"] by simp
  qed (auto simp: form_safe_def)
qed

lemma form_ser_safe: "c \<in> set (form_ser s) \<Longrightarrow> form_safe c"
  using form_byte_safe usv_bytes_byte by (fastforce simp: form_ser_def)

lemma pct_decode_form_byte:
  "b < 256 \<Longrightarrow> pct_decode (map (\<lambda>b. if b = 43 then 32 else b) (form_byte b) @ r) = b # pct_decode r"
proof -
  assume b: "b < 256"
  have h: "unat (hex_cu (b div 16)) \<noteq> 43" "unat (hex_cu (b mod 16)) \<noteq> 43"
    using b by (simp_all add: unat_hex_cu)
  show ?thesis
    using b h by (auto simp: form_byte_def pct_def pct_decode.simps(2) hex2_pct alnum_def simp del: hex2.simps)
qed

lemma pct_decode_form:
  "\<forall>b \<in> set bs. b < 256 \<Longrightarrow>
   pct_decode (map (\<lambda>b. if b = 43 then 32 else b) (concat (map form_byte bs))) = bs"
proof (induction bs)
  case (Cons b bs)
  then show ?case
    using pct_decode_form_byte [of b "map (\<lambda>b. if b = 43 then 32 else b) (concat (map form_byte bs))"]
    by simp
qed simp

lemma utf8_lossy_scalars: "\<forall>p \<in> set ps. scalar p \<Longrightarrow> utf8_lossy (concat (map utf8_of ps)) = ps"
proof -
  let ?d = "decoder0\<lparr>d_bom := True\<rparr>"
  have "idle ?d" "d_bom ?d" "d_needed ?d = 0" by (simp_all add: idle_def d_reset_def decoder0_def)
  then show "\<forall>p \<in> set ps. scalar p \<Longrightarrow> utf8_lossy (concat (map utf8_of ps)) = ps"
    using decode_scalars [of ?d ps] by (simp add: utf8_lossy_def)
qed

lemma form_dec_ser: "well_formed s \<Longrightarrow> form_dec (form_ser s) = s"
proof -
  assume "well_formed s"
  then obtain ps where ps: "code_points (map unat s) = Some ps" by (auto simp: well_formed_def)
  have "pct_decode (map (\<lambda>b. if b = 43 then 32 else b) (form_ser s)) = usv_bytes s"
    unfolding form_ser_def using usv_bytes_byte by (intro pct_decode_form) blast
  moreover have "utf8_lossy (usv_bytes s) = ps"
    using utf8_lossy_scalars [OF map_unat_scalar [OF ps]] usv_points_well_formed [OF ps]
    by (simp add: usv_bytes_def)
  ultimately show ?thesis by (simp add: form_dec_def well_formed_utf16 [OF ps])
qed

lemma safe_not_sep: "form_safe c \<Longrightarrow> c \<noteq> 38 \<and> c \<noteq> 61 \<and> c < 128 \<and> c \<noteq> 63"
  by (auto simp: form_safe_def alnum_def)

lemma index_sub_head: "x \<notin> set a \<Longrightarrow> index_sub [x] (a @ x # b) = Some (length a)"
  by (induction a) auto

lemma form_pair_ser:
  assumes "well_formed k" "well_formed v"
  shows "form_pair (form_ser k @ 61 # form_ser v) = (k, v)"
proof -
  have "61 \<notin> set (form_ser k)" using form_ser_safe safe_not_sep by blast
  then have "index_sub [61] (form_ser k @ 61 # form_ser v) = Some (length (form_ser k))"
    by (rule index_sub_head)
  then show ?thesis using form_dec_ser assms by (simp add: form_pair_def)
qed

lemma usv_bytes_ascii: "\<forall>c \<in> set bs. c < 128 \<Longrightarrow> usv_bytes (map of_nat bs) = bs"
proof -
  assume a: "\<forall>c \<in> set bs. c < 128"
  then have m: "map unat (map of_nat bs :: jsstr) = bs" by (induction bs) (auto simp: unat_of_nat_cu)
  have "code_points bs = Some bs" using a by (intro code_points_bmp) fastforce
  then have "usv_points bs = bs" by (rule usv_points_well_formed)
  moreover have "concat (map utf8_of bs) = bs" using a by (induction bs) (auto simp: utf8_of_def)
  ultimately show ?thesis unfolding usv_bytes_def m by simp
qed

theorem params_parse_string:
  assumes "\<forall>(k, v) \<in> set ps. well_formed k \<and> well_formed v"
  shows "params_parse (params_string ps) = ps"
proof -
  define pieces where "pieces = map (\<lambda>(k, v). form_ser k @ 61 # form_ser v) ps"
  have safe: "\<forall>l \<in> set pieces. 38 \<notin> set l \<and> 63 \<notin> set l \<and> l \<noteq> [] \<and> (\<forall>c \<in> set l. c < 128)"
    using form_ser_safe safe_not_sep by (fastforce simp: pieces_def)
  have pairs: "map form_pair pieces = ps"
    using assms form_pair_ser by (auto simp: pieces_def intro!: map_idI)
  have js: "\<forall>c \<in> set (join [38] pieces). c < 128 \<and> c \<noteq> 63"
    using safe by (induction "[38 :: nat]" pieces rule: join.induct) auto
  have q: "params_string ps = map of_nat (join [38] pieces)" by (simp add: params_string_def pieces_def)
  have head: "(case params_string ps of c # r \<Rightarrow> if c = 63 then r else params_string ps | [] \<Rightarrow> []) = params_string ps"
  proof (cases "join [38] pieces")
    case (Cons c r)
    then have "c < 128" "c \<noteq> 63" using js by auto
    then have "(of_nat c :: cu) \<noteq> 63" using unat_of_nat_cu [of c] by auto
    then show ?thesis using Cons q by simp
  qed (simp add: q)
  have "filter (\<lambda>p. p \<noteq> []) (split_on 38 (join [38] pieces)) = pieces"
  proof (cases "pieces = []")
    case False
    then show ?thesis using split_on_join [of pieces 38] safe by (simp add: filter_id_conv)
  qed simp
  then show ?thesis
    unfolding params_parse_def head using usv_bytes_ascii [of "join [38] pieces"] js pairs
    by (simp add: q)
qed

interpretation form: codec params_string "\<lambda>t. Some (params_parse t)"
  "\<lambda>ps. \<forall>(k, v) \<in> set ps. well_formed k \<and> well_formed v"
  by unfold_locales (simp add: params_parse_string)

lemma params_string_Nil: "params_string ps = [] \<longleftrightarrow> ps = []"
proof
  assume "params_string ps = []"
  then show "ps = []"
    by (cases ps; cases "tl ps") (auto simp: params_string_def)
qed (simp add: params_string_def)

section \<open>Reading back what was written\<close>

lemma b64_text_encode: "encode (Some s) = Some t \<Longrightarrow> b64_text t = Some s"
proof -
  assume "encode (Some s) = Some t"
  then obtain ps where ps: "code_points (map unat s) = Some ps"
    and t: "btoa (map of_nat (concat (map utf8_of ps))) = Some t"
    by (auto simp: encode_eq bind_eq_Some_conv)
  then show ?thesis
    by (simp add: b64_text_def atob_btoa [OF t] decode_bytes [OF map_unat_scalar [OF ps]]
        well_formed_utf16 [OF ps])
qed

lemma encode_not_Nil: "encode (Some s) = Some t \<Longrightarrow> s \<noteq> [] \<Longrightarrow> t \<noteq> []"
proof
  assume e: "encode (Some s) = Some t" "s \<noteq> []" "t = []"
  have "b64_text [] = Some []" by (simp add: b64_text_def atob_def strip_pad_def escape_def decodeURIComponent_def
      pct_tokens.simps utf8_tokens.simps)
  then show False using b64_text_encode [OF e(1)] e by simp
qed

lemma well_formed_bmp: "\<forall>c \<in> set s. unat c < 0xD800 \<Longrightarrow> well_formed s"
  using code_points_bmp [of "map unat s"] by (simp add: well_formed_def)

lemma well_formed_btoa: "btoa s = Some t \<Longrightarrow> well_formed t"
proof (rule well_formed_bmp, rule ballI)
  fix c assume t: "btoa s = Some t" and c: "c \<in> set t"
  then have bytes: "\<forall>b \<in> set (map unat s). b < 256" by (auto simp: btoa_def split: if_splits)
  have "b64_cu d < 128" if "d < 64" for d using that by (auto simp: b64_cu_def)
  then have "unat (of_nat (b64_cu d) :: cu) < 0xD800" if "d < 64" for d
    using that unat_of_nat_cu [of "b64_cu d"] by fastforce
  then show "unat c < 0xD800"
    using t c b64_sextets_less [OF bytes]
    by (auto simp: btoa_def Let_def b64_nopad_def split: if_splits)
qed

lemma well_formed_encode: "encode t = Some b \<Longrightarrow> well_formed b"
  by (auto simp: encode_def bind_eq_Some_conv dest: well_formed_btoa)

lemma well_formed_numText: "well_formed (numText q)"
proof (rule well_formed_bmp)
  have z: "unat (digit_cu d) < 0xD800" if "d < 10" for d using that unat_digit_cu [of d] by simp
  have "\<forall>c \<in> set (natStr n). unat c < 0xD800" for n
    using z digits_less [of 10] by (auto simp: natStr_def radix_def)
  then have "\<forall>c \<in> set (pad0 k (natStr n)). unat c < 0xD800" for k n
    using z [of 0] by (auto simp: pad0_def)
  then show "\<forall>c \<in> set (numText q). unat c < 0xD800"
    by (auto simp: numText_def Let_def js_eval dest!: in_set_takeD in_set_dropD split: option.split)
qed

lemma params_get_set:
  "params_get k (params_set k' v ps) = (if k = k' then Some v else params_get k ps)"
  by (simp add: params_get_def params_set_def map_of_obj_put)

lemma set_text_None: "set_text k t p = None \<longleftrightarrow> \<not> well_formed (opt [] t)"
  using encode_defined [of "opt [] t"] well_formed_js [of "[]"] by (cases t) (auto simp: set_text_def present_def)

lemma share_params_None:
  "share_params s = None \<longleftrightarrow> \<not> well_formed (opt [] (s_code s)) \<or> \<not> well_formed (opt [] (s_stdin s))"
proof -
  define p0 where "p0 = (case s_langId s of Some n \<Rightarrow> params_set ''lang'' (numText n) [] | None \<Rightarrow> [])"
  show ?thesis
  proof (cases "set_text ''code'' (s_code s) p0")
    case None
    then have "\<not> well_formed (opt [] (s_code s))" using set_text_None by blast
    moreover have "share_params s = None" using None by (simp add: share_params_def p0_def)
    ultimately show ?thesis by simp
  next
    case (Some p1)
    then have "well_formed (opt [] (s_code s))" using set_text_None [of "''code''"] by (metis option.distinct(1))
    moreover have "share_params s = None \<longleftrightarrow> set_text ''stdin'' (s_stdin s) p1 = None"
      using Some by (simp add: share_params_def p0_def split: option.split)
    ultimately show ?thesis using set_text_None by simp
  qed
qed

lemma set_text_SomeD:
  "set_text k t p = Some p' \<Longrightarrow>
   (\<not> present t \<and> p' = p) \<or> (\<exists>s b. t = Some s \<and> s \<noteq> [] \<and> encode (Some s) = Some b \<and> p' = params_set k b p)"
  by (cases t) (auto simp: set_text_def split: if_splits)

definition params_ok :: "params \<Rightarrow> bool" where
  "params_ok ps \<longleftrightarrow> (\<forall>(k, v) \<in> set ps. well_formed k \<and> well_formed v)"

lemma params_ok_set: "params_ok ps \<Longrightarrow> well_formed v \<Longrightarrow> params_ok (params_set k v ps)"
  by (auto simp: params_ok_def params_set_def dest!: set_obj_put)

lemma set_text_ok: "set_text k t p = Some p' \<Longrightarrow> params_ok p \<Longrightarrow> params_ok p'"
  using params_ok_set well_formed_encode by (auto dest!: set_text_SomeD)

lemma set_text_get:
  "set_text k t p = Some p' \<Longrightarrow> params_get k' p' =
     (if k' = k \<and> present t then encode t else params_get k' p)"
  by (auto simp: params_get_set dest!: set_text_SomeD)

lemma share_params_SomeD:
  assumes "share_params s = Some p" "present (s_token s) \<Longrightarrow> well_formed (the (s_token s))"
  shows "params_ok p \<and> params_get ''lang'' p = map_option numText (s_langId s)
    \<and> params_get ''token'' p = (if present (s_token s) then s_token s else None)
    \<and> params_get ''code'' p = (if present (s_code s) then encode (s_code s) else None)
    \<and> params_get ''stdin'' p = (if present (s_stdin s) then encode (s_stdin s) else None)"
proof -
  define p0 where "p0 = (case s_langId s of Some n \<Rightarrow> params_set ''lang'' (numText n) [] | None \<Rightarrow> [])"
  obtain p1 p2 where p: "set_text ''code'' (s_code s) p0 = Some p1" "set_text ''stdin'' (s_stdin s) p1 = Some p2"
    "p = (if present (s_token s) then params_set ''token'' (the (s_token s)) p2 else p2)"
    using assms(1) by (auto simp: share_params_def p0_def Let_def split: option.splits)
  have 0: "params_ok p0" "params_get k p0 = (if k = ''lang'' then map_option numText (s_langId s) else None)" for k
  proof -
    have "params_ok []" by (simp add: params_ok_def)
    then show "params_ok p0" using params_ok_set well_formed_numText by (auto simp: p0_def split: option.split)
    show "params_get k p0 = (if k = ''lang'' then map_option numText (s_langId s) else None)"
      by (auto simp: p0_def params_get_set split: option.split) (simp_all add: params_get_def)
  qed
  have "params_ok p" using p(3) set_text_ok [OF p(2) set_text_ok [OF p(1) 0(1)]] params_ok_set assms(2) by auto
  moreover have "params_get k p = (if k = ''token'' \<and> present (s_token s) then s_token s
      else if k = ''stdin'' \<and> present (s_stdin s) then encode (s_stdin s)
      else if k = ''code'' \<and> present (s_code s) then encode (s_code s)
      else if k = ''lang'' then map_option numText (s_langId s) else None)" for k
    using p(3) set_text_get [OF p(1)] set_text_get [OF p(2)] 0(2)
    by (cases "s_token s") (auto simp: params_get_set)
  ultimately show ?thesis by simp
qed

lemma hash_of_written:
  "writeShareHash pathname s = Some u \<Longrightarrow> share_params s = Some p \<Longrightarrow> hd pathname \<noteq> 35 \<Longrightarrow>
   hash_of u = (if p = [] then [] else 35 # params_string p)"
  by (auto simp: writeShareHash_def hash_of_def Let_def params_string_Nil split: list.split if_splits)

definition shared_text :: "jsstr option \<Rightarrow> jsstr option" where
  "shared_text t = (if present t then t else None)"

lemma b64_text_param:
  "(if present t then encode t else None) = q \<Longrightarrow> (present t \<Longrightarrow> encode t \<noteq> None) \<Longrightarrow>
   present q = present t \<and> (present t \<longrightarrow> b64_text (the q) = t)"
  by (cases t) (auto simp: present_def b64_text_encode dest: encode_not_Nil split: if_splits)

lemma share_params_encodes:
  "share_params s = Some p \<Longrightarrow> (present (s_code s) \<longrightarrow> encode (s_code s) \<noteq> None) \<and> (present (s_stdin s) \<longrightarrow> encode (s_stdin s) \<noteq> None)"
  by (auto simp: share_params_def set_text_def Let_def split: option.splits if_splits)

section \<open>Properties\<close>

text \<open>
  C14. A share link round trip. Writing a link throws only when the source or the input has an
  unpaired surrogate. Otherwise reading the address back gives the number of the language as text,
  the token, the source (absent when it was empty) and the standard input (empty when it was absent),
  exactly as they were shared, whatever characters they hold.
\<close>

theorem share_link_roundtrip:
  assumes "hd pathname \<noteq> 35" "s_langId s = Some n" "present (s_token s) \<longrightarrow> well_formed (the (s_token s))"
  shows "(writeShareHash pathname s = None \<longleftrightarrow>
      \<not> well_formed (opt [] (s_code s)) \<or> \<not> well_formed (opt [] (s_stdin s))) \<and>
    (\<forall>u. writeShareHash pathname s = Some u \<longrightarrow>
      readShareHash (hash_of u) =
        Some (Some \<lparr>sh_lang = Some (numText n), sh_token = shared_text (s_token s),
                    sh_code = shared_text (s_code s), sh_stdin = opt [] (s_stdin s)\<rparr>))"
proof (intro conjI allI impI)
  show "writeShareHash pathname s = None \<longleftrightarrow>
      \<not> well_formed (opt [] (s_code s)) \<or> \<not> well_formed (opt [] (s_stdin s))"
    by (simp add: writeShareHash_def share_params_None)
next
  fix u assume u: "writeShareHash pathname s = Some u"
  then obtain p where p: "share_params s = Some p" by (auto simp: writeShareHash_def)
  note E = share_params_encodes [OF p]
  have P: "params_ok p" "params_get ''lang'' p = Some (numText n)"
    "params_get ''token'' p = shared_text (s_token s)"
    "params_get ''code'' p = (if present (s_code s) then encode (s_code s) else None)"
    "params_get ''stdin'' p = (if present (s_stdin s) then encode (s_stdin s) else None)"
    using share_params_SomeD [OF p] assms(2,3) by (auto simp: shared_text_def)
  then have "p \<noteq> []" by (auto simp: params_get_def)
  moreover from this have "params_string p \<noteq> []" by (simp add: params_string_Nil)
  moreover have "params_parse (params_string p) = p"
    using params_parse_string P(1) by (simp add: params_ok_def)
  ultimately show "readShareHash (hash_of u) =
        Some (Some \<lparr>sh_lang = Some (numText n), sh_token = shared_text (s_token s),
                    sh_code = shared_text (s_code s), sh_stdin = opt [] (s_stdin s)\<rparr>)"
    using b64_text_param [OF P(4) [symmetric]] b64_text_param [OF P(5) [symmetric]] E P(2,3)
      hash_of_written [OF u p assms(1)]
    by (cases "s_code s"; cases "s_stdin s")
      (auto simp: readShareHash_def Let_def shared_text_def present_def split: option.splits)
qed

definition sample_share :: share where
  "sample_share = \<lparr>s_langId = Some 71, s_code = Some (js ''a=1&b +''), s_stdin = None, s_token = Some (js ''zc_1'')\<rparr>"

theorem share_link_roundtrip_witness:
  "\<exists>u. writeShareHash (js ''/play'') sample_share = Some u \<and>
    map_option (map_option sh_code) (readShareHash (hash_of u)) = Some (Some (Some (js ''a=1&b +'')))"
proof -
  have h: "hd (js ''/play'') \<noteq> 35" by (simp add: js_eval)
  have w: "s_langId sample_share = Some 71" "well_formed (opt [] (s_code sample_share))"
    "well_formed (opt [] (s_stdin sample_share))" "well_formed (the (s_token sample_share))"
    using well_formed_js [of "[]"] by (simp_all add: sample_share_def)
  obtain u where u: "writeShareHash (js ''/play'') sample_share = Some u"
    using share_link_roundtrip [OF h w(1)] w by auto
  then show ?thesis
    using share_link_roundtrip [OF h w(1)] w by (simp add: sample_share_def shared_text_def)
qed

text \<open>
  A link whose source or input is not base64 of UTF-8 text is not rejected: \<^verbatim>\<open>readShareHash\<close>
  throws, during the first rendering, whatever the other parameters are. The texts it does accept are the
  ones \<^verbatim>\<open>api.ts\<close> decodes, where the same failure returns the text unchanged.
\<close>

theorem share_link_malformed:
  "(present (params_get ''code'' (params_parse h)) \<and> b64_text (the (params_get ''code'' (params_parse h))) = None \<and>
      h \<noteq> [] \<longrightarrow> readShareHash (35 # h) = None) \<and>
   (b64_text t = None \<longrightarrow> decode (Some t) = t) \<and> (\<forall>s. b64_text t = Some s \<longrightarrow> decode (Some t) = s)"
  by (auto simp: readShareHash_def b64_text_def decode_def Let_def split: option.split)

lemma params_parse_percent: "params_parse (js ''code=%'') = [(js ''code'', js ''%'')]"
proof -
  have "js ''code=%'' = map of_nat [99, 111, 100, 101, 61, 37]" by (simp add: js_eval)
  then have "usv_bytes (js ''code=%'') = [99, 111, 100, 101, 61, 37]"
    using usv_bytes_ascii [of "[99, 111, 100, 101, 61, 37]"] by simp
  then show ?thesis
    using utf8_lossy_scalars [of "[99, 111, 100, 101]"] utf8_lossy_scalars [of "[37]"]
    by (simp add: params_parse_def js_eval form_pair_def form_dec_def pct_decode.simps scalar_def utf8_of_def)
qed

theorem share_link_malformed_witness: "readShareHash (35 # js ''code=%'') = None"
proof -
  have "params_get ''code'' (params_parse (js ''code=%'')) = Some (js ''%'')"
    by (simp add: params_parse_percent params_get_def)
  moreover have "b64_text (js ''%'') = None"
    by (simp add: b64_text_def atob_def strip_pad_def js_eval ascii_ws_def b64_val_def)
  ultimately show ?thesis
    using share_link_malformed [of "js ''code=%''" "[]"] by simp
qed

end
