(* ===== verification/Catalog.thy ===== *)
theory Catalog
  imports JsPrelude "HOL-Library.List_Lexorder" "HOL-Library.Multiset"
begin

text \<open>
  The language catalogues: the starters of the playground (\<^verbatim>\<open>playground/data.ts\<close>), the brand icons
  and their key per language (\<^verbatim>\<open>shared/lang-icons.tsx\<close>), the cards and chips of the landing page
  (\<^verbatim>\<open>landing/languages.tsx\<close>), and the identifiers the service loads (\<^verbatim>\<open>runners/languages.toml\<close>). They
  are maintained by hand in four places; the lemmas show that they describe the same twenty languages.
\<close>

section \<open>The starters of the playground\<close>

abbreviation SQ :: char where "SQ \<equiv> CHR 0x27"
abbreviation BS :: char where "BS \<equiv> CHR 0x5C"
abbreviation NL :: char where "NL \<equiv> CHR 0x0A"

definition unlines :: "string list \<Rightarrow> string" where
  "unlines ls = concat (map (\<lambda>l. l @ [NL]) ls)"

datatype family = Fam_py | Fam_c | Fam_rb | Fam_sh

text \<open>The Monaco language identifiers a starter may name.\<close>

definition CmLang :: "string list" where
  "CmLang = [''python'', ''javascript'', ''typescript'', ''rust'', ''go'', ''cpp'', ''c'', ''java'',
     ''shell'', ''lua'', ''perl'', ''ruby'', ''r'', ''php'',
     ''kotlin'', ''scala'', ''csharp'', ''swift'', ''sql'', ''dart'']"

record lang_metrics =
  l_time :: number
  l_memory :: number
  l_exit :: number

record lang =
  l_id :: nat
  l_name :: string
  l_version :: string
  l_ext :: string
  l_family :: family
  l_core :: bool
  l_accent :: string
  l_cm :: string
  l_snippet :: string
  l_sampleStdin :: string
  l_output :: "string list"
  l_metrics :: lang_metrics

definition snippet_python :: string where
  \<open>snippet_python = unlines
     [''# Read an integer from stdin and print its square.'',
      ''# Try the Tests tab to feed several stdins at once.'',
      ''import sys'',
      [],
      ''n = int(sys.stdin.read().strip())'',
      ''print(f"{n} squared = {n * n}")'']\<close>

definition lang_python :: lang where
  \<open>lang_python = \<lparr>l_id = 71, l_name = ''Python'', l_version = ''3.13'', l_ext = ''py'',
     l_family = Fam_py, l_core = True, l_accent = ''#3776ab'', l_cm = ''python'',
     l_snippet = snippet_python,
     l_sampleStdin = ''7'' @ [NL], l_output = [''7 squared = 49''],
     l_metrics = \<lparr>l_time = 18 / 1000, l_memory = 37 / 10, l_exit = 0\<rparr>\<rparr>\<close>

definition snippet_node :: string where
  \<open>snippet_node = unlines
     [''// Read an integer from stdin and print its square.'',
      ''// Try the Tests tab to feed several stdins at once.'',
      ''const fs = require('' @ [SQ] @ ''fs'' @ [SQ] @ '');'',
      [],
      ''const n = parseInt(fs.readFileSync(0, '' @ [SQ] @ ''utf8'' @ [SQ] @ '').trim(), 10);'',
      ''console.log(`${n} squared = ${n * n}`);'']\<close>

definition lang_node :: lang where
  \<open>lang_node = \<lparr>l_id = 63, l_name = ''Node.js'', l_version = ''22'', l_ext = ''js'',
     l_family = Fam_c, l_core = True, l_accent = ''#3c873a'', l_cm = ''javascript'',
     l_snippet = snippet_node,
     l_sampleStdin = ''7'' @ [NL], l_output = [''7 squared = 49''],
     l_metrics = \<lparr>l_time = 42 / 1000, l_memory = 124 / 10, l_exit = 0\<rparr>\<rparr>\<close>

definition snippet_rust :: string where
  \<open>snippet_rust = unlines
     [''// Read an integer from stdin and print its square.'',
      ''// Try the Tests tab to feed several stdins at once.'',
      ''use std::io::Read;'',
      [],
      ''fn main() {'',
      ''    let mut s = String::new();'',
      ''    std::io::stdin().read_to_string(&mut s).unwrap();'',
      ''    let n: i64 = s.trim().parse().unwrap();'',
      ''    println!("{} squared = {}", n, n * n);'',
      ''}'']\<close>

definition lang_rust :: lang where
  \<open>lang_rust = \<lparr>l_id = 73, l_name = ''Rust'', l_version = ''stable'', l_ext = ''rs'',
     l_family = Fam_c, l_core = True, l_accent = ''#D17B49'', l_cm = ''rust'',
     l_snippet = snippet_rust,
     l_sampleStdin = ''7'' @ [NL], l_output = [''7 squared = 49''],
     l_metrics = \<lparr>l_time = 14 / 1000, l_memory = 32 / 10, l_exit = 0\<rparr>\<rparr>\<close>

definition snippet_go :: string where
  \<open>snippet_go = unlines
     [''// Read an integer from stdin and print its square.'',
      ''// Try the Tests tab to feed several stdins at once.'',
      ''package main'',
      [],
      ''import "fmt"'',
      [],
      ''func main() {'',
      ''    var n int64'',
      ''    fmt.Scan(&n)'',
      ''    fmt.Printf("%d squared = %d'' @ [BS] @ ''n", n, n*n)'',
      ''}'']\<close>

definition lang_go :: lang where
  \<open>lang_go = \<lparr>l_id = 60, l_name = ''Go'', l_version = ''1.x'', l_ext = ''go'',
     l_family = Fam_c, l_core = True, l_accent = ''#00add8'', l_cm = ''go'',
     l_snippet = snippet_go,
     l_sampleStdin = ''7'' @ [NL], l_output = [''7 squared = 49''],
     l_metrics = \<lparr>l_time = 21 / 1000, l_memory = 54 / 10, l_exit = 0\<rparr>\<rparr>\<close>

definition snippet_c :: string where
  \<open>snippet_c = unlines
     [''// Read an integer from stdin and print its square.'',
      ''// Try the Tests tab to feed several stdins at once.'',
      ''#include <stdio.h>'',
      [],
      ''int main(void) {'',
      ''    long long n;'',
      ''    if (scanf("%lld", &n) != 1) return 1;'',
      ''    printf("%lld squared = %lld'' @ [BS] @ ''n", n, n * n);'',
      ''    return 0;'',
      ''}'']\<close>

definition lang_c :: lang where
  \<open>lang_c = \<lparr>l_id = 48, l_name = ''C'', l_version = ''gcc-14'', l_ext = ''c'',
     l_family = Fam_c, l_core = True, l_accent = ''#a8b9cc'', l_cm = ''c'',
     l_snippet = snippet_c,
     l_sampleStdin = ''7'' @ [NL], l_output = [''7 squared = 49''],
     l_metrics = \<lparr>l_time = 9 / 1000, l_memory = 11 / 10, l_exit = 0\<rparr>\<rparr>\<close>

definition snippet_cpp :: string where
  \<open>snippet_cpp = unlines
     [''// Read an integer from stdin and print its square.'',
      ''// Try the Tests tab to feed several stdins at once.'',
      ''#include <iostream>'',
      [],
      ''int main() {'',
      ''    long long n;'',
      ''    std::cin >> n;'',
      ''    std::cout << n << " squared = " << n * n << "'' @ [BS] @ ''n";'',
      ''}'']\<close>

definition lang_cpp :: lang where
  \<open>lang_cpp = \<lparr>l_id = 52, l_name = ''C++'', l_version = ''g++-14'', l_ext = ''cpp'',
     l_family = Fam_c, l_core = True, l_accent = ''#9c6eb8'', l_cm = ''cpp'',
     l_snippet = snippet_cpp,
     l_sampleStdin = ''7'' @ [NL], l_output = [''7 squared = 49''],
     l_metrics = \<lparr>l_time = 12 / 1000, l_memory = 24 / 10, l_exit = 0\<rparr>\<rparr>\<close>

definition snippet_java :: string where
  \<open>snippet_java = unlines
     [''// Read an integer from stdin and print its square.'',
      ''// Try the Tests tab to feed several stdins at once.'',
      ''import java.util.Scanner;'',
      [],
      ''public class Main {'',
      ''    public static void main(String[] args) {'',
      ''        Scanner s = new Scanner(System.in);'',
      ''        long n = s.nextLong();'',
      ''        System.out.println(n + " squared = " + (n * n));'',
      ''    }'',
      ''}'']\<close>

definition lang_java :: lang where
  \<open>lang_java = \<lparr>l_id = 62, l_name = ''Java'', l_version = ''21'', l_ext = ''java'',
     l_family = Fam_c, l_core = True, l_accent = ''#d97757'', l_cm = ''java'',
     l_snippet = snippet_java,
     l_sampleStdin = ''7'' @ [NL], l_output = [''7 squared = 49''],
     l_metrics = \<lparr>l_time = 87 / 1000, l_memory = 382 / 10, l_exit = 0\<rparr>\<rparr>\<close>

definition snippet_bash :: string where
  \<open>snippet_bash = unlines
     [''# Read an integer from stdin and print its square.'',
      ''read n'',
      ''echo "$n squared = $((n * n))"'']\<close>

definition lang_bash :: lang where
  \<open>lang_bash = \<lparr>l_id = 100, l_name = ''Bash'', l_version = ''5.x'', l_ext = ''sh'',
     l_family = Fam_sh, l_core = False, l_accent = ''#4EAA25'', l_cm = ''shell'',
     l_snippet = snippet_bash,
     l_sampleStdin = ''7'' @ [NL], l_output = [''7 squared = 49''],
     l_metrics = \<lparr>l_time = 11 / 1000, l_memory = 2, l_exit = 0\<rparr>\<rparr>\<close>

definition snippet_lua :: string where
  \<open>snippet_lua = unlines
     [''-- Read an integer from stdin and print its square.'',
      ''local n = tonumber(io.read("*l"))'',
      ''print(n .. " squared = " .. (n * n))'']\<close>

definition lang_lua :: lang where
  \<open>lang_lua = \<lparr>l_id = 101, l_name = ''Lua'', l_version = ''5.4'', l_ext = ''lua'',
     l_family = Fam_py, l_core = False, l_accent = ''#2C2D72'', l_cm = ''lua'',
     l_snippet = snippet_lua,
     l_sampleStdin = ''7'' @ [NL], l_output = [''7 squared = 49''],
     l_metrics = \<lparr>l_time = 9 / 1000, l_memory = 16 / 10, l_exit = 0\<rparr>\<rparr>\<close>

definition snippet_perl :: string where
  \<open>snippet_perl = unlines
     [''# Read an integer from stdin and print its square.'',
      ''my $n = <STDIN>;'',
      ''chomp $n;'',
      ''print "$n squared = ", $n * $n, "'' @ [BS] @ ''n";'']\<close>

definition lang_perl :: lang where
  \<open>lang_perl = \<lparr>l_id = 102, l_name = ''Perl'', l_version = ''5.x'', l_ext = ''pl'',
     l_family = Fam_rb, l_core = False, l_accent = ''#39457E'', l_cm = ''perl'',
     l_snippet = snippet_perl,
     l_sampleStdin = ''7'' @ [NL], l_output = [''7 squared = 49''],
     l_metrics = \<lparr>l_time = 13 / 1000, l_memory = 26 / 10, l_exit = 0\<rparr>\<rparr>\<close>

definition snippet_ruby :: string where
  \<open>snippet_ruby = unlines
     [''# Read an integer from stdin and print its square.'',
      ''n = STDIN.read.to_i'',
      ''puts "#{n} squared = #{n * n}"'']\<close>

definition lang_ruby :: lang where
  \<open>lang_ruby = \<lparr>l_id = 103, l_name = ''Ruby'', l_version = ''3.x'', l_ext = ''rb'',
     l_family = Fam_rb, l_core = False, l_accent = ''#CC342D'', l_cm = ''ruby'',
     l_snippet = snippet_ruby,
     l_sampleStdin = ''7'' @ [NL], l_output = [''7 squared = 49''],
     l_metrics = \<lparr>l_time = 61 / 1000, l_memory = 82 / 10, l_exit = 0\<rparr>\<rparr>\<close>

definition snippet_r :: string where
  \<open>snippet_r = unlines
     [''# Read an integer from stdin and print its square.'',
      ''n <- as.integer(readLines("stdin", n = 1))'',
      ''cat(sprintf("%d squared = %d'' @ [BS] @ ''n", n, n * n))'']\<close>

definition lang_r :: lang where
  \<open>lang_r = \<lparr>l_id = 104, l_name = ''R'', l_version = ''4.x'', l_ext = ''r'',
     l_family = Fam_py, l_core = False, l_accent = ''#276DC3'', l_cm = ''r'',
     l_snippet = snippet_r,
     l_sampleStdin = ''7'' @ [NL], l_output = [''7 squared = 49''],
     l_metrics = \<lparr>l_time = 18 / 100, l_memory = 32, l_exit = 0\<rparr>\<rparr>\<close>

definition snippet_php :: string where
  \<open>snippet_php = unlines
     [''<?php'',
      ''// Read an integer from stdin and print its square.'',
      ''$n = (int) trim(fgets(STDIN));'',
      ''echo "$n squared = " . ($n * $n) . "'' @ [BS] @ ''n";'']\<close>

definition lang_php :: lang where
  \<open>lang_php = \<lparr>l_id = 105, l_name = ''PHP'', l_version = ''8.x'', l_ext = ''php'',
     l_family = Fam_c, l_core = False, l_accent = ''#777BB4'', l_cm = ''php'',
     l_snippet = snippet_php,
     l_sampleStdin = ''7'' @ [NL], l_output = [''7 squared = 49''],
     l_metrics = \<lparr>l_time = 3 / 100, l_memory = 12, l_exit = 0\<rparr>\<rparr>\<close>

definition snippet_typescript :: string where
  \<open>snippet_typescript = unlines
     [''// Read an integer from stdin and print its square.'',
      ''import * as fs from '' @ [SQ] @ ''fs'' @ [SQ] @ '';'',
      [],
      ''const n: number = parseInt(fs.readFileSync(0, '' @ [SQ] @ ''utf8'' @ [SQ] @ '').trim(), 10);'',
      ''console.log(n + " squared = " + n * n);'']\<close>

definition lang_typescript :: lang where
  \<open>lang_typescript = \<lparr>l_id = 106, l_name = ''TypeScript'', l_version = ''tsx'', l_ext = ''ts'',
     l_family = Fam_c, l_core = False, l_accent = ''#3178C6'', l_cm = ''typescript'',
     l_snippet = snippet_typescript,
     l_sampleStdin = ''7'' @ [NL], l_output = [''7 squared = 49''],
     l_metrics = \<lparr>l_time = 9 / 100, l_memory = 22, l_exit = 0\<rparr>\<rparr>\<close>

definition snippet_kotlin :: string where
  \<open>snippet_kotlin = unlines
     [''fun main() {'',
      ''    val n = readLine()!!.trim().toLong()'',
      ''    println(n.toString() + " squared = " + (n * n))'',
      ''}'']\<close>

definition lang_kotlin :: lang where
  \<open>lang_kotlin = \<lparr>l_id = 120, l_name = ''Kotlin'', l_version = ''2.x'', l_ext = ''kt'',
     l_family = Fam_c, l_core = False, l_accent = ''#7F52FF'', l_cm = ''kotlin'',
     l_snippet = snippet_kotlin,
     l_sampleStdin = ''7'' @ [NL], l_output = [''7 squared = 49''],
     l_metrics = \<lparr>l_time = 28 / 100, l_memory = 55, l_exit = 0\<rparr>\<rparr>\<close>

definition snippet_scala :: string where
  \<open>snippet_scala = unlines
     [''object main {'',
      ''  def main(args: Array[String]): Unit = {'',
      ''    val n = scala.io.StdIn.readLine().trim.toLong'',
      ''    println(n.toString + " squared = " + (n * n))'',
      ''  }'',
      ''}'']\<close>

definition lang_scala :: lang where
  \<open>lang_scala = \<lparr>l_id = 121, l_name = ''Scala'', l_version = ''3.x'', l_ext = ''scala'',
     l_family = Fam_c, l_core = False, l_accent = ''#DC322F'', l_cm = ''scala'',
     l_snippet = snippet_scala,
     l_sampleStdin = ''7'' @ [NL], l_output = [''7 squared = 49''],
     l_metrics = \<lparr>l_time = 42 / 100, l_memory = 72, l_exit = 0\<rparr>\<rparr>\<close>

definition snippet_csharp :: string where
  \<open>snippet_csharp = unlines
     [''using System;'',
      [],
      ''class Program {'',
      ''    static void Main() {'',
      ''        long n = long.Parse(Console.In.ReadToEnd().Trim());'',
      ''        Console.WriteLine(n + " squared = " + (n * n));'',
      ''    }'',
      ''}'']\<close>

definition lang_csharp :: lang where
  \<open>lang_csharp = \<lparr>l_id = 140, l_name = ''C#'', l_version = ''.NET 9'', l_ext = ''cs'',
     l_family = Fam_c, l_core = False, l_accent = ''#9B4F96'', l_cm = ''csharp'',
     l_snippet = snippet_csharp,
     l_sampleStdin = ''7'' @ [NL], l_output = [''7 squared = 49''],
     l_metrics = \<lparr>l_time = 3 / 10, l_memory = 30, l_exit = 0\<rparr>\<rparr>\<close>

definition snippet_swift :: string where
  \<open>snippet_swift = unlines
     [''// readLine() strips the trailing newline; no Foundation needed.'',
      ''let n = Int(readLine()!)!'',
      ''print(String(n) + " squared = " + String(n * n))'']\<close>

definition lang_swift :: lang where
  \<open>lang_swift = \<lparr>l_id = 152, l_name = ''Swift'', l_version = ''6.x'', l_ext = ''swift'',
     l_family = Fam_c, l_core = False, l_accent = ''#F05138'', l_cm = ''swift'',
     l_snippet = snippet_swift,
     l_sampleStdin = ''7'' @ [NL], l_output = [''7 squared = 49''],
     l_metrics = \<lparr>l_time = 5 / 100, l_memory = 10, l_exit = 0\<rparr>\<rparr>\<close>

definition snippet_sql :: string where
  \<open>snippet_sql = unlines
     [''-- SQLite reads statements from this file.'',
      ''SELECT 7 || '' @ [SQ] @ '' squared = '' @ [SQ] @ '' || (7 * 7);'']\<close>

definition lang_sql :: lang where
  \<open>lang_sql = \<lparr>l_id = 154, l_name = ''SQL'', l_version = ''sqlite3'', l_ext = ''sql'',
     l_family = Fam_py, l_core = False, l_accent = ''#003B57'', l_cm = ''sql'',
     l_snippet = snippet_sql,
     l_sampleStdin = [], l_output = [''7 squared = 49''],
     l_metrics = \<lparr>l_time = 1 / 100, l_memory = 16 / 10, l_exit = 0\<rparr>\<rparr>\<close>

definition snippet_dart :: string where
  \<open>snippet_dart = unlines
     [''import '' @ [SQ] @ ''dart:io'' @ [SQ] @ '';'',
      [],
      ''void main() {'',
      ''  final n = int.parse(stdin.readLineSync()!.trim());'',
      ''  print(n.toString() + " squared = " + (n * n).toString());'',
      ''}'']\<close>

definition lang_dart :: lang where
  \<open>lang_dart = \<lparr>l_id = 163, l_name = ''Dart'', l_version = ''3.x'', l_ext = ''dart'',
     l_family = Fam_c, l_core = False, l_accent = ''#0175C2'', l_cm = ''dart'',
     l_snippet = snippet_dart,
     l_sampleStdin = ''7'' @ [NL], l_output = [''7 squared = 49''],
     l_metrics = \<lparr>l_time = 5 / 100, l_memory = 8, l_exit = 0\<rparr>\<rparr>\<close>

definition LANG_CATALOG :: "lang list" where
  "LANG_CATALOG = [lang_python, lang_node, lang_rust, lang_go, lang_c,
     lang_cpp, lang_java, lang_bash, lang_lua, lang_perl,
     lang_ruby, lang_r, lang_php, lang_typescript, lang_kotlin,
     lang_scala, lang_csharp, lang_swift, lang_sql, lang_dart]"

text \<open>
  \<^verbatim>\<open>a.name.localeCompare(b.name, 'en', { sensitivity: 'base' })\<close>: the root collation at its
  primary strength, on ASCII. Punctuation and symbols come first, in the order of the table, then
  digits, then letters without their case.
\<close>

definition collation :: string where
  "collation = ''_-,;:!?.'' @ [SQ] @ [CHR 0x22] @ ''()[]{}@*/'' @ [BS] @ ''&#%`^+<=>|~$0123456789''"

definition lower_char :: "char \<Rightarrow> char" where
  "lower_char c = (let n = of_char c :: nat in if 65 \<le> n \<and> n \<le> 90 then char_of (n + 32) else c)"

definition weight :: "char \<Rightarrow> nat" where
  "weight c = (case index_of c collation of Some i \<Rightarrow> i + 1 | None \<Rightarrow> 100 + of_char (lower_char c))"

definition base_key :: "string \<Rightarrow> nat list" where
  "base_key s = map weight s"

definition LANGS :: "lang list" where
  "LANGS = sort_key (\<lambda>l. base_key (l_name l)) LANG_CATALOG"

section \<open>Icons\<close>

datatype lang_key =
    K_python | K_java | K_c | K_cpp | K_go | K_node
  | K_rust | K_bash | K_lua | K_perl | K_ruby | K_r
  | K_php | K_typescript | K_kotlin | K_scala | K_csharp | K_swift
  | K_sql | K_dart

definition all_keys :: "lang_key list" where
  "all_keys = [K_python, K_java, K_c, K_cpp, K_go, K_node, K_rust, K_bash, K_lua, K_perl, K_ruby, K_r, K_php, K_typescript, K_kotlin, K_scala, K_csharp, K_swift, K_sql, K_dart]"

definition langKeyFromId :: "nat \<Rightarrow> lang_key option" where
  "langKeyFromId lid = map_of
     [(48, K_c), (52, K_cpp), (60, K_go), (62, K_java), (63, K_node),
      (71, K_python), (73, K_rust), (100, K_bash), (101, K_lua), (102, K_perl),
      (103, K_ruby), (104, K_r), (105, K_php), (106, K_typescript), (120, K_kotlin),
      (121, K_scala), (140, K_csharp), (152, K_swift), (154, K_sql), (163, K_dart)] lid"

text \<open>
  An icon without its drawing: multi-colour logos bring their view box, single-path marks use the
  default one.
\<close>

datatype icon_kind = IconPath | IconCustom | IconMono

record icon =
  i_kind :: icon_kind
  i_title :: string
  i_hex :: string
  i_viewBox :: "string option"

fun ICONS :: "lang_key \<Rightarrow> icon" where
  "ICONS K_python = icon.make IconCustom ''Python'' ''3776AB'' (Some ''0 0 48 48'')"
| "ICONS K_java = icon.make IconCustom ''Java'' ''ED8B00'' (Some ''0 0 48 48'')"
| "ICONS K_c = icon.make IconCustom ''C'' ''283593'' (Some ''0 0 48 48'')"
| "ICONS K_cpp = icon.make IconCustom ''C++'' ''00549d'' (Some ''0 0 48 48'')"
| "ICONS K_go = icon.make IconPath ''Go'' ''00ADD8'' None"
| "ICONS K_node = icon.make IconPath ''Node.js'' ''5FA04E'' None"
| "ICONS K_rust = icon.make IconPath ''Rust'' ''CE412B'' None"
| "ICONS K_bash = icon.make IconPath ''Bash'' ''4EAA25'' None"
| "ICONS K_lua = icon.make IconPath ''Lua'' ''2C2D72'' None"
| "ICONS K_perl = icon.make IconPath ''Perl'' ''39457E'' None"
| "ICONS K_ruby = icon.make IconPath ''Ruby'' ''CC342D'' None"
| "ICONS K_r = icon.make IconPath ''R'' ''276DC3'' None"
| "ICONS K_php = icon.make IconPath ''PHP'' ''777BB4'' None"
| "ICONS K_typescript = icon.make IconPath ''TypeScript'' ''3178C6'' None"
| "ICONS K_kotlin = icon.make IconPath ''Kotlin'' ''7F52FF'' None"
| "ICONS K_scala = icon.make IconPath ''Scala'' ''DC322F'' None"
| "ICONS K_csharp = icon.make IconCustom ''C#'' ''9B4F96'' (Some ''0 0 128 128'')"
| "ICONS K_swift = icon.make IconPath ''Swift'' ''F05138'' None"
| "ICONS K_sql = icon.make IconPath ''SQL'' ''003B57'' None"
| "ICONS K_dart = icon.make IconPath ''Dart'' ''0175C2'' None"

definition langBrandHex :: "lang_key \<Rightarrow> string" where
  "langBrandHex k = i_hex (ICONS k)"

section \<open>The landing page\<close>

datatype core_kind = Interpreted | Compiled | Jvm

record core_lang =
  cl_id :: nat
  cl_name :: string
  cl_version :: string
  cl_key :: lang_key
  cl_accent :: string
  cl_kind :: core_kind

record batch_lang =
  bl_id :: nat
  bl_name :: string
  bl_accent :: string

definition CORE7 :: "core_lang list" where
  "CORE7 =
    [core_lang.make 71 ''Python'' ''3.13'' K_python ''#3776AB'' Interpreted,
     core_lang.make 63 ''Node.js'' ''22 LTS'' K_node ''#5FA04E'' Interpreted,
     core_lang.make 73 ''Rust'' ''stable'' K_rust ''#CE412B'' Compiled,
     core_lang.make 60 ''Go'' ''1.x'' K_go ''#00ADD8'' Compiled,
     core_lang.make 48 ''C'' ''gcc-14'' K_c ''#A8B9CC'' Compiled,
     core_lang.make 52 ''C++'' ''g++-14'' K_cpp ''#00599C'' Compiled,
     core_lang.make 62 ''Java'' ''JDK 21'' K_java ''#ED8B00'' Jvm]"

definition BATCHES :: "(string \<times> batch_lang list) list" where
  "BATCHES =
    [(''scripting'', [batch_lang.make 100 ''Bash'' ''#4EAA25'',
       batch_lang.make 101 ''Lua'' ''#2C2D72'',
       batch_lang.make 102 ''Perl'' ''#39457E'',
       batch_lang.make 103 ''Ruby'' ''#CC342D'',
       batch_lang.make 104 ''R'' ''#276DC3'',
       batch_lang.make 105 ''PHP'' ''#777BB4'',
       batch_lang.make 106 ''TypeScript'' ''#3178C6'']),
     (''JVM'', [batch_lang.make 120 ''Kotlin'' ''#7F52FF'',
       batch_lang.make 121 ''Scala'' ''#DC322F'']),
     (''.NET'', [batch_lang.make 140 ''C#'' ''#9B4F96'']),
     (''native'', [batch_lang.make 152 ''Swift'' ''#F05138'',
       batch_lang.make 163 ''Dart'' ''#0175C2'']),
     (''data'', [batch_lang.make 154 ''SQL'' ''#003B57''])]"

fun KIND_LABEL :: "core_kind \<Rightarrow> jsstr" where
  "KIND_LABEL Interpreted = js ''interpreted''"
| "KIND_LABEL Compiled = js ''compile '' @ [MIDDOT] @ js '' run''"
| "KIND_LABEL Jvm = js ''javac '' @ [MIDDOT] @ js '' java''"

section \<open>The service\<close>

text \<open>Identifier and name of every \<^verbatim>\<open>language\<close> entry the service loads.\<close>

definition runner_languages :: "(nat \<times> string) list" where
  "runner_languages =
    [(48, ''C''), (52, ''C++''), (60, ''Go''), (62, ''Java''), (63, ''Node.js''),
     (71, ''Python''), (73, ''Rust''), (100, ''Bash''), (101, ''Lua''), (102, ''Perl''),
     (103, ''Ruby''), (104, ''R''), (105, ''PHP''), (106, ''TypeScript''), (120, ''Kotlin''),
     (121, ''Scala''), (140, ''C#''), (152, ''Swift''), (154, ''SQL''), (163, ''Dart'')]"

section \<open>Agreement\<close>

lemmas starters = lang_python_def lang_node_def lang_rust_def lang_go_def lang_c_def lang_cpp_def lang_java_def
  lang_bash_def lang_lua_def lang_perl_def lang_ruby_def lang_r_def lang_php_def lang_typescript_def
  lang_kotlin_def lang_scala_def lang_csharp_def lang_swift_def lang_sql_def lang_dart_def

definition catalog_names :: "(nat \<times> string) list" where
  "catalog_names = map (\<lambda>l. (l_id l, l_name l)) LANG_CATALOG"

definition landing_names :: "(nat \<times> string) list" where
  "landing_names = map (\<lambda>l. (cl_id l, cl_name l)) CORE7
     @ concat (map (\<lambda>(_, ls). map (\<lambda>l. (bl_id l, bl_name l)) ls) BATCHES)"

lemma catalog_names_eq: "catalog_names =
  [(71, ''Python''), (63, ''Node.js''), (73, ''Rust''), (60, ''Go''), (48, ''C''), (52, ''C++''), (62, ''Java''),
   (100, ''Bash''), (101, ''Lua''), (102, ''Perl''), (103, ''Ruby''), (104, ''R''), (105, ''PHP''), (106, ''TypeScript''),
   (120, ''Kotlin''), (121, ''Scala''), (140, ''C#''), (152, ''Swift''), (154, ''SQL''), (163, ''Dart'')]"
  by (simp add: catalog_names_def LANG_CATALOG_def starters)

lemma landing_names_eq: "landing_names =
  [(71, ''Python''), (63, ''Node.js''), (73, ''Rust''), (60, ''Go''), (48, ''C''), (52, ''C++''), (62, ''Java''),
   (100, ''Bash''), (101, ''Lua''), (102, ''Perl''), (103, ''Ruby''), (104, ''R''), (105, ''PHP''), (106, ''TypeScript''),
   (120, ''Kotlin''), (121, ''Scala''), (140, ''C#''), (152, ''Swift''), (163, ''Dart''), (154, ''SQL'')]"
  by (simp add: landing_names_def CORE7_def BATCHES_def core_lang.make_def batch_lang.make_def)

lemma same_names: "set landing_names = set catalog_names" "set runner_languages = set catalog_names"
  unfolding catalog_names_eq landing_names_eq runner_languages_def by auto

lemma distinct_catalog: "distinct (map fst catalog_names)" "distinct (map snd catalog_names)"
  "length catalog_names = 20"
  by (simp_all add: catalog_names_eq)

lemma icon_of_language:
  "list_all (\<lambda>(i, n). case langKeyFromId i of Some k \<Rightarrow> i_title (ICONS k) = n | None \<Rightarrow> False) catalog_names"
  by (simp add: catalog_names_eq langKeyFromId_def icon.make_def)

lemma every_icon_used: "k \<in> set (List.map_filter (\<lambda>(i, _). langKeyFromId i) catalog_names)"
  by (cases k) (simp_all add: catalog_names_eq langKeyFromId_def List.map_filter_def)

lemma core_flags: "map cl_id CORE7 = map l_id (filter l_core LANG_CATALOG)"
  by (simp add: CORE7_def core_lang.make_def LANG_CATALOG_def starters)

lemma core_keys: "list_all (\<lambda>l. langKeyFromId (cl_id l) = Some (cl_key l)) CORE7"
  by (simp add: CORE7_def core_lang.make_def langKeyFromId_def)

lemma starters_highlighted: "list_all (\<lambda>l. l_cm l \<in> set CmLang) LANG_CATALOG"
  by (simp add: LANG_CATALOG_def starters CmLang_def)

lemma starters_output: "list_all (\<lambda>l. l_output l = [''7 squared = 49'']) LANG_CATALOG"
  by (simp add: LANG_CATALOG_def starters)

lemma starters_stdin:
  "list_all (\<lambda>l. l_sampleStdin l = (if l_name l = ''SQL'' then [] else ''7'' @ [NL])) LANG_CATALOG"
  by (simp add: LANG_CATALOG_def starters)

lemma LANGS_props: "mset LANGS = mset LANG_CATALOG" "sorted (map (\<lambda>l. base_key (l_name l)) LANGS)"
  by (simp_all add: LANGS_def)

lemma set_LANGS [simp]: "set LANGS = set LANG_CATALOG"
  by (simp add: LANGS_def)

lemma map_insort_key: "map f (insort_key (\<lambda>x. g (f x)) y xs) = insort_key g (f y) (map f xs)"
  by (induction xs) auto

lemma map_sort_key: "map f (sort_key (\<lambda>x. g (f x)) xs) = sort_key g (map f xs)"
  by (induction xs) (simp_all add: map_insort_key)

definition picker_names :: "string list" where
  "picker_names =
    [''Bash'', ''C'', ''C#'', ''C++'', ''Dart'', ''Go'', ''Java'', ''Kotlin'', ''Lua'', ''Node.js'', ''Perl'', ''PHP'',
     ''Python'', ''R'', ''Ruby'', ''Rust'', ''Scala'', ''SQL'', ''Swift'', ''TypeScript'']"

lemma picker_keys: "map base_key picker_names =
  [[198, 197, 215, 204],
   [199],
   [199, 22],
   [199, 26, 26],
   [200, 197, 214, 216],
   [203, 211],
   [206, 197, 218, 197],
   [207, 211, 216, 208, 205, 210],
   [208, 217, 197],
   [210, 211, 200, 201, 8, 206, 215],
   [212, 201, 214, 208],
   [212, 204, 212],
   [212, 221, 216, 204, 211, 210],
   [214],
   [214, 217, 198, 221],
   [214, 217, 215, 216],
   [215, 199, 197, 208, 197],
   [215, 213, 208],
   [215, 219, 205, 202, 216],
   [216, 221, 212, 201, 215, 199, 214, 205, 212, 216]]"
  by code_simp

lemma LANGS_names: "map l_name LANGS = picker_names"
proof -
  have "map l_name LANG_CATALOG = map snd catalog_names" by (simp add: catalog_names_def)
  then have "map l_name LANGS = sort_key base_key (map snd catalog_names)"
    by (simp add: LANGS_def map_sort_key)
  also have "\<dots> = picker_names"
  proof (rule sort_key_inj_key_eq)
    show "mset (map snd catalog_names) = mset picker_names"
      by (simp add: catalog_names_eq picker_names_def)
    then have "set (map snd catalog_names) = set picker_names" by (metis set_mset_mset)
    moreover have "distinct (map base_key picker_names)" unfolding picker_keys by simp
    ultimately show "inj_on base_key (set (map snd catalog_names))" by (simp add: distinct_map)
    show "sorted (map base_key picker_names)" unfolding picker_keys by simp
  qed
  finally show ?thesis .
qed


text \<open>
  The brand colour of an icon is not the accent the other catalogues use for the same language, in
  the playground nor on the landing page.
\<close>

lemma accent_not_brand:
  "l_accent lang_c = ''#a8b9cc''" "cl_accent (CORE7 ! 4) = ''#A8B9CC''" "langBrandHex K_c = ''283593''"
  by (simp_all add: lang_c_def CORE7_def core_lang.make_def langBrandHex_def icon.make_def)

end
