(* ===== verification/Playground.thy ===== *)
theory Playground
  imports Persist ShareLink Catalog Machine
begin

text \<open>
  The playground's run machine (\<^verbatim>\<open>App\<close> in \<^verbatim>\<open>playground/App.tsx\<close>): the state of the page, what the
  buttons and keys do, and what happens when a promise, a stream chunk, a timer or a poll of an earlier
  run comes back. A run that was started is a closure with its own token, line buffers and abort
  controller; the page holds at most one reference to a controller and one to a stream. Every handler is
  a function on the state, and \<open>app_step\<close> is the relation their interleavings generate.
\<close>

section \<open>State\<close>

datatype stream_state = NoStream | StreamOpen | StreamEnded

text \<open>
  One call of \<^verbatim>\<open>runOnApi\<close>: what it captured, its local variables, its controller
  (\<open>rc_aborted\<close>), its stream with the flag its canceller sets (\<open>rc_stopped\<close>), and which of its
  promises are pending. \<open>rc_fetches\<close> are the row fetches under way, each with the verdict it records
  if it fails.
\<close>

record run_ctx =
  rc_lang :: lang
  rc_code :: jsstr
  rc_stdin :: jsstr
  rc_limits :: app_limits
  rc_tkn :: jsstr
  rc_out :: jsstr
  rc_err :: jsstr
  rc_finished :: bool
  rc_aborted :: bool
  rc_submitting :: bool
  rc_stream :: stream_state
  rc_stopped :: bool
  rc_sse :: sse
  rc_fetches :: "jsstr list"
  rc_polling :: bool

text \<open>The interval of the offline demo: the language and token it captured, and how far it is.\<close>

record demo =
  dm_lang :: lang
  dm_token :: jsstr
  dm_i :: nat

record app =
  a_lang :: lang
  a_code :: jsstr
  a_stdin :: jsstr
  a_status :: jsstr
  a_statusDetail :: "json option"
  a_output :: "jsstr list"
  a_stderr :: "jsstr list"
  a_compileOutput :: jsstr
  a_metrics :: run_metrics
  a_limits :: app_limits
  a_token :: jsstr
  a_history :: "json list"
  a_runMode :: jsstr
  a_layout :: layout
  a_error :: "(jsstr \<times> bool) option"
  a_pickerOpen :: bool
  a_apiOnline :: bool
  a_ceilings :: "ceilings option"
  a_cancelStream :: "nat option"
  a_runCtl :: "nat option"
  a_runs :: "run_ctx list"
  a_probes :: nat
  a_timeouts :: nat
  a_demo :: "demo option"
  a_store :: storage
  a_hash :: jsstr
  a_pathname :: jsstr

section \<open>Mounting\<close>

definition lang_named :: "string \<Rightarrow> lang option" where
  "lang_named n = List.find (\<lambda>l. l_name l = n) LANGS"

definition pickInitialLang :: "share_hash option \<Rightarrow> json \<Rightarrow> lang" where
  "pickInitialLang share draft =
     (case (case share of
              Some s \<Rightarrow> if present (sh_lang s) then List.find (\<lambda>l. natStr (l_id l) = the (sh_lang s)) LANGS else None
            | None \<Rightarrow> None) of
        Some l \<Rightarrow> l
      | None \<Rightarrow>
          (case (case jget ''langId'' draft of
                   Some (JNum n) \<Rightarrow> List.find (\<lambda>l. of_nat (l_id l) = n) LANGS
                 | _ \<Rightarrow> None) of
             Some l \<Rightarrow> l
           | None \<Rightarrow> opt (hd LANGS) (lang_named ''Rust'')))"

text \<open>
  A member of the draft by its declared type; one of another type, which \<^verbatim>\<open>saveDraft\<close> never writes,
  counts as absent.
\<close>

definition draft_text :: "string \<Rightarrow> json \<Rightarrow> jsstr option" where
  "draft_text k d = (case jget k d of Some (JStr s) \<Rightarrow> Some s | _ \<Rightarrow> None)"

definition draft_num :: "string \<Rightarrow> number \<Rightarrow> json \<Rightarrow> number" where
  "draft_num k dflt d = (case jget k d of Some (JNum n) \<Rightarrow> n | _ \<Rightarrow> dflt)"

definition initial_mode :: "storage \<Rightarrow> jsstr" where
  "initial_mode st = (case safeRead st MODE_KEY of Some m \<Rightarrow> if m \<noteq> [] then m else js ''single'' | None \<Rightarrow> js ''single'')"

text \<open>The first render; \<open>rnd\<close> is \<^verbatim>\<open>Math.random().toString(36).slice(2, 10)\<close>. \<open>None\<close>: a malformed link threw.\<close>

definition first_render :: "storage \<Rightarrow> jsstr \<Rightarrow> jsstr \<Rightarrow> jsstr \<Rightarrow> app option" where
  "first_render st pathname hash rnd = (case readShareHash hash of
     None \<Rightarrow> None
   | Some share \<Rightarrow>
       (let draft = (if share = None then loadDraft st else JNull);
            initialLang = pickInitialLang share draft;
            lims = opt JNull (jget ''limits'' draft)
        in Some
          \<lparr>a_lang = initialLang,
           a_code = (case share of
                       Some s \<Rightarrow> opt (js (l_snippet initialLang)) (sh_code s)
                     | None \<Rightarrow> opt (js (l_snippet initialLang)) (draft_text ''code'' draft)),
           a_stdin = (case share of
                        Some s \<Rightarrow> sh_stdin s
                      | None \<Rightarrow> opt (js (l_sampleStdin initialLang)) (draft_text ''stdin'' draft)),
           a_status = js ''idle'', a_statusDetail = None, a_output = [], a_stderr = [], a_compileOutput = [],
           a_metrics = no_metrics,
           a_limits = \<lparr>memoryMb = draft_num ''memoryMb'' 1024 lims, timeS = draft_num ''timeS'' 30 lims\<rparr>,
           a_token = (case share of
                        Some s \<Rightarrow> if present (sh_token s) then the (sh_token s) else js ''zc_'' @ rnd
                      | None \<Rightarrow> js ''zc_'' @ rnd),
           a_history = loadHistory st, a_runMode = initial_mode st, a_layout = loadLayout st,
           a_error = None, a_pickerOpen = False, a_apiOnline = False, a_ceilings = None,
           a_cancelStream = None, a_runCtl = None, a_runs = [], a_probes = 1, a_timeouts = 0, a_demo = None,
           a_store = st, a_hash = hash, a_pathname = pathname\<rparr>))"

section \<open>Effects\<close>

definition draft_of :: "app \<Rightarrow> draft" where
  "draft_of a = \<lparr>dr_langId = of_nat (l_id (a_lang a)), dr_code = a_code a, dr_stdin = a_stdin a, dr_limits = a_limits a\<rparr>"

text \<open>
  The effects after a render, in the order of the source: each runs when one of its dependencies has
  changed, all of them after the first render. The last one owns the interval of the demo.
\<close>

definition mode_effect :: "app \<Rightarrow> app" where
  "mode_effect a = a\<lparr>a_store := tryWrite (a_store a) MODE_KEY (a_runMode a)\<rparr>"

definition layout_effect :: "app \<Rightarrow> app" where
  "layout_effect a = a\<lparr>a_store := saveLayout (a_store a) (a_layout a)\<rparr>"

definition draft_effect :: "app \<Rightarrow> app" where
  "draft_effect a = a\<lparr>a_store := saveDraft (a_store a) (draft_of a)\<rparr>"

definition demo_effect :: "app \<Rightarrow> app" where
  "demo_effect a =
     (if a_apiOnline a \<or> a_status a \<noteq> js ''processing'' then a\<lparr>a_demo := None\<rparr>
      else a\<lparr>a_demo := Some \<lparr>dm_lang = a_lang a, dm_token = a_token a, dm_i = 0\<rparr>\<rparr>)"

definition effects :: "app \<Rightarrow> app \<Rightarrow> app" where
  "effects old a =
     (let a1 = (if a_runMode a \<noteq> a_runMode old then mode_effect a else a);
          a2 = (if a_layout a1 \<noteq> a_layout old then layout_effect a1 else a1);
          a3 = (if draft_of a2 \<noteq> draft_of old then draft_effect a2 else a2)
      in if a_status a3 \<noteq> a_status old \<or> a_lang a3 \<noteq> a_lang old \<or> a_apiOnline a3 \<noteq> a_apiOnline old
         then demo_effect a3 else a3)"

definition mount :: "storage \<Rightarrow> jsstr \<Rightarrow> jsstr \<Rightarrow> jsstr \<Rightarrow> app option" where
  "mount st pathname hash rnd = map_option (\<lambda>a. demo_effect (draft_effect (layout_effect (mode_effect a))))
     (first_render st pathname hash rnd)"

section \<open>Probing the service\<close>

definition spec_limit :: "string \<Rightarrow> json \<Rightarrow> number" where
  "spec_limit k l = draft_num k 0 (opt (JObj []) (jget ''default_limits'' l))"

definition ceilings_of :: "json list \<Rightarrow> ceilings" where
  "ceilings_of langs =
     (let (m, t) = foldl (\<lambda>(m, t) l. (max m (spec_limit ''memory_mb'' l), max t (spec_limit ''wall_time'' l))) (0, 0) langs
      in \<lparr>c_memoryMb = (if m = 0 then 2048 else m), c_timeS = (if t = 0 then 60 else t)\<rparr>)"

text \<open>What \<^verbatim>\<open>probeApi\<close> sets, given the probe's verdict and the listing (\<open>None\<close> when it failed).\<close>

definition probeApi :: "bool \<Rightarrow> json list option \<Rightarrow> app \<Rightarrow> app" where
  "probeApi is_ok langs a =
     (if \<not> is_ok then a\<lparr>a_apiOnline := False, a_ceilings := None\<rparr>
      else case langs of
        None \<Rightarrow> a\<lparr>a_apiOnline := True\<rparr>
      | Some ls \<Rightarrow> a\<lparr>a_apiOnline := True, a_ceilings := Some (ceilings_of ls)\<rparr>)"

section \<open>Editing and cancelling\<close>

definition upd_run :: "nat \<Rightarrow> (run_ctx \<Rightarrow> run_ctx) \<Rightarrow> app \<Rightarrow> app" where
  "upd_run r f a = a\<lparr>a_runs := (a_runs a)[r := f (a_runs a ! r)]\<rparr>"

definition clearResults :: "app \<Rightarrow> app" where
  "clearResults a = a\<lparr>a_status := js ''idle'', a_statusDetail := None, a_output := [], a_stderr := [],
     a_compileOutput := [], a_metrics := no_metrics, a_error := None\<rparr>"

definition stopStream :: "app \<Rightarrow> app" where
  "stopStream a = (case a_cancelStream a of
     Some r \<Rightarrow> (upd_run r (\<lambda>x. x\<lparr>rc_stopped := True\<rparr>) a)\<lparr>a_cancelStream := None\<rparr>
   | None \<Rightarrow> a)"

definition cancelRun :: "app \<Rightarrow> app" where
  "cancelRun a =
     (let a1 = stopStream a
      in case a_runCtl a1 of
           Some r \<Rightarrow> (upd_run r (\<lambda>x. x\<lparr>rc_aborted := True\<rparr>) a1)\<lparr>a_runCtl := None\<rparr>
         | None \<Rightarrow> a1)"

definition selectLang :: "jsstr \<Rightarrow> lang \<Rightarrow> app \<Rightarrow> app" where
  "selectLang rnd l a =
     (clearResults ((cancelRun a)\<lparr>a_lang := l, a_code := js (l_snippet l), a_stdin := js (l_sampleStdin l)\<rparr>))
       \<lparr>a_token := js ''zc_'' @ rnd\<rparr>"

definition reset :: "app \<Rightarrow> app" where
  "reset a = clearResults ((cancelRun a)\<lparr>a_code := js (l_snippet (a_lang a)), a_stdin := js (l_sampleStdin (a_lang a))\<rparr>)"

definition busy :: "app \<Rightarrow> bool" where
  "busy a \<longleftrightarrow> a_status a = js ''queued'' \<or> a_status a = js ''processing''"

definition onCancel :: "app \<Rightarrow> app" where
  "onCancel a = (let a1 = cancelRun a in if busy a then a1\<lparr>a_status := js ''cancelled''\<rparr> else a1)"

definition share_of :: "lang \<Rightarrow> jsstr \<Rightarrow> jsstr \<Rightarrow> jsstr \<Rightarrow> share" where
  "share_of l c i t = \<lparr>s_langId = Some (of_nat (l_id l)), s_code = Some c, s_stdin = Some i, s_token = Some t\<rparr>"

definition copyShareLink :: "app \<Rightarrow> app" where
  "copyShareLink a = (case writeShareHash (a_pathname a) (share_of (a_lang a) (a_code a) (a_stdin a) (a_token a)) of
     Some u \<Rightarrow> a\<lparr>a_hash := hash_of u\<rparr>
   | None \<Rightarrow> a)"

section \<open>Results\<close>

definition num_field :: "string \<Rightarrow> json \<Rightarrow> number option" where
  "num_field k v = (case jget k v of Some (JNum n) \<Rightarrow> Some n | _ \<Rightarrow> None)"

definition text_field :: "string \<Rightarrow> json \<Rightarrow> jsstr option" where
  "text_field k v = (case jget k v of Some x \<Rightarrow> if truthy x then Some (decode (Some (toStr x))) else None | None \<Rightarrow> None)"

text \<open>\<^verbatim>\<open>text.split(/\r?\n/)\<close> without an empty last line.\<close>

definition view_lines :: "jsstr \<Rightarrow> jsstr list" where
  "view_lines s = (let ls = split_crlf s in if last ls = [] then butlast ls else ls)"

definition signal_text :: "json \<Rightarrow> jsstr option" where
  "signal_text sub = (case jget ''signal'' sub of
     None \<Rightarrow> None
   | Some v \<Rightarrow>
       (case jget ''name'' v of
          Some n \<Rightarrow> if n = JNull then None else Some (toStr n)
        | None \<Rightarrow> (case v of JStr s \<Rightarrow> Some s | _ \<Rightarrow> None)))"

definition applySubmissionView :: "json \<Rightarrow> app \<Rightarrow> app" where
  "applySubmissionView sub a =
     a\<lparr>a_status := statusKind (jget ''status'' sub),
       a_statusDetail := statusDetail (jget ''status'' sub),
       a_output := (case text_field ''stdout'' sub of Some t \<Rightarrow> view_lines t | None \<Rightarrow> a_output a),
       a_stderr := (case text_field ''stderr'' sub of Some t \<Rightarrow> view_lines t | None \<Rightarrow> a_stderr a),
       a_compileOutput := opt (a_compileOutput a) (text_field ''compile_output'' sub),
       a_metrics := \<lparr>m_time = num_field ''wall_time'' sub,
         m_memory = map_option (\<lambda>k. k / 1024) (num_field ''memory'' sub),
         m_exitCode = num_field ''exit_code'' sub, m_signal = signal_text sub\<rparr>\<rparr>"

definition recordHistory :: "number \<Rightarrow> lang \<Rightarrow> jsstr \<Rightarrow> number option \<Rightarrow> jsstr \<Rightarrow> app \<Rightarrow> app" where
  "recordHistory now l k t tkn a =
     (let h = entry_json \<lparr>h_name = js (l_name l), h_verdict = k, h_time = t, h_token = tkn, h_when = now\<rparr>;
          nxt = take 20 (h # a_history a)
      in a\<lparr>a_history := nxt, a_store := saveHistory (a_store a) nxt\<rparr>)"

text \<open>The loop of \<^verbatim>\<open>flushLines\<close>: the complete lines from \<open>lastEnd\<close> on, and the rest.\<close>

function flush_from :: "jsstr \<Rightarrow> nat \<Rightarrow> jsstr list \<times> jsstr" where
  "flush_from b lastEnd = (case indexOf_from LF b lastEnd of
     None \<Rightarrow> ([], drop lastEnd b)
   | Some i \<Rightarrow> (let (ls, rest) = flush_from b (i + 1) in (slice lastEnd i b # ls, rest)))"
  by pat_completeness auto
termination
proof (relation "measure (\<lambda>(b, k). length b - k)")
  fix b :: jsstr and k i
  assume "indexOf_from LF b k = Some i"
  then show "((b, i + 1), b, k) \<in> measure (\<lambda>(b, k). length b - k)"
    using index_sub_less [of "[LF]" "drop k b"] by (auto simp: indexOf_from_def)
qed simp

declare flush_from.simps [simp del]

definition flushLines :: "jsstr \<Rightarrow> jsstr list \<times> jsstr" where
  "flushLines b = flush_from b 0"

section \<open>A run on the service\<close>

text \<open>The parameters of the submission: the time slider is the wall time, the processor time is capped.\<close>

definition run_params :: "nat \<Rightarrow> run_ctx \<Rightarrow> submit_params" where
  "run_params now x =
     \<lparr>language_id = l_id (rc_lang x), source_code = rc_code x, stdin = Some (rc_stdin x),
      plimits = Some \<lparr>cpu_time = Some (min (timeS (rc_limits x)) 30), wall_time = Some (timeS (rc_limits x)),
                      memory_mb = Some (memoryMb (rc_limits x))\<rparr>,
      callback_url = None,
      idempotency_key = Some (idemKey (JArr [JNum (of_nat (l_id (rc_lang x))), JStr (rc_code x), JStr (rc_stdin x),
        JNum (memoryMb (rc_limits x)), JNum (timeS (rc_limits x))]) now),
      wait = False\<rparr>"

definition new_run :: "app \<Rightarrow> run_ctx" where
  "new_run a = \<lparr>rc_lang = a_lang a, rc_code = a_code a, rc_stdin = a_stdin a, rc_limits = a_limits a,
     rc_tkn = [], rc_out = [], rc_err = [], rc_finished = False, rc_aborted = False, rc_submitting = True,
     rc_stream = NoStream, rc_stopped = False, rc_sse = sse0, rc_fetches = [], rc_polling = False\<rparr>"

text \<open>\<^verbatim>\<open>runOnApi\<close> up to its first \<^verbatim>\<open>await\<close>.\<close>

definition runOnApi :: "app \<Rightarrow> app" where
  "runOnApi a = (clearResults a)\<lparr>a_status := js ''queued'', a_runCtl := Some (length (a_runs a)),
     a_runs := a_runs a @ [new_run a]\<rparr>"

definition submit_failed :: "nat \<Rightarrow> jsstr \<Rightarrow> app \<Rightarrow> app" where
  "submit_failed r m a =
     (if rc_aborted (a_runs a ! r) then a
      else a\<lparr>a_status := js ''se'', a_error := Some (if m = [] then js ''Error'' else m, True), a_runCtl := None\<rparr>)"

definition answered_at_once :: "json \<Rightarrow> bool" where
  "answered_at_once ack \<longleftrightarrow>
     (case jget ''stdout'' ack of Some v \<Rightarrow> v \<noteq> JNull | None \<Rightarrow> False)
     \<or> statusKind (jget ''status'' ack) \<in> {js ''accepted'', js ''ce'', js ''re''}"

text \<open>The rest of \<^verbatim>\<open>runOnApi\<close>, when the submission has been answered with a token.\<close>

definition acknowledged :: "number \<Rightarrow> nat \<Rightarrow> json \<Rightarrow> jsstr \<Rightarrow> app \<Rightarrow> app" where
  "acknowledged now r ack tkn a =
     (let x = a_runs a ! r; a1 = (upd_run r (\<lambda>x. x\<lparr>rc_tkn := tkn\<rparr>) a)\<lparr>a_token := tkn\<rparr>
      in case writeShareHash (a_pathname a) (share_of (rc_lang x) (rc_code x) (rc_stdin x) tkn) of
           None \<Rightarrow> submit_failed r (message UriMalformed) a1
         | Some u \<Rightarrow>
             (let a2 = a1\<lparr>a_hash := hash_of u\<rparr>
              in if answered_at_once ack
                 then (recordHistory now (rc_lang x) (statusKind (jget ''status'' ack)) (num_field ''wall_time'' ack) tkn
                        (applySubmissionView ack a2))\<lparr>a_runCtl := None\<rparr>
                 else (upd_run r (\<lambda>x. x\<lparr>rc_stream := StreamOpen\<rparr>) a2)
                        \<lparr>a_status := js ''processing'', a_cancelStream := Some r, a_runCtl := Some r\<rparr>))"

definition submitDone :: "number \<Rightarrow> nat \<Rightarrow> api_error + json \<Rightarrow> app \<Rightarrow> app" where
  "submitDone now r res a =
     (let a0 = upd_run r (\<lambda>x. x\<lparr>rc_submitting := False\<rparr>) a
      in case res of
           Inl e \<Rightarrow> submit_failed r (message e) a0
         | Inr ack \<Rightarrow>
             (if ack = JNull then submit_failed r (message NoProperty) a0
              else case jget ''token'' ack of
                Some t \<Rightarrow> if truthy t then acknowledged now r ack (toStr t) a0
                          else submit_failed r (js ''server returned no token'') a0
              | None \<Rightarrow> submit_failed r (js ''server returned no token'') a0))"

section \<open>The stream of a run\<close>

definition event_chunk :: "sse_event \<Rightarrow> jsstr" where
  "event_chunk e = (case jget ''data'' (ejson e) of
     Some v \<Rightarrow> if v = JNull then raw e else toStr v
   | None \<Rightarrow> raw e)"

definition on_stdout :: "nat \<Rightarrow> sse_event \<Rightarrow> app \<Rightarrow> app" where
  "on_stdout r e a =
     (let (ls, rest) = flushLines (rc_out (a_runs a ! r) @ event_chunk e)
      in (upd_run r (\<lambda>x. x\<lparr>rc_out := rest\<rparr>) a)\<lparr>a_output := a_output a @ ls\<rparr>)"

definition on_stderr :: "nat \<Rightarrow> sse_event \<Rightarrow> app \<Rightarrow> app" where
  "on_stderr r e a =
     (let (ls, rest) = flushLines (rc_err (a_runs a ! r) @ event_chunk e)
      in (upd_run r (\<lambda>x. x\<lparr>rc_err := rest\<rparr>) a)\<lparr>a_stderr := a_stderr a @ ls\<rparr>)"

text \<open>
  The last line of each stream is appended by an updater that reads the buffer after it was emptied,
  unless the library runs the updater at once: \<open>eager\<close> tells which.
\<close>

definition last_line :: "bool \<Rightarrow> jsstr \<Rightarrow> jsstr list" where
  "last_line eager b = (if b = [] then [] else [if eager then b else []])"

definition on_finished :: "bool \<Rightarrow> nat \<Rightarrow> sse_event \<Rightarrow> app \<Rightarrow> app" where
  "on_finished eager r e a =
     (let x = a_runs a ! r; s = jget ''status'' (ejson e); k = statusKind s;
          a1 = a\<lparr>a_output := a_output a @ last_line eager (rc_out x), a_stderr := a_stderr a @ last_line eager (rc_err x),
                 a_status := k, a_statusDetail := statusDetail s\<rparr>;
          a2 = upd_run r (\<lambda>x. x\<lparr>rc_finished := True, rc_out := [], rc_err := [], rc_fetches := rc_fetches x @ [k]\<rparr>) a1
      in stopStream a2)"

definition onEvent :: "bool \<Rightarrow> nat \<Rightarrow> app \<Rightarrow> sse_event \<Rightarrow> app" where
  "onEvent eager r a e =
     (if rc_aborted (a_runs a ! r) then a
      else if event e = js ''processing'' then a\<lparr>a_status := js ''processing''\<rparr>
      else if event e = js ''stdout'' then on_stdout r e a
      else if event e = js ''stderr'' then on_stderr r e a
      else if event e = js ''finished'' then on_finished eager r e a
      else if event e = js ''error''
      then a\<lparr>a_error := Some (js ''stream error: '' @ (if raw e \<noteq> [] then raw e else js ''unknown''), False)\<rparr>
      else a)"

text \<open>One read of the stream that gave bytes: its canceller is looked at before, not between the frames.\<close>

definition streamBytes :: "bool \<Rightarrow> nat \<Rightarrow> nat list \<Rightarrow> app \<Rightarrow> app" where
  "streamBytes eager r bs a =
     (if rc_stopped (a_runs a ! r) then upd_run r (\<lambda>x. x\<lparr>rc_stream := StreamEnded\<rparr>) a
      else (let (s, es) = feed (rc_sse (a_runs a ! r)) bs
            in foldl (onEvent eager r) (upd_run r (\<lambda>x. x\<lparr>rc_sse := s\<rparr>) a) es))"

definition streamClosed :: "nat \<Rightarrow> app \<Rightarrow> app" where
  "streamClosed r a = upd_run r (\<lambda>x. x\<lparr>rc_stream := StreamEnded\<rparr>) a"

text \<open>The stream failed: \<^verbatim>\<open>onError\<close>, unless its canceller was called.\<close>

definition onError :: "nat \<Rightarrow> app \<Rightarrow> app" where
  "onError r a =
     (if rc_aborted (a_runs a ! r) \<or> rc_finished (a_runs a ! r) then a
      else (upd_run r (\<lambda>x. x\<lparr>rc_polling := True\<rparr>) a)\<lparr>a_cancelStream := None\<rparr>)"

definition streamFailed :: "nat \<Rightarrow> app \<Rightarrow> app" where
  "streamFailed r a =
     (let a1 = streamClosed r a in if rc_stopped (a_runs a ! r) then a1 else onError r a1)"

text \<open>The row of the submission, fetched after \<^verbatim>\<open>finished\<close>: the first of those under way.\<close>

definition rowDone :: "number \<Rightarrow> nat \<Rightarrow> api_error + json \<Rightarrow> app \<Rightarrow> app" where
  "rowDone now r res a =
     (let x = a_runs a ! r; a0 = upd_run r (\<lambda>x. x\<lparr>rc_fetches := tl (rc_fetches x)\<rparr>) a
      in case res of
           Inr sub \<Rightarrow>
             (if rc_aborted x then a0
              else recordHistory now (rc_lang x) (statusKind (jget ''status'' sub)) (num_field ''wall_time'' sub) (rc_tkn x)
                     (applySubmissionView sub a0))
         | Inl _ \<Rightarrow> recordHistory now (rc_lang x) (hd (rc_fetches x)) None (rc_tkn x) a0)"

definition pollDone :: "number \<Rightarrow> nat \<Rightarrow> api_error + json \<Rightarrow> app \<Rightarrow> app" where
  "pollDone now r res a =
     (let x = a_runs a ! r; a0 = upd_run r (\<lambda>x. x\<lparr>rc_polling := False\<rparr>) a
      in if rc_aborted x then a0
         else case res of
           Inr sub \<Rightarrow>
             recordHistory now (rc_lang x) (statusKind (jget ''status'' sub)) (num_field ''wall_time'' sub) (rc_tkn x)
               (applySubmissionView sub a0)
         | Inl e \<Rightarrow> a0\<lparr>a_status := js ''se'',
             a_error := Some (js ''stream + poll failed: '' @ (if message e \<noteq> [] then message e else js ''Error''), True)\<rparr>)"

section \<open>The offline demo\<close>

definition runSimulated :: "jsstr \<Rightarrow> app \<Rightarrow> app" where
  "runSimulated rnd a = (clearResults a)\<lparr>a_status := js ''queued'', a_token := js ''demo_'' @ rnd,
     a_timeouts := a_timeouts a + 1\<rparr>"

definition demoTimeout :: "app \<Rightarrow> app" where
  "demoTimeout a = a\<lparr>a_timeouts := a_timeouts a - 1, a_status := js ''processing''\<rparr>"

definition demoTick :: "number \<Rightarrow> app \<Rightarrow> app" where
  "demoTick now a = (case a_demo a of
     None \<Rightarrow> a
   | Some d \<Rightarrow>
       (let i = dm_i d + 1; ls = l_output (dm_lang d); m = l_metrics (dm_lang d)
        in if i > length ls
           then recordHistory now (dm_lang d) (js ''accepted'') (Some (l_time m)) (dm_token d)
                  (a\<lparr>a_demo := None, a_status := js ''accepted'',
                     a_metrics := \<lparr>m_time = Some (l_time m), m_memory = Some (l_memory m), m_exitCode = Some 0,
                                   m_signal = None\<rparr>\<rparr>)
           else a\<lparr>a_demo := Some (d\<lparr>dm_i := i\<rparr>), a_output := a_output a @ [js (ls ! (i - 1))]\<rparr>))"

section \<open>Buttons and keys\<close>

definition onRun :: "app \<Rightarrow> app" where
  "onRun a = (if busy a then a else if a_apiOnline a then runOnApi a else a\<lparr>a_probes := a_probes a + 1\<rparr>)"

text \<open>
  A probe has settled: the one of the first render, or one of a run that found the service
  offline and now starts or reports the failure.
\<close>

definition probeDone :: "bool \<Rightarrow> bool \<Rightarrow> json list option \<Rightarrow> app \<Rightarrow> app" where
  "probeDone for_run is_ok langs a =
     (let a1 = probeApi is_ok langs (a\<lparr>a_probes := a_probes a - 1\<rparr>)
      in if \<not> for_run then a1
         else if is_ok then runOnApi a1
         else a1\<lparr>a_error := Some (js ''No ZeroCode API is reachable. Make sure the service is running.'', False)\<rparr>)"

definition onKey :: "bool \<Rightarrow> bool \<Rightarrow> jsstr \<Rightarrow> app \<Rightarrow> app" where
  "onKey metaKey ctrlKey k a =
     (if (metaKey \<or> ctrlKey) \<and> k = js ''Enter'' then onRun a
      else if (metaKey \<or> ctrlKey) \<and> k = js ''.'' then onCancel a else a)"

section \<open>The machine\<close>

datatype act =
    SelectLang jsstr lang
  | EditCode jsstr
  | EditStdin jsstr
  | SetLimits app_limits
  | SetMode jsstr
  | SetLayout layout
  | SetPicker bool
  | Reset
  | Share
  | Dismiss
  | Run
  | RunDemo jsstr
  | Cancel
  | Key bool bool jsstr
  | ProbeDone bool bool "json list option"
  | SubmitDone number nat "api_error + json"
  | StreamBytes bool nat "nat list"
  | StreamClosed nat
  | StreamFailed nat
  | RowDone number nat "api_error + json"
  | PollDone number nat "api_error + json"
  | DemoTimeout
  | DemoTick number
  | Unmount

text \<open>What can happen in a state: a promise settles only while it is pending.\<close>

fun enabled :: "app \<Rightarrow> act \<Rightarrow> bool" where
  "enabled a (SelectLang _ l) \<longleftrightarrow> l \<in> set LANGS"
| "enabled a (ProbeDone _ _ _) \<longleftrightarrow> 0 < a_probes a"
| "enabled a (SubmitDone _ r _) \<longleftrightarrow> r < length (a_runs a) \<and> rc_submitting (a_runs a ! r)"
| "enabled a (StreamBytes _ r _) \<longleftrightarrow> r < length (a_runs a) \<and> rc_stream (a_runs a ! r) = StreamOpen"
| "enabled a (StreamClosed r) \<longleftrightarrow> r < length (a_runs a) \<and> rc_stream (a_runs a ! r) = StreamOpen"
| "enabled a (StreamFailed r) \<longleftrightarrow> r < length (a_runs a) \<and> rc_stream (a_runs a ! r) = StreamOpen"
| "enabled a (RowDone _ r _) \<longleftrightarrow> r < length (a_runs a) \<and> rc_fetches (a_runs a ! r) \<noteq> []"
| "enabled a (PollDone _ r _) \<longleftrightarrow> r < length (a_runs a) \<and> rc_polling (a_runs a ! r)"
| "enabled a DemoTimeout \<longleftrightarrow> 0 < a_timeouts a"
| "enabled a (DemoTick _) \<longleftrightarrow> a_demo a \<noteq> None"
| "enabled a _ \<longleftrightarrow> True"

fun handle :: "act \<Rightarrow> app \<Rightarrow> app" where
  "handle (SelectLang rnd l) a = selectLang rnd l a"
| "handle (EditCode s) a = a\<lparr>a_code := s\<rparr>"
| "handle (EditStdin s) a = a\<lparr>a_stdin := s\<rparr>"
| "handle (SetLimits l) a = a\<lparr>a_limits := l\<rparr>"
| "handle (SetMode m) a = a\<lparr>a_runMode := m\<rparr>"
| "handle (SetLayout l) a = a\<lparr>a_layout := l\<rparr>"
| "handle (SetPicker b) a = a\<lparr>a_pickerOpen := b\<rparr>"
| "handle Reset a = reset a"
| "handle Share a = copyShareLink a"
| "handle Dismiss a = a\<lparr>a_error := None\<rparr>"
| "handle Run a = onRun a"
| "handle (RunDemo rnd) a = runSimulated rnd a"
| "handle Cancel a = onCancel a"
| "handle (Key m c k) a = onKey m c k a"
| "handle (ProbeDone fr k ls) a = probeDone fr k ls a"
| "handle (SubmitDone now r x) a = submitDone now r x a"
| "handle (StreamBytes eager r bs) a = streamBytes eager r bs a"
| "handle (StreamClosed r) a = streamClosed r a"
| "handle (StreamFailed r) a = streamFailed r a"
| "handle (RowDone now r x) a = rowDone now r x a"
| "handle (PollDone now r x) a = pollDone now r x a"
| "handle DemoTimeout a = demoTimeout a"
| "handle (DemoTick now) a = demoTick now a"
| "handle Unmount a = cancelRun a"

definition do_act :: "act \<Rightarrow> app \<Rightarrow> app" where
  "do_act e a = effects a (handle e a)"

inductive app_start :: "app \<Rightarrow> bool" where
  "mount st pathname hash rnd = Some a \<Longrightarrow> app_start a"

inductive app_step :: "app \<Rightarrow> app \<Rightarrow> bool" where
  "enabled a e \<Longrightarrow> app_step a (do_act e a)"

inductive_cases app_startE: "app_start a"
inductive_cases app_stepE: "app_step a a'"

end
