(* ===== verification/PlaygroundInv.thy ===== *)
theory PlaygroundInv
  imports Playground
begin

text \<open>
  Lemmas on the run machine of the playground: what each handler leaves alone, the invariant of every
  interleaving (an interpretation of \<open>machine\<close>), and the line buffers of a stream as the lines
  of the text that has arrived.
\<close>

section \<open>Frames\<close>

lemma runs_upd_run [simp]:
  "a_runs (upd_run r f a) = (a_runs a)[r := f (a_runs a ! r)]"
  by (simp add: upd_run_def)

lemma upd_run_fields [simp]:
  "a_lang (upd_run r f a) = a_lang a" "a_code (upd_run r f a) = a_code a" "a_stdin (upd_run r f a) = a_stdin a"
  "a_status (upd_run r f a) = a_status a" "a_statusDetail (upd_run r f a) = a_statusDetail a"
  "a_output (upd_run r f a) = a_output a" "a_stderr (upd_run r f a) = a_stderr a"
  "a_compileOutput (upd_run r f a) = a_compileOutput a" "a_metrics (upd_run r f a) = a_metrics a"
  "a_limits (upd_run r f a) = a_limits a" "a_token (upd_run r f a) = a_token a"
  "a_history (upd_run r f a) = a_history a" "a_error (upd_run r f a) = a_error a"
  "a_apiOnline (upd_run r f a) = a_apiOnline a" "a_ceilings (upd_run r f a) = a_ceilings a"
  "a_cancelStream (upd_run r f a) = a_cancelStream a" "a_runCtl (upd_run r f a) = a_runCtl a"
  "a_probes (upd_run r f a) = a_probes a" "a_timeouts (upd_run r f a) = a_timeouts a"
  "a_demo (upd_run r f a) = a_demo a" "a_store (upd_run r f a) = a_store a"
  "a_hash (upd_run r f a) = a_hash a" "a_pathname (upd_run r f a) = a_pathname a"
  "a_runMode (upd_run r f a) = a_runMode a" "a_layout (upd_run r f a) = a_layout a"
  "a_pickerOpen (upd_run r f a) = a_pickerOpen a"
  by (simp_all add: upd_run_def)

text \<open>The part of the page a result is shown in.\<close>

definition shown :: "app \<Rightarrow> jsstr \<times> json option \<times> jsstr list \<times> jsstr list \<times> jsstr \<times> run_metrics \<times> (jsstr \<times> bool) option \<times> json list" where
  "shown a = (a_status a, a_statusDetail a, a_output a, a_stderr a, a_compileOutput a, a_metrics a, a_error a, a_history a)"

lemma shown_upd_run [simp]: "shown (upd_run r f a) = shown a"
  by (simp add: shown_def)

lemma store_effects:
  "a_store (mode_effect a) = tryWrite (a_store a) MODE_KEY (a_runMode a)"
  "a_store (layout_effect a) = saveLayout (a_store a) (a_layout a)"
  "a_store (draft_effect a) = saveDraft (a_store a) (draft_of a)"
  "a_store (demo_effect a) = a_store a"
  by (simp_all add: mode_effect_def layout_effect_def draft_effect_def demo_effect_def)

text \<open>Effects write to the storage and own the demo; everything else they leave alone.\<close>

lemma save_effects:
  "mode_effect a = a\<lparr>a_store := tryWrite (a_store a) MODE_KEY (a_runMode a)\<rparr>"
  "layout_effect a = a\<lparr>a_store := saveLayout (a_store a) (a_layout a)\<rparr>"
  "draft_effect a = a\<lparr>a_store := saveDraft (a_store a) (draft_of a)\<rparr>"
  by (simp_all add: mode_effect_def layout_effect_def draft_effect_def)

definition demo_changed :: "app \<Rightarrow> app \<Rightarrow> bool" where
  "demo_changed old a \<longleftrightarrow> a_status a \<noteq> a_status old \<or> a_lang a \<noteq> a_lang old \<or> a_apiOnline a \<noteq> a_apiOnline old"

lemma effects_cases:
  obtains st where "effects old a =
    (if demo_changed old a then demo_effect (a\<lparr>a_store := st\<rparr>) else a\<lparr>a_store := st\<rparr>)"
proof -
  define a1 where "a1 = (if a_runMode a \<noteq> a_runMode old then mode_effect a else a)"
  define a2 where "a2 = (if a_layout a1 \<noteq> a_layout old then layout_effect a1 else a1)"
  define a3 where "a3 = (if draft_of a2 \<noteq> draft_of old then draft_effect a2 else a2)"
  have "\<exists>st. a1 = a\<lparr>a_store := st\<rparr>"
    unfolding a1_def save_effects by (cases "a_runMode a \<noteq> a_runMode old") (auto intro: exI [of _ "a_store a"])
  then obtain st1 where 1: "a1 = a\<lparr>a_store := st1\<rparr>" by blast
  have "\<exists>st. a2 = a1\<lparr>a_store := st\<rparr>"
    unfolding a2_def save_effects by (cases "a_layout a1 \<noteq> a_layout old") (auto intro: exI [of _ "a_store a1"])
  then obtain st2 where 2: "a2 = a\<lparr>a_store := st2\<rparr>" using 1 by auto
  have "\<exists>st. a3 = a2\<lparr>a_store := st\<rparr>"
    unfolding a3_def save_effects by (cases "draft_of a2 \<noteq> draft_of old") (auto intro: exI [of _ "a_store a2"])
  then obtain st3 where 3: "a3 = a\<lparr>a_store := st3\<rparr>" using 2 by auto
  have "effects old a = (if demo_changed old a3 then demo_effect a3 else a3)"
    by (simp only: effects_def Let_def a1_def a2_def a3_def demo_changed_def)
  moreover have "demo_changed old a3 = demo_changed old a" using 3 by (simp add: demo_changed_def)
  ultimately have "effects old a =
    (if demo_changed old a then demo_effect (a\<lparr>a_store := st3\<rparr>) else a\<lparr>a_store := st3\<rparr>)" using 3 by simp
  then show thesis by (rule that)
qed

lemma demo_effect_fields [simp]:
  "a_lang (demo_effect a) = a_lang a" "a_code (demo_effect a) = a_code a" "a_stdin (demo_effect a) = a_stdin a"
  "a_status (demo_effect a) = a_status a" "a_statusDetail (demo_effect a) = a_statusDetail a"
  "a_output (demo_effect a) = a_output a" "a_stderr (demo_effect a) = a_stderr a"
  "a_compileOutput (demo_effect a) = a_compileOutput a" "a_metrics (demo_effect a) = a_metrics a"
  "a_limits (demo_effect a) = a_limits a" "a_token (demo_effect a) = a_token a"
  "a_history (demo_effect a) = a_history a" "a_error (demo_effect a) = a_error a"
  "a_apiOnline (demo_effect a) = a_apiOnline a" "a_cancelStream (demo_effect a) = a_cancelStream a"
  "a_runCtl (demo_effect a) = a_runCtl a" "a_runs (demo_effect a) = a_runs a"
  "a_timeouts (demo_effect a) = a_timeouts a" "a_hash (demo_effect a) = a_hash a" "a_store (demo_effect a) = a_store a"
  "a_pathname (demo_effect a) = a_pathname a"
  by (simp_all add: demo_effect_def)

lemma effects_keep [simp]:
  "a_lang (effects old a) = a_lang a"
  "a_code (effects old a) = a_code a" "a_stdin (effects old a) = a_stdin a"
  "a_status (effects old a) = a_status a" "a_statusDetail (effects old a) = a_statusDetail a"
  "a_output (effects old a) = a_output a" "a_stderr (effects old a) = a_stderr a"
  "a_compileOutput (effects old a) = a_compileOutput a" "a_metrics (effects old a) = a_metrics a"
  "a_limits (effects old a) = a_limits a" "a_token (effects old a) = a_token a"
  "a_history (effects old a) = a_history a" "a_error (effects old a) = a_error a"
  "a_apiOnline (effects old a) = a_apiOnline a" "a_cancelStream (effects old a) = a_cancelStream a"
  "a_runCtl (effects old a) = a_runCtl a" "a_runs (effects old a) = a_runs a"
  "a_timeouts (effects old a) = a_timeouts a" "a_hash (effects old a) = a_hash a"
  "a_pathname (effects old a) = a_pathname a"
  by (rule effects_cases [of old a]; simp)+

lemma shown_effects [simp]: "shown (effects old a) = shown a"
  by (simp add: shown_def)

lemma demo_effects:
  "a_demo (effects old a) =
     (if demo_changed old a
      then (if a_apiOnline a \<or> a_status a \<noteq> js ''processing'' then None
            else Some \<lparr>dm_lang = a_lang a, dm_token = a_token a, dm_i = 0\<rparr>)
      else a_demo a)"
  by (rule effects_cases [of old a]) (simp add: demo_effect_def)

section \<open>The invariant\<close>

text \<open>
  What is true of every run: while its submission is under way it has neither stream nor result, and it
  polls only after its stream has failed without a result.
\<close>

definition run_ok :: "run_ctx \<Rightarrow> bool" where
  "run_ok x \<longleftrightarrow>
     (rc_submitting x \<longrightarrow> rc_stream x = NoStream \<and> \<not> rc_finished x \<and> rc_fetches x = [] \<and> \<not> rc_polling x)
     \<and> (rc_polling x \<longrightarrow> rc_stream x = StreamEnded \<and> \<not> rc_finished x)
     \<and> (rc_fetches x \<noteq> [] \<longrightarrow> rc_finished x)
     \<and> (rc_finished x \<longrightarrow> rc_stream x \<noteq> NoStream)"

definition refs_ok :: "app \<Rightarrow> bool" where
  "refs_ok a \<longleftrightarrow> (\<forall>x \<in> set (a_runs a). run_ok x)
     \<and> (\<forall>r. a_runCtl a = Some r \<longrightarrow> r < length (a_runs a))
     \<and> (\<forall>r. a_cancelStream a = Some r \<longrightarrow> r < length (a_runs a) \<and> rc_stream (a_runs a ! r) \<noteq> NoStream)"

definition data_ok :: "app \<Rightarrow> bool" where
  "data_ok a \<longleftrightarrow> length (a_history a) \<le> 20 \<and> a_lang a \<in> set LANGS"

definition demo_ok :: "app \<Rightarrow> bool" where
  "demo_ok a \<longleftrightarrow> (case a_demo a of
     None \<Rightarrow> True
   | Some d \<Rightarrow> \<not> a_apiOnline a \<and> a_status a = js ''processing'' \<and> dm_lang d = a_lang a
       \<and> dm_i d \<le> length (l_output (dm_lang d)))"

definition app_inv :: "app \<Rightarrow> bool" where
  "app_inv a \<longleftrightarrow> data_ok a \<and> refs_ok a \<and> demo_ok a"

lemma refs_ok_cong:
  "a_runs b = a_runs a \<Longrightarrow> a_runCtl b \<in> {a_runCtl a, None} \<Longrightarrow> a_cancelStream b \<in> {a_cancelStream a, None} \<Longrightarrow>
   refs_ok a \<Longrightarrow> refs_ok b"
  by (auto simp: refs_ok_def)

lemma refs_ok_upd:
  assumes "refs_ok a" "r < length (a_runs a)" "run_ok (f (a_runs a ! r))"
    and "rc_stream (a_runs a ! r) \<noteq> NoStream \<Longrightarrow> rc_stream (f (a_runs a ! r)) \<noteq> NoStream"
  shows "refs_ok (upd_run r f a)"
  using assms set_update_subset_insert [of "a_runs a" r "f (a_runs a ! r)"]
  by (auto simp: refs_ok_def nth_list_update)

lemma run_ok_nth: "refs_ok a \<Longrightarrow> r < length (a_runs a) \<Longrightarrow> run_ok (a_runs a ! r)"
  by (simp add: refs_ok_def)

text \<open>Operations that touch neither the runs nor the references.\<close>

lemma refs_frame [simp]:
  "a_runs (clearResults a) = a_runs a" "a_runCtl (clearResults a) = a_runCtl a"
  "a_cancelStream (clearResults a) = a_cancelStream a"
  "a_runs (recordHistory now l k t tkn a) = a_runs a" "a_runCtl (recordHistory now l k t tkn a) = a_runCtl a"
  "a_cancelStream (recordHistory now l k t tkn a) = a_cancelStream a"
  "a_runs (applySubmissionView sub a) = a_runs a" "a_runCtl (applySubmissionView sub a) = a_runCtl a"
  "a_cancelStream (applySubmissionView sub a) = a_cancelStream a"
  "a_runs (probeApi b ls a) = a_runs a" "a_runCtl (probeApi b ls a) = a_runCtl a"
  "a_cancelStream (probeApi b ls a) = a_cancelStream a"
  "a_runs (copyShareLink a) = a_runs a" "a_runCtl (copyShareLink a) = a_runCtl a"
  "a_cancelStream (copyShareLink a) = a_cancelStream a"
  by (simp_all add: clearResults_def recordHistory_def Let_def applySubmissionView_def probeApi_def copyShareLink_def
      split: option.split)

lemma data_frame [simp]:
  "a_history (clearResults a) = a_history a" "a_lang (clearResults a) = a_lang a"
  "a_lang (recordHistory now l k t tkn a) = a_lang a"
  "a_history (applySubmissionView sub a) = a_history a" "a_lang (applySubmissionView sub a) = a_lang a"
  "a_history (probeApi b ls a) = a_history a" "a_lang (probeApi b ls a) = a_lang a"
  "a_history (copyShareLink a) = a_history a" "a_lang (copyShareLink a) = a_lang a"
  "a_history (stopStream a) = a_history a" "a_lang (stopStream a) = a_lang a"
  "a_history (cancelRun a) = a_history a" "a_lang (cancelRun a) = a_lang a"
  "a_history (submit_failed r m a) = a_history a" "a_lang (submit_failed r m a) = a_lang a"
  by (simp_all add: clearResults_def recordHistory_def Let_def applySubmissionView_def probeApi_def copyShareLink_def
      stopStream_def cancelRun_def submit_failed_def split: option.split)

lemma history_recordHistory: "length (a_history (recordHistory now l k t tkn a)) \<le> 20"
  by (simp add: recordHistory_def Let_def)

lemma demo_frame [simp]:
  "a_demo (clearResults a) = a_demo a" "a_demo (recordHistory now l k t tkn a) = a_demo a"
  "a_demo (applySubmissionView sub a) = a_demo a" "a_demo (probeApi b ls a) = a_demo a"
  "a_demo (copyShareLink a) = a_demo a" "a_demo (stopStream a) = a_demo a" "a_demo (cancelRun a) = a_demo a"
  "a_demo (submit_failed r m a) = a_demo a"
  by (simp_all add: clearResults_def recordHistory_def Let_def applySubmissionView_def probeApi_def copyShareLink_def
      stopStream_def cancelRun_def submit_failed_def split: option.split)

subsection \<open>References\<close>

lemma refs_stopStream: "refs_ok a \<Longrightarrow> refs_ok (stopStream a)"
proof (cases "a_cancelStream a")
  case (Some r)
  assume a: "refs_ok a"
  then have r: "r < length (a_runs a)" using Some by (simp add: refs_ok_def)
  then have "refs_ok (upd_run r (\<lambda>x. x\<lparr>rc_stopped := True\<rparr>) a)"
    using a run_ok_nth [OF a r] by (intro refs_ok_upd) (simp_all add: run_ok_def)
  then have "refs_ok ((upd_run r (\<lambda>x. x\<lparr>rc_stopped := True\<rparr>) a)\<lparr>a_cancelStream := None\<rparr>)"
    by (rule refs_ok_cong [rotated 3]) simp_all
  then show ?thesis using Some by (simp add: stopStream_def)
qed (simp add: stopStream_def)

lemma refs_cancelRun: "refs_ok a \<Longrightarrow> refs_ok (cancelRun a)"
proof -
  assume "refs_ok a"
  then have b: "refs_ok (stopStream a)" (is "refs_ok ?b") by (rule refs_stopStream)
  show ?thesis
  proof (cases "a_runCtl ?b")
    case (Some r)
    then have r: "r < length (a_runs ?b)" using b by (simp add: refs_ok_def)
    then have "refs_ok (upd_run r (\<lambda>x. x\<lparr>rc_aborted := True\<rparr>) ?b)"
      using b run_ok_nth [OF b r] by (intro refs_ok_upd) (simp_all add: run_ok_def)
    then have "refs_ok ((upd_run r (\<lambda>x. x\<lparr>rc_aborted := True\<rparr>) ?b)\<lparr>a_runCtl := None\<rparr>)"
      by (rule refs_ok_cong [rotated 3]) simp_all
    then show ?thesis using Some by (simp add: cancelRun_def Let_def)
  qed (use b in \<open>simp add: cancelRun_def Let_def\<close>)
qed

lemma refs_clearResults: "refs_ok a \<Longrightarrow> refs_ok (clearResults a)"
  by (rule refs_ok_cong [where a = a]) simp_all

lemma refs_runOnApi: "refs_ok a \<Longrightarrow> refs_ok (runOnApi a)"
  by (auto simp: refs_ok_def runOnApi_def new_run_def run_ok_def nth_append)

lemma refs_submit_failed: "refs_ok a \<Longrightarrow> refs_ok (submit_failed r m a)"
  by (rule refs_ok_cong [where a = a]) (simp_all add: submit_failed_def)

lemma refs_acknowledged:
  assumes "refs_ok a" "r < length (a_runs a)" "\<not> rc_submitting (a_runs a ! r)" "rc_stream (a_runs a ! r) = NoStream"
  shows "refs_ok (acknowledged now r ack tkn a)"
proof -
  have x: "run_ok (a_runs a ! r)" using run_ok_nth [OF assms(1,2)] .
  define a1 where "a1 = (upd_run r (\<lambda>x. x\<lparr>rc_tkn := tkn\<rparr>) a)\<lparr>a_token := tkn\<rparr>"
  have "refs_ok (upd_run r (\<lambda>x. x\<lparr>rc_tkn := tkn\<rparr>) a)"
    using assms x by (intro refs_ok_upd) (auto simp: run_ok_def)
  then have 1: "refs_ok a1" unfolding a1_def by (rule refs_ok_cong [rotated 3]) simp_all
  show ?thesis
  proof (cases "writeShareHash (a_pathname a) (share_of (rc_lang (a_runs a ! r)) (rc_code (a_runs a ! r)) (rc_stdin (a_runs a ! r)) tkn)")
    case None
    then show ?thesis
      using refs_submit_failed [OF 1] by (simp add: acknowledged_def Let_def a1_def)
  next
    case (Some u)
    define a2 where "a2 = a1\<lparr>a_hash := hash_of u\<rparr>"
    have 2: "refs_ok a2" unfolding a2_def using 1 by (rule refs_ok_cong [rotated 3]) simp_all
    have runs: "a_runs a2 = (a_runs a)[r := (a_runs a ! r)\<lparr>rc_tkn := tkn\<rparr>]" by (simp add: a2_def a1_def)
    show ?thesis
    proof (cases "answered_at_once ack")
      case True
      let ?b = "recordHistory now (rc_lang (a_runs a ! r)) (statusKind (jget ''status'' ack)) (num_field ''wall_time'' ack) tkn
                  (applySubmissionView ack a2)"
      have "refs_ok (?b\<lparr>a_runCtl := None\<rparr>)" using 2 by (rule refs_ok_cong [rotated 3]) simp_all
      then show ?thesis using Some True by (simp add: acknowledged_def Let_def a1_def a2_def)
    next
      case False
      let ?c = "upd_run r (\<lambda>x. x\<lparr>rc_stream := StreamOpen\<rparr>) a2"
      have l: "r < length (a_runs a2)" using assms(2) runs by simp
      have "run_ok ((a_runs a2 ! r)\<lparr>rc_stream := StreamOpen\<rparr>)"
        using x assms(2-4) by (auto simp: runs run_ok_def)
      then have "refs_ok ?c" using 2 l by (intro refs_ok_upd) simp_all
      then have "refs_ok (?c\<lparr>a_status := js ''processing'', a_cancelStream := Some r, a_runCtl := Some r\<rparr>)"
        using l by (simp add: refs_ok_def)
      then show ?thesis using Some False by (simp add: acknowledged_def Let_def a1_def a2_def)
    qed
  qed
qed

lemma refs_submitDone:
  assumes "refs_ok a" "r < length (a_runs a)" "rc_submitting (a_runs a ! r)"
  shows "refs_ok (submitDone now r res a)"
proof -
  let ?a = "upd_run r (\<lambda>x. x\<lparr>rc_submitting := False\<rparr>) a"
  have x: "run_ok (a_runs a ! r)" using run_ok_nth [OF assms(1,2)] .
  then have 0: "refs_ok ?a" using assms by (intro refs_ok_upd) (simp_all add: run_ok_def)
  have "rc_stream (a_runs a ! r) = NoStream" using x assms(3) by (simp add: run_ok_def)
  then have "refs_ok (acknowledged now r ack tkn ?a)" for ack tkn
    using assms(2) by (intro refs_acknowledged [OF 0]) simp_all
  then show ?thesis
    using refs_submit_failed [OF 0] by (simp add: submitDone_def Let_def split: sum.split option.split)
qed

text \<open>A step on a run that keeps its stream open keeps the references in order.\<close>

lemma refs_stream_run:
  assumes "refs_ok a" "r < length (a_runs a)" "rc_stream (a_runs a ! r) = StreamOpen"
    and "run_ok (f (a_runs a ! r))" "rc_stream (f (a_runs a ! r)) = StreamOpen"
    and "a_runs b = a_runs (upd_run r f a)" "a_runCtl b = a_runCtl a" "a_cancelStream b = a_cancelStream a"
  shows "refs_ok b \<and> length (a_runs b) = length (a_runs a) \<and> rc_stream (a_runs b ! r) = StreamOpen"
proof -
  have "refs_ok (upd_run r f a)" using assms by (intro refs_ok_upd) simp_all
  then have "refs_ok b" by (rule refs_ok_cong [rotated 3]) (use assms in simp_all)
  then show ?thesis using assms by simp
qed

definition streaming :: "nat \<Rightarrow> app \<Rightarrow> bool" where
  "streaming r a \<longleftrightarrow> refs_ok a \<and> r < length (a_runs a) \<and> rc_stream (a_runs a ! r) = StreamOpen"

lemma stopped_nth: "rc_stream (xs[q := (xs ! q)\<lparr>rc_stopped := True\<rparr>] ! r) = rc_stream (xs ! r)"
  by (cases "q < length xs") (simp_all add: nth_list_update list_update_beyond)

lemma streaming_stopStream: "streaming r a \<Longrightarrow> streaming r (stopStream a)"
proof -
  assume a: "streaming r a"
  have "length (a_runs (stopStream a)) = length (a_runs a)" "rc_stream (a_runs (stopStream a) ! r) = rc_stream (a_runs a ! r)"
    by (simp_all add: stopStream_def stopped_nth split: option.split)
  then show ?thesis using a refs_stopStream by (simp add: streaming_def)
qed

lemma streaming_upd:
  assumes "streaming r a" "run_ok (f (a_runs a ! r))" "rc_stream (f (a_runs a ! r)) = StreamOpen"
    and "a_runs b = a_runs (upd_run r f a)" "a_runCtl b = a_runCtl a" "a_cancelStream b = a_cancelStream a"
  shows "streaming r b"
  using refs_stream_run [of a r f b] assms by (simp add: streaming_def)

lemma streaming_onEvent: "streaming r a \<Longrightarrow> streaming r (onEvent eager r a e)"
proof -
  assume a: "streaming r a"
  then have x: "run_ok (a_runs a ! r)" and o: "rc_stream (a_runs a ! r) = StreamOpen"
    using run_ok_nth by (auto simp: streaming_def)
  have same: "streaming r b" if "a_runs b = a_runs a" "a_runCtl b = a_runCtl a" "a_cancelStream b = a_cancelStream a" for b
    using a that unfolding streaming_def refs_ok_def by metis
  obtain ls rest where 1: "flushLines (rc_out (a_runs a ! r) @ event_chunk e) = (ls, rest)" by fastforce
  obtain ls' rest' where 2: "flushLines (rc_err (a_runs a ! r) @ event_chunk e) = (ls', rest')" by fastforce
  have "streaming r (on_stdout r e a)"
    by (rule streaming_upd [where f = "\<lambda>x. x\<lparr>rc_out := rest\<rparr>", OF a])
      (use x o in \<open>simp_all add: on_stdout_def 1 run_ok_def\<close>)
  moreover have "streaming r (on_stderr r e a)"
    by (rule streaming_upd [where f = "\<lambda>x. x\<lparr>rc_err := rest'\<rparr>", OF a])
      (use x o in \<open>simp_all add: on_stderr_def 2 run_ok_def\<close>)
  moreover have "streaming r (on_finished eager r e a)"
  proof -
    let ?f = "\<lambda>x. x\<lparr>rc_finished := True, rc_out := [], rc_err := [],
            rc_fetches := rc_fetches x @ [statusKind (jget ''status'' (ejson e))]\<rparr>"
    have "run_ok (?f (a_runs a ! r))" "rc_stream (?f (a_runs a ! r)) = StreamOpen"
      using x o by (auto simp: run_ok_def)
    then show ?thesis
      unfolding on_finished_def Let_def
      by (intro streaming_stopStream, rule streaming_upd [where f = ?f, OF a]) simp_all
  qed
  ultimately show ?thesis using a same by (simp add: onEvent_def)
qed

lemma streaming_events: "streaming r a \<Longrightarrow> streaming r (foldl (onEvent eager r) a es)"
  by (induction es arbitrary: a) (simp_all add: streaming_onEvent)

lemma refs_streamClosed:
  assumes "refs_ok a" "r < length (a_runs a)" "rc_stream (a_runs a ! r) = StreamOpen"
  shows "refs_ok (streamClosed r a)"
proof -
  have "run_ok ((a_runs a ! r)\<lparr>rc_stream := StreamEnded\<rparr>)"
    using run_ok_nth [OF assms(1,2)] assms(3) by (auto simp: run_ok_def)
  then show ?thesis using assms unfolding streamClosed_def by (intro refs_ok_upd) simp_all
qed

lemma refs_streamBytes:
  assumes "refs_ok a" "r < length (a_runs a)" "rc_stream (a_runs a ! r) = StreamOpen"
  shows "refs_ok (streamBytes eager r bs a)"
proof (cases "rc_stopped (a_runs a ! r)")
  case True
  then show ?thesis using refs_streamClosed [OF assms] by (simp add: streamBytes_def streamClosed_def)
next
  case False
  obtain s es where f: "feed (rc_sse (a_runs a ! r)) bs = (s, es)" by fastforce
  have "streaming r a" using assms by (simp add: streaming_def)
  then have "streaming r (upd_run r (\<lambda>x. x\<lparr>rc_sse := s\<rparr>) a)"
    by (rule streaming_upd [where f = "\<lambda>x. x\<lparr>rc_sse := s\<rparr>"])
      (use run_ok_nth [OF assms(1,2)] assms(3) in \<open>simp_all add: run_ok_def\<close>)
  then have "streaming r (streamBytes eager r bs a)"
    using False f streaming_events by (simp add: streamBytes_def)
  then show ?thesis by (simp add: streaming_def)
qed

lemma refs_streamFailed:
  assumes "refs_ok a" "r < length (a_runs a)" "rc_stream (a_runs a ! r) = StreamOpen"
  shows "refs_ok (streamFailed r a)"
proof -
  let ?b = "streamClosed r a" and ?f = "\<lambda>x. x\<lparr>rc_polling := True\<rparr>"
  have b: "refs_ok ?b" using refs_streamClosed [OF assms] .
  have s: "\<not> rc_submitting (a_runs a ! r)" using run_ok_nth [OF assms(1,2)] assms(3) by (auto simp: run_ok_def)
  show ?thesis
  proof (cases "rc_stopped (a_runs a ! r) \<or> rc_aborted (a_runs ?b ! r) \<or> rc_finished (a_runs ?b ! r)")
    case True
    then show ?thesis using b by (auto simp: streamFailed_def onError_def Let_def)
  next
    case False
    then have f: "run_ok (?f (a_runs ?b ! r))"
      using run_ok_nth [OF b, of r] assms(2) s by (auto simp: run_ok_def streamClosed_def)
    have "refs_ok (upd_run r ?f ?b)"
      using assms(2) f by (intro refs_ok_upd [OF b]) (simp_all add: streamClosed_def)
    then have "refs_ok ((upd_run r ?f ?b)\<lparr>a_cancelStream := None\<rparr>)"
      by (rule refs_ok_cong [rotated 3]) simp_all
    then show ?thesis using False by (simp add: streamFailed_def onError_def Let_def)
  qed
qed

lemma refs_rowDone:
  assumes "refs_ok a" "r < length (a_runs a)" "rc_fetches (a_runs a ! r) \<noteq> []"
  shows "refs_ok (rowDone now r res a)"
proof -
  let ?f = "\<lambda>x. x\<lparr>rc_fetches := tl (rc_fetches x)\<rparr>"
  have "run_ok (?f (a_runs a ! r))" using run_ok_nth [OF assms(1,2)] assms(3) by (auto simp: run_ok_def)
  then have 0: "refs_ok (upd_run r ?f a)" using assms by (intro refs_ok_upd) simp_all
  have "a_runs (rowDone now r res a) = a_runs (upd_run r ?f a)" "a_runCtl (rowDone now r res a) = a_runCtl a"
    "a_cancelStream (rowDone now r res a) = a_cancelStream a"
    by (simp_all add: rowDone_def Let_def split: sum.split)
  then show ?thesis by (intro refs_ok_cong [OF _ _ _ 0]) simp_all
qed

lemma refs_pollDone:
  assumes "refs_ok a" "r < length (a_runs a)" "rc_polling (a_runs a ! r)"
  shows "refs_ok (pollDone now r res a)"
proof -
  let ?f = "\<lambda>x. x\<lparr>rc_polling := False\<rparr>"
  have "run_ok (?f (a_runs a ! r))" using run_ok_nth [OF assms(1,2)] by (auto simp: run_ok_def)
  then have 0: "refs_ok (upd_run r ?f a)" using assms by (intro refs_ok_upd) simp_all
  have "a_runs (pollDone now r res a) = a_runs (upd_run r ?f a)" "a_runCtl (pollDone now r res a) = a_runCtl a"
    "a_cancelStream (pollDone now r res a) = a_cancelStream a"
    by (simp_all add: pollDone_def Let_def split: sum.split)
  then show ?thesis by (intro refs_ok_cong [OF _ _ _ 0]) simp_all
qed

lemma refs_onCancel: "refs_ok a \<Longrightarrow> refs_ok (onCancel a)"
  using refs_cancelRun [of a] refs_ok_cong [of "onCancel a" "cancelRun a"]
  by (simp add: onCancel_def Let_def)

lemma refs_onRun: "refs_ok a \<Longrightarrow> refs_ok (onRun a)"
  using refs_runOnApi [of a] refs_ok_cong [of "a\<lparr>a_probes := a_probes a + 1\<rparr>" a]
  by (simp add: onRun_def)

lemma refs_probeDone: "refs_ok a \<Longrightarrow> refs_ok (probeDone fr k ls a)"
proof -
  assume a: "refs_ok a"
  let ?b = "probeApi k ls (a\<lparr>a_probes := a_probes a - 1\<rparr>)"
  have b: "refs_ok ?b" by (rule refs_ok_cong [OF _ _ _ a]) simp_all
  have "refs_ok (?b\<lparr>a_error := e\<rparr>)" for e by (rule refs_ok_cong [OF _ _ _ b]) simp_all
  then show ?thesis using b refs_runOnApi by (cases k) (simp_all add: probeDone_def Let_def)
qed

lemma refs_selectLang: "refs_ok a \<Longrightarrow> refs_ok (selectLang rnd l a)"
  by (rule refs_ok_cong [OF _ _ _ refs_cancelRun]) (simp_all add: selectLang_def)

lemma refs_reset: "refs_ok a \<Longrightarrow> refs_ok (reset a)"
  by (rule refs_ok_cong [OF _ _ _ refs_cancelRun]) (simp_all add: reset_def)

lemma demoTick_refs [simp]:
  "a_runs (demoTick now a) = a_runs a" "a_runCtl (demoTick now a) = a_runCtl a"
  "a_cancelStream (demoTick now a) = a_cancelStream a" "a_lang (demoTick now a) = a_lang a"
  by (cases "a_demo a"; simp add: demoTick_def Let_def)+

lemma refs_demo:
  assumes "refs_ok a"
  shows "refs_ok (runSimulated rnd a)" "refs_ok (demoTimeout a)" "refs_ok (demoTick now a)"
  by (rule refs_ok_cong [OF _ _ _ assms]; simp add: runSimulated_def demoTimeout_def)+

lemma refs_handle: "refs_ok a \<Longrightarrow> enabled a e \<Longrightarrow> refs_ok (handle e a)"
proof -
  assume a: "refs_ok a" "enabled a e"
  have same: "refs_ok b" if "a_runs b = a_runs a" "a_runCtl b = a_runCtl a" "a_cancelStream b = a_cancelStream a" for b
    by (rule refs_ok_cong [OF _ _ _ a(1)]) (simp_all add: that)
  show ?thesis
  proof (cases e)
    case (EditCode s)
    then show ?thesis using same by simp
  qed (use a refs_selectLang refs_reset refs_onRun refs_onCancel refs_probeDone refs_submitDone refs_streamBytes
      refs_streamClosed refs_streamFailed refs_rowDone refs_pollDone refs_demo refs_cancelRun same in
      \<open>simp_all add: onKey_def\<close>)
qed

subsection \<open>Data and demo\<close>

lemma event_frame [simp]:
  "a_history (onEvent eager r a e) = a_history a" "a_lang (onEvent eager r a e) = a_lang a"
  "a_demo (onEvent eager r a e) = a_demo a" "a_apiOnline (onEvent eager r a e) = a_apiOnline a"
proof -
  have o: "a_apiOnline (stopStream b) = a_apiOnline b" for b by (simp add: stopStream_def split: option.split)
  show "a_history (onEvent eager r a e) = a_history a" "a_lang (onEvent eager r a e) = a_lang a"
    "a_demo (onEvent eager r a e) = a_demo a" "a_apiOnline (onEvent eager r a e) = a_apiOnline a"
    by (simp_all add: onEvent_def on_stdout_def on_stderr_def on_finished_def Let_def o split: prod.split)
qed

lemma events_frame [simp]:
  "a_history (foldl (onEvent eager r) a es) = a_history a" "a_lang (foldl (onEvent eager r) a es) = a_lang a"
  "a_demo (foldl (onEvent eager r) a es) = a_demo a" "a_apiOnline (foldl (onEvent eager r) a es) = a_apiOnline a"
  by (induction es arbitrary: a) simp_all

lemma streamBytes_frame [simp]:
  "a_history (streamBytes eager r bs a) = a_history a" "a_lang (streamBytes eager r bs a) = a_lang a"
  "a_demo (streamBytes eager r bs a) = a_demo a"
  by (simp_all add: streamBytes_def split: prod.split)

lemma failed_frame [simp]:
  "a_history (streamFailed r a) = a_history a" "a_lang (streamFailed r a) = a_lang a" "a_demo (streamFailed r a) = a_demo a"
  by (simp_all add: streamFailed_def streamClosed_def onError_def Let_def)

lemma submitDone_frame [simp]: "a_lang (submitDone now r res a) = a_lang a" "a_demo (submitDone now r res a) = a_demo a"
  by (simp_all add: submitDone_def acknowledged_def Let_def split: sum.split option.split)

lemma result_frame [simp]:
  "a_lang (rowDone now r res a) = a_lang a" "a_demo (rowDone now r res a) = a_demo a"
  "a_lang (pollDone now r res a) = a_lang a" "a_demo (pollDone now r res a) = a_demo a"
  by (simp_all add: rowDone_def pollDone_def Let_def split: sum.split)

lemma runOnApi_frame [simp]:
  "a_lang (runOnApi a) = a_lang a" "a_history (runOnApi a) = a_history a" "a_demo (runOnApi a) = a_demo a"
  by (simp_all add: runOnApi_def)

lemma data_handle: "data_ok a \<Longrightarrow> enabled a e \<Longrightarrow> data_ok (handle e a)"
proof -
  assume a: "data_ok a" "enabled a e"
  have "a_lang (handle e a) \<in> set LANGS"
    using a by (cases e) (simp_all add: data_ok_def selectLang_def reset_def onRun_def onCancel_def onKey_def probeDone_def
        Let_def runSimulated_def demoTimeout_def streamClosed_def del: set_LANGS)
  moreover have "length (a_history (handle e a)) \<le> 20"
    using a history_recordHistory
    by (cases e) (simp_all add: data_ok_def selectLang_def reset_def onRun_def onCancel_def onKey_def probeDone_def
        Let_def runSimulated_def demoTimeout_def streamClosed_def submitDone_def acknowledged_def rowDone_def pollDone_def
        demoTick_def split: sum.split option.split)
  ultimately show ?thesis by (simp add: data_ok_def)
qed

lemma demo_handle: "\<nexists>now. e = DemoTick now \<Longrightarrow> a_demo (handle e a) = a_demo a"
  by (cases e) (simp_all add: selectLang_def reset_def onRun_def onCancel_def onKey_def probeDone_def
      Let_def runSimulated_def demoTimeout_def streamClosed_def)

lemma demoTick_Some:
  "a_demo a = Some d \<Longrightarrow> a_demo (demoTick now a) =
     (if dm_i d < length (l_output (dm_lang d)) then Some (d\<lparr>dm_i := dm_i d + 1\<rparr>) else None)"
  by (simp add: demoTick_def Let_def)

lemma demo_do_act: "demo_ok a \<Longrightarrow> enabled a e \<Longrightarrow> demo_ok (do_act e a)"
proof -
  assume a: "demo_ok a" "enabled a e"
  let ?b = "handle e a"
  have b: "a_demo ?b = None \<or> (\<exists>d d'. a_demo a = Some d \<and> a_demo ?b = Some d' \<and> dm_lang d' = dm_lang d
      \<and> dm_i d' \<le> length (l_output (dm_lang d)))"
  proof (cases "\<exists>now. e = DemoTick now")
    case True
    then obtain now d where e: "e = DemoTick now" and d: "a_demo a = Some d" using a(2) by auto
    then show ?thesis
      using a demoTick_Some [OF d, of now]
      by (cases "dm_i d < length (l_output (dm_lang d))") (auto simp: demo_ok_def)
  next
    case False
    then have "a_demo ?b = a_demo a" using demo_handle [of e a] by blast
    then show ?thesis using a by (cases "a_demo a") (auto simp: demo_ok_def)
  qed
  show ?thesis
  proof (cases "demo_changed a ?b")
    case True
    then show ?thesis by (simp add: demo_ok_def do_act_def demo_effects)
  next
    case False
    then show ?thesis
      using a b by (auto simp: demo_ok_def do_act_def demo_effects demo_changed_def split: option.splits)
  qed
qed

lemma app_inv_do_act: "app_inv a \<Longrightarrow> enabled a e \<Longrightarrow> app_inv (do_act e a)"
proof -
  assume a: "app_inv a" "enabled a e"
  have "data_ok (do_act e a)" using data_handle [of a e] a by (simp add: app_inv_def data_ok_def do_act_def)
  moreover have "refs_ok (do_act e a)"
    using refs_handle [of a e] a refs_ok_cong [of "do_act e a" "handle e a"] by (simp add: app_inv_def do_act_def)
  ultimately show ?thesis using demo_do_act [of a e] a by (simp add: app_inv_def)
qed

lemma find_in: "List.find P xs = Some x \<Longrightarrow> x \<in> set xs"
  by (metis find_Some_iff nth_mem)

lemma pickInitialLang_in: "pickInitialLang share draft \<in> set LANGS"
proof -
  have "LANGS \<noteq> []" using LANGS_names by (auto simp: picker_names_def)
  then have "hd LANGS \<in> set LANGS" by (rule hd_in_set)
  then show ?thesis
    by (auto simp: pickInitialLang_def lang_named_def opt_def dest!: find_in split: option.splits json.splits if_splits)
qed

lemma app_inv_mount: "mount st pathname hash rnd = Some a \<Longrightarrow> app_inv a"
proof -
  assume "mount st pathname hash rnd = Some a"
  then obtain b where b: "first_render st pathname hash rnd = Some b"
    and a: "a = demo_effect (draft_effect (layout_effect (mode_effect b)))" by (auto simp: mount_def)
  have "a_lang b \<in> set LANGS" "length (a_history b) \<le> 20" "a_runs b = []" "a_runCtl b = None" "a_cancelStream b = None"
    "a_status b = js ''idle''"
    using b pickInitialLang_in length_loadHistory
    by (auto simp: first_render_def Let_def simp del: set_LANGS split: option.splits)
  then show ?thesis
    unfolding a by (simp add: app_inv_def data_ok_def refs_ok_def demo_ok_def save_effects demo_effect_def del: set_LANGS)
qed

interpretation app: machine app_start app_step app_inv
proof
  show "app_start a \<Longrightarrow> app_inv a" for a by (auto elim!: app_startE intro: app_inv_mount)
  show "app_inv a \<Longrightarrow> app_step a a' \<Longrightarrow> app_inv a'" for a a' by (auto elim!: app_stepE intro: app_inv_do_act)
qed

section \<open>Streamed output\<close>

lemma split_on_append_last:
  "split_on x (u @ v) = butlast (split_on x u) @ split_on x (last (split_on x u) @ v)"
proof (induction u)
  case (Cons c u)
  obtain ls l where l: "split_on x u = ls @ [l]" by (cases "split_on x u" rule: rev_cases) auto
  then show ?case using Cons by (cases ls) (auto simp: butlast_append)
qed simp

lemma flush_from_split:
  "k \<le> length b \<Longrightarrow> flush_from b k = (butlast (split_on LF (drop k b)), last (split_on LF (drop k b)))"
proof (induction b k rule: flush_from.induct)
  case (1 b k)
  show ?case
  proof (cases "index_sub [LF] (drop k b)")
    case None
    then have "LF \<notin> set (drop k b)" by (simp add: index_sub_singleton_None)
    then show ?thesis
      using None by (subst flush_from.simps) (simp add: indexOf_from_def split_on_no_sep)
  next
    case (Some i)
    define t u where tu: "t = take i (drop k b)" "u = drop (k + i + 1) b"
    have b: "drop k b = t @ LF # u" "LF \<notin> set t" "k + i + 1 \<le> length b"
      using index_sub_singleton_Some [OF Some] by (auto simp: tu add.commute)
    have f: "indexOf_from LF b k = Some (k + i)" by (simp add: indexOf_from_def Some)
    have "flush_from b (k + i + 1) = (butlast (split_on LF u), last (split_on LF u))"
      using 1(1) [OF f b(3)] by (simp add: tu)
    moreover have "slice k (k + i) b = t" by (simp add: slice_def tu)
    moreover have "split_on LF (drop k b) = t # split_on LF u" using b by (simp add: split_on_append)
    ultimately show ?thesis using f by (subst flush_from.simps) simp
  qed
qed

lemma flushLines_split: "flushLines b = (butlast (split_on LF b), last (split_on LF b))"
  by (simp add: flushLines_def flush_from_split)

lemma last_split_no_sep: "x \<notin> set (last (split_on x s))"
  using split_on_pieces [of "last (split_on x s)" x s] by simp

lemma onEvent_stdout:
  assumes "event e = js ''stdout''" "\<not> rc_aborted (a_runs a ! r)" "r < length (a_runs a)"
    and t: "t = rc_out (a_runs a ! r) @ event_chunk e"
  shows "onEvent eager r a e = (upd_run r (\<lambda>x. x\<lparr>rc_out := last (split_on LF t)\<rparr>) a)
      \<lparr>a_output := a_output a @ butlast (split_on LF t)\<rparr>"
  using assms by (simp add: onEvent_def on_stdout_def flushLines_split)

lemma stdout_events:
  assumes "\<forall>e \<in> set es. event e = js ''stdout''" "\<not> rc_aborted (a_runs a ! r)" "r < length (a_runs a)"
    and "LF \<notin> set (rc_out (a_runs a ! r))"
    and "t = rc_out (a_runs a ! r) @ concat (map event_chunk es)" "b = foldl (onEvent eager r) a es"
  shows "a_output b = a_output a @ butlast (split_on LF t) \<and> a_runs b = (a_runs a)[r := (a_runs a ! r)\<lparr>rc_out := last (split_on LF t)\<rparr>]
    \<and> a_cancelStream b = a_cancelStream a \<and> a_status b = a_status a"
  using assms
proof (induction es arbitrary: a t)
  case Nil
  then show ?case by (simp add: split_on_no_sep)
next
  case (Cons e es)
  let ?x = "a_runs a ! r" and ?u = "rc_out (a_runs a ! r) @ event_chunk e"
  define a1 where "a1 = onEvent eager r a e"
  have a1: "a1 = (upd_run r (\<lambda>x. x\<lparr>rc_out := last (split_on LF ?u)\<rparr>) a)\<lparr>a_output := a_output a @ butlast (split_on LF ?u)\<rparr>"
    using Cons.prems onEvent_stdout [of e a r ?u eager] by (simp add: a1_def)
  have x1: "a_runs a1 ! r = ?x\<lparr>rc_out := last (split_on LF ?u)\<rparr>" using Cons.prems(3) by (simp add: a1)
  let ?t = "last (split_on LF ?u) @ concat (map event_chunk es)"
  have "a_output b = a_output a1 @ butlast (split_on LF ?t) \<and> a_runs b = (a_runs a1)[r := (a_runs a1 ! r)\<lparr>rc_out := last (split_on LF ?t)\<rparr>]
    \<and> a_cancelStream b = a_cancelStream a1 \<and> a_status b = a_status a1"
    using Cons.prems x1 last_split_no_sep [of LF ?u] by (intro Cons.IH) (simp_all add: a1_def [symmetric], simp_all add: a1)
  moreover have "split_on LF t = butlast (split_on LF ?u) @ split_on LF ?t"
    using split_on_append_last [of LF ?u "concat (map event_chunk es)"] Cons.prems(5) by simp
  ultimately show ?case using x1 by (simp add: a1 butlast_append)
qed

text \<open>The lines of a text: what is between line feeds, without an empty last piece.\<close>

definition text_lines :: "jsstr \<Rightarrow> jsstr list" where
  "text_lines t = (let ls = split_on LF t in if last ls = [] then butlast ls else ls)"

lemma text_lines_eq: "butlast (split_on LF t) @ last_line True (last (split_on LF t)) = text_lines t"
  by (simp add: text_lines_def last_line_def Let_def)

text \<open>The page after the acknowledgement of a submission.\<close>

lemma submitDone_queued:
  assumes "r < length (a_runs a)" "tkn \<noteq> []"
    and "writeShareHash (a_pathname a) (share_of (rc_lang (a_runs a ! r)) (rc_code (a_runs a ! r)) (rc_stdin (a_runs a ! r)) tkn) = Some u"
  shows "submitDone now r (Inr (JObj [(js ''token'', JStr tkn), (js ''status'', JStr (js ''queued''))])) a =
    (upd_run r (\<lambda>x. x\<lparr>rc_stream := StreamOpen\<rparr>)
      ((upd_run r (\<lambda>x. x\<lparr>rc_tkn := tkn\<rparr>) (upd_run r (\<lambda>x. x\<lparr>rc_submitting := False\<rparr>) a))\<lparr>a_token := tkn, a_hash := hash_of u\<rparr>))
      \<lparr>a_status := js ''processing'', a_cancelStream := Some r, a_runCtl := Some r\<rparr>"
proof -
  define ack where "ack = JObj [(js ''token'', JStr tkn), (js ''status'', JStr (js ''queued''))]"
  have k: "statusKind (jget ''status'' ack) = js ''queued''" "jget ''token'' ack = Some (JStr tkn)" "jget ''stdout'' ack = None"
    by (simp_all add: ack_def jget_def statusKind_def truthy_def toLowerCase_def js_eval ascii_lower_def)
  then have "\<not> answered_at_once ack" by (simp add: answered_at_once_def)
  moreover have "ack \<noteq> JNull" by (simp add: ack_def)
  ultimately show ?thesis using k(2) assms unfolding ack_def [symmetric] by (simp add: submitDone_def acknowledged_def truthy_def)
qed

section \<open>A first visit\<close>

lemma readShareHash_empty: "readShareHash [] = Some None"
  by (simp add: readShareHash_def)

definition blank_storage :: storage where
  "blank_storage = \<lparr>items = [], allowed = True, quota = 5000000\<rparr>"

definition blank_page :: app where
  "blank_page = the (mount blank_storage (js ''/play'') [] (js ''abc''))"

lemma mount_blank: "mount blank_storage (js ''/play'') [] (js ''abc'') = Some blank_page"
  by (simp add: blank_page_def mount_def first_render_def readShareHash_empty Let_def)

lemma blank_start: "app_start blank_page"
  using mount_blank by (rule app_start.intros)

end
