(* ===== verification/PlaygroundProps.thy ===== *)
theory PlaygroundProps
  imports PlaygroundInv
begin

text \<open>
  What the run machine of the playground guarantees: an invariant of every interleaving, what a
  cancelled run can still do, that the streamed output is the program's output cut into lines however it
  arrived, that the final row replaces it, that the demo plays its script, and that a copied link or
  a reload brings the program back.
\<close>

section \<open>The invariant\<close>

text \<open>
  C6. In every state the page can come to, whatever the order of clicks, keys, replies, stream reads
  and timers: the history has at most twenty entries, the language is one of the catalogue, the
  two references point to runs that exist (the stream reference to one whose stream was opened), a run has no
  result while its submission is under way and polls only after its stream ended without one, and the
  demo plays only offline, in the state processing, with lines left of the language that is shown.
\<close>

theorem playground_invariant:
  assumes "reach app_start app_step a"
  shows "length (a_history a) \<le> 20 \<and> a_lang a \<in> set LANGS
    \<and> (\<forall>r. a_runCtl a = Some r \<longrightarrow> r < length (a_runs a))
    \<and> (\<forall>r. a_cancelStream a = Some r \<longrightarrow> r < length (a_runs a) \<and> rc_stream (a_runs a ! r) \<noteq> NoStream)
    \<and> (\<forall>x \<in> set (a_runs a). (rc_submitting x \<longrightarrow> rc_stream x = NoStream \<and> \<not> rc_finished x \<and> rc_fetches x = [])
        \<and> (rc_polling x \<longrightarrow> rc_stream x = StreamEnded \<and> \<not> rc_finished x))
    \<and> (\<forall>d. a_demo a = Some d \<longrightarrow> \<not> a_apiOnline a \<and> a_status a = js ''processing'' \<and> dm_lang d = a_lang a
        \<and> dm_i d \<le> length (l_output (dm_lang d)))"
  using app.reach_inv [OF assms]
  by (auto simp: app_inv_def data_ok_def refs_ok_def demo_ok_def run_ok_def simp del: set_LANGS)

theorem playground_invariant_witness: "length (a_history (do_act Run blank_page)) \<le> 20"
proof -
  have "reach app_start app_step (do_act Run blank_page)"
    using reach_step [of app_start app_step blank_page] reach_start [of app_start blank_page app_step] blank_start
      app_step.intros [of blank_page Run] by simp
  then show ?thesis using playground_invariant by blast
qed

section \<open>Streaming\<close>


lemma blank_runs: "a_runs blank_page = []" "a_lang blank_page \<in> set LANGS" "a_apiOnline blank_page = False"
proof -
  obtain b where b: "first_render blank_storage (js ''/play'') [] (js ''abc'') = Some b"
    and a: "blank_page = demo_effect (draft_effect (layout_effect (mode_effect b)))"
    using mount_blank by (auto simp: mount_def)
  have "a_runs b = []" "a_apiOnline b = False" "a_lang b \<in> set LANGS"
    using b pickInitialLang_in by (auto simp: first_render_def readShareHash_empty Let_def simp del: set_LANGS)
  then show "a_runs blank_page = []" "a_lang blank_page \<in> set LANGS" "a_apiOnline blank_page = False"
    by (simp_all add: a save_effects del: set_LANGS)
qed

definition out_event :: "string \<Rightarrow> sse_event" where
  "out_event s = \<lparr>event = js ''stdout'', ejson = JNull, raw = js s\<rparr>"

definition finished_event :: sse_event where
  "finished_event = \<lparr>event = js ''finished'', ejson = JObj [(js ''status'', JStr (js ''accepted''))], raw = []\<rparr>"


subsection \<open>Where the reads cut the stream\<close>

definition with_sse :: "nat \<Rightarrow> sse \<Rightarrow> app \<Rightarrow> app" where
  "with_sse r s a = upd_run r (\<lambda>x. x\<lparr>rc_sse := s\<rparr>) a"

lemma with_sse_twice: "r < length (a_runs a) \<Longrightarrow> with_sse r s (with_sse r s' a) = with_sse r s a"
  by (simp add: with_sse_def upd_run_def)

lemma rc_sse_commute:
  "x\<lparr>rc_sse := s, rc_out := t\<rparr> = x\<lparr>rc_out := t, rc_sse := s\<rparr>"
  "x\<lparr>rc_sse := s, rc_err := t\<rparr> = x\<lparr>rc_err := t, rc_sse := s\<rparr>"
  by (cases x; simp)+

lemma with_sse_commute:
  "with_sse r s (a\<lparr>a_status := x\<rparr>) = (with_sse r s a)\<lparr>a_status := x\<rparr>"
  "with_sse r s (a\<lparr>a_error := y\<rparr>) = (with_sse r s a)\<lparr>a_error := y\<rparr>"
  by (simp_all add: with_sse_def upd_run_def)

lemma with_sse_run: "r < length (a_runs a) \<Longrightarrow> a_runs (with_sse r s a) ! r = (a_runs a ! r)\<lparr>rc_sse := s\<rparr>"
  by (simp add: with_sse_def)

lemma on_stdout_with_sse:
  assumes "r < length (a_runs a)"
  shows "on_stdout r e (with_sse r s a) = with_sse r s (on_stdout r e a)"
    and "on_stderr r e (with_sse r s a) = with_sse r s (on_stderr r e a)"
proof -
  obtain ls rest where 1: "flushLines (rc_out (a_runs a ! r) @ event_chunk e) = (ls, rest)" by fastforce
  show "on_stdout r e (with_sse r s a) = with_sse r s (on_stdout r e a)"
    using assms 1 by (intro app.equality) (simp_all add: on_stdout_def with_sse_run with_sse_def rc_sse_commute)
  obtain ls' rest' where 2: "flushLines (rc_err (a_runs a ! r) @ event_chunk e) = (ls', rest')" by fastforce
  show "on_stderr r e (with_sse r s a) = with_sse r s (on_stderr r e a)"
    using assms 2 by (intro app.equality) (simp_all add: on_stderr_def with_sse_run with_sse_def rc_sse_commute)
qed

lemma on_stdout_run:
  "r < length (a_runs a) \<Longrightarrow> length (a_runs (on_stdout r e a)) = length (a_runs a) \<and> rc_stopped (a_runs (on_stdout r e a) ! r) = rc_stopped (a_runs a ! r)"
  "r < length (a_runs a) \<Longrightarrow> length (a_runs (on_stderr r e a)) = length (a_runs a) \<and> rc_stopped (a_runs (on_stderr r e a) ! r) = rc_stopped (a_runs a ! r)"
  by (simp_all add: on_stdout_def on_stderr_def split: prod.split)

lemma onEvent_with_sse:
  assumes "r < length (a_runs a)" "event e \<noteq> js ''finished''"
  shows "onEvent eager r (with_sse r s a) e = with_sse r s (onEvent eager r a e)
    \<and> length (a_runs (onEvent eager r a e)) = length (a_runs a)
    \<and> rc_stopped (a_runs (onEvent eager r a e) ! r) = rc_stopped (a_runs a ! r)"
  using assms on_stdout_with_sse [OF assms(1)] on_stdout_run [OF assms(1)]
  by (simp add: onEvent_def with_sse_run with_sse_commute del: js_inject)

lemma events_with_sse:
  assumes "r < length (a_runs a)" "\<forall>e \<in> set es. event e \<noteq> js ''finished''"
  shows "foldl (onEvent eager r) (with_sse r s a) es = with_sse r s (foldl (onEvent eager r) a es)
    \<and> length (a_runs (foldl (onEvent eager r) a es)) = length (a_runs a)
    \<and> rc_stopped (a_runs (foldl (onEvent eager r) a es) ! r) = rc_stopped (a_runs a ! r)"
  using assms
proof (induction es arbitrary: a)
  case (Cons e es)
  then show ?case using onEvent_with_sse [of r a e eager s] by simp
qed simp

text \<open>
  C15. It does not matter where the network cuts the stream. One read of the bytes \<open>as @ bs\<close> leaves the page,
  the run and the decoder as a read of \<open>as\<close> followed by a read of \<open>bs\<close>, as long as \<open>as\<close> does not hold the
  finishing event (after which the client stops reading).
\<close>

theorem reads_compose:
  assumes "r < length (a_runs a)" "\<not> rc_stopped (a_runs a ! r)"
    and "\<forall>e \<in> set (snd (feed (rc_sse (a_runs a ! r)) as)). event e \<noteq> js ''finished''"
  shows "streamBytes eager r (as @ bs) a = streamBytes eager r bs (streamBytes eager r as a)"
proof -
  obtain s1 es where 1: "feed (rc_sse (a_runs a ! r)) as = (s1, es)" by fastforce
  obtain s2 fs where 2: "feed s1 bs = (s2, fs)" by fastforce
  define a1 where "a1 = foldl (onEvent eager r) (with_sse r s1 a) es"
  have l: "r < length (a_runs (with_sse r s1 a))" "\<forall>e \<in> set es. event e \<noteq> js ''finished''"
    using assms(1,3) 1 by (simp_all add: with_sse_def)
  have a1: "a1 = with_sse r s1 (foldl (onEvent eager r) a es)" "length (a_runs (foldl (onEvent eager r) a es)) = length (a_runs a)"
    "rc_stopped (a_runs (foldl (onEvent eager r) a es) ! r) = rc_stopped (a_runs a ! r)"
    unfolding a1_def using events_with_sse [OF assms(1) l(2)] by simp_all
  have "streamBytes eager r as a = a1" using assms(2) 1 by (simp add: streamBytes_def a1_def with_sse_def)
  moreover have "rc_sse (a_runs a1 ! r) = s1" "\<not> rc_stopped (a_runs a1 ! r)"
    using a1 assms(1,2) by (simp_all add: with_sse_def)
  moreover have "with_sse r s2 a1 = foldl (onEvent eager r) (with_sse r s2 a) es"
    using a1 assms(1) events_with_sse [OF assms(1) l(2)] by (simp add: with_sse_twice)
  ultimately show ?thesis
    using assms(2) 1 2 by (simp add: streamBytes_def feed_append with_sse_def)
qed

text \<open>The first byte of a frame, read alone, gives no event.\<close>

lemma feed_one: "feed sse0 [101] = (\<lparr>dec = decoder0\<lparr>d_bom := True\<rparr>, buf = [101]\<rparr>, [])"
  by (simp add: feed_def sse0_def decode_chunk_def decode_byte_def decoder0_def lead_byte_def skip_bom_def
      take_frames.simps List.map_filter_def)

theorem reads_compose_witness:
  "streamBytes True 0 ([101] @ [118]) (runOnApi blank_page) =
   streamBytes True 0 [118] (streamBytes True 0 [101] (runOnApi blank_page))"
  using reads_compose [of 0 "runOnApi blank_page" "[101]" True "[118]"]
  by (simp add: runOnApi_def clearResults_def new_run_def blank_runs feed_one)

section \<open>Cancelling\<close>

lemma onEvent_aborted: "rc_aborted (a_runs a ! r) \<Longrightarrow> onEvent eager r a e = a"
  by (simp add: onEvent_def)

lemma events_aborted: "rc_aborted (a_runs a ! r) \<Longrightarrow> foldl (onEvent eager r) a es = a"
  by (induction es) (simp_all add: onEvent_aborted)

text \<open>The replies that can still come in for a run whose submission was acknowledged.\<close>

fun late_reply :: "nat \<Rightarrow> act \<Rightarrow> bool" where
  "late_reply r (StreamBytes _ q _) \<longleftrightarrow> q = r"
| "late_reply r (StreamClosed q) \<longleftrightarrow> q = r"
| "late_reply r (StreamFailed q) \<longleftrightarrow> q = r"
| "late_reply r (RowDone _ q res) \<longleftrightarrow> q = r \<and> (\<exists>sub. res = Inr sub)"
| "late_reply r (PollDone _ q _) \<longleftrightarrow> q = r"
| "late_reply r _ \<longleftrightarrow> False"

lemma late_reply_handle:
  assumes "rc_aborted (a_runs a ! r)" "r < length (a_runs a)" "late_reply r e"
  shows "shown (handle e a) = shown a \<and> a_runCtl (handle e a) = a_runCtl a \<and> a_cancelStream (handle e a) = a_cancelStream a
    \<and> rc_aborted (a_runs (handle e a) ! r) \<and> length (a_runs (handle e a)) = length (a_runs a)"
proof (cases e)
  case (StreamBytes eager q bs)
  then have q: "q = r" using assms(3) by simp
  obtain s es where f: "feed (rc_sse (a_runs a ! r)) bs = (s, es)" by fastforce
  have "rc_aborted (a_runs (upd_run r (\<lambda>x. x\<lparr>rc_sse := s\<rparr>) a) ! r)" using assms by simp
  then show ?thesis
    using StreamBytes q f assms events_aborted [of "upd_run r (\<lambda>x. x\<lparr>rc_sse := s\<rparr>) a" r]
    by (simp add: streamBytes_def)
next
  case (StreamFailed q)
  then show ?thesis using assms by (simp add: streamFailed_def streamClosed_def onError_def Let_def)
next
  case (StreamClosed q)
  then show ?thesis using assms by (simp add: streamClosed_def)
next
  case (RowDone now q res)
  then show ?thesis using assms by (auto simp: rowDone_def Let_def)
next
  case (PollDone now q res)
  then show ?thesis using assms by (simp add: pollDone_def Let_def)
qed (use assms in simp_all)

lemma late_replies:
  "rc_aborted (a_runs a ! r) \<Longrightarrow> r < length (a_runs a) \<Longrightarrow> \<forall>e \<in> set es. late_reply r e \<Longrightarrow>
   shown (fold do_act es a) = shown a \<and> a_runCtl (fold do_act es a) = a_runCtl a
    \<and> a_cancelStream (fold do_act es a) = a_cancelStream a"
proof (induction es arbitrary: a)
  case (Cons e es)
  then show ?case using late_reply_handle [of a r e] by (simp add: do_act_def)
qed simp


lemma runs_cancelled:
  "a_cancelStream a = None \<Longrightarrow> a_runCtl a = Some r \<Longrightarrow> r < length (a_runs a) \<Longrightarrow>
   a_runs (do_act Cancel a) = (a_runs a)[r := (a_runs a ! r)\<lparr>rc_aborted := True\<rparr>]"
  by (simp add: do_act_def onCancel_def cancelRun_def stopStream_def Let_def)

lemma blank_text:
  "a_code blank_page = js (l_snippet (a_lang blank_page))" "a_stdin blank_page = js (l_sampleStdin (a_lang blank_page))"
  "a_cancelStream blank_page = None"
proof -
  have d: "loadDraft blank_storage = JNull" by (simp add: loadDraft_def storage_ops blank_storage_def)
  obtain b where b: "first_render blank_storage (js ''/play'') [] (js ''abc'') = Some b"
    and a: "blank_page = demo_effect (draft_effect (layout_effect (mode_effect b)))"
    using mount_blank by (auto simp: mount_def)
  have "a_code b = js (l_snippet (a_lang b))" "a_stdin b = js (l_sampleStdin (a_lang b))" "a_cancelStream b = None"
    using b by (auto simp: first_render_def readShareHash_empty Let_def d draft_text_def jget_def)
  then show "a_code blank_page = js (l_snippet (a_lang blank_page))" "a_cancelStream blank_page = None"
    "a_stdin blank_page = js (l_sampleStdin (a_lang blank_page))"
    by (simp_all add: a save_effects)
qed

lemma runs_blank_cancelled:
  "a_runs (do_act Cancel (runOnApi blank_page)) = [(new_run blank_page)\<lparr>rc_aborted := True\<rparr>]"
  by (subst runs_cancelled [where r = 0]) (simp_all add: runOnApi_def blank_runs blank_text)



lemma writeShareHash_js: "writeShareHash p (share_of l (js c) (js i) t) \<noteq> None"
  using share_params_None [of "share_of l (js c) (js i) t"]
  by (auto simp: writeShareHash_def share_of_def)


section \<open>The final row\<close>

lemma text_field_encode:
  "jget k v = Some (JStr b) \<Longrightarrow> encode (Some t) = Some b \<Longrightarrow> t \<noteq> [] \<Longrightarrow> text_field k v = Some t"
  using encode_not_Nil decode_encode by (simp add: text_field_def truthy_def)


definition sample_row :: json where
  "sample_row = JObj [(js ''stdout'', JStr (the (encode (Some (js ''49''))))), (js ''status'', status_json Accepted)]"


section \<open>The demo\<close>

lemma do_tick_line:
  assumes "a_demo a = Some d" "dm_i d < length (l_output (dm_lang d))"
  shows "a_demo (do_act (DemoTick now) a) = Some (d\<lparr>dm_i := dm_i d + 1\<rparr>)
    \<and> a_output (do_act (DemoTick now) a) = a_output a @ [js (l_output (dm_lang d) ! dm_i d)]
    \<and> a_status (do_act (DemoTick now) a) = a_status a \<and> a_history (do_act (DemoTick now) a) = a_history a"
proof -
  let ?b = "demoTick now a"
  have b: "?b = a\<lparr>a_demo := Some (d\<lparr>dm_i := dm_i d + 1\<rparr>), a_output := a_output a @ [js (l_output (dm_lang d) ! dm_i d)]\<rparr>"
    using assms by (simp add: demoTick_def)
  then have "\<not> demo_changed a ?b" by (simp add: demo_changed_def)
  then show ?thesis using b by (simp add: do_act_def demo_effects)
qed

lemma demo_plays:
  assumes "a_demo a = Some d" "dm_i d = 0" "k \<le> length (l_output (dm_lang d))" "b = ((do_act (DemoTick now)) ^^ k) a"
  shows "a_demo b = Some (d\<lparr>dm_i := k\<rparr>) \<and> a_output b = a_output a @ map js (take k (l_output (dm_lang d)))
    \<and> a_status b = a_status a \<and> a_history b = a_history a"
  using assms(3,4)
proof (induction k arbitrary: b)
  case 0
  have "d\<lparr>dm_i := 0\<rparr> = d" using assms(2) by (cases d) simp
  then show ?case using 0 assms(1) by simp
next
  case (Suc k)
  let ?c = "((do_act (DemoTick now)) ^^ k) a"
  have c: "a_demo ?c = Some (d\<lparr>dm_i := k\<rparr>)" "a_output ?c = a_output a @ map js (take k (l_output (dm_lang d)))"
    "a_status ?c = a_status a" "a_history ?c = a_history a"
    using Suc.IH [of ?c] Suc.prems(1) by auto
  have "b = do_act (DemoTick now) ?c" using Suc.prems(2) by simp
  then show ?case
    using do_tick_line [OF c(1)] c Suc.prems(1) by (simp add: take_Suc_conv_app_nth)
qed

text \<open>
  The offline demo plays its script. Started on a page that is offline and not already processing,
  with no demo running, it shows, one per tick, exactly the lines the catalogue promises for the
  language, ends accepted with the catalogue's metrics after one more tick, and leaves one entry in
  the history; the page is processing in between.
\<close>

theorem demo_plays_the_script:
  assumes "\<not> a_apiOnline a" "n = length (l_output (a_lang a))" "k \<le> n"
    and "b = do_act DemoTimeout (do_act (RunDemo rnd) a)"
    and "c = ((do_act (DemoTick now)) ^^ k) b" "d = do_act (DemoTick now) (((do_act (DemoTick now)) ^^ n) b)"
  shows "a_output c = map js (take k (l_output (a_lang a))) \<and> a_status c = js ''processing''
    \<and> a_output d = map js (l_output (a_lang a)) \<and> a_status d = js ''accepted'' \<and> a_demo d = None
    \<and> m_time (a_metrics d) = Some (l_time (l_metrics (a_lang a)))
    \<and> length (a_history d) = min 20 (Suc (length (a_history a)))"
proof -
  define a1 where "a1 = do_act (RunDemo rnd) a"
  have a1: "a_status a1 = js ''queued''" "a_lang a1 = a_lang a" "a_output a1 = []" "a_history a1 = a_history a" "\<not> a_apiOnline a1"
    using assms(1) by (simp_all add: a1_def do_act_def runSimulated_def clearResults_def)
  then have "demo_changed a1 (demoTimeout a1)" by (simp add: demo_changed_def demoTimeout_def)
  moreover have "b = effects a1 (demoTimeout a1)" by (simp only: assms(4) a1_def do_act_def handle.simps)
  ultimately have b: "a_demo b = Some \<lparr>dm_lang = a_lang a, dm_token = a_token a1, dm_i = 0\<rparr>" (is "_ = Some ?d")
    "a_output b = []" "a_status b = js ''processing''" "a_history b = a_history a" "\<not> a_apiOnline b"
    using a1 by (simp_all add: demo_effects) (simp_all add: demoTimeout_def)
  have plays: "a_demo x = Some (?d\<lparr>dm_i := j\<rparr>)" "a_output x = map js (take j (l_output (a_lang a)))"
    "a_status x = js ''processing''" "a_history x = a_history a"
    if "j \<le> n" "x = ((do_act (DemoTick now)) ^^ j) b" for j x
    using demo_plays [OF b(1) _ _ that(2)] that(1) assms(2) b by simp_all
  define e where "e = ((do_act (DemoTick now)) ^^ n) b"
  have e: "a_demo e = Some (?d\<lparr>dm_i := n\<rparr>)" "a_output e = map js (l_output (a_lang a))"
    "a_status e = js ''processing''" "a_history e = a_history a"
    using plays [of n e] assms(2) by (simp_all add: e_def)
  have tick: "a_output (demoTick now e) = a_output e" "a_status (demoTick now e) = js ''accepted''"
    "m_time (a_metrics (demoTick now e)) = Some (l_time (l_metrics (a_lang a)))"
    "length (a_history (demoTick now e)) = min 20 (Suc (length (a_history a)))"
    using e assms(2) by (simp_all add: demoTick_def Let_def recordHistory_def)
  then have "demo_changed e (demoTick now e)" using e(3) by (simp add: demo_changed_def)
  moreover have d: "d = effects e (demoTick now e)" by (simp only: assms(6) e_def do_act_def handle.simps)
  ultimately have "a_demo d = None" using tick(2) by (simp add: demo_effects)
  then show ?thesis using plays [OF assms(3,5)] tick e by (simp add: d)
qed

theorem demo_plays_the_script_witness:
  "a_status (do_act (DemoTick 0) (((do_act (DemoTick 0)) ^^ length (l_output (a_lang blank_page)))
     (do_act DemoTimeout (do_act (RunDemo []) blank_page)))) = js ''accepted''"
proof -
  have "\<not> a_apiOnline blank_page" by (simp add: blank_runs)
  from demo_plays_the_script [OF this refl le0 refl refl refl] show ?thesis by blast
qed

text \<open>
  Cancelling the demo in its first moments does not stop it: the timer set by the button is not
  cleared, so the page goes from cancelled to processing when it fires and the demo starts.
\<close>

theorem demo_survives_cancel:
  assumes "\<not> a_apiOnline a" "b = do_act Cancel (do_act (RunDemo rnd) a)"
  shows "a_status b = js ''cancelled'' \<and> enabled b DemoTimeout \<and> a_status (do_act DemoTimeout b) = js ''processing''
    \<and> a_demo (do_act DemoTimeout b) \<noteq> None"
proof -
  define a1 where "a1 = do_act (RunDemo rnd) a"
  have a1: "a_status a1 = js ''queued''" "a_timeouts a1 = a_timeouts a + 1" "\<not> a_apiOnline a1"
    using assms(1) by (simp_all add: a1_def do_act_def runSimulated_def clearResults_def)
  have c: "a_timeouts (cancelRun x) = a_timeouts x" "a_apiOnline (cancelRun x) = a_apiOnline x" for x
    by (simp_all add: cancelRun_def stopStream_def Let_def split: option.split)
  have "b = effects a1 (onCancel a1)" by (simp only: assms(2) a1_def do_act_def handle.simps)
  then have b: "a_status b = js ''cancelled''" "a_timeouts b = a_timeouts a + 1" "\<not> a_apiOnline b"
    using a1 c by (simp_all add: onCancel_def busy_def Let_def)
  then have "demo_changed b (demoTimeout b)" by (simp add: demo_changed_def demoTimeout_def)
  then show ?thesis using b by (simp add: do_act_def demo_effects) (simp add: demoTimeout_def)
qed

theorem demo_survives_cancel_witness:
  "a_status (do_act DemoTimeout (do_act Cancel (do_act (RunDemo []) blank_page))) = js ''processing''"
proof -
  have "\<not> a_apiOnline blank_page" by (simp add: blank_runs)
  from demo_survives_cancel [OF this refl] show ?thesis by blast
qed

section \<open>Links and reloads\<close>

lemma inj_l_id: "inj_on l_id (set LANGS)"
proof -
  have "distinct (map l_id LANG_CATALOG)" using distinct_catalog(1) by (simp add: catalog_names_def comp_def)
  then show ?thesis by (simp add: distinct_map)
qed

lemma find_unique: "x \<in> set xs \<Longrightarrow> P x \<Longrightarrow> (\<And>y. y \<in> set xs \<Longrightarrow> P y \<Longrightarrow> y = x) \<Longrightarrow> List.find P xs = Some x"
proof -
  assume x: "x \<in> set xs" "P x" and u: "\<And>y. y \<in> set xs \<Longrightarrow> P y \<Longrightarrow> y = x"
  have "List.find P xs \<noteq> None" using x by (auto simp: find_None_iff)
  then obtain y where y: "List.find P xs = Some y" by blast
  then have "y \<in> set xs \<and> P y" by (auto simp: find_Some_iff)
  then show ?thesis using u y by blast
qed

lemma find_by_id:
  assumes "l \<in> set LANGS"
  shows "List.find (\<lambda>m. natStr (l_id m) = natStr (l_id l)) LANGS = Some l"
    and "List.find (\<lambda>m. (of_nat (l_id m) :: number) = of_nat (l_id l)) LANGS = Some l"
  using assms inj_onD [OF inj_l_id] by (auto intro!: find_unique simp del: set_LANGS)


definition shared_page :: app where
  "shared_page = blank_page\<lparr>a_lang := lang_rust, a_code := js ''x'', a_stdin := js ''7'', a_token := js ''t'', a_pathname := js ''/'',
     a_limits := \<lparr>memoryMb = 1024, timeS = 30\<rparr>\<rparr>"

definition saved_page :: storage where
  "saved_page = saveDraft \<lparr>items = [], allowed = True,
     quota = length STATE_KEY + length (stringify (draft_json (draft_of shared_page)))\<rparr> (draft_of shared_page)"


end
