(* ===== verification/OutputPane.thy ===== *)
theory OutputPane
  imports PlaygroundInv
begin

text \<open>
  The output pane of the playground (\<^verbatim>\<open>OutputPane\<close> in \<^verbatim>\<open>playground/App.tsx\<close>): which of its four tabs is
  shown. The pane follows a run (the first error output, compiler output, the verdict) unless the user has
  picked a tab, and marks tabs with content that was not seen. Its effects run after a render, each when
  what it depends on has changed; what they set is rendered next.
\<close>

section \<open>State and effects\<close>

datatype output_tab = Stdout | Stderr | Compile | MetaTab

record pane_props =
  pp_status :: jsstr
  pp_stderr :: nat
  pp_compile :: jsstr

record pane =
  o_tab :: output_tab
  o_userPicked :: bool
  o_prevStatus :: jsstr
  o_prevStderrLen :: nat
  o_prevCompileLen :: nat
  o_unseen :: "output_tab list"

definition pane0 :: pane where
  "pane0 = \<lparr>o_tab = Stdout, o_userPicked = False, o_prevStatus = js ''idle'', o_prevStderrLen = 0, o_prevCompileLen = 0,
     o_unseen = []\<rparr>"

definition mark_unseen :: "output_tab \<Rightarrow> pane \<Rightarrow> pane" where
  "mark_unseen t p = (if t \<in> set (o_unseen p) then p else p\<lparr>o_unseen := t # o_unseen p\<rparr>)"

definition new_run_effect :: "pane_props \<Rightarrow> pane \<Rightarrow> pane" where
  "new_run_effect q p =
     (if pp_status q = js ''queued'' \<and> o_prevStatus p \<noteq> js ''queued''
      then p\<lparr>o_userPicked := False, o_prevStderrLen := 0, o_prevCompileLen := 0, o_unseen := [], o_tab := Stdout\<rparr>
      else p)\<lparr>o_prevStatus := pp_status q\<rparr>"

text \<open>The argument \<open>t\<close> is the tab of the render the effect belongs to.\<close>

definition compile_effect :: "output_tab \<Rightarrow> pane_props \<Rightarrow> pane \<Rightarrow> pane" where
  "compile_effect t q p =
     (let len = length (pp_compile q)
      in (if len > o_prevCompileLen p
          then (if \<not> o_userPicked p then p\<lparr>o_tab := Compile\<rparr>
                else if t \<noteq> Compile then mark_unseen Compile p else p)
          else if len = 0 \<and> t = Compile then p\<lparr>o_tab := Stdout\<rparr> else p)\<lparr>o_prevCompileLen := len\<rparr>)"

definition stderr_effect :: "output_tab \<Rightarrow> pane_props \<Rightarrow> pane \<Rightarrow> pane" where
  "stderr_effect t q p =
     (if pp_stderr q > o_prevStderrLen p \<and> o_prevStderrLen p = 0
      then (if \<not> o_userPicked p then p\<lparr>o_tab := Stderr\<rparr>
            else if t \<noteq> Stderr then mark_unseen Stderr p else p)
      else p)\<lparr>o_prevStderrLen := pp_stderr q\<rparr>"

definition err_tab :: "pane_props \<Rightarrow> output_tab" where
  "err_tab q = (if pp_stderr q \<noteq> 0 then Stderr else MetaTab)"

definition verdict_effect :: "pane_props \<Rightarrow> pane \<Rightarrow> pane" where
  "verdict_effect q p =
     (if o_userPicked p then p
      else if pp_status q = js ''accepted'' then p\<lparr>o_tab := Stdout\<rparr>
      else if pp_status q = js ''ce'' then p\<lparr>o_tab := (if pp_compile q \<noteq> [] then Compile else err_tab q)\<rparr>
      else if pp_status q \<in> {js ''re'', js ''nze''} then p\<lparr>o_tab := err_tab q\<rparr>
      else if pp_status q \<in> {js ''tle'', js ''mle'', js ''se'', js ''ole''} then p\<lparr>o_tab := err_tab q\<rparr>
      else p)"

definition seen_effect :: "pane \<Rightarrow> pane" where
  "seen_effect p = p\<lparr>o_unseen := filter (\<lambda>t. t \<noteq> o_tab p) (o_unseen p)\<rparr>"

text \<open>
  A render with new properties, its effects, and the render that shows what they set.
\<close>

definition pane_render :: "pane_props \<Rightarrow> pane_props \<Rightarrow> pane \<Rightarrow> pane" where
  "pane_render old q p =
     (let t = o_tab p;
          p1 = (if pp_status q \<noteq> pp_status old then new_run_effect q p else p);
          p2 = (if pp_compile q \<noteq> pp_compile old then compile_effect t q p1 else p1);
          p3 = (if pp_stderr q \<noteq> pp_stderr old then stderr_effect t q p2 else p2);
          p4 = (if pp_status q \<noteq> pp_status old then verdict_effect q p3 else p3)
      in if o_tab p4 \<noteq> t then seen_effect p4 else p4)"

definition pickTab :: "output_tab \<Rightarrow> pane \<Rightarrow> pane" where
  "pickTab t p =
     (let p1 = p\<lparr>o_userPicked := True, o_tab := t\<rparr> in if t \<noteq> o_tab p then seen_effect p1 else p1)"

definition pane_tabs :: "pane_props \<Rightarrow> output_tab list" where
  "pane_tabs q = [Stdout, Stderr] @ (if pp_compile q \<noteq> [] then [Compile] else []) @ [MetaTab]"

section \<open>The pane on the page\<close>

definition props_of :: "app \<Rightarrow> pane_props" where
  "props_of a = \<lparr>pp_status = a_status a, pp_stderr = length (a_stderr a), pp_compile = a_compileOutput a\<rparr>"

inductive page_start :: "app \<times> pane \<Rightarrow> bool" where
  "app_start a \<Longrightarrow> page_start (a, pane0)"

inductive page_step :: "app \<times> pane \<Rightarrow> app \<times> pane \<Rightarrow> bool" where
  page_app: "app_step a a' \<Longrightarrow> page_step (a, p) (a', pane_render (props_of a) (props_of a') p)"
| page_pick: "t \<in> set (pane_tabs (props_of a)) \<Longrightarrow> page_step (a, p) (a, pickTab t p)"

inductive_cases page_startE: "page_start s"
inductive_cases page_stepE: "page_step (a, p) s"

section \<open>Lemmas\<close>

lemma unseen_fields [simp]:
  "o_tab (mark_unseen t p) = o_tab p" "o_userPicked (mark_unseen t p) = o_userPicked p"
  "o_prevStatus (mark_unseen t p) = o_prevStatus p"
  "o_tab (seen_effect p) = o_tab p" "o_userPicked (seen_effect p) = o_userPicked p"
  by (simp_all add: mark_unseen_def seen_effect_def)

lemma picked_effects:
  "o_userPicked (compile_effect t q p) = o_userPicked p" "o_userPicked (stderr_effect t q p) = o_userPicked p"
  "o_userPicked (verdict_effect q p) = o_userPicked p"
  by (simp_all add: compile_effect_def stderr_effect_def verdict_effect_def Let_def)

lemma o_tab_render:
  "o_tab (pane_render old q p) =
     o_tab (let t = o_tab p;
          p1 = (if pp_status q \<noteq> pp_status old then new_run_effect q p else p);
          p2 = (if pp_compile q \<noteq> pp_compile old then compile_effect t q p1 else p1);
          p3 = (if pp_stderr q \<noteq> pp_stderr old then stderr_effect t q p2 else p2)
      in if pp_status q \<noteq> pp_status old then verdict_effect q p3 else p3)"
  by (simp add: pane_render_def Let_def)

text \<open>The tab of the compiler is shown only when there is compiler output.\<close>

definition pane_ok :: "pane_props \<Rightarrow> pane \<Rightarrow> bool" where
  "pane_ok q p \<longleftrightarrow> (o_tab p = Compile \<longrightarrow> pp_compile q \<noteq> [])"

lemma compile_shown:
  assumes "pane_ok old p"
  shows "pane_ok q (pane_render old q p)"
proof -
  define p1 where "p1 = (if pp_status q \<noteq> pp_status old then new_run_effect q p else p)"
  define p2 where "p2 = (if pp_compile q \<noteq> pp_compile old then compile_effect (o_tab p) q p1 else p1)"
  define p3 where "p3 = (if pp_stderr q \<noteq> pp_stderr old then stderr_effect (o_tab p) q p2 else p2)"
  have "o_tab p1 \<in> {Stdout, o_tab p}" by (simp add: p1_def new_run_effect_def)
  then have 2: "o_tab p2 = Compile \<Longrightarrow> pp_compile q \<noteq> []"
    using assms by (auto simp: p2_def compile_effect_def pane_ok_def Let_def split: if_splits)
  have "o_tab p3 \<in> {Stderr, o_tab p2}" by (simp add: p3_def stderr_effect_def)
  then have 3: "o_tab p3 = Compile \<Longrightarrow> pp_compile q \<noteq> []" using 2 by auto
  have "o_tab (pane_render old q p) = o_tab (if pp_status q \<noteq> pp_status old then verdict_effect q p3 else p3)"
    by (simp only: o_tab_render Let_def p1_def p2_def p3_def)
  then show ?thesis
    using 3 by (auto simp: pane_ok_def verdict_effect_def err_tab_def split: if_splits)
qed

lemma compile_shown_pick: "t \<in> set (pane_tabs q) \<Longrightarrow> pane_ok q (pickTab t p)"
  by (auto simp: pane_ok_def pickTab_def pane_tabs_def Let_def split: if_splits)

definition page_inv :: "app \<times> pane \<Rightarrow> bool" where
  "page_inv = (\<lambda>(a, p). pane_ok (props_of a) p)"

interpretation page: machine page_start page_step page_inv
proof
  fix s assume "page_start s"
  then show "page_inv s" by (auto elim!: page_startE simp: page_inv_def pane_ok_def pane0_def)
next
  fix s s' assume "page_inv s" "page_step s s'"
  then show "page_inv s'"
    by (cases s) (auto elim!: page_stepE simp: page_inv_def compile_shown compile_shown_pick)
qed

section \<open>Properties\<close>



lemma pick_kept:
  assumes "o_userPicked p" "pp_status q = js ''queued'' \<longrightarrow> o_prevStatus p = js ''queued''"
    and "o_tab p = Compile \<longrightarrow> pp_compile q \<noteq> []"
  shows "o_tab (pane_render old q p) = o_tab p \<and> o_userPicked (pane_render old q p)"
proof -
  define p1 where "p1 = (if pp_status q \<noteq> pp_status old then new_run_effect q p else p)"
  define p2 where "p2 = (if pp_compile q \<noteq> pp_compile old then compile_effect (o_tab p) q p1 else p1)"
  define p3 where "p3 = (if pp_stderr q \<noteq> pp_stderr old then stderr_effect (o_tab p) q p2 else p2)"
  have 1: "o_tab p1 = o_tab p" "o_userPicked p1" using assms(1,2) by (auto simp: p1_def new_run_effect_def)
  then have 2: "o_tab p2 = o_tab p" "o_userPicked p2"
    using assms(3) by (auto simp: p2_def compile_effect_def Let_def)
  then have 3: "o_tab p3 = o_tab p" "o_userPicked p3" by (auto simp: p3_def stderr_effect_def)
  have "pane_render old q p =
      (let p4 = (if pp_status q \<noteq> pp_status old then verdict_effect q p3 else p3) in if o_tab p4 \<noteq> o_tab p then seen_effect p4 else p4)"
    by (simp only: pane_render_def Let_def p1_def p2_def p3_def)
  then show ?thesis using 3 by (simp add: verdict_effect_def)
qed

lemma verdict_routed:
  assumes "\<not> o_userPicked p" "pp_status q \<noteq> pp_status old" "pp_status q \<in> js ` {''accepted'', ''ce'', ''re'', ''nze'', ''tle'', ''mle'', ''se'', ''ole''}"
  shows "o_tab (pane_render old q p) =
    (if pp_status q = js ''accepted'' then Stdout
     else if pp_status q = js ''ce'' \<and> pp_compile q \<noteq> [] then Compile else err_tab q)"
proof -
  define p1 where "p1 = (if pp_status q \<noteq> pp_status old then new_run_effect q p else p)"
  define p2 where "p2 = (if pp_compile q \<noteq> pp_compile old then compile_effect (o_tab p) q p1 else p1)"
  define p3 where "p3 = (if pp_stderr q \<noteq> pp_stderr old then stderr_effect (o_tab p) q p2 else p2)"
  have "\<not> o_userPicked p1" using assms(1) by (simp add: p1_def new_run_effect_def)
  then have 3: "\<not> o_userPicked p3" by (simp add: p2_def p3_def picked_effects)
  have "o_tab (pane_render old q p) = o_tab (if pp_status q \<noteq> pp_status old then verdict_effect q p3 else p3)"
    by (simp only: o_tab_render Let_def p1_def p2_def p3_def)
  then show ?thesis using 3 assms(2,3) by (auto simp: verdict_effect_def)
qed


definition running_props :: pane_props where
  "running_props = \<lparr>pp_status = js ''processing'', pp_stderr = 0, pp_compile = []\<rparr>"


end
