(* ===== verification/Dom.thy ===== *)
theory Dom
  imports JsPrelude
begin

text \<open>
  Element trees: what a component of the page returns. The views of the playground and of the tests panel are
  functions into these trees; a handler is the message it sends.
\<close>

text \<open>Tag, attributes, handlers, children. The attribute \<^verbatim>\<open>disabled\<close> is present only when it is set.\<close>

datatype 'm vnode = El string "(string \<times> jsstr) list" "(string \<times> 'm) list" "'m vnode list" | Txt jsstr

definition cls :: "jsstr \<Rightarrow> (string \<times> jsstr) list" where
  "cls c = [(''class'', c)]"

abbreviation icon_svg :: "'m vnode" where
  "icon_svg \<equiv> El ''svg'' [] [] []"

definition only_if :: "bool \<Rightarrow> 'a list \<Rightarrow> 'a list" where
  "only_if b xs = (if b then xs else [])"

lemma only_if_simps [simp]: "only_if True xs = xs" "only_if False xs = []"
  by (simp_all add: only_if_def)

text \<open>The messages the enabled elements of a tree can send.\<close>

fun offers :: "'m vnode \<Rightarrow> 'm list" where
  "offers (Txt _) = []"
| "offers (El _ as hs kids) =
     (if ''disabled'' \<in> fst ` set as then [] else map snd hs) @ concat (map offers kids)"

definition disabled_if :: "bool \<Rightarrow> (string \<times> jsstr) list" where
  "disabled_if b = only_if b [(''disabled'', [])]"

end
