(* ===== verification/Workspace.thy ===== *)
theory Workspace
  imports OutputPane Dom
begin

text \<open>
  The components of \<^verbatim>\<open>playground/App.tsx\<close> that show the page: language picker, workspace bar, input panel,
  output pane, status strip and the splitters between them. A component is a function from its
  properties and local state to a tree of elements; a handler is the message it sends. Style sheets,
  inline styles and the drawings of the icons are left out. The lemmas are about what the page offers in
  which state, and about dragging.
\<close>

section \<open>Language picker\<close>

definition picker_filter :: "jsstr \<Rightarrow> lang list" where
  "picker_filter q = filter (\<lambda>l. strIncludes (toLowerCase (js (l_name l))) (toLowerCase q)
     \<or> strIncludes (natStr (l_id l)) q) LANGS"

datatype picker_msg = PickLang lang | ClosePicker | SearchText | DragHistory

definition lang_icon :: "nat \<Rightarrow> 'm vnode \<Rightarrow> 'm vnode" where
  "lang_icon lid other = (case langKeyFromId lid of Some k \<Rightarrow> icon_svg | None \<Rightarrow> other)"

definition picker_row :: "lang \<Rightarrow> lang \<Rightarrow> picker_msg vnode" where
  "picker_row selected l =
     El ''button'' (cls (js ''pg-row '' @ (if l_id selected = l_id l then js ''active'' else []))) [(''click'', PickLang l)]
       [lang_icon (l_id l) (El ''span'' (cls (js ''dot'')) [] []),
        El ''span'' (cls (js ''name'')) [] [Txt (js (l_name l))],
        El ''span'' (cls (js ''v'')) [] [Txt (js (l_version l))],
        El ''span'' (cls (js ''id'')) [] [Txt (natStr (l_id l))]]"

definition json_str :: "string \<Rightarrow> json \<Rightarrow> jsstr" where
  "json_str k v = (case jget k v of Some x \<Rightarrow> if x = JNull then [] else toStr x | None \<Rightarrow> [])"

definition history_row :: "json \<Rightarrow> picker_msg vnode" where
  "history_row h =
     (let v = json_str ''verdict'' h
      in El ''div'' (cls (js ''hr'')) []
           [El ''span'' [] [] [Txt (json_str ''name'' h)],
            El ''span'' (cls (if v = js ''accepted'' then js ''ok'' else if v = js ''tle'' then js ''tle'' else js ''re'')) []
              [Txt (v @ [SPACE, MIDDOT, SPACE]
                 @ (case jget ''time'' h of Some (JNum t) \<Rightarrow> toFixed 3 t @ js ''s'' | _ \<Rightarrow> js ''pending''))]])"

definition LanguagePicker :: "jsstr \<Rightarrow> lang \<Rightarrow> json list \<Rightarrow> bool \<Rightarrow> picker_msg vnode" where
  "LanguagePicker q selected hist mobileOpen =
     (let filtered = picker_filter q
      in El ''aside'' (cls (js ''pg-rail '' @ (if mobileOpen then js ''is-open'' else []))) []
        [El ''div'' (cls (js ''pg-rail-hd'')) []
           [El ''span'' [] [] [Txt (js ''core languages'')],
            El ''span'' [] []
              [El ''span'' (cls (js ''count'')) [] [Txt (natStr (length LANGS))],
               El ''button'' (cls (js ''pg-rail-close'')) [(''click'', ClosePicker)] [icon_svg]]],
         El ''div'' (cls (js ''pg-rail-search'')) []
           [icon_svg, El ''input'' [(''value'', q), (''placeholder'', js ''search by name or id'')] [(''change'', SearchText)] []],
         El ''div'' (cls (js ''pg-rail-list'')) []
           (only_if (filtered = []) [El ''div'' (cls (js ''pg-rail-empty'')) []
              [Txt (js ''no match '' @ [MIDDOT] @ js '' try clearing the search'')]]
            @ map (picker_row selected) filtered),
         El ''div'' (cls (js ''pg-split pg-split-horizontal'')) [(''drag'', DragHistory)] [],
         El ''div'' (cls (js ''pg-rail-hist'')) []
           (El ''div'' (cls (js ''h'')) [] [Txt (js ''history '' @ [MIDDOT] @ js '' session'')]
            # only_if (hist = []) [El ''div'' (cls (js ''hr'')) [] [El ''span'' (cls (js ''t'')) [] [Txt (js ''no runs yet'')]]]
            @ map history_row hist)])"

text \<open>What the picker's messages do to the page; Escape closes it while it is open.\<close>

definition selectAndClose :: "jsstr \<Rightarrow> lang \<Rightarrow> act list" where
  "selectAndClose rnd l = [SelectLang rnd l, SetPicker False]"

definition picker_key :: "bool \<Rightarrow> jsstr \<Rightarrow> act list" where
  "picker_key mobileOpen k = (if mobileOpen \<and> k = js ''Escape'' then [SetPicker False] else [])"

section \<open>Workspace bar\<close>

record wbar =
  w_showLimits :: bool
  w_copied :: bool
  w_pos :: "number \<times> number"

definition wbar0 :: wbar where
  "wbar0 = \<lparr>w_showLimits = False, w_copied = False, w_pos = (80, 14)\<rparr>"

definition handleShare :: "wbar \<Rightarrow> wbar \<times> act list" where
  "handleShare w = (w\<lparr>w_copied := True\<rparr>, [Share])"

definition copiedTimeout :: "wbar \<Rightarrow> wbar" where
  "copiedTimeout w = w\<lparr>w_copied := False\<rparr>"

text \<open>The popover is placed under its button when it opens: \<open>rect\<close> are the button's bottom and right edges.\<close>

definition toggleLimits :: "number \<Rightarrow> (number \<times> number) option \<Rightarrow> wbar \<Rightarrow> wbar" where
  "toggleLimits innerWidth rect w =
     (let w1 = (if w_showLimits w then w
                else case rect of
                  Some (bottom, right) \<Rightarrow> w\<lparr>w_pos := (bottom + 8, max 8 (innerWidth - right))\<rparr>
                | None \<Rightarrow> w)
      in w1\<lparr>w_showLimits := \<not> w_showLimits w\<rparr>)"

definition max_limits :: "ceilings option \<Rightarrow> ceilings" where
  "max_limits c = opt \<lparr>c_memoryMb = 2048, c_timeS = 60\<rparr> c"

datatype bar_msg = OpenPicker | ModeTo jsstr | ToggleLimits | ShareClick | FormatClick | ResetClick | CancelClick
  | DemoClick | RunClick | CloseLimits | MemorySlider | TimeSlider

definition isRunning :: "jsstr \<Rightarrow> bool" where
  "isRunning status \<longleftrightarrow> status = js ''queued'' \<or> status = js ''processing''"

definition runLabel :: "bool \<Rightarrow> jsstr" where
  "runLabel apiOnline = (if apiOnline then js ''run '' @ [MIDDOT, SPACE, 8984, 8629] else js ''connect api'')"

definition mode_button :: "jsstr \<Rightarrow> string \<Rightarrow> bar_msg vnode" where
  "mode_button mode m = El ''button'' (cls (if mode = js m then js ''active'' else [])) [(''click'', ModeTo (js m))] [Txt (js m)]"

definition run_buttons :: "jsstr \<Rightarrow> bool \<Rightarrow> jsstr \<Rightarrow> bar_msg vnode list" where
  "run_buttons status apiOnline mode = only_if (mode = js ''single'')
     (if isRunning status
      then [El ''button'' (cls (js ''pg-btn cancel'')) [(''click'', CancelClick)] [Txt (js ''cancel'')]]
      else only_if (\<not> apiOnline) [El ''button'' (cls (js ''pg-btn ghost'')) [(''click'', DemoClick)] [Txt (js ''demo run'')]]
        @ [El ''button'' (cls (js ''pg-btn primary'')) [(''click'', RunClick)] [icon_svg, Txt (runLabel apiOnline)]])"

definition slider :: "string \<Rightarrow> jsstr \<Rightarrow> number \<Rightarrow> number \<Rightarrow> number \<Rightarrow> number \<Rightarrow> bar_msg \<Rightarrow> bar_msg vnode" where
  "slider label val lo hi stp v m = El ''div'' (cls (js ''pg-lim-row'')) []
     [El ''div'' (cls (js ''lbl'')) [] [El ''span'' [] [] [Txt (js label)], El ''span'' (cls (js ''v'')) [] [Txt val]],
      El ''input'' [(''type'', js ''range''), (''min'', numText lo), (''max'', numText hi), (''step'', numText stp),
         (''value'', numText (min v hi))] [(''change'', m)] []]"

definition limits_popover :: "app_limits \<Rightarrow> ceilings option \<Rightarrow> bool \<Rightarrow> bar_msg vnode list" where
  "limits_popover lims ceils apiOnline =
     [El ''div'' (cls (js ''pg-sheet-backdrop is-on'')) [(''click'', CloseLimits)] [],
      El ''div'' (cls (js ''pg-limits-popover'')) []
        [El ''h4'' [] []
           [El ''span'' [] [] [Txt (js ''execution limits '' @ [MIDDOT, SPACE]
              @ (if apiOnline \<and> ceils \<noteq> None then js ''server ceilings'' else js ''client defaults''))],
            El ''button'' (cls (js ''x-close'')) [(''click'', CloseLimits)] [icon_svg]],
         slider ''memory'' (numText (memoryMb lims) @ js '' MB'') 16 (c_memoryMb (max_limits ceils)) 16 (memoryMb lims) MemorySlider,
         slider ''wall time'' (numText (timeS lims) @ js '' s'') 1 (c_timeS (max_limits ceils)) 1 (timeS lims) TimeSlider]]"

definition WorkspaceBar :: "wbar \<Rightarrow> lang \<Rightarrow> jsstr \<Rightarrow> app_limits \<Rightarrow> ceilings option \<Rightarrow> bool \<Rightarrow> jsstr \<Rightarrow> bar_msg vnode" where
  "WorkspaceBar w l status lims ceils apiOnline mode =
     El ''div'' (cls (js ''pg-wbar'')) []
       ([El ''button'' (cls (js ''pg-wbar-lang'')) [(''click'', OpenPicker)]
           [lang_icon (l_id l) (El ''span'' [] [] []), El ''span'' (cls (js ''name'')) [] [Txt (js (l_name l))],
            El ''span'' (cls (js ''id'')) [] [Txt ([MIDDOT, SPACE] @ js (l_version l))], icon_svg],
         El ''div'' (cls (js ''pg-wbar-mode'')) [] [mode_button mode ''single'', mode_button mode ''tests''],
         El ''div'' (cls (js ''pg-wbar-right'')) []
           ([El ''button'' (cls (js ''pg-btn ghost'')) [(''click'', ToggleLimits)]
               [icon_svg, Txt (numText (memoryMb lims) @ js ''mb '' @ [MIDDOT, SPACE] @ numText (timeS lims) @ js ''s'')],
             El ''button'' (cls (js ''pg-btn ghost'')) [(''click'', ShareClick)]
               [icon_svg, Txt (if w_copied w then js ''copied!'' else js ''share'')],
             El ''button'' (cls (js ''pg-btn ghost pg-btn-format'') @ disabled_if (isRunning status)) [(''click'', FormatClick)]
               [Txt (js ''format'')],
             El ''button'' (cls (js ''pg-btn ghost pg-btn-reset'') @ disabled_if (isRunning status)) [(''click'', ResetClick)]
               [Txt (js ''reset'')]]
            @ run_buttons status apiOnline mode)]
        @ only_if (w_showLimits w) (limits_popover lims ceils apiOnline))"

text \<open>What the bar's messages do to the page. The reference to the editor is not part of the state.\<close>

definition bar_act :: "jsstr \<Rightarrow> bar_msg \<Rightarrow> act list" where
  "bar_act rnd m = (case m of
     OpenPicker \<Rightarrow> [SetPicker True]
   | ModeTo md \<Rightarrow> [SetMode md]
   | ShareClick \<Rightarrow> [Share]
   | ResetClick \<Rightarrow> [Reset]
   | CancelClick \<Rightarrow> [Cancel]
   | DemoClick \<Rightarrow> [RunDemo rnd]
   | RunClick \<Rightarrow> [Run]
   | _ \<Rightarrow> [])"

definition setMemory :: "app_limits \<Rightarrow> number \<Rightarrow> act" where
  "setMemory lims v = SetLimits (lims\<lparr>memoryMb := v\<rparr>)"

definition setTime :: "app_limits \<Rightarrow> number \<Rightarrow> act" where
  "setTime lims v = SetLimits (lims\<lparr>timeS := v\<rparr>)"

section \<open>Input panel\<close>

datatype stdin_msg = ClearStdin | EditStdinText

definition StdinPanel :: "jsstr \<Rightarrow> stdin_msg vnode" where
  "StdinPanel s = El ''section'' (cls (js ''pg-stdin'')) []
     [El ''div'' (cls (js ''pg-stdin-hd'')) []
        [El ''span'' (cls (js ''label'')) [] [Txt (js ''stdin'')],
         El ''span'' (cls (js ''meta'')) []
           (if s \<noteq> [] then [El ''b'' [] [] [Txt (natStr (length s))], Txt (js '' chars'')] else [Txt (js ''empty'')]),
         El ''button'' (disabled_if (s = [])) [(''click'', ClearStdin)] [Txt (js ''clear'')]],
      El ''div'' (cls (js ''pg-stdin-bd'')) []
        [El ''textarea'' [(''value'', s), (''placeholder'', js ''input '' @ [MIDDOT] @ js '' piped to stdin'')] [(''change'', EditStdinText)] []]]"

section \<open>Output pane\<close>

definition tab_name :: "output_tab \<Rightarrow> string" where
  "tab_name t = (case t of Stdout \<Rightarrow> ''stdout'' | Stderr \<Rightarrow> ''stderr'' | Compile \<Rightarrow> ''compile'' | MetaTab \<Rightarrow> ''meta'')"

definition tab_count :: "app \<Rightarrow> output_tab \<Rightarrow> nat" where
  "tab_count a t = (case t of Stdout \<Rightarrow> length (a_output a) | Stderr \<Rightarrow> length (a_stderr a) | Compile \<Rightarrow> 1 | MetaTab \<Rightarrow> 0)"

definition tab_button :: "app \<Rightarrow> pane \<Rightarrow> output_tab \<Rightarrow> output_tab vnode" where
  "tab_button a p t =
     (let new = t \<in> set (o_unseen p) \<and> o_tab p \<noteq> t
      in El ''button'' (cls (js ''pg-output-tab '' @ (if o_tab p = t then js ''active'' else []) @ [SPACE]
           @ (if new then js ''unseen'' else []))) [(''click'', t)]
           (only_if new [El ''span'' (cls (js ''dot'')) [] []] @ [Txt (js (tab_name t))]
            @ only_if (tab_count a t > 0) [El ''span'' (cls (js ''pill'')) [] [Txt (natStr (tab_count a t))]]))"

definition line_divs :: "jsstr list \<Rightarrow> 'm vnode list" where
  "line_divs ls = map (\<lambda>l. El ''div'' (cls (js ''ln'')) [] [Txt l]) ls"

definition stdout_body :: "app \<Rightarrow> output_tab vnode list" where
  "stdout_body a =
     only_if (a_output a = [] \<and> a_status a = js ''idle'') [El ''div'' (cls (js ''pg-output-stderr'')) []
       [Txt (js ''awaiting first run '' @ [MIDDOT] @ js '' click ''), El ''b'' [] [] [Txt (js ''run'')], Txt (js '' to begin'')]]
     @ only_if (a_status a = js ''queued'') [El ''div'' [] [] [Txt (js ''queued '' @ [MIDDOT] @ js '' waiting for worker NOTIFY ...'')]]
     @ [El ''div'' (cls (if a_status a = js ''accepted'' then js ''stdout-ok'' else [])) []
          (line_divs (a_output a) @ only_if (a_status a = js ''processing'') [El ''span'' (cls (js ''caret'')) [] []])]
     @ only_if (a_output a = [] \<and> a_status a \<noteq> js ''idle'' \<and> \<not> isRunning (a_status a))
         [El ''div'' (cls (js ''pg-output-stderr'')) [] [Txt ([EMDASH] @ js '' stdout empty '' @ [EMDASH])]]"

definition stderr_body :: "app \<Rightarrow> output_tab vnode list" where
  "stderr_body a = (if a_stderr a \<noteq> [] then [El ''div'' [] [] (line_divs (a_stderr a))]
     else [El ''div'' (cls (js ''pg-output-stderr'')) [] [Txt ([EMDASH] @ js '' no bytes on stderr '' @ [EMDASH])]])"

definition compile_body :: "app \<Rightarrow> output_tab vnode list" where
  "compile_body a = (if a_compileOutput a \<noteq> []
     then [El ''div'' [] [] (line_divs (map (\<lambda>l. if l = [] then [SPACE] else l) (split_on LF (a_compileOutput a))))]
     else [El ''div'' (cls (js ''pg-output-compile'')) []
       [Txt ([EMDASH] @ js '' no compile step or compile output '' @ [EMDASH])]])"

definition dt :: "string \<Rightarrow> jsstr \<Rightarrow> 'm vnode list" where
  "dt k v = [El ''dt'' [] [] [Txt (js k)], El ''dd'' [] [] [Txt v]]"

definition detail_text :: "json option \<Rightarrow> jsstr" where
  "detail_text d = (case d of Some v \<Rightarrow> if truthy v then [SPACE, MIDDOT, SPACE] @ toStr v else [] | None \<Rightarrow> [])"

definition verdict_label :: "jsstr \<Rightarrow> jsstr" where
  "verdict_label s = (case table VERDICT_LABEL s of Some l \<Rightarrow> if l \<noteq> [] then l else s | None \<Rightarrow> s)"

definition seconds :: "jsstr \<Rightarrow> number option \<Rightarrow> jsstr" where
  "seconds unit t = (case t of Some x \<Rightarrow> toFixed 3 x @ unit | None \<Rightarrow> [EMDASH])"

definition meta_body :: "app \<Rightarrow> output_tab vnode list" where
  "meta_body a =
     (let m = a_metrics a
      in [El ''dl'' (cls (js ''pg-output-meta'')) []
        (dt ''token'' (a_token a)
         @ dt ''verdict'' (verdict_label (a_status a) @ detail_text (a_statusDetail a)
             @ (case m_exitCode m of Some x \<Rightarrow> [SPACE, MIDDOT] @ js '' exit '' @ numText x | None \<Rightarrow> [])
             @ (if present (m_signal m) then [SPACE, MIDDOT] @ js '' signal '' @ the (m_signal m) else []))
         @ dt ''wall time'' (seconds (js '' s'') (m_time m))
         @ dt ''memory peak'' (formatMem (m_memory m))
         @ dt ''language'' (js (l_name (a_lang a)) @ [SPACE, MIDDOT, SPACE] @ js (l_version (a_lang a)) @ [SPACE, MIDDOT]
             @ js '' id '' @ natStr (l_id (a_lang a)))
         @ dt ''runner'' (js ''zerocode-runner'')
         @ dt ''sandbox'' (js ''8 layers '' @ [MIDDOT] @ js '' cgroup v2 '' @ [MIDDOT] @ js '' landlock''))])"

definition OutputPane_view :: "app \<Rightarrow> pane \<Rightarrow> output_tab vnode" where
  "OutputPane_view a p =
     El ''section'' (cls (js ''pg-output'')) []
       [El ''div'' (cls (js ''pg-output-tabs'')) [] (map (tab_button a p) (pane_tabs (props_of a))),
        El ''div'' (cls (js ''pg-output-body '' @ (if a_output a = [] \<and> a_status a = js ''idle'' then js ''empty'' else []))) []
          (case o_tab p of Stdout \<Rightarrow> stdout_body a | Stderr \<Rightarrow> stderr_body a | Compile \<Rightarrow> compile_body a | MetaTab \<Rightarrow> meta_body a)]"

section \<open>Status strip\<close>

definition phases :: "string list" where
  "phases = [''queued'', ''processing'', ''accepted'']"

definition isTerminal :: "jsstr \<Rightarrow> bool" where
  "isTerminal s \<longleftrightarrow> s \<notin> {js ''idle'', js ''queued'', js ''processing''}"

definition phaseIdx :: "jsstr \<Rightarrow> int" where
  "phaseIdx s = (if s = js ''idle'' then -1 else if isTerminal s then int (length phases) - 1
     else case index_of s (map js phases) of Some i \<Rightarrow> int i | None \<Rightarrow> -1)"

definition step_class :: "jsstr \<Rightarrow> nat \<Rightarrow> string" where
  "step_class s i = (if int i < phaseIdx s then ''done'' else if int i = phaseIdx s then ''active'' else [])"

definition StatusStrip :: "app \<Rightarrow> nat \<times> nat \<Rightarrow> string \<Rightarrow> 'm vnode" where
  "StatusStrip a cursor themeMode =
     (let m = a_metrics a; s = a_status a
      in El ''footer'' (cls (js ''pg-strip'')) []
        [El ''div'' (cls (js ''pg-flow'')) []
           (concat (map (\<lambda>(i, ph). El ''span'' (cls (js ''step '' @ js (step_class s i))) [] [El ''span'' (cls (js ''dot'')) [] [], Txt (SPACE # js ph)]
              # only_if (i < length phases - 1) [El ''span'' (cls (js ''arr'')) [] [Txt [8594]]]) (enumerate 0 phases))),
         El ''div'' (cls (js ''metrics'')) []
           [El ''span'' [] [] [Txt (js ''wall '' @ [MIDDOT, SPACE]), Txt (seconds (js ''s'') (m_time m))],
            El ''span'' [] [] [Txt (js ''mem '' @ [MIDDOT, SPACE]), Txt (formatMem (m_memory m))],
            El ''span'' (cls (js ''strip-exit'')) [] [Txt (js ''exit '' @ [MIDDOT, SPACE]),
              Txt (case m_exitCode m of Some x \<Rightarrow> numText x | None \<Rightarrow> if s = js ''accepted'' then js ''0'' else [EMDASH])],
            El ''span'' (cls (js ''strip-cursor'')) [] [Txt (js ''Ln '' @ natStr (fst cursor) @ js '', Col '' @ natStr (snd cursor))]],
         El ''div'' (cls (js ''right'')) []
           [El ''span'' (cls (js ''strip-theme'')) [] [Txt (js ''theme '' @ [MIDDOT, SPACE] @ js themeMode)],
            El ''span'' (cls (js ''strip-net'')) [] [Txt (if a_apiOnline a then js ''live'' else js ''offline'')],
            El ''span'' (cls (js ''verdict'')) []
              [Txt (if s = js ''idle'' then js ''ready'' else verdict_label s), Txt (detail_text (a_statusDetail a))]]])"

section \<open>Splitters\<close>

text \<open>
  A drag: the position of the pointer at the press, then at every move; \<^verbatim>\<open>onDrag\<close> is called with each
  difference that is not zero. The moves end with the release of the button.
\<close>

datatype pointer = Move int int | Up

fun drag_deltas :: "bool \<Rightarrow> int \<Rightarrow> pointer list \<Rightarrow> int list" where
  "drag_deltas vertical prev [] = []"
| "drag_deltas vertical prev (Up # es) = []"
| "drag_deltas vertical prev (Move x y # es) =
     (let curr = (if vertical then x else y); delta = curr - prev
      in if delta \<noteq> 0 then delta # drag_deltas vertical curr es else drag_deltas vertical prev es)"

definition resize_rail :: "layout \<Rightarrow> int \<Rightarrow> layout" where
  "resize_rail l d = l\<lparr>rail := clamp (rail l + of_int d) 180 460\<rparr>"

definition resize_editor :: "number \<Rightarrow> layout \<Rightarrow> int \<Rightarrow> layout" where
  "resize_editor innerHeight l d = l\<lparr>editor := clamp (editor l + of_int d) 140 (innerHeight - 220)\<rparr>"

definition resize_stdin :: "number \<Rightarrow> layout \<Rightarrow> int \<Rightarrow> layout" where
  "resize_stdin innerWidth l d = l\<lparr>stdinW := clamp (stdinW l + of_int d) 200 (innerWidth - 480)\<rparr>"

text \<open>The splitter above the history passes the negated difference.\<close>

definition resize_history :: "number \<Rightarrow> layout \<Rightarrow> int \<Rightarrow> layout" where
  "resize_history innerHeight l d = l\<lparr>historyH := clamp (historyH l + of_int (- d)) 60 (innerHeight - 280)\<rparr>"

section \<open>The page\<close>

datatype io_row = SingleRow "stdin_msg vnode" "output_tab vnode" | TestsRow

record page_view =
  v_error :: "(jsstr \<times> bool) option"
  v_backdrop :: bool
  v_picker :: "picker_msg vnode"
  v_bar :: "bar_msg vnode"
  v_row :: io_row
  v_strip :: "unit vnode"

definition App_view :: "jsstr \<Rightarrow> wbar \<Rightarrow> pane \<Rightarrow> nat \<times> nat \<Rightarrow> string \<Rightarrow> app \<Rightarrow> page_view" where
  "App_view q w p cursor themeMode a =
     \<lparr>v_error = map_option (\<lambda>(m, r). ([10007, SPACE] @ m, r)) (a_error a),
      v_backdrop = a_pickerOpen a,
      v_picker = LanguagePicker q (a_lang a) (a_history a) (a_pickerOpen a),
      v_bar = WorkspaceBar w (a_lang a) (a_status a) (a_limits a) (a_ceilings a) (a_apiOnline a) (a_runMode a),
      v_row = (if a_runMode a = js ''single'' then SingleRow (StdinPanel (a_stdin a)) (OutputPane_view a p) else TestsRow),
      v_strip = StatusStrip a cursor themeMode\<rparr>"

section \<open>Lemmas and properties\<close>

lemma offers_run_buttons:
  "set (concat (map offers (run_buttons status apiOnline mode))) =
     (if mode \<noteq> js ''single'' then {} else if isRunning status then {CancelClick}
      else if apiOnline then {RunClick} else {DemoClick, RunClick})"
  by (auto simp: run_buttons_def cls_def)

lemma offers_popover: "set (concat (map offers (limits_popover lims ceils apiOnline))) = {CloseLimits, MemorySlider, TimeSlider}"
  by (auto simp: limits_popover_def slider_def cls_def)

lemma offers_bar:
  "set (offers (WorkspaceBar w l status lims ceils apiOnline mode)) =
     {OpenPicker, ModeTo (js ''single''), ModeTo (js ''tests''), ToggleLimits, ShareClick}
     \<union> (if isRunning status then {} else {FormatClick, ResetClick})
     \<union> set (concat (map offers (run_buttons status apiOnline mode)))
     \<union> (if w_showLimits w then {CloseLimits, MemorySlider, TimeSlider} else {})"
  using offers_popover [of lims ceils apiOnline]
  by (auto simp: WorkspaceBar_def cls_def mode_button_def disabled_if_def lang_icon_def split: option.split)

lemma isRunning_busy: "isRunning (a_status a) = busy a"
  by (simp add: isRunning_def busy_def)



subsection \<open>Dragging\<close>

fun moves :: "pointer list \<Rightarrow> (int \<times> int) list" where
  "moves (Move x y # es) = (x, y) # moves es"
| "moves _ = []"

lemma sum_deltas:
  "sum_list (drag_deltas vertical prev es) = (let ps = moves es in if ps = [] then 0 else (if vertical then fst (last ps) else snd (last ps)) - prev)"
proof (induction vertical prev es rule: drag_deltas.induct)
  case (3 vertical prev x y es)
  then show ?case by (cases "moves es") (auto simp: Let_def)
qed simp_all

lemma clamp_bounds: "lo \<le> clamp n lo hi \<and> clamp n lo hi \<le> max lo hi"
  by (simp add: clamp_def)

lemma clamp_id: "lo \<le> n \<Longrightarrow> n \<le> hi \<Longrightarrow> clamp n lo hi = n"
  by (simp add: clamp_def)

lemma rail_bounds: "180 \<le> rail l \<Longrightarrow> rail l \<le> 460 \<Longrightarrow> 180 \<le> rail (foldl resize_rail l ds) \<and> rail (foldl resize_rail l ds) \<le> 460"
proof (induction ds arbitrary: l)
  case (Cons d ds)
  then show ?case using clamp_bounds [of 180 "rail l + of_int d" 460] by (simp add: resize_rail_def)
qed simp

lemma rail_exact:
  "(\<And>k. k \<le> length ds \<Longrightarrow> 180 \<le> rail l + of_int (sum_list (take k ds)) \<and> rail l + of_int (sum_list (take k ds)) \<le> 460) \<Longrightarrow>
   rail (foldl resize_rail l ds) = rail l + of_int (sum_list ds)"
proof (induction ds arbitrary: l)
  case (Cons d ds)
  have d: "rail (resize_rail l d) = rail l + of_int d"
    using Cons.prems [of 1] by (simp add: resize_rail_def clamp_id)
  have "rail (foldl resize_rail (resize_rail l d) ds) = rail (resize_rail l d) + of_int (sum_list ds)"
  proof (rule Cons.IH)
    fix k assume "k \<le> length ds"
    then show "180 \<le> rail (resize_rail l d) + of_int (sum_list (take k ds)) \<and> rail (resize_rail l d) + of_int (sum_list (take k ds)) \<le> 460"
      using Cons.prems [of "Suc k"] by (simp add: d add.assoc)
  qed
  then show ?case by (simp add: d)
qed simp

text \<open>
  Dragging a splitter. The differences reported add up to the way the pointer went, up to the release
  of the button; the width of the rail stays between 180 and 460 pixels, and as long as the pointer stays
  within those bounds it follows the pointer exactly.
\<close>

theorem drag_follows_pointer:
  assumes "ds = drag_deltas True x0 es" "180 \<le> rail l" "rail l \<le> 460"
  shows "sum_list ds = (if moves es = [] then 0 else fst (last (moves es)) - x0)
    \<and> 180 \<le> rail (foldl resize_rail l ds) \<and> rail (foldl resize_rail l ds) \<le> 460
    \<and> ((\<forall>k \<le> length ds. 180 \<le> rail l + of_int (sum_list (take k ds)) \<and> rail l + of_int (sum_list (take k ds)) \<le> 460)
        \<longrightarrow> rail (foldl resize_rail l ds) = rail l + of_int (sum_list ds))"
  using sum_deltas [of True x0 es] rail_bounds [OF assms(2,3), of ds] rail_exact [of ds l] assms(1)
  by (auto simp: Let_def)

theorem drag_follows_pointer_witness:
  "sum_list (drag_deltas True 10 [Move 15 0, Move 40 3, Up]) = 30
   \<and> rail (foldl resize_rail LAYOUT_DEFAULT (drag_deltas True 10 [Move 15 0, Move 40 3, Up])) \<le> 460"
  using drag_follows_pointer [of "drag_deltas True 10 [Move 15 0, Move 40 3, Up]" 10 "[Move 15 0, Move 40 3, Up]" LAYOUT_DEFAULT]
  by (simp add: LAYOUT_DEFAULT_def)

end
