(* ===== verification/MonacoTheme.thy ===== *)
theory MonacoTheme
  imports JsPrelude
begin

text \<open>
  The colour theme of the editor (\<^verbatim>\<open>playground/monaco-theme.ts\<close>): the palette, the rules that give a token
  class a colour and a font style, and the colours of the editor's own surfaces. In the palette the colours of
  tokens are bare hexadecimal digits, as the rules want them, and the others carry a number sign, as the surfaces
  want them; the lemmas show that every use is of the right kind and that no class is given twice.
\<close>

section \<open>Palette\<close>

record palette =
  p_bg :: string
  p_bgPanel :: string
  p_bgLine :: string
  p_bgSelection :: string
  p_bgSelectionDim :: string
  p_cursor :: string
  p_gutterDim :: string
  p_gutterActive :: string
  p_fg :: string
  p_fgDim :: string
  p_pink :: string
  p_green :: string
  p_yellow :: string
  p_orange :: string
  p_purple :: string
  p_blue :: string
  p_comment :: string
  p_error :: string
  p_findMatch :: string
  p_findMatchHi :: string
  p_rangeHi :: string
  p_minimapFind :: string
  p_scrollShadow :: string
  p_slider :: string
  p_sliderHover :: string
  p_sliderActive :: string
  p_sticky :: string
  p_focusBorder :: string

definition DARK :: palette where
  "DARK = \<lparr>p_bg = ''#221F22'',
     p_bgPanel = ''#2D2A2E'',
     p_bgLine = ''#383539'',
     p_bgSelection = ''#4A474B'',
     p_bgSelectionDim = ''#3D3A3F'',
     p_cursor = ''FFD866'',
     p_gutterDim = ''#5B595C'',
     p_gutterActive = ''#C1C0C0'',
     p_fg = ''FCFCFA'',
     p_fgDim = ''939293'',
     p_pink = ''FF6188'',
     p_green = ''A9DC76'',
     p_yellow = ''FFD866'',
     p_orange = ''FC9867'',
     p_purple = ''AB9DF2'',
     p_blue = ''78DCE8'',
     p_comment = ''727072'',
     p_error = ''FF6188'',
     p_findMatch = ''#FFD86640'',
     p_findMatchHi = ''#FFD86620'',
     p_rangeHi = ''#3D3A3F44'',
     p_minimapFind = ''#FFD86680'',
     p_scrollShadow = ''#1c1a1c'',
     p_slider = ''#3D3A3F88'',
     p_sliderHover = ''#4A474BAA'',
     p_sliderActive = ''#5B595CCC'',
     p_sticky = ''#26232688'',
     p_focusBorder = ''#FFD86655''\<rparr>"

section \<open>Rules\<close>

record rule =
  token :: string
  foreground :: string
  fontStyle :: "string option"

definition plain :: "string \<Rightarrow> string \<Rightarrow> rule" where
  "plain t c = \<lparr>token = t, foreground = c, fontStyle = None\<rparr>"

definition styled :: "string \<Rightarrow> string \<Rightarrow> string \<Rightarrow> rule" where
  "styled t c s = \<lparr>token = t, foreground = c, fontStyle = Some s\<rparr>"

definition rules_default :: "palette \<Rightarrow> rule list" where
  "rules_default C =
    [plain [] (p_fg C),
     plain ''identifier'' (p_fg C),
     plain ''source'' (p_fg C)]"

definition rules_comments :: "palette \<Rightarrow> rule list" where
  "rules_comments C =
    [styled ''comment'' (p_comment C) ''italic'',
     styled ''comment.line'' (p_comment C) ''italic'',
     styled ''comment.block'' (p_comment C) ''italic'',
     styled ''comment.doc'' (p_comment C) ''italic'',
     styled ''comment.doc.invalid'' (p_error C) ''italic underline'',
     styled ''comment.invalid'' (p_error C) ''italic underline'']"

definition rules_keywords :: "palette \<Rightarrow> rule list" where
  "rules_keywords C =
    [plain ''keyword'' (p_pink C),
     plain ''keyword.control'' (p_pink C),
     plain ''keyword.flow'' (p_pink C),
     styled ''keyword.return'' (p_pink C) ''italic'',
     plain ''keyword.operator'' (p_pink C),
     plain ''keyword.other'' (p_pink C),
     plain ''keyword.json'' (p_pink C),
     styled ''keyword.async'' (p_pink C) ''italic'',
     styled ''keyword.non-sealed'' (p_pink C) ''italic'',
     styled ''keyword.type'' (p_blue C) ''italic'',
     plain ''keyword.directive'' (p_orange C),
     plain ''keyword.directive.include'' (p_orange C),
     plain ''keyword.directive.include.begin'' (p_yellow C),
     plain ''keyword.directive.include.end'' (p_yellow C)]"

definition rules_storage :: "palette \<Rightarrow> rule list" where
  "rules_storage C =
    [styled ''storage'' (p_pink C) ''italic'',
     styled ''storage.type'' (p_pink C) ''italic'',
     styled ''storage.modifier'' (p_pink C) ''italic'']"

definition rules_operators :: "palette \<Rightarrow> rule list" where
  "rules_operators C =
    [plain ''operator'' (p_pink C),
     plain ''operator.assignment'' (p_pink C),
     plain ''operator.comparison'' (p_pink C),
     plain ''operator.bitwise'' (p_pink C),
     plain ''operator.logical'' (p_pink C),
     plain ''operator.arithmetic'' (p_pink C)]"

definition rules_strings :: "palette \<Rightarrow> rule list" where
  "rules_strings C =
    [plain ''string'' (p_yellow C),
     plain ''string.quote'' (p_yellow C),
     plain ''string.escape'' (p_orange C),
     styled ''string.escape.invalid'' (p_error C) ''underline'',
     styled ''string.invalid'' (p_error C) ''underline'',
     plain ''string.template'' (p_yellow C),
     plain ''string.heredoc'' (p_yellow C),
     plain ''string.byteliteral'' (p_yellow C),
     plain ''string.raw.begin'' (p_orange C),
     plain ''string.raw.end'' (p_orange C)]"

definition rules_regular :: "palette \<Rightarrow> rule list" where
  "rules_regular C =
    [plain ''regexp'' (p_orange C),
     plain ''regexp.escape'' (p_purple C),
     plain ''regexp.escape.control'' (p_purple C),
     styled ''regexp.invalid'' (p_error C) ''underline'']"

definition rules_numbers :: "palette \<Rightarrow> rule list" where
  "rules_numbers C =
    [plain ''number'' (p_purple C),
     plain ''number.hex'' (p_purple C),
     plain ''number.float'' (p_purple C),
     plain ''number.binary'' (p_purple C),
     plain ''number.octal'' (p_purple C)]"

definition rules_constants :: "palette \<Rightarrow> rule list" where
  "rules_constants C =
    [plain ''constant'' (p_purple C),
     styled ''constant.language'' (p_purple C) ''italic'',
     plain ''constant.numeric'' (p_purple C),
     plain ''constant.character'' (p_yellow C),
     plain ''constant.character.escape'' (p_orange C)]"

definition rules_types :: "palette \<Rightarrow> rule list" where
  "rules_types C =
    [styled ''type'' (p_blue C) ''italic'',
     styled ''type.identifier'' (p_blue C) ''italic'',
     styled ''typeof'' (p_pink C) ''italic'',
     styled ''class'' (p_blue C) ''italic'',
     styled ''class.identifier'' (p_blue C) ''italic'',
     styled ''interface'' (p_blue C) ''italic'',
     styled ''enum'' (p_blue C) ''italic'',
     styled ''struct'' (p_blue C) ''italic'',
     styled ''namespace'' (p_blue C) ''italic'',
     styled ''namespace.identifier'' (p_blue C) ''italic'']"

definition rules_functions :: "palette \<Rightarrow> rule list" where
  "rules_functions C =
    [plain ''function'' (p_green C),
     plain ''function.call'' (p_green C),
     plain ''function.declaration'' (p_green C),
     plain ''identifier.function'' (p_green C),
     plain ''method'' (p_green C),
     plain ''macro'' (p_green C),
     plain ''support.function'' (p_green C),
     plain ''entity.name.function'' (p_green C)]"

definition rules_variables :: "palette \<Rightarrow> rule list" where
  "rules_variables C =
    [plain ''variable'' (p_fg C),
     styled ''variable.parameter'' (p_orange C) ''italic'',
     styled ''variable.predefined'' (p_purple C) ''italic'',
     styled ''variable.language'' (p_purple C) ''italic'',
     plain ''variable.other'' (p_fg C),
     styled ''parameter'' (p_orange C) ''italic'']"

definition rules_delimiters :: "palette \<Rightarrow> rule list" where
  "rules_delimiters C =
    [plain ''delimiter'' (p_fgDim C),
     plain ''delimiter.bracket'' (p_fg C),
     plain ''delimiter.parenthesis'' (p_fg C),
     plain ''delimiter.curly'' (p_fg C),
     plain ''delimiter.square'' (p_fg C),
     plain ''delimiter.angle'' (p_pink C),
     plain ''delimiter.comma'' (p_fgDim C),
     plain ''delimiter.colon'' (p_fgDim C),
     plain ''delimiter.semicolon'' (p_fgDim C),
     plain ''punctuation'' (p_fgDim C)]"

definition rules_annotations :: "palette \<Rightarrow> rule list" where
  "rules_annotations C =
    [styled ''annotation'' (p_orange C) ''italic'',
     plain ''meta'' (p_orange C),
     styled ''meta.decorator'' (p_orange C) ''italic'',
     plain ''metatag'' (p_orange C),
     styled ''attribute'' (p_orange C) ''italic'']"

definition rules_markup :: "palette \<Rightarrow> rule list" where
  "rules_markup C =
    [plain ''tag'' (p_pink C),
     styled ''tag.attribute'' (p_blue C) ''italic'',
     styled ''attribute.name'' (p_blue C) ''italic'',
     plain ''attribute.value'' (p_yellow C),
     plain ''attribute.value.unit'' (p_purple C)]"

definition rules_markdown :: "palette \<Rightarrow> rule list" where
  "rules_markdown C =
    [styled ''markup.heading'' (p_pink C) ''bold'',
     styled ''markup.bold'' (p_fg C) ''bold'',
     styled ''markup.italic'' (p_fg C) ''italic'',
     styled ''markup.strikethrough'' (p_fgDim C) ''strikethrough'',
     styled ''markup.underline.link'' (p_blue C) ''underline'',
     plain ''markup.inline.raw'' (p_yellow C),
     plain ''markup.fenced_code'' (p_yellow C)]"

definition rules_errors :: "palette \<Rightarrow> rule list" where
  "rules_errors C =
    [styled ''invalid'' (p_error C) ''underline'',
     styled ''invalid.illegal'' (p_error C) ''underline'',
     styled ''invalid.deprecated'' (p_error C) ''strikethrough'']"

definition rules_bash :: "palette \<Rightarrow> rule list" where
  "rules_bash C =
    [plain ''type.identifier.shell'' (p_green C),
     plain ''variable.shell'' (p_orange C),
     plain ''string.heredoc.delimiter.shell'' (p_orange C)]"

section \<open>Surfaces\<close>

definition hash :: "string \<Rightarrow> string" where
  "hash c = CHR 0x23 # c"

definition colors_editor :: "palette \<Rightarrow> (string \<times> string) list" where
  "colors_editor C =
    [(''editor.background'', p_bg C),
     (''editor.foreground'', hash (p_fg C)),
     (''editorCursor.foreground'', hash (p_cursor C)),
     (''editor.lineHighlightBackground'', p_bgLine C),
     (''editor.lineHighlightBorder'', p_bgLine C),
     (''editorLineNumber.foreground'', p_gutterDim C),
     (''editorLineNumber.activeForeground'', p_gutterActive C)]"

definition colors_selection :: "palette \<Rightarrow> (string \<times> string) list" where
  "colors_selection C =
    [(''editor.selectionBackground'', p_bgSelection C),
     (''editor.inactiveSelectionBackground'', p_bgSelectionDim C),
     (''editor.selectionHighlightBackground'', p_bgSelectionDim C),
     (''editor.wordHighlightBackground'', p_bgSelectionDim C),
     (''editor.wordHighlightStrongBackground'', p_bgSelection C),
     (''editor.findMatchBackground'', p_findMatch C),
     (''editor.findMatchHighlightBackground'', p_findMatchHi C),
     (''editor.findRangeHighlightBackground'', p_rangeHi C),
     (''editor.rangeHighlightBackground'', p_rangeHi C)]"

definition colors_brackets :: "palette \<Rightarrow> (string \<times> string) list" where
  "colors_brackets C =
    [(''editorBracketMatch.background'', p_bgSelectionDim C),
     (''editorBracketMatch.border'', hash (p_yellow C)),
     (''editorBracketHighlight.foreground1'', hash (p_pink C)),
     (''editorBracketHighlight.foreground2'', hash (p_yellow C)),
     (''editorBracketHighlight.foreground3'', hash (p_blue C)),
     (''editorBracketHighlight.foreground4'', hash (p_green C)),
     (''editorBracketHighlight.foreground5'', hash (p_orange C)),
     (''editorBracketHighlight.foreground6'', hash (p_purple C)),
     (''editorBracketHighlight.unexpectedBracket.foreground'', hash (p_error C))]"

definition colors_indent :: "palette \<Rightarrow> (string \<times> string) list" where
  "colors_indent C =
    [(''editorIndentGuide.background'', p_bgLine C),
     (''editorIndentGuide.background1'', p_bgLine C),
     (''editorIndentGuide.activeBackground'', p_gutterDim C),
     (''editorIndentGuide.activeBackground1'', p_gutterDim C),
     (''editorWhitespace.foreground'', p_bgSelectionDim C),
     (''editorRuler.foreground'', p_bgLine C)]"

definition colors_gutter :: "palette \<Rightarrow> (string \<times> string) list" where
  "colors_gutter C =
    [(''editorGutter.background'', p_bg C),
     (''editorGutter.modifiedBackground'', hash (p_blue C)),
     (''editorGutter.addedBackground'', hash (p_green C)),
     (''editorGutter.deletedBackground'', hash (p_error C)),
     (''minimap.background'', p_bg C),
     (''minimap.selectionHighlight'', p_bgSelection C),
     (''minimap.findMatchHighlight'', p_minimapFind C),
     (''scrollbar.shadow'', p_scrollShadow C),
     (''scrollbarSlider.background'', p_slider C),
     (''scrollbarSlider.hoverBackground'', p_sliderHover C),
     (''scrollbarSlider.activeBackground'', p_sliderActive C)]"

definition colors_sticky :: "palette \<Rightarrow> (string \<times> string) list" where
  "colors_sticky C =
    [(''editorStickyScroll.background'', p_sticky C),
     (''editorStickyScrollHover.background'', p_bgLine C)]"

definition colors_widgets :: "palette \<Rightarrow> (string \<times> string) list" where
  "colors_widgets C =
    [(''editorWidget.background'', p_bgPanel C),
     (''editorWidget.border'', p_bgLine C),
     (''editorWidget.foreground'', hash (p_fg C)),
     (''editorSuggestWidget.background'', p_bgPanel C),
     (''editorSuggestWidget.border'', p_bgLine C),
     (''editorSuggestWidget.selectedBackground'', p_bgSelection C),
     (''editorSuggestWidget.selectedForeground'', hash (p_fg C)),
     (''editorSuggestWidget.foreground'', hash (p_fg C)),
     (''editorSuggestWidget.highlightForeground'', hash (p_yellow C)),
     (''editorHoverWidget.background'', p_bgPanel C),
     (''editorHoverWidget.border'', p_bgLine C),
     (''editorHoverWidget.foreground'', hash (p_fg C))]"

definition colors_lists :: "palette \<Rightarrow> (string \<times> string) list" where
  "colors_lists C =
    [(''list.hoverBackground'', p_bgLine C),
     (''list.activeSelectionBackground'', p_bgSelection C),
     (''list.activeSelectionForeground'', hash (p_fg C)),
     (''list.inactiveSelectionBackground'', p_bgSelectionDim C),
     (''input.background'', p_bgPanel C),
     (''input.foreground'', hash (p_fg C)),
     (''input.border'', p_bgLine C),
     (''focusBorder'', p_focusBorder C),
     (''inputOption.activeBorder'', hash (p_yellow C))]"

section \<open>The theme\<close>

datatype base_theme = VS | VS_DARK

record theme_data =
  base :: base_theme
  inherit :: bool
  rules :: "rule list"
  colors :: "(string \<times> string) list"

definition makeTheme :: "palette \<Rightarrow> base_theme \<Rightarrow> theme_data" where
  "makeTheme C b = \<lparr>base = b, inherit = True,
     rules = rules_default C @ rules_comments C @ rules_keywords C @ rules_storage C @ rules_operators C @ rules_strings C @ rules_regular C
       @ rules_numbers C @ rules_constants C @ rules_types C @ rules_functions C @ rules_variables C @ rules_delimiters C @ rules_annotations C
       @ rules_markup C @ rules_markdown C @ rules_errors C @ rules_bash C,
     colors = colors_editor C @ colors_selection C @ colors_brackets C @ colors_indent C @ colors_gutter C @ colors_sticky C @ colors_widgets C
       @ colors_lists C\<rparr>"

definition themeName :: string where
  "themeName = ''monokai-pro''"

definition editorTheme :: theme_data where
  "editorTheme = makeTheme DARK VS_DARK"

lemmas theme_defs = rules_default_def rules_comments_def rules_keywords_def rules_storage_def rules_operators_def rules_strings_def
  rules_regular_def rules_numbers_def rules_constants_def rules_types_def rules_functions_def rules_variables_def
  rules_delimiters_def rules_annotations_def rules_markup_def rules_markdown_def rules_errors_def rules_bash_def
  colors_editor_def colors_selection_def colors_brackets_def colors_indent_def colors_gutter_def colors_sticky_def
  colors_widgets_def colors_lists_def plain_def styled_def hash_def

section \<open>Well-formedness\<close>

definition hex_digit :: "char \<Rightarrow> bool" where
  "hex_digit c \<longleftrightarrow> c \<in> set ''0123456789abcdefABCDEF''"

text \<open>A rule's colour: six digits. A surface's colour: a number sign and six or eight digits.\<close>

definition bare_hex :: "string \<Rightarrow> bool" where
  "bare_hex s \<longleftrightarrow> length s = 6 \<and> list_all hex_digit s"

definition css_hex :: "string \<Rightarrow> bool" where
  "css_hex s \<longleftrightarrow> s \<noteq> [] \<and> hd s = CHR 0x23 \<and> length s \<in> {7, 9} \<and> list_all hex_digit (tl s)"

definition token_hues :: "palette \<Rightarrow> string list" where
  "token_hues C = [p_cursor C, p_fg C, p_fgDim C, p_pink C, p_green C, p_yellow C, p_orange C, p_purple C, p_blue C, p_comment C,
     p_error C]"

definition surface_hues :: "palette \<Rightarrow> string list" where
  "surface_hues C = [p_bg C, p_bgPanel C, p_bgLine C, p_bgSelection C, p_bgSelectionDim C, p_gutterDim C, p_gutterActive C,
     p_findMatch C, p_findMatchHi C, p_rangeHi C, p_minimapFind C, p_scrollShadow C, p_slider C, p_sliderHover C,
     p_sliderActive C, p_sticky C, p_focusBorder C]"

definition palette_ok :: "palette \<Rightarrow> bool" where
  "palette_ok C \<longleftrightarrow> list_all bare_hex (token_hues C) \<and> list_all css_hex (surface_hues C)"

lemma css_hash: "bare_hex c \<Longrightarrow> css_hex (hash c)"
  by (simp add: bare_hex_def css_hex_def hash_def)

lemma rules_hues: "set (map foreground (rules (makeTheme C b))) \<subseteq> set (token_hues C)"
  by (simp add: makeTheme_def token_hues_def theme_defs)

lemma colors_hues: "set (map snd (colors (makeTheme C b))) \<subseteq> set (surface_hues C) \<union> hash ` set (token_hues C)"
  by (simp add: makeTheme_def token_hues_def surface_hues_def theme_defs)

lemma DARK_ok: "palette_ok DARK"
proof -
  have "list_all bare_hex (token_hues DARK)"
    by (simp add: token_hues_def DARK_def bare_hex_def hex_digit_def)
  moreover have "list_all css_hex (surface_hues DARK)"
    by (simp add: surface_hues_def DARK_def css_hex_def hex_digit_def)
  ultimately show ?thesis by (simp add: palette_ok_def)
qed

lemma tokens_distinct: "distinct (map token (rules (makeTheme C b)))"
  by (simp add: makeTheme_def theme_defs)

lemma surfaces_distinct: "distinct (map fst (colors (makeTheme C b)))"
  by (simp add: makeTheme_def theme_defs)

text \<open>
  The theme is well formed for every palette that keeps its convention (token colours as six bare
  digits, surface colours with a number sign), and the palette of the editor does: every rule has six bare digits
  for a colour, every surface a number sign and six or eight digits, no token class and no surface is given
  twice, and the rules for shell scripts refine the general ones they override.
\<close>

theorem theme_well_formed:
  assumes "palette_ok C"
  shows "list_all (\<lambda>r. bare_hex (foreground r)) (rules (makeTheme C b))
    \<and> list_all (\<lambda>(k, c). css_hex c) (colors (makeTheme C b))
    \<and> distinct (map token (rules (makeTheme C b))) \<and> distinct (map fst (colors (makeTheme C b)))
    \<and> {''type.identifier'', ''variable'', ''string.heredoc''} \<subseteq> set (map token (rules (makeTheme C b)))
    \<and> palette_ok DARK"
proof -
  have "bare_hex (foreground r)" if "r \<in> set (rules (makeTheme C b))" for r
    using that rules_hues [of C b] assms by (auto simp: palette_ok_def list_all_iff)
  moreover have "css_hex c" if "(k, c) \<in> set (colors (makeTheme C b))" for k c
  proof -
    have "c \<in> set (surface_hues C) \<union> hash ` set (token_hues C)"
      using that colors_hues [of C b] by force
    then show ?thesis using assms css_hash by (auto simp: palette_ok_def list_all_iff)
  qed
  moreover have "{''type.identifier'', ''variable'', ''string.heredoc''} \<subseteq> set (map token (rules (makeTheme C b)))"
    by (simp add: makeTheme_def theme_defs)
  ultimately show ?thesis
    using tokens_distinct surfaces_distinct DARK_ok by (auto simp: list_all_iff)
qed

theorem theme_well_formed_witness:
  "list_all (\<lambda>r. bare_hex (foreground r)) (rules editorTheme) \<and> distinct (map token (rules editorTheme))"
  using theme_well_formed [OF DARK_ok, of VS_DARK] by (simp only: editorTheme_def)

end
