(* ===== verification/EditorGrammar.thy ===== *)
theory EditorGrammar
  imports MonacoTheme Catalog
begin

text \<open>
  The editor's grammars (\<^verbatim>\<open>playground/Editor.tsx\<close>): the wrapper that adds colouring of calls, members and
  types to a stock grammar, the registration of the languages, and the hand-written grammar of the shell. The
  stock grammars come with the editor library and are an argument; a regular expression is its source text. The
  lemmas show what the wrapper changes, that every language of the catalogue is registered, and that the shell
  grammar is closed and every token class it emits has a colour.
\<close>

section \<open>Monarch grammars\<close>

datatype m_action = Tok string | Toks "string list" | Cases "(string \<times> string) list"

text \<open>
  A rule with its regular expression, action and next state, or the rules of another state. Names of states and
  of word lists are written without the sign \<^verbatim>\<open>@\<close> that marks a reference.
\<close>

datatype m_rule = Include string | Rule string m_action "string option"

text \<open>An element of an array of the grammar: a string, or something else.\<close>

datatype m_item = Word string | Other

record grammar =
  g_defaultToken :: string
  g_ignoreCase :: bool
  g_postfix :: string
  g_brackets :: "(string \<times> char \<times> char) list"
  g_lists :: "(string \<times> m_item list) list"
  g_symbols :: "string option"
  g_states :: "(string \<times> m_rule list) list"

section \<open>Colouring of calls\<close>

record call_opts =
  lisp :: bool
  pascalType :: bool
  member :: bool

definition no_opts :: call_opts where
  "no_opts = \<lparr>lisp = False, pascalType = False, member = False\<rparr>"

definition letter :: "char \<Rightarrow> bool" where
  "letter c = (let n = of_char c :: nat in (65 \<le> n \<and> n \<le> 90) \<or> (97 \<le> n \<and> n \<le> 122))"

definition word_char :: "char \<Rightarrow> bool" where
  "word_char c = (let n = of_char c :: nat in letter c \<or> (48 \<le> n \<and> n \<le> 57) \<or> n = 95)"

text \<open>\<^verbatim>\<open>/^[A-Za-z_]\w*$/\<close>.\<close>

definition is_identifier :: "string \<Rightarrow> bool" where
  "is_identifier s \<longleftrightarrow> s \<noteq> [] \<and> (letter (hd s) \<or> hd s = CHR 0x5F) \<and> list_all word_char (tl s)"

definition item_words :: "m_item list \<Rightarrow> string list" where
  "item_words its = concat (map (\<lambda>it. case it of Word s \<Rightarrow> if is_identifier s then [s] else [] | Other \<Rightarrow> []) its)"

text \<open>The set of reserved words, in the order of their first insertion.\<close>

definition reserved :: "grammar \<Rightarrow> string list" where
  "reserved g = rev (remdups (rev (concat (map (\<lambda>(k, its). item_words its) (g_lists g)))))"

definition guard :: "grammar \<Rightarrow> string" where
  "guard g = (if reserved g = [] then [] else ''(?!(?:'' @ join ''|'' (reserved g) @ '')'' @ [BS] @ ''b)'')"

text \<open>A state whose name holds one of these words, in any case, holds literals: \<^verbatim>\<open>NON_CODE_STATE\<close>.\<close>

definition NON_CODE_STATE :: "string list" where
  "NON_CODE_STATE = [''string'', ''comment'', ''doc'', ''regex'', ''char'', ''heredoc'', ''pod'', ''raw'', ''literal'', ''cdata'',
     ''whitespace'', ''template'']"

definition non_code :: "string \<Rightarrow> bool" where
  "non_code state = list_ex (\<lambda>w. strIncludes (map lower_char state) w) NON_CODE_STATE"

definition call_prefix :: "call_opts \<Rightarrow> string \<Rightarrow> m_rule list" where
  "call_prefix opts gd =
     (if member opts \<and> \<not> lisp opts
      then [Rule (''(::)('' @ [BS] @ ''s*)('' @ gd @ ''[A-Za-z_]'' @ [BS] @ ''w*)'') (Toks [''operator'', ''white'', ''function'']) None,
            Rule (''('' @ [BS] @ ''.)('' @ [BS] @ ''s*)('' @ gd @ ''[A-Za-z_]'' @ [BS] @ ''w*)'') (Toks [''delimiter'', ''white'', ''function'']) None]
      else [])
     @ (if lisp opts
        then [Rule (''('' @ [BS] @ ''()('' @ [BS] @ ''s*)('' @ gd @ ''[A-Za-z]['' @ [BS] @ ''w.'' @ [BS] @ ''-?!*>=<+/]*)'')
                (Toks [''delimiter.parenthesis'', ''white'', ''function'']) None]
        else [Rule (gd @ ''[A-Za-z_]'' @ [BS] @ ''w*(?='' @ [BS] @ ''s*'' @ [BS] @ ''()'') (Tok ''function'') None])
     @ (if pascalType opts then [Rule (gd @ ''[A-Z]'' @ [BS] @ ''w*'') (Tok ''type'') None] else [])"

definition withCallHighlighting :: "grammar \<Rightarrow> call_opts \<Rightarrow> grammar" where
  "withCallHighlighting g opts =
     g\<lparr>g_states := map (\<lambda>(state, rls). (state, if non_code state then rls else call_prefix opts (guard g) @ rls)) (g_states g)\<rparr>"

section \<open>The shell\<close>

definition shell_keywords :: "string list" where
  "shell_keywords =
    [''if'', ''then'', ''else'', ''elif'', ''fi'', ''for'', ''in'', ''while'', ''until'', ''do'',
     ''done'', ''case'', ''esac'', ''select'', ''function'', ''time'', ''coproc'', ''return'', ''break'', ''continue'',
     ''exit'', ''local'', ''declare'', ''typeset'', ''readonly'', ''export'', ''unset'', ''set'', ''shift'']"

definition shell_builtins :: "string list" where
  "shell_builtins =
    [''read'', ''echo'', ''printf'', ''print'', ''source'', ''eval'', ''exec'', ''test'', ''let'', ''trap'',
     ''getopts'', ''type'', ''command'', ''builtin'', ''enable'', ''alias'', ''unalias'', ''pushd'', ''popd'', ''dirs'',
     ''jobs'', ''fg'', ''bg'', ''wait'', ''disown'', ''kill'', ''killall'', ''umask'', ''ulimit'', ''history'',
     ''complete'', ''compgen'', ''mapfile'', ''readarray'', ''true'', ''false'', ''pwd'', ''cd'', ''hash'', ''help'',
     ''cat'', ''cp'', ''mv'', ''rm'', ''rmdir'', ''mkdir'', ''ln'', ''ls'', ''find'', ''grep'',
     ''egrep'', ''fgrep'', ''sed'', ''awk'', ''gawk'', ''cut'', ''sort'', ''uniq'', ''head'', ''tail'',
     ''tr'', ''tee'', ''wc'', ''xargs'', ''chmod'', ''chown'', ''chroot'', ''touch'', ''clear'', ''diff'',
     ''curl'', ''wget'', ''git'', ''make'', ''gcc'', ''cc'', ''node'', ''npm'', ''python'', ''python3'',
     ''pip'', ''sh'', ''bash'', ''zsh'', ''ssh'', ''scp'', ''tar'', ''gzip'', ''gunzip'', ''zip'',
     ''unzip'', ''date'', ''sleep'', ''env'', ''sudo'', ''su'', ''top'', ''ps'', ''ping'', ''service'',
     ''systemctl'']"

definition shell_root :: "m_rule list" where
  \<open>shell_root =
    [Include ''whitespace'',
     Rule (''[a-zA-Z_]'' @ [BS] @ ''w*'') (Cases [(''keywords'', ''keyword''), (''builtins'', ''type.identifier''), (''default'', [])]) None,
     Include ''strings'',
     Include ''parameters'',
     Include ''heredoc'',
     Rule (''[{}()['' @ [BS] @ '']]'') (Tok ''@brackets'') None,
     Rule ''@symbols'' (Tok ''operator'') None,
     Include ''numbers'',
     Rule ''[;,]'' (Tok ''delimiter'') None]\<close>

definition shell_whitespace :: "m_rule list" where
  \<open>shell_whitespace =
    [Rule ''^#!.*$'' (Tok ''metatag'') None,
     Rule (''('' @ [BS] @ ''s+)(#.*$)'') (Toks [''white'', ''comment'']) None,
     Rule ''^#.*$'' (Tok ''comment'') None,
     Rule ([BS] @ ''s+'') (Tok ''white'') None]\<close>

definition shell_numbers :: "m_rule list" where
  \<open>shell_numbers =
    [Rule ([BS] @ ''d*'' @ [BS] @ ''.'' @ [BS] @ ''d+([eE][-+]?'' @ [BS] @ ''d+)?'') (Tok ''number.float'') None,
     Rule ''0[xX][0-9a-fA-F]+'' (Tok ''number.hex'') None,
     Rule ([BS] @ ''d+'') (Tok ''number'') None]\<close>

definition shell_strings :: "m_rule list" where
  \<open>shell_strings =
    [Rule [SQ] (Tok ''string'') (Some ''sqString''),
     Rule ''"'' (Tok ''string'') (Some ''dqString''),
     Rule ''`'' (Tok ''string.escape'') (Some ''backtick'')]\<close>

definition shell_sqString :: "m_rule list" where
  \<open>shell_sqString =
    [Rule (''[^'' @ [SQ] @ '']+'') (Tok ''string'') None,
     Rule [SQ] (Tok ''string'') (Some ''pop'')]\<close>

definition shell_dqString :: "m_rule list" where
  \<open>shell_dqString =
    [Rule (''[^"'' @ [BS] @ [BS] @ ''$`]+'') (Tok ''string'') None,
     Rule ([BS] @ [BS] @ ''["'' @ [BS] @ [BS] @ ''$`nrtae]'') (Tok ''string.escape'') None,
     Rule ([BS] @ [BS] @ ''.'') (Tok ''string'') None,
     Include ''parameters'',
     Rule ''`'' (Tok ''string.escape'') (Some ''backtick''),
     Rule ''"'' (Tok ''string'') (Some ''pop''),
     Rule ''[$`]'' (Tok ''string'') None]\<close>

definition shell_backtick :: "m_rule list" where
  \<open>shell_backtick =
    [Include ''parameters'',
     Include ''strings'',
     Rule ''`'' (Tok ''string.escape'') (Some ''pop''),
     Rule ''[^`]'' (Tok ''string'') None]\<close>

definition shell_heredoc :: "m_rule list" where
  \<open>shell_heredoc =
    [Rule (''(<<[-~]?)('' @ [BS] @ ''s*)(['' @ [SQ] @ ''"`]?)(['' @ [BS] @ ''w-]+)(['' @ [SQ] @ ''"`]?)'') (Toks [''operator'', ''white'', ''string.heredoc.delimiter'', ''string.heredoc.delimiter'', ''string.heredoc.delimiter'']) None]\<close>

definition shell_parameters :: "m_rule list" where
  \<open>shell_parameters =
    [Rule ([BS] @ ''$'' @ [BS] @ ''('' @ [BS] @ ''('') (Tok ''delimiter.bracket'') (Some ''arithmetic''),
     Rule ([BS] @ ''$'' @ [BS] @ ''('') (Tok ''delimiter.bracket'') (Some ''cmdsubst''),
     Rule ([BS] @ ''$'' @ [BS] @ ''{'') (Tok ''variable'') (Some ''paramExpansion''),
     Rule ([BS] @ ''$'' @ [BS] @ ''d+'') (Tok ''variable.predefined'') None,
     Rule ([BS] @ ''$[@*#?$!0'' @ [BS] @ ''-]'') (Tok ''variable.predefined'') None,
     Rule ([BS] @ ''$'' @ [BS] @ ''w+'') (Tok ''variable'') None]\<close>

definition shell_paramExpansion :: "m_rule list" where
  \<open>shell_paramExpansion =
    [Rule (''[a-zA-Z_]'' @ [BS] @ ''w*'') (Tok ''variable'') None,
     Rule ([BS] @ ''d+'') (Tok ''number'') None,
     Rule ('':[-=?+]?|##?|%%?|'' @ [BS] @ ''^'' @ [BS] @ ''^?|,,?|'' @ [BS] @ ''/'') (Tok ''delimiter'') None,
     Rule ([BS] @ ''}'') (Tok ''variable'') (Some ''pop''),
     Rule ''[^}]'' (Tok ''variable'') None]\<close>

definition shell_arithmetic :: "m_rule list" where
  \<open>shell_arithmetic =
    [Rule ([BS] @ ''$'' @ [BS] @ ''w+'') (Tok ''variable'') None,
     Rule ([BS] @ ''$'' @ [BS] @ ''{'') (Tok ''variable'') (Some ''paramExpansion''),
     Rule ([BS] @ ''d+'') (Tok ''number'') None,
     Rule (''[a-zA-Z_]'' @ [BS] @ ''w*'') (Tok ''variable'') None,
     Rule ''[-+*/%<>=!&|^~?:]+'' (Tok ''operator'') None,
     Rule ([BS] @ '')'' @ [BS] @ '')'') (Tok ''delimiter.bracket'') (Some ''pop''),
     Rule ''[()]'' (Tok ''delimiter.bracket'') None,
     Rule ([BS] @ ''s+'') (Tok ''white'') None]\<close>

definition shell_cmdsubst :: "m_rule list" where
  \<open>shell_cmdsubst =
    [Rule ([BS] @ '')'') (Tok ''delimiter.bracket'') (Some ''pop''),
     Include ''whitespace'',
     Rule (''[a-zA-Z_]'' @ [BS] @ ''w*'') (Cases [(''keywords'', ''keyword''), (''builtins'', ''type.identifier''), (''default'', [])]) None,
     Include ''strings'',
     Include ''parameters'',
     Rule (''[{}['' @ [BS] @ '']]'') (Tok ''@brackets'') None,
     Rule ([BS] @ ''('') (Tok ''delimiter.bracket'') None,
     Rule ''@symbols'' (Tok ''operator'') None,
     Include ''numbers'',
     Rule ''[;,]'' (Tok ''delimiter'') None]\<close>

definition shell_grammar :: grammar where
  "shell_grammar =
    \<lparr>g_defaultToken = [], g_ignoreCase = False, g_postfix = ''.shell'',
     g_brackets = [(''delimiter.bracket'', CHR 0x7B, CHR 0x7D), (''delimiter.parenthesis'', CHR 0x28, CHR 0x29),
       (''delimiter.square'', CHR 0x5B, CHR 0x5D)],
     g_lists = [(''brackets'', replicate 3 Other), (''keywords'', map Word shell_keywords),
       (''builtins'', map Word shell_builtins)],
     g_symbols = Some (''[=><!~?&|+'' @ [BS] @ ''-*/^%]+''),
     g_states = [(''root'', shell_root),
       (''whitespace'', shell_whitespace),
       (''numbers'', shell_numbers),
       (''strings'', shell_strings),
       (''sqString'', shell_sqString),
       (''dqString'', shell_dqString),
       (''backtick'', shell_backtick),
       (''heredoc'', shell_heredoc),
       (''parameters'', shell_parameters),
       (''paramExpansion'', shell_paramExpansion),
       (''arithmetic'', shell_arithmetic),
       (''cmdsubst'', shell_cmdsubst)]\<rparr>"

section \<open>Registration\<close>

definition M_opts :: call_opts where "M_opts = no_opts\<lparr>member := True\<rparr>"
definition MT_opts :: call_opts where "MT_opts = no_opts\<lparr>member := True, pascalType := True\<rparr>"

definition STOCK :: "(string \<times> call_opts) list" where
  "STOCK =
    [(''python'', M_opts), (''javascript'', MT_opts), (''typescript'', MT_opts), (''rust'', MT_opts), (''cpp'', MT_opts),
     (''go'', MT_opts), (''java'', MT_opts), (''dart'', MT_opts), (''lua'', M_opts), (''perl'', M_opts), (''ruby'', M_opts),
     (''r'', no_opts), (''php'', M_opts), (''kotlin'', MT_opts), (''scala'', MT_opts), (''csharp'', MT_opts),
     (''swift'', MT_opts), (''sql'', no_opts)]"

text \<open>
  The registered languages, each with its grammar. \<open>stock\<close> gives the grammar the editor library has for an
  identifier; registering a language again replaces its grammar.
\<close>

type_synonym registry = "(string \<times> grammar) list"

definition register :: "string \<Rightarrow> grammar \<Rightarrow> registry \<Rightarrow> registry" where
  "register i g reg = (i, g) # filter (\<lambda>(j, _). j \<noteq> i) reg"

definition registerEnhancedLang :: "string \<Rightarrow> grammar \<Rightarrow> call_opts \<Rightarrow> registry \<Rightarrow> registry" where
  "registerEnhancedLang i g opts reg = register i (withCallHighlighting g opts) reg"

definition registerExtraGrammars :: "(string \<Rightarrow> grammar) \<Rightarrow> registry \<Rightarrow> registry" where
  "registerExtraGrammars stock reg =
     (if ''shell'' \<in> fst ` set reg then reg
      else register ''shell'' shell_grammar (registerEnhancedLang ''c'' (stock ''cpp'') MT_opts
             (fold (\<lambda>(i, opts). registerEnhancedLang i (stock i) opts) STOCK reg)))"

definition FORMATTER_LANGUAGE_IDS :: "string list" where
  "FORMATTER_LANGUAGE_IDS =
    [''python'', ''javascript'', ''typescript'', ''rust'', ''go'', ''cpp'', ''c'', ''java'',
     ''shell'', ''lua'', ''perl'', ''ruby'', ''r'', ''php'',
     ''kotlin'', ''scala'', ''csharp'', ''swift'', ''sql'', ''dart'']"

definition langId :: "string \<Rightarrow> string" where
  "langId l = l"

section \<open>Lemmas\<close>

lemma map_of_filter_ne: "map_of (filter (\<lambda>(j, _). j \<noteq> i) reg) k = (if k = i then None else map_of reg k)"
  by (induction reg) auto

lemma map_of_register: "map_of (register i g reg) k = (if k = i then Some g else map_of reg k)"
  by (simp add: register_def map_of_filter_ne)

lemma map_of_enhanced: "map_of (registerEnhancedLang i g opts reg) k = (if k = i then Some (withCallHighlighting g opts) else map_of reg k)"
  by (simp add: registerEnhancedLang_def map_of_register)

lemma stock_registered:
  "map_of (fold (\<lambda>(i, opts). registerEnhancedLang i (stock i) opts) ls reg) k =
     (case map_of (rev ls) k of Some opts \<Rightarrow> Some (withCallHighlighting (stock k) opts) | None \<Rightarrow> map_of reg k)"
proof (induction ls arbitrary: reg)
  case (Cons l ls)
  then show ?case by (cases l) (auto simp: map_of_enhanced map_add_def split: option.splits)
qed simp

lemma formatters_eq: "FORMATTER_LANGUAGE_IDS = CmLang"
  by (simp add: FORMATTER_LANGUAGE_IDS_def CmLang_def)

text \<open>States a rule refers to, and the token classes it can emit.\<close>

fun targets :: "m_rule \<Rightarrow> string list" where
  "targets (Include s) = [s]"
| "targets (Rule _ _ (Some s)) = (if s = ''pop'' then [] else [s])"
| "targets (Rule _ _ None) = []"

fun emits :: "m_rule \<Rightarrow> string list" where
  "emits (Include _) = []"
| "emits (Rule _ (Tok t) _) = [t]"
| "emits (Rule _ (Toks ts) _) = ts"
| "emits (Rule _ (Cases cs) _) = map snd cs"

definition grammar_rules :: "grammar \<Rightarrow> m_rule list" where
  "grammar_rules g = concat (map snd (g_states g))"

definition dotted_prefix :: "string \<Rightarrow> string \<Rightarrow> bool" where
  "dotted_prefix p t \<longleftrightarrow> p = t \<or> prefix (p @ ''.'') t"

lemmas shell_states = shell_root_def shell_whitespace_def shell_numbers_def shell_strings_def shell_sqString_def
  shell_dqString_def shell_backtick_def shell_heredoc_def shell_parameters_def shell_paramExpansion_def
  shell_arithmetic_def shell_cmdsubst_def

lemma shell_rules: "grammar_rules shell_grammar = shell_root @ shell_whitespace @ shell_numbers @ shell_strings
   @ shell_sqString @ shell_dqString @ shell_backtick @ shell_heredoc @ shell_parameters @ shell_paramExpansion
   @ shell_arithmetic @ shell_cmdsubst"
  by (simp add: grammar_rules_def shell_grammar_def)

lemma shell_closed: "list_all (\<lambda>r. list_all (\<lambda>s. s \<in> fst ` set (g_states shell_grammar)) (targets r)) (grammar_rules shell_grammar)"
  unfolding shell_rules by (simp add: shell_grammar_def shell_states)


definition theme_tokens :: "string list" where
  "theme_tokens = map token (rules editorTheme)"

lemma shell_emits: "list_all (\<lambda>r. set (emits r) \<subseteq>
    {[], ''white'', ''@brackets'', ''keyword'', ''type.identifier'', ''operator'', ''delimiter'', ''metatag'', ''comment'', ''number.float'',
     ''number.hex'', ''number'', ''string'', ''string.escape'', ''string.heredoc.delimiter'', ''delimiter.bracket'', ''variable'',
     ''variable.predefined''}) (grammar_rules shell_grammar)"
  unfolding shell_rules by (simp add: shell_states)

lemma shell_coloured:
  "set [''keyword'', ''type.identifier'', ''operator'', ''delimiter'', ''metatag'', ''comment'', ''number.float'',
     ''number.hex'', ''number'', ''string'', ''string.escape'', ''delimiter.bracket'', ''variable'',
     ''variable.predefined''] \<subseteq> set theme_tokens"
  by (simp add: theme_tokens_def editorTheme_def makeTheme_def theme_defs)

lemma heredoc_coloured: "''string.heredoc'' \<in> set theme_tokens"
  by (simp add: theme_tokens_def editorTheme_def makeTheme_def theme_defs)

lemma brackets_coloured: "list_all (\<lambda>(t, _, _). t \<in> set theme_tokens) (g_brackets shell_grammar)"
  by (simp add: theme_tokens_def editorTheme_def makeTheme_def theme_defs shell_grammar_def)

lemma heredoc_prefix: "dotted_prefix ''string.heredoc'' ''string.heredoc.delimiter''"
  by (simp add: dotted_prefix_def)

text \<open>
  The shell grammar is usable: every state it includes or moves to exists; every token class a
  rule emits, white space, brackets and plain text apart, is coloured by a rule of the editor's theme for that class
  or a dotted prefix of it; every class of brackets is coloured; and no word is both a keyword and a builtin.
\<close>

theorem shell_grammar_coloured:
  "list_all (\<lambda>r. set (targets r) \<subseteq> fst ` set (g_states shell_grammar)) (grammar_rules shell_grammar)
   \<and> list_all (\<lambda>r. list_all (\<lambda>t. t \<in> {[], ''white'', ''@brackets''} \<or> list_ex (\<lambda>p. dotted_prefix p t) theme_tokens) (emits r))
       (grammar_rules shell_grammar)
   \<and> list_all (\<lambda>(t, _, _). t \<in> set theme_tokens) (g_brackets shell_grammar)
   \<and> set shell_keywords \<inter> set shell_builtins = {}"
proof (intro conjI)
  show "list_all (\<lambda>r. set (targets r) \<subseteq> fst ` set (g_states shell_grammar)) (grammar_rules shell_grammar)"
    using shell_closed by (auto simp: list_all_iff)
  have "t \<in> {[], ''white'', ''@brackets''} \<or> (\<exists>p\<in>set theme_tokens. dotted_prefix p t)"
    if r: "r \<in> set (grammar_rules shell_grammar)" and t: "t \<in> set (emits r)" for r t
  proof (cases "t \<in> set theme_tokens")
    case True
    then show ?thesis by (auto simp: dotted_prefix_def)
  next
    case False
    with shell_emits r t shell_coloured have "t \<in> {[], ''white'', ''@brackets'', ''string.heredoc.delimiter''}"
      unfolding list_all_iff by fastforce
    then show ?thesis using heredoc_coloured heredoc_prefix by auto
  qed
  then show "list_all (\<lambda>r. list_all (\<lambda>t. t \<in> {[], ''white'', ''@brackets''} \<or> list_ex (\<lambda>p. dotted_prefix p t) theme_tokens) (emits r))
       (grammar_rules shell_grammar)"
    unfolding list_all_iff list_ex_iff by blast
  show "set shell_keywords \<inter> set shell_builtins = {}"
    by (simp add: shell_keywords_def shell_builtins_def)
qed (rule brackets_coloured)

text \<open>The wrapper's effect on one state.\<close>

lemma withCallHighlighting_state:
  "map_of (g_states (withCallHighlighting g opts)) s =
     map_option (\<lambda>rls. if non_code s then rls else call_prefix opts (guard g) @ rls) (map_of (g_states g) s)"
proof -
  have "map_of (map (\<lambda>(s, rls). (s, F s rls)) sts) s = map_option (F s) (map_of sts s)" for F :: "string \<Rightarrow> m_rule list \<Rightarrow> m_rule list" and sts
    by (induction sts) auto
  from this [of "\<lambda>s rls. if non_code s then rls else call_prefix opts (guard g) @ rls"]
  show ?thesis by (simp add: withCallHighlighting_def)
qed

lemma withCallHighlighting_rest:
  "withCallHighlighting g opts = g\<lparr>g_states := g_states (withCallHighlighting g opts)\<rparr>"
  "map fst (g_states (withCallHighlighting g opts)) = map fst (g_states g)"
  by (simp_all add: withCallHighlighting_def case_prod_beta comp_def)

lemma reserved_set: "set (reserved g) = {w. is_identifier w \<and> (\<exists>its\<in>snd ` set (g_lists g). Word w \<in> set its)}"
  by (force simp: reserved_def item_words_def split: m_item.splits if_splits)

lemma map_of_rev_distinct: "distinct (map fst xs) \<Longrightarrow> map_of (rev xs) k = map_of xs k"
proof (induction xs)
  case (Cons x xs)
  moreover from Cons.prems have "map_of xs (fst x) = None" by (simp add: map_of_eq_None_iff)
  ultimately show ?case by (cases x) (auto simp: map_add_def split: option.splits)
qed simp

text \<open>The grammar a language of the catalogue gets, and what it owes to the stock grammar it is made from.\<close>

definition enhances :: "grammar \<Rightarrow> call_opts \<Rightarrow> grammar \<Rightarrow> bool" where
  "enhances g0 opts g \<longleftrightarrow> g_lists g = g_lists g0 \<and> map fst (g_states g) = map fst (g_states g0)
     \<and> (\<forall>s. map_of (g_states g) s =
          map_option (\<lambda>rls. if non_code s then rls else call_prefix opts (guard g0) @ rls) (map_of (g_states g0) s))"

lemma withCallHighlighting_enhances: "enhances g opts (withCallHighlighting g opts)"
  unfolding enhances_def using withCallHighlighting_state withCallHighlighting_rest(2) by (simp add: withCallHighlighting_def)

definition grammar_of :: "(string \<Rightarrow> grammar) \<Rightarrow> string \<Rightarrow> grammar option" where
  "grammar_of stock i =
     (if i = ''shell'' then Some shell_grammar
      else if i = ''c'' then Some (withCallHighlighting (stock ''cpp'') MT_opts)
      else map_option (withCallHighlighting (stock i)) (map_of STOCK i))"

lemma registered_grammar: "map_of (registerExtraGrammars stock []) i = grammar_of stock i"
proof -
  have "distinct (map fst STOCK)" by (simp add: STOCK_def)
  then have "map_of (rev STOCK) i = map_of STOCK i" by (intro map_of_rev_distinct)
  then show ?thesis
    by (simp add: registerExtraGrammars_def grammar_of_def map_of_register map_of_enhanced stock_registered split: option.splits)
qed

lemma cm_lang_registered: "list_all (\<lambda>i. grammar_of stock i \<noteq> None) CmLang"
  by (simp add: CmLang_def grammar_of_def STOCK_def)

lemma registered_again: "registerExtraGrammars stock (registerExtraGrammars stock []) = registerExtraGrammars stock []"
proof -
  have "''shell'' \<in> fst ` set (registerExtraGrammars stock [])"
    by (simp add: registerExtraGrammars_def register_def)
  then show ?thesis by (simp add: registerExtraGrammars_def [of stock "registerExtraGrammars stock []"])
qed

text \<open>
  Every language the playground offers is registered with the editor, whatever the stock grammars
  are: it has a formatter and a grammar, the hand-written one for the shell and, for any other language, its stock
  grammar (that of C++ for C) where the states of code, and those only, start with the rules for calls; the words
  those rules leave alone are the identifiers of the stock grammar's word lists; and a second registration
  changes nothing.
\<close>

theorem languages_registered:
  assumes l: "l \<in> set LANG_CATALOG" and i: "i = langId (l_cm l)"
  shows "i \<in> set FORMATTER_LANGUAGE_IDS
    \<and> (if i = ''shell'' then map_of (registerExtraGrammars stock []) i = Some shell_grammar
       else \<exists>g opts. map_of (registerExtraGrammars stock []) i = Some g
         \<and> (if i = ''c'' then opts = MT_opts else (i, opts) \<in> set STOCK)
         \<and> enhances (stock (if i = ''c'' then ''cpp'' else i)) opts g)
    \<and> set (reserved (stock i)) = {w. is_identifier w \<and> (\<exists>its\<in>snd ` set (g_lists (stock i)). Word w \<in> set its)}
    \<and> registerExtraGrammars stock (registerExtraGrammars stock []) = registerExtraGrammars stock []"
proof (intro conjI)
  have cm: "i \<in> set CmLang" using l i starters_highlighted by (simp add: list_all_iff langId_def)
  then show "i \<in> set FORMATTER_LANGUAGE_IDS" by (simp add: formatters_eq)
  from cm cm_lang_registered [of stock] obtain g where "grammar_of stock i = Some g"
    by (auto simp: list_all_iff)
  then show "if i = ''shell'' then map_of (registerExtraGrammars stock []) i = Some shell_grammar
       else \<exists>g opts. map_of (registerExtraGrammars stock []) i = Some g
         \<and> (if i = ''c'' then opts = MT_opts else (i, opts) \<in> set STOCK)
         \<and> enhances (stock (if i = ''c'' then ''cpp'' else i)) opts g"
    using withCallHighlighting_enhances map_of_SomeD [of STOCK i]
    by (fastforce simp: registered_grammar grammar_of_def split: if_splits)
qed (rule reserved_set registered_again)+

definition tiny_stock :: "string \<Rightarrow> grammar" where
  "tiny_stock i = \<lparr>g_defaultToken = [], g_ignoreCase = False, g_postfix = CHR 0x2E # i, g_brackets = [],
     g_lists = [(''keywords'', [Word ''if'', Word ''+='', Word ''def''])], g_symbols = None,
     g_states = [(''root'', [Include ''strings'']), (''strings'', [])]\<rparr>"

theorem languages_registered_witness:
  "guard (tiny_stock ''python'') = ''(?!(?:if|def)'' @ [BS] @ ''b)''
   \<and> non_code ''rawString'' \<and> \<not> non_code ''root''
   \<and> langId (l_cm lang_python) \<in> set FORMATTER_LANGUAGE_IDS
   \<and> (\<exists>g opts. map_of (registerExtraGrammars tiny_stock []) ''python'' = Some g \<and> enhances (tiny_stock ''python'') opts g)"
proof (intro conjI)
  show "guard (tiny_stock ''python'') = ''(?!(?:if|def)'' @ [BS] @ ''b)''"
    by (code_simp)
  have "lang_python \<in> set LANG_CATALOG" by (simp add: LANG_CATALOG_def)
  note R = languages_registered [OF this refl, of tiny_stock]
  have py: "langId (l_cm lang_python) = ''python''" by (simp add: lang_python_def langId_def)
  from R show "langId (l_cm lang_python) \<in> set FORMATTER_LANGUAGE_IDS" by blast
  from R show "\<exists>g opts. map_of (registerExtraGrammars tiny_stock []) ''python'' = Some g \<and> enhances (tiny_stock ''python'') opts g"
    unfolding py by auto
qed (code_simp)+

end
