(* ===== verification/EditorFmt.thy ===== *)
theory EditorFmt
  imports Compare EditorGrammar
begin

text \<open>
  The editor's document (\<^verbatim>\<open>playground/Editor.tsx\<close>): the tidy pass behind the format button with the formatter
  that offers it, and the two-way flow between the page's program and the buffer of the editor library. The
  library's own normalisation of line endings and of cursor positions are arguments. The lemmas show that the
  tidy pass only ever changes white space and settles at once, and that page and buffer agree after one round.
\<close>

section \<open>The tidy pass\<close>

text \<open>\<^verbatim>\<open>text.replace(/\r\n?/g, '\n')\<close>.\<close>

fun lf_only :: "jsstr \<Rightarrow> jsstr" where
  "lf_only [] = []"
| "lf_only [c] = [if c = CR then LF else c]"
| "lf_only (c # d # cs) =
     (if c = CR then LF # (if d = LF then lf_only cs else lf_only (d # cs)) else c # lf_only (d # cs))"

text \<open>\<^verbatim>\<open>lead.replace(/\t/g, '    ')\<close> and \<^verbatim>\<open>.replace(/[ \t]+$/, '')\<close>.\<close>

definition expand_tabs :: "jsstr \<Rightarrow> jsstr" where
  "expand_tabs s = concat (map (\<lambda>c. if c = TAB then replicate 4 SPACE else [c]) s)"

definition strip_end :: "jsstr \<Rightarrow> jsstr" where
  "strip_end s = rev (dropWhile blank (rev s))"

definition tidy_line :: "jsstr \<Rightarrow> jsstr" where
  "tidy_line line =
     (let lead = takeWhile blank line; body = drop (length lead) line
      in strip_end (expand_tabs lead @ body))"

function pop_empty :: "jsstr list \<Rightarrow> jsstr list" where
  "pop_empty ls = (if length ls > 1 \<and> last ls = [] then pop_empty (butlast ls) else ls)"
  by pat_completeness auto

termination pop_empty
  by (relation "measure length") auto

declare pop_empty.simps [simp del]

definition tidyDocument :: "jsstr \<Rightarrow> jsstr" where
  "tidyDocument t =
     (let ls = split_on LF (lf_only t); tidied = map tidy_line ls
      in join [LF] (pop_empty tidied) @ [LF])"

text \<open>The edits of the formatter: none, or the whole text replaced.\<close>

definition provideDocumentFormattingEdits :: "jsstr \<Rightarrow> jsstr list" where
  "provideDocumentFormattingEdits t = (let n = tidyDocument t in if n = t then [] else [n])"

definition registerFormatters :: "string list \<Rightarrow> string \<Rightarrow> (jsstr \<Rightarrow> jsstr list) option" where
  "registerFormatters ids i = (if i \<in> set ids then Some provideDocumentFormattingEdits else None)"

section \<open>The buffer\<close>

record buffer =
  ed_value :: jsstr
  ed_pos :: "nat \<times> nat"
  ed_lang :: string

text \<open>
  \<open>eol\<close> is what the library makes of a text it is given (one kind of line ending), \<open>valid\<close> moves a position into
  the text. The second component of a result are the calls of \<^verbatim>\<open>setCode\<close>.
\<close>

definition create :: "(jsstr \<Rightarrow> jsstr) \<Rightarrow> jsstr \<Rightarrow> string \<Rightarrow> buffer" where
  "create eol code language = \<lparr>ed_value = eol code, ed_pos = (1, 1), ed_lang = langId language\<rparr>"

definition onDidChangeModelContent :: "buffer \<Rightarrow> jsstr list" where
  "onDidChangeModelContent b = [ed_value b]"

definition user_edit :: "jsstr \<Rightarrow> nat \<times> nat \<Rightarrow> buffer \<Rightarrow> buffer \<times> jsstr list" where
  "user_edit t pos b = (let b1 = b\<lparr>ed_value := t, ed_pos := pos\<rparr> in (b1, onDidChangeModelContent b1))"

definition code_effect :: "(jsstr \<Rightarrow> jsstr) \<Rightarrow> (jsstr \<Rightarrow> nat \<times> nat \<Rightarrow> nat \<times> nat) \<Rightarrow> jsstr \<Rightarrow> buffer \<Rightarrow> buffer \<times> jsstr list" where
  "code_effect eol valid code b =
     (if ed_value b \<noteq> code
      then (let b1 = b\<lparr>ed_value := eol code, ed_pos := valid (eol code) (ed_pos b)\<rparr> in (b1, onDidChangeModelContent b1))
      else (b, []))"

definition language_effect :: "string \<Rightarrow> buffer \<Rightarrow> buffer" where
  "language_effect language b = b\<lparr>ed_lang := langId language\<rparr>"

text \<open>A render with the program \<open>code\<close>: the effect, and the program the page has after it.\<close>

definition render :: "(jsstr \<Rightarrow> jsstr) \<Rightarrow> (jsstr \<Rightarrow> nat \<times> nat \<Rightarrow> nat \<times> nat) \<Rightarrow> jsstr \<times> buffer \<Rightarrow> jsstr \<times> buffer" where
  "render eol valid s = (case code_effect eol valid (fst s) (snd s) of (b, sets) \<Rightarrow> (last (fst s # sets), b))"

section \<open>Lemmas on the tidy pass\<close>

lemma lf_only_no_cr: "CR \<notin> set (lf_only t)"
  by (induction t rule: lf_only.induct) auto

lemma lf_only_id: "CR \<notin> set t \<Longrightarrow> lf_only t = t"
  by (induction t rule: lf_only.induct) auto

lemma strip_end_snoc: "strip_end (s @ [c]) = (if blank c then strip_end s else s @ [c])"
  by (simp add: strip_end_def)

lemma strip_end_split: "\<exists>r. s = strip_end s @ r \<and> list_all blank r"
proof (induction s rule: rev_induct)
  case Nil
  show ?case by (simp add: strip_end_def)
next
  case (snoc c s)
  then obtain r where "s = strip_end s @ r" "list_all blank r" by blast
  then show ?case
    by (cases "blank c") (auto simp: strip_end_snoc intro!: exI [of _ "r @ [c]"])
qed

lemma strip_end_last: "strip_end s \<noteq> [] \<Longrightarrow> \<not> blank (last (strip_end s))"
  by (simp add: strip_end_def last_rev hd_dropWhile)

lemma strip_end_id: "s = [] \<or> \<not> blank (last s) \<Longrightarrow> strip_end s = s"
  by (cases s rule: rev_cases) (auto simp: strip_end_snoc, simp add: strip_end_def)

lemma expand_tabs_simps [simp]:
  "expand_tabs [] = []"
  "expand_tabs (c # s) = (if c = TAB then replicate 4 SPACE else [c]) @ expand_tabs s"
  by (simp_all add: expand_tabs_def)

lemma expand_tabs_id: "TAB \<notin> set s \<Longrightarrow> expand_tabs s = s"
  by (induction s) auto

lemma expand_tabs_blank: "list_all blank s \<Longrightarrow> set (expand_tabs s) \<subseteq> {SPACE}"
  by (induction s) (auto simp: blank_def)

text \<open>A line is white space, then nothing or a body that starts with something else.\<close>

lemma tidy_line_eq: "tidy_line l = strip_end (expand_tabs (takeWhile blank l) @ dropWhile blank l)"
  by (simp add: tidy_line_def dropWhile_eq_drop Let_def)

definition tidy_ok :: "jsstr \<Rightarrow> bool" where
  "tidy_ok l \<longleftrightarrow> TAB \<notin> set (takeWhile blank l) \<and> (l = [] \<or> \<not> blank (last l))"

lemma tidy_line_id: "tidy_ok l \<Longrightarrow> tidy_line l = l"
  by (simp add: tidy_line_eq tidy_ok_def expand_tabs_id strip_end_id)

lemma tidy_line_ok: "tidy_ok (tidy_line l)"
proof -
  let ?p = "expand_tabs (takeWhile blank l)" and ?b = "dropWhile blank l"
  have p: "set ?p \<subseteq> {SPACE}"
    by (rule expand_tabs_blank) (auto simp: list_all_iff dest: set_takeWhileD)
  obtain r where r: "?p @ ?b = tidy_line l @ r" "list_all blank r"
    using strip_end_split [of "?p @ ?b"] by (auto simp: tidy_line_eq)
  have hd: "?b \<noteq> [] \<Longrightarrow> \<not> blank (hd ?b)" by (rule hd_dropWhile)
  have "TAB \<notin> set (takeWhile blank (?p @ ?b))"
  proof (cases "?b = []")
    case True
    then show ?thesis using p by (simp only: append_Nil2) (auto dest: set_takeWhileD)
  next
    case False
    with hd have "takeWhile blank ?b = []" by (cases ?b) auto
    moreover have "\<forall>c \<in> set ?p. blank c" using p by (auto simp: blank_def)
    ultimately have "takeWhile blank (?p @ ?b) = ?p" by (simp add: takeWhile_append2)
    then show ?thesis using p by auto
  qed
  moreover have "set (takeWhile blank (tidy_line l)) \<subseteq> set (takeWhile blank (tidy_line l @ r))"
    by (auto simp: takeWhile_append dest: set_takeWhileD)
  ultimately have "TAB \<notin> set (takeWhile blank (tidy_line l))" unfolding r(1) by blast
  then show ?thesis using strip_end_last [of "?p @ ?b"] unfolding tidy_ok_def tidy_line_eq [symmetric] by blast
qed

lemma set_tidy_line: "set (tidy_line l) \<subseteq> set l \<union> {SPACE}"
proof
  fix c assume c: "c \<in> set (tidy_line l)"
  obtain r where "expand_tabs (takeWhile blank l) @ dropWhile blank l = tidy_line l @ r"
    using strip_end_split [of "expand_tabs (takeWhile blank l) @ dropWhile blank l"] by (auto simp: tidy_line_eq)
  then have "c \<in> set (expand_tabs (takeWhile blank l) @ dropWhile blank l)" using c by simp
  moreover have "set (expand_tabs (takeWhile blank l)) \<subseteq> {SPACE}"
    by (rule expand_tabs_blank) (auto simp: list_all_iff dest: set_takeWhileD)
  ultimately show "c \<in> set l \<union> {SPACE}" by (auto dest: set_dropWhileD)
qed

lemma pop_empty_shape:
  assumes "ls \<noteq> []"
  shows "pop_empty ls \<noteq> [] \<and> (\<exists>n. ls = pop_empty ls @ replicate n []) \<and> (length (pop_empty ls) = 1 \<or> last (pop_empty ls) \<noteq> [])"
  using assms
proof (induction ls rule: pop_empty.induct)
  case (1 ls)
  show ?case
  proof (cases "length ls > 1 \<and> last ls = []")
    case True
    then have "butlast ls \<noteq> []" by (cases ls rule: rev_cases) auto
    from "1.IH" [OF True this] obtain n where n: "butlast ls = pop_empty (butlast ls) @ replicate n []" by blast
    have "ls = butlast ls @ [[]]" using True "1.prems" by (metis append_butlast_last_id)
    then have "ls = pop_empty (butlast ls) @ replicate (Suc n) []" using n by (metis append.assoc replicate_Suc replicate_append_same)
    moreover have "pop_empty ls = pop_empty (butlast ls)" using True by (subst pop_empty.simps) simp
    ultimately show ?thesis using "1.IH" [OF True \<open>butlast ls \<noteq> []\<close>] by metis
  next
    case False
    moreover from this have "pop_empty ls = ls" by (subst pop_empty.simps) auto
    moreover have "length ls = 1 \<or> length ls > 1" using "1.prems" by (cases ls) auto
    ultimately show ?thesis using "1.prems" by (auto intro!: exI [of _ 0])
  qed
qed

lemma pop_empty_id: "length ls = 1 \<or> last ls \<noteq> [] \<Longrightarrow> pop_empty ls = ls"
  by (subst pop_empty.simps) auto

lemma pop_empty_snoc: "ls \<noteq> [] \<Longrightarrow> pop_empty (ls @ [[]]) = pop_empty ls"
  by (subst pop_empty.simps) (auto simp: Suc_le_eq)

lemma join_snoc_Nil: "ls \<noteq> [] \<Longrightarrow> join [LF] ls @ [LF] = join [LF] (ls @ [[]])"
proof (induction ls)
  case (Cons l ls)
  then show ?case by (cases "ls = []") (simp_all add: join_cons)
qed simp

lemma split_join: "ls \<noteq> [] \<Longrightarrow> \<forall>l \<in> set ls. LF \<notin> set l \<Longrightarrow> split_on LF (join [LF] ls @ [LF]) = ls @ [[]]"
  unfolding join_snoc_Nil by (rule split_on_join) auto

subsection \<open>What the tidy pass keeps\<close>

lemma words_sep: "is_ws c \<Longrightarrow> words (s @ c # t) = words s @ words t"
proof (induction s)
  case (Cons a s)
  show ?case
  proof (cases "is_ws a \<or> s = [] \<or> is_ws (hd s)")
    case True
    then show ?thesis using Cons by (cases s; cases "is_ws a") (auto simp: words_cons)
  next
    case False
    then have "words s \<noteq> []" by (cases s) (auto simp: words_cons)
    then show ?thesis using False Cons by (cases s) (auto simp: words_cons cons_hd_snoc)
  qed
qed simp

lemma words_prepend: "\<forall>c \<in> set p. is_ws c \<Longrightarrow> words (p @ s) = words s"
  by (induction p) auto

lemma is_ws_break [simp]: "is_ws LF" "is_ws CR" "is_ws SPACE" "is_ws TAB"
  by (simp_all add: is_ws_def)

lemma lf_only_hd: "(lf_only s = [] \<longleftrightarrow> s = []) \<and> (s \<noteq> [] \<longrightarrow> is_ws (hd (lf_only s)) = is_ws (hd s))"
  by (induction s rule: lf_only.induct) auto

lemma words_lf_only: "words (lf_only t) = words t"
proof (induction t rule: lf_only.induct)
  case (3 c d cs)
  then show ?case
    using lf_only_hd [of "d # cs"] by (cases "c = CR"; cases "is_ws c") (auto simp: words_cons)
qed simp_all

lemma words_tidy_line: "words (tidy_line l) = words l"
proof -
  let ?p = "expand_tabs (takeWhile blank l)" and ?b = "dropWhile blank l"
  obtain r where r: "?p @ ?b = tidy_line l @ r" "list_all blank r"
    using strip_end_split [of "?p @ ?b"] by (auto simp: tidy_line_eq)
  have "set ?p \<subseteq> {SPACE}" by (rule expand_tabs_blank) (auto simp: list_all_iff dest: set_takeWhileD)
  then have "words (?p @ ?b) = words ?b" by (intro words_prepend) auto
  also have "words ?b = words (takeWhile blank l @ ?b)"
    by (rule words_prepend [symmetric]) (auto dest!: set_takeWhileD simp: ws_of_blank)
  finally have "words (?p @ ?b) = words l" by simp
  moreover have "\<forall>c \<in> set r. is_ws c" using r(2) by (simp add: list_all_iff ws_of_blank)
  ultimately show ?thesis using words_append_ws [of r "tidy_line l"] by (simp add: r(1))
qed

lemma words_join: "words (join [LF] ls) = concat (map words ls)"
proof (induction ls)
  case (Cons l ls)
  then show ?case by (cases "ls = []") (simp_all add: join_cons words_sep)
qed simp

definition tidied_lines :: "jsstr \<Rightarrow> jsstr list" where
  "tidied_lines t = pop_empty (map tidy_line (split_on LF (lf_only t)))"

definition tidy_lines :: "jsstr list \<Rightarrow> bool" where
  "tidy_lines ls \<longleftrightarrow> ls \<noteq> [] \<and> list_all (\<lambda>l. LF \<notin> set l \<and> CR \<notin> set l \<and> tidy_ok l) ls \<and> (length ls = 1 \<or> last ls \<noteq> [])"

lemma tidyDocument_eq: "tidyDocument t = join [LF] (tidied_lines t) @ [LF]"
  by (simp add: tidyDocument_def tidied_lines_def Let_def)

lemma set_split_on: "l \<in> set (split_on x s) \<Longrightarrow> set l \<subseteq> set s"
proof (induction s arbitrary: l)
  case (Cons c s)
  then show ?case by (cases "split_on x s") (force split: if_splits)+
qed simp

lemma tidied_lines_tidy: "tidy_lines (tidied_lines t)"
proof -
  let ?ls = "map tidy_line (split_on LF (lf_only t))"
  have "LF \<notin> set (tidy_line l) \<and> CR \<notin> set (tidy_line l) \<and> tidy_ok (tidy_line l)" if "l \<in> set (split_on LF (lf_only t))" for l
    using split_on_pieces [OF that] set_split_on [OF that] lf_only_no_cr [of t] set_tidy_line [of l] tidy_line_ok by auto
  then have all: "list_all (\<lambda>l. LF \<notin> set l \<and> CR \<notin> set l \<and> tidy_ok l) ?ls" by (simp add: list_all_iff)
  obtain n where n: "?ls = pop_empty ?ls @ replicate n []" using pop_empty_shape [of ?ls] by auto
  from all have "list_all (\<lambda>l. LF \<notin> set l \<and> CR \<notin> set l \<and> tidy_ok l) (pop_empty ?ls)"
    by (subst (asm) n) simp
  then show ?thesis using pop_empty_shape [of ?ls] by (simp add: tidy_lines_def tidied_lines_def)
qed

lemma tidy_lines_fixed:
  assumes "tidy_lines ls"
  shows "tidyDocument (join [LF] ls @ [LF]) = join [LF] ls @ [LF]"
proof -
  have ls: "ls \<noteq> []" "\<forall>l \<in> set ls. LF \<notin> set l" "\<forall>l \<in> set ls. CR \<notin> set l" "\<forall>l \<in> set ls. tidy_ok l"
    using assms by (auto simp: tidy_lines_def list_all_iff)
  have "CR \<notin> set (join [LF] ls)" using ls(3)
  proof (induction ls)
    case (Cons l ls)
    then show ?case by (cases "ls = []") (simp_all add: join_cons)
  qed simp
  then have "split_on LF (lf_only (join [LF] ls @ [LF])) = ls @ [[]]" using split_join [OF ls(1,2)] by (simp add: lf_only_id)
  moreover have "map tidy_line ls = ls" using ls(4) by (simp add: map_idI tidy_line_id)
  moreover have "tidy_line [] = []" by (rule tidy_line_id) (simp add: tidy_ok_def)
  ultimately have "tidied_lines (join [LF] ls @ [LF]) = pop_empty (ls @ [[]])" by (simp add: tidied_lines_def)
  also have "\<dots> = ls" using assms by (simp add: pop_empty_snoc ls(1) pop_empty_id tidy_lines_def)
  finally show ?thesis by (simp add: tidyDocument_eq)
qed

lemma words_tidyDocument: "words (tidyDocument t) = words t"
proof -
  let ?ls = "split_on LF (lf_only t)"
  obtain n where n: "map tidy_line ?ls = tidied_lines t @ replicate n []"
    using pop_empty_shape [of "map tidy_line ?ls"] by (auto simp: tidied_lines_def)
  have "words (tidyDocument t) = concat (map words (tidied_lines t))"
    using words_append_ws [of "[LF]" "join [LF] (tidied_lines t)"] by (simp add: tidyDocument_eq words_join)
  also have "\<dots> = concat (map words (map tidy_line ?ls))" by (simp add: n del: map_map)
  also have "\<dots> = concat (map words ?ls)" by (simp add: words_tidy_line comp_def)
  also have "\<dots> = words (join [LF] ?ls)" by (simp only: words_join)
  also have "join [LF] ?ls = lf_only t" by (rule join_split_on)
  finally show ?thesis by (simp add: words_lf_only)
qed

text \<open>
  C25. The format button's tidy pass is safe. Whatever the document holds, the pass changes white space only (the
  sequence of words is the same); its result has lines without trailing blanks, tabs in the indentation or
  carriage returns, and ends with exactly one line feed; the formatter reports no edit exactly for the documents
  of that form, so a second pass never changes anything.
\<close>

theorem tidy_pass:
  "words (tidyDocument t) = words t
   \<and> (\<exists>ls. tidy_lines ls \<and> tidyDocument t = join [LF] ls @ [LF])
   \<and> tidyDocument (tidyDocument t) = tidyDocument t
   \<and> (provideDocumentFormattingEdits t = [] \<longleftrightarrow> (\<exists>ls. tidy_lines ls \<and> t = join [LF] ls @ [LF]))
   \<and> set (provideDocumentFormattingEdits t) \<subseteq> {tidyDocument t}"
proof -
  have tidy: "tidy_lines (tidied_lines t)" "tidyDocument t = join [LF] (tidied_lines t) @ [LF]"
    by (rule tidied_lines_tidy, rule tidyDocument_eq)
  then have "tidyDocument (tidyDocument t) = tidyDocument t" using tidy_lines_fixed by simp
  moreover have "provideDocumentFormattingEdits t = [] \<longleftrightarrow> tidyDocument t = t"
    by (auto simp: provideDocumentFormattingEdits_def Let_def)
  moreover have "tidyDocument t = t \<longleftrightarrow> (\<exists>ls. tidy_lines ls \<and> t = join [LF] ls @ [LF])"
    using tidy tidy_lines_fixed by metis
  moreover have "set (provideDocumentFormattingEdits t) \<subseteq> {tidyDocument t}"
    by (auto simp: provideDocumentFormattingEdits_def Let_def)
  ultimately show ?thesis using tidy words_tidyDocument by blast
qed

section \<open>Page and buffer\<close>

text \<open>
  Page and buffer agree. However the library normalises a text, one render after any change of the program
  makes the buffer hold the program of the page, another render changes nothing, so the two never chase each
  other; and the render that follows a keystroke leaves the buffer and its cursor alone.
\<close>

theorem buffer_in_sync:
  "ed_value (snd (render eol valid s)) = fst (render eol valid s)
   \<and> render eol valid (render eol valid s) = render eol valid s
   \<and> fst (render eol valid s) \<in> {fst s, eol (fst s)}
   \<and> snd (user_edit t pos b) = [t]
   \<and> render eol valid (t, fst (user_edit t pos b)) = (t, fst (user_edit t pos b))
   \<and> ed_lang (language_effect l (snd (render eol valid s))) = langId l"
  by (simp add: render_def code_effect_def user_edit_def onDidChangeModelContent_def language_effect_def Let_def)

end
