(* ===== verification/EditorShell.thy ===== *)
theory EditorShell
  imports EditorFmt MonacoTheme
begin

text \<open>
  The shell around the editor library (\<^verbatim>\<open>playground/Editor.tsx\<close>): what the module registers when it is loaded, the options the
  editor is created with, and the life of the component: its references to the latest callbacks, its subscriptions and its
  handle. The lemmas show that a callback of an old render is never called.
\<close>

section \<open>Loading the module\<close>

record lang_config =
  lc_lineComment :: string
  lc_brackets :: "(string \<times> string) list"
  lc_autoClosingPairs :: "(string \<times> string) list"
  lc_surroundingPairs :: "(string \<times> string) list"

definition quote_pairs :: "(string \<times> string) list" where
  "quote_pairs = [(''\"'', ''\"''), ([SQ], [SQ]), (''`'', ''`'')]"

definition shell_ids :: "string \<times> string list \<times> string list" where
  "shell_ids = (''shell'', [''.sh'', ''.bash'', ''.zsh''], [''Shell'', ''sh'', ''bash''])"

definition shell_config :: lang_config where
  "shell_config = \<lparr>lc_lineComment = ''#'',
     lc_brackets = [(''{'', ''}''), (''['', '']''), (''('', '')'')],
     lc_autoClosingPairs = [(''{'', ''}''), (''['', '']''), (''('', '')'')] @ quote_pairs,
     lc_surroundingPairs = [(''{'', ''}''), (''['', '']''), (''('', '')'')] @ quote_pairs\<rparr>"

text \<open>What the library holds for the page: themes, grammars, formatters. It is filled once, in a window that has no environment yet.\<close>

record monaco =
  mo_env :: bool
  mo_themes :: "string list"
  mo_grammars :: registry
  mo_formatters :: "string \<Rightarrow> (jsstr \<Rightarrow> jsstr list) option"

definition load_editor :: "bool \<Rightarrow> (string \<Rightarrow> grammar) \<Rightarrow> monaco \<Rightarrow> monaco" where
  "load_editor window stock m =
     (if \<not> window \<or> mo_env m then m
      else m\<lparr>mo_env := True, mo_themes := mo_themes m @ [themeName], mo_grammars := registerExtraGrammars stock (mo_grammars m),
             mo_formatters := (\<lambda>i. case registerFormatters FORMATTER_LANGUAGE_IDS i of Some f \<Rightarrow> Some f | None \<Rightarrow> mo_formatters m i)\<rparr>)"

section \<open>Options\<close>

datatype option_value = OStr string | ONum number | OBool bool | OGroup "(string \<times> option_value) list"

definition editor_options :: "(string \<times> option_value) list" where
  "editor_options =
    [(''theme'', OStr themeName),
     (''automaticLayout'', OBool True),
     (''fontFamily'', OStr ''IBM Plex Mono, ui-monospace, JetBrains Mono, Menlo, monospace''),
     (''fontSize'', ONum (135 / 10)),
     (''fontLigatures'', OBool True),
     (''lineHeight'', ONum 22),
     (''lineNumbers'', OStr ''on''),
     (''glyphMargin'', OBool False),
     (''folding'', OBool True),
     (''foldingStrategy'', OStr ''indentation''),
     (''bracketPairColorization'', OGroup [(''enabled'', OBool True)]),
     (''minimap'', OGroup [(''enabled'', OBool False)]),
     (''scrollBeyondLastLine'', OBool False),
     (''smoothScrolling'', OBool True),
     (''cursorBlinking'', OStr ''smooth''),
     (''cursorSmoothCaretAnimation'', OStr ''on''),
     (''cursorWidth'', ONum 2),
     (''tabSize'', ONum 4),
     (''insertSpaces'', OBool True),
     (''detectIndentation'', OBool True),
     (''renderWhitespace'', OStr ''selection''),
     (''renderLineHighlight'', OStr ''all''),
     (''occurrencesHighlight'', OStr ''singleFile''),
     (''selectionHighlight'', OBool True),
     (''matchBrackets'', OStr ''always''),
     (''autoClosingBrackets'', OStr ''languageDefined''),
     (''autoClosingQuotes'', OStr ''languageDefined''),
     (''autoIndent'', OStr ''advanced''),
     (''scrollbar'', OGroup [(''verticalScrollbarSize'', ONum 10), (''horizontalScrollbarSize'', ONum 10), (''useShadows'', OBool True)]),
     (''padding'', OGroup [(''top'', ONum 12), (''bottom'', ONum 12)]),
     (''contextmenu'', OBool True),
     (''fixedOverflowWidgets'', OBool True),
     (''guides'', OGroup [(''bracketPairs'', OStr ''active''), (''indentation'', OBool True), (''highlightActiveIndentation'', OBool True)]),
     (''stickyScroll'', OGroup [(''enabled'', OBool True)])]"

section \<open>The component\<close>

text \<open>
  A callback is named by a number, a different one for every closure. \<open>es_editor\<close> is \<^verbatim>\<open>editorRef\<close> with its two subscriptions;
  \<open>es_mounted\<close> tells that the effect of the first render has run.
\<close>

record editor_state =
  es_mounted :: bool
  es_editor :: bool
  es_setCode :: nat
  es_onCursor :: "nat option"

datatype ed_event = Rendered nat "nat option" | Typed jsstr | CursorAt nat nat | Unmounted

datatype ed_call = CallSetCode nat jsstr | CallCursor nat nat nat

definition new_editor :: "nat \<Rightarrow> nat option \<Rightarrow> editor_state" where
  "new_editor f g = \<lparr>es_mounted = False, es_editor = False, es_setCode = f, es_onCursor = g\<rparr>"

text \<open>\<open>host\<close> tells whether the element the editor is put into is there.\<close>

fun ed_step :: "bool \<Rightarrow> ed_event \<Rightarrow> editor_state \<Rightarrow> editor_state \<times> ed_call list" where
  "ed_step host (Rendered f g) s =
     (let s1 = s\<lparr>es_setCode := f, es_onCursor := g\<rparr>
      in (if es_mounted s then s1 else s1\<lparr>es_mounted := True, es_editor := host\<rparr>, []))"
| "ed_step host (Typed v) s = (s, if es_editor s then [CallSetCode (es_setCode s) v] else [])"
| "ed_step host (CursorAt l c) s =
     (s, if es_editor s then (case es_onCursor s of Some g \<Rightarrow> [CallCursor g l c] | None \<Rightarrow> []) else [])"
| "ed_step host Unmounted s = (s\<lparr>es_editor := False\<rparr>, [])"

fun ed_run :: "bool \<Rightarrow> ed_event list \<Rightarrow> editor_state \<Rightarrow> ed_call list" where
  "ed_run host [] s = []"
| "ed_run host (e # es) s = (case ed_step host e s of (s1, cs) \<Rightarrow> cs @ ed_run host es s1)"

text \<open>
  The handle. \<open>fmt\<close> are the library's formatters and \<open>reindent\<close> its own re-indentation; the result tells whether there was an
  editor.
\<close>

definition formatDocument :: "(string \<Rightarrow> (jsstr \<Rightarrow> jsstr list) option) \<Rightarrow> buffer \<Rightarrow> buffer" where
  "formatDocument fmt b = (case fmt (ed_lang b) of
     None \<Rightarrow> b
   | Some edits \<Rightarrow> (case edits (ed_value b) of [] \<Rightarrow> b | t # _ \<Rightarrow> b\<lparr>ed_value := t\<rparr>))"

definition format_handle :: "(string \<Rightarrow> (jsstr \<Rightarrow> jsstr list) option) \<Rightarrow> (buffer \<Rightarrow> buffer) \<Rightarrow> buffer option \<Rightarrow> bool \<times> buffer option" where
  "format_handle fmt reindent ed = (case ed of
     None \<Rightarrow> (False, None)
   | Some b \<Rightarrow> (True, Some (reindent (formatDocument fmt b))))"

section \<open>Lemmas\<close>

lemma shell_pairs: "set (lc_brackets shell_config) \<subseteq> set (lc_autoClosingPairs shell_config)"
  "lc_surroundingPairs shell_config = lc_autoClosingPairs shell_config"
  by (simp_all add: shell_config_def)

text \<open>The tab key and the tidy pass agree on the width of a tab.\<close>

lemma tab_width: "map_of editor_options ''tabSize'' = Some (ONum (of_nat (length (expand_tabs [TAB]))))"
  "map_of editor_options ''insertSpaces'' = Some (OBool (TAB \<notin> set (expand_tabs [TAB])))"
  by (simp_all add: editor_options_def expand_tabs_def)

lemma load_editor_once: "load_editor w stock (load_editor w stock m) = load_editor w stock m"
  by (simp add: load_editor_def)

lemma load_editor_theme: "\<not> mo_env m \<Longrightarrow> map_of editor_options ''theme'' = Some (OStr t) \<Longrightarrow> t \<in> set (mo_themes (load_editor True stock m))"
  by (simp add: load_editor_def editor_options_def)

text \<open>The callbacks of the last render.\<close>

fun called :: "ed_call \<Rightarrow> nat" where
  "called (CallSetCode f v) = f"
| "called (CallCursor g l c) = g"

definition quiet :: "ed_event \<Rightarrow> bool" where
  "quiet e \<longleftrightarrow> (case e of Rendered f g \<Rightarrow> False | _ \<Rightarrow> True)"

lemma step_calls:
  "quiet e \<Longrightarrow> c \<in> set (snd (ed_step host e s)) \<Longrightarrow> es_editor s \<and> (called c = es_setCode s \<or> es_onCursor s = Some (called c))"
  by (cases e; cases "es_onCursor s"; cases "es_editor s") (simp_all add: quiet_def)

lemma step_refs:
  "quiet e \<Longrightarrow> es_setCode (fst (ed_step host e s)) = es_setCode s \<and> es_onCursor (fst (ed_step host e s)) = es_onCursor s
   \<and> es_mounted (fst (ed_step host e s)) = es_mounted s \<and> es_editor (fst (ed_step host e s)) = (es_editor s \<and> e \<noteq> Unmounted)"
  by (cases e) (simp_all add: quiet_def)

lemma quiet_calls:
  "list_all quiet es \<Longrightarrow> c \<in> set (ed_run host es s) \<Longrightarrow> es_editor s \<and> (called c = es_setCode s \<or> es_onCursor s = Some (called c))"
proof (induction es arbitrary: s)
  case (Cons e es)
  let ?s = "fst (ed_step host e s)"
  have q: "quiet e" "list_all quiet es" using Cons.prems(1) by simp_all
  have "c \<in> set (snd (ed_step host e s)) \<or> c \<in> set (ed_run host es ?s)"
    using Cons.prems(2) by (simp add: case_prod_unfold)
  then show ?case using step_calls [OF q(1)] Cons.IH [OF q(2), of ?s] step_refs [OF q(1), of host s] by auto
qed simp

fun after :: "bool \<Rightarrow> ed_event list \<Rightarrow> editor_state \<Rightarrow> editor_state" where
  "after host [] s = s"
| "after host (e # es) s = after host es (fst (ed_step host e s))"

lemma ed_run_append: "ed_run host (es @ fs) s = ed_run host es s @ ed_run host fs (after host es s)"
  by (induction es arbitrary: s) (simp_all split: prod.split)

lemma quiet_after: "list_all quiet es \<Longrightarrow> es_setCode (after host es s) = es_setCode s \<and> es_mounted (after host es s) = es_mounted s
   \<and> (Unmounted \<notin> set es \<longrightarrow> es_editor (after host es s) = es_editor s)"
  by (induction es arbitrary: s) (auto simp: step_refs)

lemma unmounted_for_good: "es_mounted s \<Longrightarrow> \<not> es_editor s \<Longrightarrow> ed_run host es s = []"
proof (induction es arbitrary: s)
  case (Cons e es)
  then show ?case by (cases e) (auto simp: Let_def)
qed simp

text \<open>
  The editor calls the page it belongs to now: whatever happened before, after a render with the callbacks \<open>f\<close> and \<open>g\<close> and
  until the next one, a change of the text calls \<open>f\<close> with the new text, no other callback is ever called, and once the
  component is gone nothing is called any more.
\<close>

theorem latest_callback:
  assumes "list_all quiet es"
  shows "(\<forall>c \<in> set (ed_run host es (after host (pre @ [Rendered f g]) s)). called c = f \<or> g = Some (called c))
    \<and> (if es_editor (after host (pre @ [Rendered f g]) s) \<and> Unmounted \<notin> set es
       then ed_run host [Typed v] (after host (pre @ [Rendered f g] @ es) s) = [CallSetCode f v] else True)
    \<and> ed_run host later (after host (pre @ [Rendered f g] @ es @ [Unmounted]) s) = []"
proof -
  have app: "after host (xs @ ys) s = after host ys (after host xs s)" for xs ys s by (induction xs arbitrary: s) simp_all
  let ?s = "after host (pre @ [Rendered f g]) s"
  have refs: "es_setCode ?s = f" "es_onCursor ?s = g" "es_mounted ?s" by (simp_all add: app Let_def)
  have quiet: "es_setCode (after host es ?s) = f" "es_mounted (after host es ?s)"
    "Unmounted \<notin> set es \<Longrightarrow> es_editor (after host es ?s) = es_editor ?s"
    using quiet_after [OF assms, of host ?s] refs by simp_all
  have eq: "after host (pre @ [Rendered f g] @ es @ fs) s = after host fs (after host es ?s)" for fs by (simp add: app)
  have "ed_run host later (after host [Unmounted] (after host es ?s)) = []"
    using quiet(2) by (intro unmounted_for_good) simp_all
  then show ?thesis
    using quiet_calls [OF assms] refs quiet eq [of "[]"] eq [of "[Unmounted]"] by fastforce
qed

theorem latest_callback_witness:
  "ed_run True [Typed (js ''a''), Rendered 2 None, CursorAt 1 2] (after True ([] @ [Rendered 1 (Some 7)]) (new_editor 0 None)) = [CallSetCode 1 (js ''a'')]
   \<and> ed_run True [Typed (js ''b'')] (after True ([] @ [Rendered 1 (Some 7)] @ [] @ [Unmounted]) (new_editor 0 None)) = []"
proof -
  have "ed_run True [Typed (js ''a'')] (after True ([] @ [Rendered 1 (Some 7)] @ []) (new_editor 0 None)) = [CallSetCode 1 (js ''a'')]"
    "ed_run True [Typed (js ''b'')] (after True ([] @ [Rendered 1 (Some 7)] @ [] @ [Unmounted]) (new_editor 0 None)) = []"
    using latest_callback [of "[]" True "[]" 1 "Some 7" "new_editor 0 None" "js ''a''" "[Typed (js ''b'')]"]
    by (simp_all add: new_editor_def Let_def)
  then show ?thesis by (simp add: new_editor_def Let_def)
qed

end
