(* ===== verification/Theme.thy ===== *)
theory Theme
  imports Storage Machine
begin

text \<open>
  The colour theme of the site (\<^verbatim>\<open>shared/theme.ts\<close>) with the components that show it: the switch in the
  navigation of both pages and the status strip of the playground. The module keeps the choice in the storage and
  the theme in force in an attribute of the document. Seen from outside, it is a preference: a choice of the user, if
  any, over the setting of the system. The refinement is an interpretation of \<open>simulation\<close>.
\<close>

section \<open>The module\<close>

datatype theme = Dark | Light

definition theme_text :: "theme \<Rightarrow> jsstr" where
  "theme_text t = (case t of Dark \<Rightarrow> js ''dark'' | Light \<Rightarrow> js ''light'')"

definition THEME_KEY :: jsstr where
  "THEME_KEY = js ''zerocode.theme''"

text \<open>
  The page: its storage, whether there is a document, whether media queries exist and report changes, what the
  system prefers, the attribute \<^verbatim>\<open>data-theme\<close>, the themes the mounted switches show and the one the status strip shows.
\<close>

record theme_page =
  t_store :: storage
  t_document :: bool
  t_media :: bool
  t_reports :: bool
  t_light :: bool
  t_attr :: "jsstr option"
  t_switches :: "jsstr list"
  t_strip :: "jsstr option"

definition systemTheme :: "theme_page \<Rightarrow> theme" where
  "systemTheme p = (if \<not> t_media p then Dark else if t_light p then Light else Dark)"

definition readStored :: "theme_page \<Rightarrow> theme option" where
  "readStored p = (case safeRead (t_store p) THEME_KEY of
     Some v \<Rightarrow> if v = js ''dark'' then Some Dark else if v = js ''light'' then Some Light else None
   | None \<Rightarrow> None)"

definition read_theme :: "theme_page \<Rightarrow> theme" where
  "read_theme p = opt (systemTheme p) (readStored p)"

definition write_theme :: "theme \<Rightarrow> theme_page \<Rightarrow> theme_page" where
  "write_theme t p = p\<lparr>t_store := tryWrite (t_store p) THEME_KEY (theme_text t)\<rparr>"

text \<open>
  Setting the attribute wakes the observer of the status strip, the event reaches every mounted switch.
\<close>

definition strip_sync :: "theme_page \<Rightarrow> theme_page" where
  "strip_sync p = p\<lparr>t_strip := map_option (\<lambda>_. if t_attr p = Some (js ''light'') then js ''light'' else js ''dark'') (t_strip p)\<rparr>"

definition onChange :: "theme \<Rightarrow> theme_page \<Rightarrow> theme_page" where
  "onChange t p = p\<lparr>t_switches := map (\<lambda>_. theme_text t) (t_switches p)\<rparr>"

definition apply_theme :: "theme \<Rightarrow> theme_page \<Rightarrow> theme_page" where
  "apply_theme t p =
     (if \<not> t_document p then p
      else strip_sync (onChange t (p\<lparr>t_attr := Some (theme_text t)\<rparr>)))"

definition getTheme :: "theme_page \<Rightarrow> jsstr" where
  "getTheme p = opt (theme_text (read_theme p)) (if t_document p then t_attr p else None)"

definition setTheme :: "theme \<Rightarrow> theme_page \<Rightarrow> theme_page" where
  "setTheme t p = apply_theme t (write_theme t p)"

definition toggleTheme :: "theme_page \<Rightarrow> theme_page" where
  "toggleTheme p =
     setTheme (if t_document p \<and> t_attr p = Some (js ''light'') then Dark else Light) p"

definition load_module :: "theme_page \<Rightarrow> theme_page" where
  "load_module p = (if t_document p then apply_theme (read_theme p) p else p)"

definition media_change :: "bool \<Rightarrow> theme_page \<Rightarrow> theme_page" where
  "media_change light p =
     (let p1 = p\<lparr>t_light := light\<rparr>
      in if t_document p \<and> t_media p \<and> t_reports p \<and> readStored p1 = None then apply_theme (systemTheme p1) p1 else p1)"

section \<open>The components\<close>

definition mount_switch :: "theme_page \<Rightarrow> theme_page" where
  "mount_switch p = p\<lparr>t_switches := getTheme p # t_switches p\<rparr>"

definition themeAttr :: "theme_page \<Rightarrow> jsstr" where
  "themeAttr p = (if t_document p then (case t_attr p of Some v \<Rightarrow> if v = [] then js ''dark'' else v | None \<Rightarrow> js ''dark'')
     else js ''dark'')"

definition mount_strip :: "theme_page \<Rightarrow> theme_page" where
  "mount_strip p = strip_sync (p\<lparr>t_strip := Some (themeAttr p)\<rparr>)"

definition isLight :: "jsstr \<Rightarrow> bool" where
  "isLight shown \<longleftrightarrow> shown = js ''light''"

definition switch_label :: "jsstr \<Rightarrow> string" where
  "switch_label shown = (if isLight shown then ''Switch to dark theme'' else ''Switch to light theme'')"

section \<open>The machine\<close>

inductive theme_start :: "theme_page \<Rightarrow> bool" where
  "t_document p \<Longrightarrow> (t_media p \<Longrightarrow> t_reports p) \<Longrightarrow> t_switches p = [] \<Longrightarrow> t_strip p = None \<Longrightarrow>
   (\<And>t. fits (t_store p) THEME_KEY (theme_text t)) \<Longrightarrow> theme_start (load_module p)"

inductive theme_step :: "theme_page \<Rightarrow> theme_page \<Rightarrow> bool" where
  step_toggle: "theme_step p (toggleTheme p)"
| step_set: "theme_step p (setTheme t p)"
| step_media: "t_media p \<Longrightarrow> theme_step p (media_change light p)"
| step_switch: "theme_step p (mount_switch p)"
| step_strip: "theme_step p (mount_strip p)"

inductive_cases theme_startE: "theme_start p"

section \<open>The preference\<close>

record preference =
  chosen :: "theme option"
  system :: theme

definition in_force :: "preference \<Rightarrow> theme" where
  "in_force q = opt (system q) (chosen q)"

fun other_theme :: "theme \<Rightarrow> theme" where
  "other_theme Dark = Light"
| "other_theme Light = Dark"

inductive pref_start :: "preference \<Rightarrow> bool" where
  "pref_start q"

inductive pref_step :: "preference \<Rightarrow> preference \<Rightarrow> bool" where
  pref_choose: "pref_step q (q\<lparr>chosen := Some t\<rparr>)"
| pref_system: "pref_step q (q\<lparr>system := t\<rparr>)"

definition preference_of :: "theme_page \<Rightarrow> preference" where
  "preference_of p = \<lparr>chosen = readStored p, system = systemTheme p\<rparr>"

definition theme_inv :: "theme_page \<Rightarrow> bool" where
  "theme_inv p \<longleftrightarrow> t_document p \<and> (t_media p \<longrightarrow> t_reports p) \<and> (\<forall>t. fits (t_store p) THEME_KEY (theme_text t))
     \<and> t_attr p = Some (theme_text (in_force (preference_of p)))
     \<and> set (t_switches p) \<subseteq> {theme_text (in_force (preference_of p))}
     \<and> t_strip p \<in> {None, Some (theme_text (in_force (preference_of p)))}"

section \<open>Lemmas\<close>

lemma theme_text_inject [simp]: "theme_text t = theme_text t' \<longleftrightarrow> t = t'"
  by (cases t; cases t') (simp_all add: theme_text_def)

lemma theme_text_cases [simp]:
  "theme_text t = js ''light'' \<longleftrightarrow> t = Light" "theme_text t = js ''dark'' \<longleftrightarrow> t = Dark" "theme_text t \<noteq> []"
  by (cases t; simp add: theme_text_def)+

lemma strip_text: "(if t = Light then js ''light'' else js ''dark'') = theme_text t"
  by (cases t) (simp_all add: theme_text_def)

lemma apply_fields [simp]:
  "t_store (apply_theme t p) = t_store p" "t_document (apply_theme t p) = t_document p" "t_media (apply_theme t p) = t_media p"
  "t_reports (apply_theme t p) = t_reports p" "t_light (apply_theme t p) = t_light p"
  "systemTheme (apply_theme t p) = systemTheme p" "readStored (apply_theme t p) = readStored p"
  by (simp_all add: apply_theme_def strip_sync_def onChange_def systemTheme_def readStored_def)

lemma apply_shown:
  assumes "t_document p"
  shows "t_attr (apply_theme t p) = Some (theme_text t)" "set (t_switches (apply_theme t p)) \<subseteq> {theme_text t}"
    "t_strip (apply_theme t p) \<in> {None, Some (theme_text t)}"
  using assms by (auto simp: apply_theme_def strip_sync_def onChange_def strip_text)

lemma obj_put_again: "obj_put k v' (obj_put k v ps) = obj_put k v' ps"
  by (induction k v ps rule: obj_put.induct) auto

lemma fits_again: "fits st k v \<Longrightarrow> fits st k v' \<Longrightarrow> fits (tryWrite st k v) k v'"
  by (auto simp: storage_ops obj_put_again split: if_splits)

lemma write_stored:
  assumes "fits (t_store p) THEME_KEY (theme_text t)"
  shows "readStored (write_theme t p) = Some t"
  using assms by (cases t) (simp_all add: readStored_def write_theme_def web.read_write theme_text_def)

lemma apply_inv:
  assumes "t_document p" "t_media p \<longrightarrow> t_reports p" "\<forall>t. fits (t_store p) THEME_KEY (theme_text t)"
    and "t = in_force (preference_of p)"
  shows "theme_inv (apply_theme t p)"
  using assms apply_shown [OF assms(1), of t] by (simp add: theme_inv_def preference_of_def)

lemma load_inv: "theme_start p \<Longrightarrow> theme_inv p"
  by (erule theme_startE) (auto simp: load_module_def read_theme_def in_force_def preference_of_def intro!: apply_inv)

lemma set_inv:
  assumes "theme_inv p"
  shows "theme_inv (setTheme t p)" "preference_of (setTheme t p) = (preference_of p)\<lparr>chosen := Some t\<rparr>"
proof -
  have f: "fits (t_store p) THEME_KEY (theme_text t)" for t using assms by (simp add: theme_inv_def)
  have s: "systemTheme (write_theme t p) = systemTheme p" by (simp add: systemTheme_def write_theme_def)
  show "preference_of (setTheme t p) = (preference_of p)\<lparr>chosen := Some t\<rparr>"
    by (simp add: setTheme_def preference_of_def write_stored [OF f] s)
  have "\<forall>t'. fits (t_store (write_theme t p)) THEME_KEY (theme_text t')"
    using fits_again [OF f f] by (simp add: write_theme_def)
  then show "theme_inv (setTheme t p)"
    unfolding setTheme_def using assms write_stored [OF f]
    by (intro apply_inv) (simp_all add: theme_inv_def in_force_def preference_of_def, simp_all add: write_theme_def)
qed

lemma media_inv:
  assumes "theme_inv p" "t_media p"
  shows "theme_inv (media_change light p)"
    "preference_of (media_change light p) = (preference_of p)\<lparr>system := if light then Light else Dark\<rparr>"
proof -
  let ?p = "p\<lparr>t_light := light\<rparr>"
  have st: "readStored ?p = readStored p" by (simp add: readStored_def)
  have sys: "systemTheme ?p = (if light then Light else Dark)" using assms(2) by (simp add: systemTheme_def)
  show "preference_of (media_change light p) = (preference_of p)\<lparr>system := if light then Light else Dark\<rparr>"
    using sys st by (cases light) (simp_all add: media_change_def preference_of_def Let_def)
  show "theme_inv (media_change light p)"
  proof (cases "readStored p")
    case None
    then have "media_change light p = apply_theme (systemTheme ?p) ?p"
      using assms st by (simp add: media_change_def theme_inv_def Let_def)
    moreover have "theme_inv (apply_theme (systemTheme ?p) ?p)"
      using assms None st by (intro apply_inv) (simp_all add: theme_inv_def in_force_def preference_of_def)
    ultimately show ?thesis by simp
  next
    case (Some t)
    then have "media_change light p = ?p" using st by (simp add: media_change_def)
    then show ?thesis using assms Some st by (simp add: theme_inv_def in_force_def preference_of_def)
  qed
qed

lemma toggle_sets: "theme_inv p \<Longrightarrow> toggleTheme p = setTheme (other_theme (in_force (preference_of p))) p"
  by (cases "in_force (preference_of p)") (simp_all add: toggleTheme_def theme_inv_def theme_text_def)

lemma mount_inv:
  assumes "theme_inv p"
  shows "theme_inv (mount_switch p)" "preference_of (mount_switch p) = preference_of p"
    "theme_inv (mount_strip p)" "preference_of (mount_strip p) = preference_of p"
proof -
  show 1: "preference_of (mount_switch p) = preference_of p" "preference_of (mount_strip p) = preference_of p"
    by (simp_all add: preference_of_def mount_switch_def mount_strip_def strip_sync_def readStored_def systemTheme_def)
  show "theme_inv (mount_switch p)"
    using assms 1(1) by (simp add: theme_inv_def) (simp add: mount_switch_def getTheme_def)
  show "theme_inv (mount_strip p)"
    using assms 1(2) by (simp add: theme_inv_def) (simp add: mount_strip_def strip_sync_def strip_text)
qed

lemma theme_step_sim:
  assumes "theme_inv p" "theme_step p p'"
  shows "theme_inv p' \<and> (pref_step (preference_of p) (preference_of p') \<or> preference_of p' = preference_of p)"
  using assms(2,1)
proof (induction rule: theme_step.induct)
  case (step_toggle p)
  then show ?case using set_inv [OF step_toggle] by (simp add: toggle_sets pref_choose)
next
  case (step_set p t)
  then show ?case using set_inv [OF step_set] by (simp add: pref_choose)
next
  case (step_media p light)
  then show ?case using media_inv [OF step_media(2,1)] by (simp add: pref_system)
next
  case (step_switch p)
  then show ?case using mount_inv [OF step_switch] by simp
next
  case (step_strip p)
  then show ?case using mount_inv [OF step_strip] by simp
qed

interpretation themes: simulation theme_start theme_step theme_inv preference_of pref_start pref_step
  by unfold_locales (use load_inv theme_step_sim in \<open>auto intro: pref_start.intros\<close>)

section \<open>Properties\<close>


definition plain_page :: theme_page where
  "plain_page = \<lparr>t_store = \<lparr>items = [], allowed = True, quota = 100\<rparr>, t_document = True, t_media = True, t_reports = True,
     t_light = True, t_attr = None, t_switches = [], t_strip = None\<rparr>"


text \<open>Without a storage the choice lasts only until the system changes its setting.\<close>

lemma denied_choice_is_lost:
  assumes "t_document p" "t_media p" "t_reports p" "\<not> allowed (t_store p)"
  shows "t_attr (media_change light (setTheme t p)) = Some (theme_text (if light then Light else Dark))"
proof -
  have "readStored ((setTheme t p)\<lparr>t_light := light\<rparr>) = None"
    using assms(4) by (simp add: readStored_def setTheme_def write_theme_def web.unavailable_read)
  then show ?thesis
    using assms by (simp add: media_change_def Let_def apply_shown setTheme_def write_theme_def) (simp add: systemTheme_def)
qed

end
