(* ===== verification/Landing.thy ===== *)
theory Landing
  imports Dom Catalog
begin

text \<open>
  The landing page (\<^verbatim>\<open>landing/*.tsx\<close>) as element trees, with the build flag that hides the documentation
  (\<^verbatim>\<open>shared/flags.ts\<close>), the state of its navigation and the typing demonstration of the hero. Style sheets,
  inline styles, accessibility labels and the wrappers that only animate are left out, drawings are empty \<^verbatim>\<open>svg\<close> elements;
  the theme switch, the ring diagram and the teaser have theories of their own. The lemmas are about the typing demonstration.
\<close>

section \<open>Flags\<close>

text \<open>The argument is the value of \<^verbatim>\<open>VITE_HIDE_DOCS\<close> at build time.\<close>

definition HIDE_DOCS :: "string option \<Rightarrow> bool" where
  "HIDE_DOCS env \<longleftrightarrow> env = Some ''true''"

definition GET_STARTED_HREF :: "string option \<Rightarrow> string" where
  "GET_STARTED_HREF env = (if HIDE_DOCS env then ''/playground.html'' else ''/docs/quickstart'')"

definition href :: "string \<Rightarrow> (string \<times> jsstr) list" where
  "href h = [(''href'', js h)]"

definition link :: "string \<Rightarrow> jsstr \<Rightarrow> 'm vnode" where
  "link h t = El ''a'' (href h) [] [Txt t]"

definition doc_link :: "string option \<Rightarrow> string \<Rightarrow> jsstr \<Rightarrow> 'm vnode list" where
  "doc_link env h t = only_if (\<not> HIDE_DOCS env) [link h t]"

definition bold :: "string \<Rightarrow> 'm vnode" where
  "bold t = El ''b'' [] [] [Txt (js t)]"

definition tag :: "string \<Rightarrow> jsstr \<Rightarrow> 'm vnode list \<Rightarrow> 'm vnode" where
  "tag t c kids = El t (cls c) [] kids"

section \<open>Navigation\<close>

datatype landing_msg = SwitchTheme | BurgerClick | MenuLink | HoverLayer nat | RunTeaser

record nav =
  n_scrolled :: bool
  n_menuOpen :: bool

text \<open>The scroll position in per cent, for the style sheet, and whether the bar is drawn solid.\<close>

definition scroll_pct :: "number \<Rightarrow> number \<Rightarrow> number" where
  "scroll_pct y mx = (if mx > 0 then min 100 ((y / mx) * 100) else 0)"

definition onScroll :: "number \<Rightarrow> nav \<Rightarrow> nav" where
  "onScroll y n = n\<lparr>n_scrolled := y > 20\<rparr>"

definition burger :: "nav \<Rightarrow> nav" where
  "burger n = n\<lparr>n_menuOpen := \<not> n_menuOpen n\<rparr>"

text \<open>Listeners while the menu is open: Escape, and a click outside the bar and the sheet.\<close>

definition nav_key :: "jsstr \<Rightarrow> nav \<Rightarrow> nav" where
  "nav_key k n = (if n_menuOpen n \<and> k = js ''Escape'' then n\<lparr>n_menuOpen := False\<rparr> else n)"

definition nav_click :: "bool \<Rightarrow> nav \<Rightarrow> nav" where
  "nav_click inside n = (if n_menuOpen n \<and> \<not> inside then n\<lparr>n_menuOpen := False\<rparr> else n)"

definition sheet_link :: "string \<Rightarrow> string \<Rightarrow> landing_msg vnode" where
  "sheet_link h t = El ''a'' (href h) [(''click'', MenuLink)] [Txt (js t), tag ''span'' (js ''arrow'') [Txt [8594]]]"

definition Nav :: "string option \<Rightarrow> nav \<Rightarrow> landing_msg vnode list" where
  "Nav env n =
     [tag ''div'' (js ''zc-scrollbar'') [],
      tag ''nav'' (js ''zc-nav '' @ (if n_scrolled n then js ''is-scrolled'' else []))
       [tag ''div'' (js ''zc-nav-inner'')
         [El ''a'' (cls (js ''zc-mark'') @ href ''/'') [] [tag ''span'' (js ''zc-mark-glyph'') [icon_svg], bold ''zerocode''],
          tag ''div'' (js ''zc-nav-links'')
            ([link ''#isolation'' (js ''isolation''), link ''#how'' (js ''how it works''), link ''#languages'' (js ''languages''),
              link ''#batch'' (js ''test cases'')]
             @ doc_link env ''/docs/'' (js ''docs'')
             @ [link ''/playground.html'' (js ''playground'')]),
          tag ''div'' (js ''zc-nav-right'')
            [El ''button'' (cls (js ''zc-theme'')) [(''click'', SwitchTheme)] [icon_svg],
             El ''a'' (cls (js ''zc-cta-primary'') @ href (GET_STARTED_HREF env)) [] [tag ''span'' (js ''cta-label'') [Txt (js ''get started'')], icon_svg],
             El ''button'' (cls (js ''zc-nav-burger'')) [(''click'', BurgerClick)] [icon_svg]]]]]
     @ only_if (n_menuOpen n)
       [tag ''div'' (js ''zc-nav-mobile-sheet'')
         ([sheet_link ''#isolation'' ''isolation'', sheet_link ''#how'' ''how it works'', sheet_link ''#languages'' ''languages'',
           sheet_link ''#batch'' ''test cases'']
          @ only_if (\<not> HIDE_DOCS env) [sheet_link ''/docs/'' ''docs'']
          @ [sheet_link ''/playground.html'' ''playground'',
             El ''a'' (cls (js ''cta'') @ href (GET_STARTED_HREF env)) [(''click'', MenuLink)] [Txt (js ''get started '' @ [8594])]])]"

section \<open>Hero\<close>

definition CURL :: jsstr where
  "CURL = (js ''curl -X POST https://api.example.com/v1/submissions?wait=true '' @ [92, 10] @ js ''  -d '' @ [39] @ js ''{'' @ [34] @ js ''language_id'' @ [34] @ js '':71,'' @ [34] @ js ''source_code'' @ [34] @ js '':'' @ [34] @ js ''print('' @ [92, 34] @ js ''hello, sandbox'' @ [92, 34] @ js '')'' @ [34] @ js ''}'' @ [39])"

definition OUTPUT_LINES :: "(string \<times> jsstr) list" where
  "OUTPUT_LINES =
    [(''st-queued'', ([10230] @ js '' queued '' @ [183] @ js '' token zc_a3f29c8b'')),
     (''st-queued'', ([10230] @ js '' processing '' @ [183] @ js '' worker-1 claimed'')),
     (''fg-1'', js ''hello, sandbox''),
     (''st-accepted'', ([10003] @ js '' accepted '' @ [183] @ js '' 47 ms wall '' @ [183] @ js '' 8.2 MB mem''))]"

record hero =
  h_typed :: jsstr
  h_showOut :: int
  h_restart :: nat

datatype hero_timer = SetTyped jsstr | SetShowOut int | SetRestart

text \<open>The effect of a render: the timers it sets, with their delays in milliseconds. Before, typed and shown text are cleared.\<close>

definition afterType :: nat where
  "afterType = length CURL * 14 + 320"

definition hero_timers :: "(nat \<times> hero_timer) list" where
  "hero_timers =
     map (\<lambda>i. (i * 14, SetTyped (take i CURL))) [1..<length CURL + 1]
     @ map (\<lambda>i. (afterType + i * 480, SetShowOut (int i))) [0..<length OUTPUT_LINES]
     @ [(afterType + length OUTPUT_LINES * 480 + 3600, SetRestart)]"

definition hero_effect :: "bool \<Rightarrow> hero \<Rightarrow> hero \<times> (nat \<times> hero_timer) list" where
  "hero_effect prefersReduced h =
     (if prefersReduced then (h\<lparr>h_typed := CURL, h_showOut := int (length OUTPUT_LINES) - 1\<rparr>, [])
      else (h\<lparr>h_typed := [], h_showOut := -1\<rparr>, hero_timers))"

fun fire :: "hero_timer \<Rightarrow> hero \<Rightarrow> hero" where
  "fire (SetTyped t) h = h\<lparr>h_typed := t\<rparr>"
| "fire (SetShowOut i) h = h\<lparr>h_showOut := i\<rparr>"
| "fire SetRestart h = h\<lparr>h_restart := h_restart h + 1\<rparr>"

text \<open>The state \<open>ms\<close> milliseconds after the effect: timers fire in the order of their delays, which is their order in the list.\<close>

definition hero_at :: "nat \<Rightarrow> hero \<Rightarrow> hero" where
  "hero_at ms h = (case hero_effect False h of (h1, ts) \<Rightarrow> foldl (\<lambda>h (d, t). if d \<le> ms then fire t h else h) h1 ts)"

definition Hero :: "string option \<Rightarrow> hero \<Rightarrow> landing_msg vnode" where
  "Hero env h =
     tag ''section'' (js ''zc-hero'') [tag ''div'' (js ''zc-hero-inner'')
       [El ''h1'' [] [] [Txt (js ''Run untrusted code.''), El ''br'' [] [] [], tag ''span'' (js ''it'') [Txt (js ''Without the prayer.'')]],
        tag ''p'' (js ''sub'') [Txt (js ''A self-hosted code-execution sandbox in Rust. Eight kernel-enforced isolation layers, sub-5 ms job pickup, REST + SSE. 20 languages out of the box '' @ [8212] @ js '' the Core 7 plus 13 more popular languages.'')],
        tag ''div'' (js ''zc-hero-cta'')
          [El ''a'' (cls (js ''primary'') @ href (GET_STARTED_HREF env)) [] [Txt (js ''Get started ''), tag ''span'' (js ''arrow'') [Txt [8594]]],
           El ''a'' (cls (js ''ghost'') @ href ''/playground.html'') [] [Txt (js ''Try the playground'')]],
        tag ''div'' (js ''zc-hero-meta'')
          [El ''span'' [] [] [bold ''8'', Txt (js '' isolation layers'')], El ''span'' [] [] [bold ''60'', Txt (js '' languages'')],
           El ''span'' [] [] [bold ''< 5 ms'', Txt (js '' dispatch p99'')],
           El ''span'' [] [] [bold ''71'', Txt (js '' tests '' @ [183] @ js '' ''), bold ''0'', Txt (js '' CVEs'')]],
        tag ''div'' (js ''zc-term'')
          [tag ''div'' (js ''zc-term-hd'') [tag ''span'' (js ''light'') [], tag ''span'' (js ''light'') [], tag ''span'' (js ''light'') [], tag ''span'' (js ''label'') [Txt (js ''~/zerocode '' @ [183] @ js '' zsh'')]],
           tag ''div'' (js ''zc-term-bd'')
             ([tag ''span'' (js ''pr'') [Txt (js ''$'')], Txt (h_typed h)]
              @ only_if (length (h_typed h) < length CURL) [tag ''span'' (js ''caret'') []]
              @ only_if (h_showOut h \<ge> 0)
                [tag ''div'' (js ''out'')
                  (map (\<lambda>(c, t). tag ''div'' (js ''ln '' @ js c) [Txt t]) (take (nat (h_showOut h + 1)) OUTPUT_LINES)
                   @ only_if (h_showOut h \<ge> int (length OUTPUT_LINES) - 1)
                     [tag ''div'' (js ''ln'') [tag ''span'' (js ''pr'') [Txt (js ''$'')], tag ''span'' (js ''caret'') []]])])]]]"

section \<open>Sections\<close>

definition SectionHeader :: "string \<Rightarrow> jsstr \<Rightarrow> jsstr \<Rightarrow> 'm vnode" where
  "SectionHeader kicker title sub =
     tag ''header'' (js ''zc-sh'') ([tag ''span'' (js ''k'') [Txt (js kicker)], El ''h2'' [(''html'', title)] [] []]
       @ only_if (sub \<noteq> []) [El ''p'' [] [] [Txt sub]])"

text \<open>A section with an anchor; its content is in an inner element whose class ends in \<^verbatim>\<open>-inner\<close>.\<close>

definition anchored :: "jsstr \<Rightarrow> string \<Rightarrow> 'm vnode list \<Rightarrow> 'm vnode" where
  "anchored c i kids = El ''section'' (cls c @ [(''id'', js i)]) [] [tag ''div'' (c @ js ''-inner'') kids]"

record step =
  s_n :: string
  s_title :: string
  s_body :: jsstr
  s_code :: jsstr

definition STEPS :: "step list" where
  "STEPS =
    [\<lparr>s_n = ''01'', s_title = ''Submit'',
      s_body = (js ''POST source code + language ID. The API writes a row to Postgres, fires NOTIFY, and returns a token in single-digit milliseconds.''),
      s_code = (js ''POST /v1/submissions'' @ [10] @ js ''{ '' @ [34] @ js ''language_id'' @ [34] @ js '': 71,'' @ [10] @ js ''  '' @ [34] @ js ''source_code'' @ [34] @ js '': '' @ [34] @ js ''print('' @ [92, 34] @ js ''hi'' @ [92, 34] @ js '')'' @ [34] @ js '' }'')\<rparr>,
     \<lparr>s_n = ''02'', s_title = ''Sandbox'',
      s_body = (js ''A worker wakes on LISTEN, claims the row, forks into a fresh user-namespace with 8 isolation layers, execs the runtime.''),
      s_code = (js ''clone3(unshare USER|PID|NET|...);'' @ [10] @ js ''landlock + seccomp + cgroup;'' @ [10] @ js ''pivot_root '' @ [8594] @ js '' run'')\<rparr>,
     \<lparr>s_n = ''03'', s_title = ''Stream'',
      s_body = (js ''stdout / stderr flow back over SSE byte-by-byte. On exit the verdict (Accepted / TLE / MLE / RE / '' @ [8230] @ js '') plus metrics persist for 24 h.''),
      s_code = (js ''GET /v1/submissions/{tok}/stream'' @ [10] @ js ''event: stdout '' @ [183] @ js '' data: '' @ [34] @ js ''hi'') @ [92] @ (js ''n'' @ [34, 10] @ js ''event: finished '' @ [183] @ js '' accepted'')\<rparr>]"

definition HowItWorks :: "landing_msg vnode" where
  "HowItWorks =
     anchored (js ''zc-how'') ''how''
       [SectionHeader ''how it works'' (js ''Three steps. <span class='' @ [34] @ js ''it'' @ [34] @ js ''>No broker. No queue daemon.</span>'')
          (js ''The queue lives in Postgres. Workers wake on LISTEN/NOTIFY '' @ [8212] @ js '' no Redis, no RabbitMQ, no separate orchestrator process to babysit.''),
        tag ''div'' (js ''zc-how-grid'')
          (map (\<lambda>s. tag ''article'' (js ''zc-how-step'')
             [tag ''span'' (js ''num'') [Txt (js ''step '' @ js (s_n s))], El ''h3'' [] [] [Txt (js (s_title s))],
              tag ''p'' (js ''body'') [Txt (s_body s)], El ''pre'' [] [] [Txt (s_code s)]]) STEPS)]"

definition lang_glyph :: "nat \<Rightarrow> 'm vnode" where
  "lang_glyph lid = (case langKeyFromId lid of Some k \<Rightarrow> icon_svg | None \<Rightarrow> tag ''span'' (js ''cdot'') [])"

definition LanguageMatrix :: "landing_msg vnode" where
  "LanguageMatrix =
     anchored (js ''zc-langs'') ''languages''
       [tag ''div'' (js ''zc-langs-hd'')
          [tag ''div'' (js ''copy'')
             [tag ''span'' (js ''k'') [Txt (js ''languages'')],
              El ''h2'' [] [] [Txt (js ''The Core 7, plus 13 more. ''), tag ''span'' (js ''it'') [Txt (js ''Versioned. Sandboxed.'')]],
              El ''p'' [] [] [Txt (js ''Every toolchain bundled into the runner image '' @ [8212] @ js '' no language setup on the host, no per-submission package install. Each language has a stable numeric ID, a tested edge-case suite, and runs in the same cgroups + landlock + seccomp sandbox.'')]],
           tag ''span'' (js ''count'') [Txt (js ''20 shipped today'')]],
        tag ''div'' (js ''zc-langs-grid'')
          (map (\<lambda>l. tag ''article'' (js ''zc-lang-card'')
             [tag ''div'' (js ''head'')
                [tag ''span'' (js ''glyph'') [icon_svg], tag ''span'' (js ''name'') [Txt (js (cl_name l))],
                 tag ''span'' (js ''id'') [Txt (js ''id '' @ natStr (cl_id l))]],
              tag ''div'' (js ''meta'')
                [El ''span'' [] [] [bold (cl_version l)], tag ''span'' (js ''sep'') [Txt [MIDDOT]],
                 El ''span'' [] [] [Txt (KIND_LABEL (cl_kind l))]]]) CORE7),
        tag ''div'' (js ''zc-langs-batches'')
          (map (\<lambda>(label, ls). tag ''div'' (js ''zc-batch'')
             [tag ''span'' (js ''blabel'') [Txt (js label)],
              tag ''div'' (js ''chips'') (map (\<lambda>l. tag ''span'' (js ''zc-chip'')
                 [lang_glyph (bl_id l), Txt (js (bl_name l)), tag ''span'' (js ''cid'') [Txt (natStr (bl_id l))]]) ls)]) BATCHES)]"

text \<open>The verdict of a case is not looked at by the page, which shows every case as passed.\<close>

record batch_example =
  b_stdin :: string
  b_out :: string
  b_pass :: bool

definition BATCH_CASES :: "batch_example list" where
  "BATCH_CASES =
    [\<lparr>b_stdin = ''3'', b_out = ''9'', b_pass = True\<rparr>, \<lparr>b_stdin = ''7'', b_out = ''49'', b_pass = True\<rparr>, \<lparr>b_stdin = ''12'', b_out = ''144'', b_pass = True\<rparr>,
     \<lparr>b_stdin = ''-5'', b_out = ''25'', b_pass = True\<rparr>, \<lparr>b_stdin = ''9999'', b_out = ''99980001'', b_pass = True\<rparr>]"

definition TestCasesSection :: "string option \<Rightarrow> landing_msg vnode" where
  "TestCasesSection env =
     anchored (js ''zc-tc'') ''batch''
       [tag ''div'' (js ''zc-tc-row'') [El ''div'' [] []
          [SectionHeader ''test cases'' (js ''One program. <span class='' @ [34] @ js ''it'' @ [34] @ js ''>Many inputs.</span> One request.'')
             (js ''POST a single source plus up to 100 stdin cases to /v1/submissions/batch. Compiled languages compile once and run N times '' @ [8212] @ js '' the compile cache makes every case after the first near-instant. In the playground, switch to the Tests tab to define cases, set expected output, and get per-case pass/fail with an inline diff.''),
           tag ''div'' (js ''zc-tc-cta'')
             (El ''a'' (cls (js ''primary'') @ href ''/playground.html'') [] [Txt (js ''Open the playground '' @ [8594])]
              # only_if (\<not> HIDE_DOCS env) [El ''a'' (cls (js ''ghost'') @ href ''/docs/api'') [] [Txt (js ''Batch API docs'')]])],
        tag ''div'' (js ''zc-tc-card'')
          (tag ''div'' (js ''zc-tc-card-hd'') [El ''span'' [] [] [Txt (js ''squared.cpp '' @ [183] @ js '' 5 cases'')], tag ''span'' (js ''pill'') [Txt (js ''5 / 5 pass'')]]
           # map (\<lambda>(i, c). tag ''div'' (js ''zc-tc-case'')
               [tag ''span'' (js ''n'') [Txt (js ''#'' @ natStr (i + 1))],
                tag ''span'' (js ''io'') [Txt (js (b_stdin c)), tag ''span'' (js ''arrow'') [Txt [8594]], tag ''span'' (js ''out'') [Txt (js (b_out c))]],
                tag ''span'' (js ''ms'') [Txt (if i = 0 then js ''410ms'' else js ''24ms'')],
                tag ''span'' (js ''v'') [Txt ([10003] @ js '' pass'')]]) (enumerate 0 BATCH_CASES))]]"

definition budget :: "(jsstr \<times> jsstr) list" where
  "budget = [((js ''POST '' @ [8594] @ js '' INSERT''), js ''~1.2 ms''), ((js ''NOTIFY '' @ [8594] @ js '' worker wake''), js ''~0.8 ms''),
     (js ''claim + spawn sandbox'', js ''~2.4 ms''), (js ''repeat compile (cached)'', js ''skipped'')]"

definition SpeedSection :: "jsstr \<Rightarrow> landing_msg vnode" where
  "SpeedSection shown_count =
     anchored (js ''zc-spd'') ''speed''
       [SectionHeader ''speed'' (js ''Sub-5 ms <span class='' @ [34] @ js ''it'' @ [34] @ js ''>job pickup.</span>'')
          (js ''No polling, no broker hop, no queue-daemon round-trip. Postgres LISTEN/NOTIFY wakes the worker on the same SQL transaction the API just committed. Identical submissions short-circuit through an in-process result cache, and recompiles of the same source skip straight to the run phase via the compile cache.''),
        tag ''div'' (js ''zc-spd-row'')
          [tag ''div'' (js ''zc-spd-stat'')
             [tag ''div'' (js ''big'') [Txt (js ''< ''), Txt shown_count, tag ''span'' (js ''unit'') [Txt (js '' ms'')]],
              tag ''div'' (js ''lbl'') [Txt (js ''dispatch latency '' @ [183] @ js '' p99'')]],
           tag ''div'' (js ''zc-spd-budget'')
             (map (\<lambda>(l, v). tag ''div'' (js ''item'') [tag ''span'' (js ''dot'') [], tag ''span'' (js ''lbl'') [Txt l], tag ''span'' (js ''v'') [Txt v]])
                budget)]]"

definition Footer :: "string option \<Rightarrow> landing_msg vnode" where
  "Footer env =
     tag ''footer'' (js ''zc-foot'')
       [tag ''div'' (js ''zc-foot-inner'')
          [tag ''div'' (js ''zc-foot-brand'')
             [tag ''div'' (js ''mark'') [tag ''span'' (js ''g'') [], Txt (js ''zerocode'')],
              El ''p'' [] [] [Txt (js ''A self-hosted sandbox for running untrusted code. MIT / Apache 2.0 dual-licensed.'')]],
           tag ''div'' (js ''zc-foot-col'')
             [El ''h4'' [] [] [Txt (js ''Product'')],
              El ''ul'' [] [] (map (\<lambda>l. El ''li'' [] [] [l])
                (doc_link env ''/docs/quickstart'' (js ''Quickstart'') @ [link ''/playground.html'' (js ''Playground'')]
                 @ doc_link env ''/docs/languages'' (js ''Languages'') @ doc_link env ''/docs/security'' (js ''Security'')))],
           tag ''div'' (js ''zc-foot-col'')
             [El ''h4'' [] [] [Txt (js ''Developers'')],
              El ''ul'' [] [] (map (\<lambda>l. El ''li'' [] [] [l])
                (doc_link env ''/docs/api'' (js ''REST API'') @ [link ''/v1/openapi.json'' (js ''OpenAPI 3.1'')]
                 @ doc_link env ''/docs/sdks'' (js ''Clients & SDKs'') @ doc_link env ''/docs/observability'' (js ''Observability'')
                 @ doc_link env ''/docs/deployment'' (js ''Deployment'')))]],
        tag ''div'' (js ''zc-foot-bottom'')
          [El ''span'' [] [] [Txt ([169] @ js '' 2026 ZeroCode contributors'')], El ''span'' [] [] [Txt (js ''rust 1.85 '' @ [183] @ js '' kernel '' @ [8805] @ js '' 5.14'')]]]"

section \<open>The typing demonstration\<close>

definition hero_cycle :: nat where
  "hero_cycle = afterType + length OUTPUT_LINES * 480 + 3600"

definition hero_fold :: "nat \<Rightarrow> hero \<Rightarrow> (nat \<times> hero_timer) list \<Rightarrow> hero" where
  "hero_fold ms = foldl (\<lambda>h (d, t). if d \<le> ms then fire t h else h)"

lemma hero_fold_append: "hero_fold ms h (xs @ ys) = hero_fold ms (hero_fold ms h xs) ys"
  by (simp add: hero_fold_def)

lemma min_Suc_div: "min (Suc n) (ms div 14) = (if (n + 1) * 14 \<le> ms then Suc n else min n (ms div (14 :: nat)))"
  by (auto simp: min_def div_le_mono le_div_geq)

lemma hero_fold_typing:
  "hero_fold ms (h\<lparr>h_typed := []\<rparr>) (map (\<lambda>i. (i * 14, SetTyped (take i c))) [1..<n + 1]) = h\<lparr>h_typed := take (min n (ms div 14)) c\<rparr>"
proof (induction n)
  case (Suc n)
  have "[1..<Suc n + 1] = [1..<n + 1] @ [n + 1]" by simp
  then show ?case by (simp only: map_append hero_fold_append Suc.IH) (simp add: hero_fold_def min_Suc_div)
qed (simp add: hero_fold_def)

text \<open>The index of the last line shown.\<close>

definition shown_at :: "nat \<Rightarrow> nat \<Rightarrow> int" where
  "shown_at n ms = (if ms < afterType then -1 else min (int n - 1) (int ((ms - afterType) div 480)))"

lemma hero_fold_lines:
  "hero_fold ms (h\<lparr>h_showOut := -1\<rparr>) (map (\<lambda>i. (afterType + i * 480, SetShowOut (int i))) [0..<n]) = h\<lparr>h_showOut := shown_at n ms\<rparr>"
proof (induction n)
  case (Suc n)
  have "int n \<le> int ((ms - afterType) div 480) \<longleftrightarrow> n * 480 \<le> ms - afterType"
    by (simp add: less_eq_div_iff_mult_less_eq)
  then have "fire_line = shown_at (Suc n) ms \<longleftrightarrow> fire_line = (if afterType + n * 480 \<le> ms then int n else shown_at n ms)" for fire_line
    by (auto simp: shown_at_def min_def)
  then have step: "shown_at (Suc n) ms = (if afterType + n * 480 \<le> ms then int n else shown_at n ms)" by blast
  have "[0..<Suc n] = [0..<n] @ [n]" by simp
  then show ?case by (simp only: map_append hero_fold_append Suc.IH) (simp add: hero_fold_def step)
qed (simp add: hero_fold_def shown_at_def)

lemma hero_swap: "h\<lparr>h_showOut := a, h_typed := b\<rparr> = h\<lparr>h_typed := b, h_showOut := a\<rparr>"
  by (cases h) simp

text \<open>
  The terminal of the hero, \<open>ms\<close> milliseconds into a cycle: the text typed is the prefix of the command that one
  character every 14 ms gives, the answer has the lines that one line every 480 ms gives, counted from 320 ms after the last
  character, no line is shown before the command is complete, and the next cycle begins 3600 ms after the last line.
\<close>

theorem hero_timeline:
  "hero_at ms h = h\<lparr>h_typed := take (ms div 14) CURL, h_showOut := shown_at (length OUTPUT_LINES) ms,
     h_restart := h_restart h + (if hero_cycle \<le> ms then 1 else 0)\<rparr>
   \<and> (if 0 \<le> h_showOut (hero_at ms h) then h_typed (hero_at ms h) = CURL else True)
   \<and> (if hero_cycle - 3600 \<le> ms then h_showOut (hero_at ms h) = int (length OUTPUT_LINES) - 1 else True)"
proof -
  have "hero_at ms h = hero_fold ms (h\<lparr>h_typed := [], h_showOut := -1\<rparr>) hero_timers"
    by (simp add: hero_at_def hero_effect_def hero_fold_def)
  also have "h\<lparr>h_typed := [], h_showOut := -1\<rparr> = (h\<lparr>h_showOut := -1\<rparr>)\<lparr>h_typed := []\<rparr>" by simp
  also have "hero_fold ms \<dots> hero_timers = hero_fold ms (hero_fold ms ((h\<lparr>h_typed := take (ms div 14) CURL\<rparr>)\<lparr>h_showOut := -1\<rparr>)
      (map (\<lambda>i. (afterType + i * 480, SetShowOut (int i))) [0..<length OUTPUT_LINES])) [(hero_cycle, SetRestart)]"
    unfolding hero_timers_def hero_fold_append hero_fold_typing hero_cycle_def by (simp add: min_def hero_swap)
  finally have eq: "hero_at ms h = h\<lparr>h_typed := take (ms div 14) CURL, h_showOut := shown_at (length OUTPUT_LINES) ms,
     h_restart := h_restart h + (if hero_cycle \<le> ms then 1 else 0)\<rparr>"
    unfolding hero_fold_lines by (simp add: hero_fold_def)
  have typed: "0 \<le> shown_at n ms \<Longrightarrow> length CURL \<le> ms div 14" for n
    by (simp add: shown_at_def afterType_def less_eq_div_iff_mult_less_eq split: if_splits)
  have shown: "hero_cycle - 3600 \<le> ms \<Longrightarrow> shown_at (length OUTPUT_LINES) ms = int (length OUTPUT_LINES) - 1"
    by (simp add: hero_cycle_def shown_at_def min_def less_eq_div_iff_mult_less_eq)
  show ?thesis unfolding eq by (intro conjI, simp, simp add: typed, simp add: shown)
qed

end
