(* ===== verification/Teaser.thy ===== *)
theory Teaser
  imports Landing Machine
begin

text \<open>
  The teaser of the playground on the landing page (\<^verbatim>\<open>landing/playground-teaser.tsx\<close>): a run that is played with timers
  only. The state has what the timers hold beside the component's own state: the counter of the interval, the number
  of pending timeouts and whether the first automatic run is still to come. The lemmas show that the output shown is that
  of the program shown, and that the markup that colours the program is broken by its own last passes.
\<close>

section \<open>Program and output\<close>

definition TEASER_CODE_LINES :: "(jsstr \<times> nat) list" where
  "TEASER_CODE_LINES =
    [((js ''fn fibonacci(n: u32) -> u64 {''), 0),
     ((js ''    let (mut a, mut b) = (0u64, 1u64);''), 1),
     ((js ''    for _ in 0..n {''), 1),
     ((js ''        (a, b) = (b, a + b);''), 2),
     ((js ''    }''), 1),
     ((js ''    a''), 1),
     ((js ''}''), 0),
     ([], 0),
     ((js ''fn main() {''), 0),
     ((js ''    for n in 0..10 {''), 1),
     ((js ''        println!('' @ [34] @ js ''fib({n}) = {}'' @ [34] @ js '', fibonacci(n));''), 2),
     ((js ''    }''), 1),
     ((js ''}''), 0)]"

definition FIB_OUTPUT :: "jsstr list" where
  "FIB_OUTPUT =
    [(js ''fib(0) = 0''), (js ''fib(1) = 1''), (js ''fib(2) = 1''), (js ''fib(3) = 2''), (js ''fib(4) = 3''),
     (js ''fib(5) = 5''), (js ''fib(6) = 8''), (js ''fib(7) = 13''), (js ''fib(8) = 21''), (js ''fib(9) = 34'')]"

subsection \<open>Colours\<close>

definition word_ch :: "cu \<Rightarrow> bool" where
  "word_ch c \<longleftrightarrow> (48 \<le> c \<and> c \<le> 57) \<or> (65 \<le> c \<and> c \<le> 90) \<or> c = 95 \<or> (97 \<le> c \<and> c \<le> 122)"

definition span_html :: "string \<Rightarrow> jsstr \<Rightarrow> jsstr" where
  "span_html c t = js ''<span class='' @ [DQUOTE] @ js c @ [DQUOTE] @ js ''>'' @ t @ js ''</span>''"

text \<open>
  A text as its longest runs of word characters, and single other characters: a pattern \<^verbatim>\<open>\b(..)\b\<close> whose alternatives
  are words matches whole runs.
\<close>

fun word_runs :: "jsstr \<Rightarrow> jsstr list" where
  "word_runs [] = []"
| "word_runs (c # cs) = (if word_ch c then (c # takeWhile word_ch cs) # word_runs (dropWhile word_ch cs) else [c] # word_runs cs)"

definition replace_words :: "(jsstr \<Rightarrow> bool) \<Rightarrow> string \<Rightarrow> jsstr \<Rightarrow> jsstr" where
  "replace_words p c s = concat (map (\<lambda>r. if p r then span_html c r else r) (word_runs s))"

lemma dropWhile_shorter [termination_simp]: "length (dropWhile p xs) - Suc 0 < Suc (length xs)"
  using length_dropWhile_le [of p xs] by linarith

text \<open>A quote and the text up to the next one; a quote with no partner stays.\<close>

fun replace_quoted :: "jsstr \<Rightarrow> jsstr" where
  "replace_quoted [] = []"
| "replace_quoted (c # cs) =
     (if c = DQUOTE then
        (if DQUOTE \<in> set cs
         then span_html ''str'' (DQUOTE # takeWhile (\<lambda>x. x \<noteq> DQUOTE) cs @ [DQUOTE]) @ replace_quoted (tl (dropWhile (\<lambda>x. x \<noteq> DQUOTE) cs))
         else c # cs)
      else c # replace_quoted cs)"

text \<open>The first of some literal words, wherever it starts, when what follows is accepted.\<close>

fun replace_lits :: "jsstr list \<Rightarrow> (jsstr \<Rightarrow> bool) \<Rightarrow> string \<Rightarrow> jsstr \<Rightarrow> jsstr" where
  "replace_lits ws ahead k [] = []"
| "replace_lits ws ahead k (c # cs) =
     (case find (\<lambda>w. w \<noteq> [] \<and> take (length w) (c # cs) = w \<and> ahead (drop (length w) (c # cs))) ws of
        Some w \<Rightarrow> span_html k w @ replace_lits ws ahead k (drop (length w - 1) cs)
      | None \<Rightarrow> c # replace_lits ws ahead k cs)"

definition colorize :: "jsstr \<Rightarrow> jsstr" where
  "colorize line =
     (let kw = replace_words (\<lambda>r. r \<in> set (map js [''fn'', ''let'', ''mut'', ''for'', ''in'', ''return''])) ''kw'' line;
          ty = replace_words (\<lambda>r. r \<in> set (map js [''u32'', ''u64'', ''i32''])) ''ty'' kw;
          nm = replace_words (\<lambda>r. r \<noteq> [] \<and> list_all (\<lambda>c. 48 \<le> c \<and> c \<le> 57) r) ''num'' ty;
          st = replace_quoted nm;
          mc = replace_lits [js ''println!'', js ''format!''] (\<lambda>_. True) ''mac'' st
      in replace_lits [js ''fibonacci'', js ''main''] (\<lambda>r. r \<noteq> [] \<and> hd r = 40) ''fn'' mc)"

text \<open>The markup of a line of the program: the indentation is added to a text that has it already.\<close>

definition line_html :: "jsstr \<times> nat \<Rightarrow> jsstr" where
  "line_html l = (let h = colorize (concat (replicate (snd l) (js ''    '')) @ fst l) in if h = [] then js ''&nbsp;'' else h)"

section \<open>The run\<close>

datatype tphase = Idle | Queued | Processing | Accepted

record teaser =
  t_phase :: tphase
  t_outIdx :: nat
  t_time :: jsstr
  t_mem :: jsstr
  t_token :: jsstr
  t_interval :: "nat option"
  t_timeouts :: nat
  t_first :: bool

definition teaser_init :: teaser where
  "teaser_init = \<lparr>t_phase = Idle, t_outIdx = 0, t_time = [EMDASH], t_mem = [EMDASH], t_token = [EMDASH],
     t_interval = None, t_timeouts = 0, t_first = True\<rparr>"

text \<open>A new phase: the effect of the old one is cleaned up, the one of the new one starts. The same phase again has no effect.\<close>

definition setPhase :: "tphase \<Rightarrow> teaser \<Rightarrow> teaser" where
  "setPhase p s = (if p = t_phase s then s else s\<lparr>t_phase := p, t_interval := (if p = Processing then Some 0 else None)\<rparr>)"

text \<open>The first argument is the phase the handler was created with, the second the random part of the token.\<close>

definition run :: "tphase \<Rightarrow> jsstr \<Rightarrow> teaser \<Rightarrow> teaser" where
  "run seen rnd s =
     (if seen \<noteq> Idle \<and> seen \<noteq> Accepted then s
      else setPhase Queued (s\<lparr>t_outIdx := 0, t_time := [EMDASH], t_mem := [EMDASH], t_token := js ''zc_'' @ rnd,
             t_timeouts := t_timeouts s + 1\<rparr>))"

definition tick :: "nat \<Rightarrow> teaser \<Rightarrow> teaser" where
  "tick i s =
     (if i + 1 > length FIB_OUTPUT
      then (setPhase Accepted s)\<lparr>t_interval := None, t_time := js ''0.014 s'', t_mem := js ''3.2 MB''\<rparr>
      else s\<lparr>t_interval := Some (i + 1), t_outIdx := i + 1\<rparr>)"

text \<open>
  What can happen: a click on the button while it is enabled, the timer of the first run (which has seen the phase of
  the first render), a timeout of a run, a tick of the interval. The last two need no one.
\<close>

inductive timer_step :: "teaser \<Rightarrow> teaser \<Rightarrow> bool" where
  timeout: "t_timeouts s > 0 \<Longrightarrow> timer_step s (setPhase Processing (s\<lparr>t_timeouts := t_timeouts s - 1\<rparr>))"
| tick: "t_interval s = Some i \<Longrightarrow> timer_step s (tick i s)"

inductive teaser_step :: "teaser \<Rightarrow> teaser \<Rightarrow> bool" where
  click: "t_phase s \<noteq> Queued \<Longrightarrow> t_phase s \<noteq> Processing \<Longrightarrow> teaser_step s (run (t_phase s) rnd s)"
| first: "t_first s \<Longrightarrow> teaser_step s (run Idle rnd (s\<lparr>t_first := False\<rparr>))"
| timer: "timer_step s s' \<Longrightarrow> teaser_step s s'"

inductive_cases timer_stepE: "timer_step s s'"

section \<open>View\<close>

fun phase_name :: "tphase \<Rightarrow> jsstr" where
  "phase_name Idle = js ''idle''"
| "phase_name Queued = js ''queued''"
| "phase_name Processing = js ''processing''"
| "phase_name Accepted = js ''accepted''"

definition out_lines :: "teaser \<Rightarrow> jsstr list" where
  "out_lines s = take (t_outIdx s) FIB_OUTPUT"

definition teaser_output :: "teaser \<Rightarrow> 'm vnode list" where
  "teaser_output s =
     [tag ''div'' (js ''ohd'') (tag ''span'' (js ''tab active'') [Txt (js ''stdout'')] #
        map (\<lambda>t. tag ''span'' (js ''tab'') [Txt (js t)]) [''stderr'', ''compile'', ''meta''])]
     @ only_if (t_outIdx s = 0 \<and> t_phase s = Idle) [tag ''div'' (js ''out-empty'') [Txt (js ''awaiting run'' @ [8230])]]
     @ only_if (t_phase s = Queued) [tag ''div'' (js ''out-empty'') [Txt (js ''queued '' @ [183] @ js '' waiting for worker NOTIFY'')]]
     @ map (\<lambda>l. tag ''div'' (js ''out-ln'') [Txt l]) (out_lines s)
     @ only_if (t_phase s = Processing \<and> t_outIdx s > 0) [tag ''span'' (js ''caret'') []]"

definition foot_item :: "jsstr \<Rightarrow> jsstr \<Rightarrow> 'm vnode" where
  "foot_item l v = El ''span'' [] [] [Txt (l @ [SPACE, MIDDOT, SPACE]), El ''b'' [] [] [Txt v]]"

definition exit_shown :: "teaser \<Rightarrow> jsstr" where
  "exit_shown s = (if t_phase s = Accepted then js ''0'' else [EMDASH])"

definition teaser_busy :: "teaser \<Rightarrow> bool" where
  "teaser_busy s \<longleftrightarrow> t_phase s = Queued \<or> t_phase s = Processing"

definition PlaygroundTeaser :: "teaser \<Rightarrow> landing_msg vnode" where
  "PlaygroundTeaser s =
     tag ''section'' (js ''zc-teaser'') [tag ''div'' (js ''shell'')
       [SectionHeader ''playground'' (js ''Try it. <span class='' @ [34] @ js ''it'' @ [34] @ js ''>No install.</span>'')
          (js ''A live workspace backed by the same API. Pick a language, type, run. Stream stdout while it executes.''),
        tag ''div'' (js ''zc-teaser-grid'')
          [tag ''div'' (js ''zc-ide'')
             [tag ''div'' (js ''zc-ide-hd'')
                [tag ''div'' (js ''dots'') (map (\<lambda>c. tag ''span'' (js c) [icon_svg]) [''tl close'', ''tl min'', ''tl max'']),
                 tag ''span'' (js ''title'')
                   [tag ''span'' (js ''file'') [Txt (js ''fibonacci.rs'')], tag ''span'' (js ''sep'') [Txt [MIDDOT]],
                    tag ''span'' (js ''lang-tag'') [Txt (js ''rust 1.85'')], tag ''span'' (js ''sep'') [Txt [MIDDOT]],
                    El ''span'' [] [] [Txt (js ''id 73'')]],
                 tag ''div'' (js ''right'')
                   [tag ''span'' (js ''status'') [tag ''span'' (js ''pulse'') [], Txt (phase_name (t_phase s))],
                    El ''button'' (cls (js ''run-btn'') @ disabled_if (teaser_busy s)) [(''click'', RunTeaser)]
                      [icon_svg, Txt (if teaser_busy s then (js ''running'' @ [8230]) else js ''run'')]]],
              tag ''div'' (js ''zc-ide-body'')
                [tag ''div'' (js ''zc-ide-editor'')
                   (map (\<lambda>(i, l). tag ''div'' (js ''ln'')
                      [tag ''span'' (js ''lno'') [Txt (natStr (i + 1))], El ''span'' (cls (js ''tx'') @ [(''html'', line_html l)]) [] []])
                      (enumerate 0 TEASER_CODE_LINES)),
                 tag ''div'' (js ''zc-ide-output'') (teaser_output s)],
              tag ''div'' (js ''zc-ide-foot'')
                [foot_item (js ''token'') (t_token s), foot_item (js ''wall'') (t_time s), foot_item (js ''memory'') (t_mem s),
                 foot_item (js ''exit'') (exit_shown s)]],
           tag ''div'' (js ''zc-teaser-side'')
             [El ''h3'' [] [] [Txt (js ''The same API, ''), tag ''span'' (js ''it'') [Txt (js ''with a UI.'')]],
              El ''p'' [] [] [Txt (js ''Backed by ''), El ''span'' [] [] [Txt (js ''POST /v1/submissions/{token}/stream'')],
                Txt (js '' '' @ [8212] @ js '' the SSE endpoint your agents will use in production. The playground is just one of its consumers.'')],
              El ''ul'' (cls (js ''features'')) []
                (map (\<lambda>(k, t). El ''li'' [] [] [tag ''span'' (js ''k'') [Txt (js k)], Txt t])
                  [(''streaming'', (js ''stdout line-by-line via SSE, not polling'')), (''share'', (js ''permalink each run '' @ [183] @ js '' sealed token, replayable'')),
                   (''limits'', (js ''memory / time / pids exposed as sliders'')), (''api'', ([34] @ js ''open in curl'' @ [34] @ js '' reveals the equivalent request''))]),
              El ''a'' (cls (js ''open-btn'') @ href ''/playground.html'') [] [Txt (js ''open the full playground''), icon_svg]]]]]"

section \<open>Lemmas\<close>

text \<open>What the program shown prints: the loop of \<^verbatim>\<open>fibonacci\<close> from the pair (0, 1).\<close>

definition rust_fib :: "nat \<Rightarrow> nat" where
  "rust_fib n = fst (((\<lambda>(a, b). (b, a + b)) ^^ n) (0, 1))"

definition printed :: "jsstr list" where
  "printed = map (\<lambda>n. js ''fib('' @ natStr n @ js '') = '' @ natStr (rust_fib n)) [0..<10]"

lemma fib_output_printed: "FIB_OUTPUT = printed"
  by code_simp

lemma fib_output_length: "length FIB_OUTPUT = 10"
  by (simp add: FIB_OUTPUT_def)

definition teaser_inv :: "teaser \<Rightarrow> bool" where
  "teaser_inv s \<longleftrightarrow> t_outIdx s \<le> 10
     \<and> (t_phase s = Processing \<longleftrightarrow> t_interval s \<noteq> None)
     \<and> (\<forall>i. t_interval s = Some i \<longrightarrow> i \<le> 10 \<and> (i = 0 \<or> t_outIdx s = i))
     \<and> (t_phase s = Accepted \<longrightarrow> t_outIdx s = 10 \<and> t_time s = js ''0.014 s'' \<and> t_mem s = js ''3.2 MB'')
     \<and> (t_phase s = Queued \<longrightarrow> t_timeouts s > 0 \<and> t_outIdx s = 0)
     \<and> (t_phase s = Idle \<longrightarrow> t_outIdx s = 0 \<and> t_timeouts s = 0)"

lemmas teaser_defs = teaser_inv_def setPhase_def fib_output_length

lemma timer_step_inv: "teaser_inv s \<Longrightarrow> timer_step s s' \<Longrightarrow> teaser_inv s'"
  by (elim timer_stepE) (auto simp: teaser_defs tick_def)

lemma run_inv: "teaser_inv s \<Longrightarrow> seen = Idle \<or> seen = t_phase s \<Longrightarrow> teaser_inv (run seen rnd s)"
  by (auto simp: teaser_defs run_def)

definition teaser_start :: "teaser \<Rightarrow> bool" where
  "teaser_start s \<longleftrightarrow> s = teaser_init"

interpretation demo: machine teaser_start teaser_step teaser_inv
proof unfold_locales
  show "teaser_inv s" if "teaser_start s" for s
    using that by (simp add: teaser_start_def teaser_init_def teaser_inv_def)
  show "teaser_inv s'" if "teaser_inv s" "teaser_step s s'" for s s'
    using that(2)
  proof cases
    case (click rnd)
    then show ?thesis using run_inv [OF that(1), of "t_phase s" rnd] by simp
  next
    case (first rnd)
    have "teaser_inv (s\<lparr>t_first := False\<rparr>)" using that(1) unfolding teaser_inv_def by simp
    then show ?thesis using run_inv [of _ Idle rnd] first(1) by simp
  next
    case timer
    then show ?thesis using timer_step_inv [OF that(1)] by simp
  qed
qed

lemma ticks_finish: "t_phase s = Processing \<Longrightarrow> t_interval s = Some i \<Longrightarrow> i \<le> 10 \<Longrightarrow> \<exists>s'. timer_step\<^sup>*\<^sup>* s s' \<and> t_phase s' = Accepted"
proof (induction "10 - i" arbitrary: s i)
  case 0
  then have "t_phase (tick i s) = Accepted" by (simp add: tick_def setPhase_def fib_output_length)
  then show ?case using timer_step.tick [OF 0(3)] by blast
next
  case (Suc n)
  then have "i < 10" by linarith
  then have "t_phase (tick i s) = Processing" "t_interval (tick i s) = Some (i + 1)"
    using Suc.prems(1) by (simp_all add: tick_def fib_output_length)
  moreover have "timer_step s (tick i s)" using timer_step.tick [OF Suc.prems(2)] .
  moreover have "n = 10 - (i + 1)" "i + 1 \<le> 10" using Suc.hyps(2) by auto
  ultimately show ?case using Suc.hyps(1) [of "i + 1" "tick i s"] by (meson converse_rtranclp_into_rtranclp)
qed

lemma timers_finish:
  assumes "teaser_inv s" "t_phase s \<noteq> Idle"
  shows "\<exists>s'. timer_step\<^sup>*\<^sup>* s s' \<and> t_phase s' = Accepted"
proof (cases "t_phase s")
  case Queued
  let ?s = "setPhase Processing (s\<lparr>t_timeouts := t_timeouts s - 1\<rparr>)"
  have "timer_step s ?s" by (rule timer_step.timeout) (use assms(1) Queued in \<open>simp add: teaser_inv_def\<close>)
  moreover have "t_phase ?s = Processing" "t_interval ?s = Some 0" using Queued by (simp_all add: setPhase_def)
  ultimately show ?thesis using ticks_finish [of ?s 0] by (meson converse_rtranclp_into_rtranclp le0)
next
  case Processing
  then show ?thesis using assms(1) ticks_finish by (auto simp: teaser_inv_def)
qed (use assms in auto)

text \<open>
  The teaser, in every reachable state: the lines shown are a prefix of what the program beside them prints, and
  they are all of it once the run is shown as accepted with exit code 0; and a run that was started is brought to that
  state by the timers alone, so neither the queued nor the processing state is a dead end.
\<close>

theorem teaser_plays_program:
  assumes "reach teaser_start teaser_step s"
  shows "out_lines s = take (t_outIdx s) printed
    \<and> (exit_shown s = js ''0'' \<longrightarrow> out_lines s = printed \<and> t_time s = js ''0.014 s'' \<and> \<not> teaser_busy s)
    \<and> (t_phase s \<noteq> Idle \<longrightarrow> (\<exists>s'. timer_step\<^sup>*\<^sup>* s s' \<and> out_lines s' = printed \<and> exit_shown s' = js ''0''))"
proof -
  have inv: "teaser_inv s" using demo.reach_inv assms .
  have all: "out_lines s' = printed \<and> exit_shown s' = js ''0''" if "teaser_inv s'" "t_phase s' = Accepted" for s'
    using that fib_output_length by (simp add: out_lines_def fib_output_printed [symmetric] exit_shown_def teaser_inv_def)
  have shown: "t_phase s = Accepted" if "exit_shown s = js ''0''"
    using that by (simp add: exit_shown_def js_eval split: if_splits)
  have keeps: "teaser_inv s'" if "timer_step\<^sup>*\<^sup>* s s'" for s'
    using that inv by (induction rule: rtranclp_induct) (auto intro: timer_step_inv)
  have "\<exists>s'. timer_step\<^sup>*\<^sup>* s s' \<and> out_lines s' = printed \<and> exit_shown s' = js ''0''" if "t_phase s \<noteq> Idle"
    using timers_finish [OF inv that] keeps all by blast
  moreover have "exit_shown s = js ''0'' \<longrightarrow> out_lines s = printed \<and> t_time s = js ''0.014 s'' \<and> \<not> teaser_busy s"
    using shown inv all [OF inv] by (auto simp: teaser_inv_def teaser_busy_def)
  ultimately show ?thesis by (simp add: out_lines_def fib_output_printed)
qed

lemma started_reachable: "reach teaser_start teaser_step (run Idle (js ''abc'') teaser_init)"
proof -
  have "teaser_step teaser_init (run (t_phase teaser_init) (js ''abc'') teaser_init)"
    by (rule teaser_step.click) (simp_all add: teaser_init_def)
  moreover have "t_phase teaser_init = Idle" by (simp add: teaser_init_def)
  ultimately show ?thesis by (metis reach.intros teaser_start_def)
qed

theorem teaser_plays_program_witness:
  "\<exists>s'. timer_step\<^sup>*\<^sup>* (run Idle (js ''abc'') teaser_init) s' \<and> out_lines s' = printed \<and> exit_shown s' = js ''0''"
proof -
  have "t_phase (run Idle (js ''abc'') teaser_init) \<noteq> Idle" by (simp add: run_def setPhase_def teaser_init_def)
  then show ?thesis using teaser_plays_program [OF started_reachable] by blast
qed

text \<open>
  The markup of two lines of the program. The pass for string literals also finds the quotes of the attributes that the
  passes before it have written, so the keyword line has a tag inside a tag and its reader sees the class name; the
  brace of the inner block has four columns of indentation of its own and gets four more.
\<close>

theorem teaser_markup_broken:
  "line_html (TEASER_CODE_LINES ! 8) =
     js ''<span class=<span class='' @ ([34] @ js ''str'' @ [34] @ js ''>'' @ [34] @ js ''kw'' @ [34] @ js ''</span>>fn</span> <span class='' @ [34] @ js ''fn'' @ [34] @ js ''>main</span>() {'')
   \<and> fst (TEASER_CODE_LINES ! 4) = (js ''    }'') \<and> line_html (TEASER_CODE_LINES ! 4) = (js ''        }'')"
  by (simp add: TEASER_CODE_LINES_def line_html_def colorize_def replace_words_def js_eval word_ch_def span_html_def)

end
