(* ===== verification/LayerDiagram.thy ===== *)
theory LayerDiagram
  imports JsPrelude
begin

text \<open>
  The ring diagram of the landing page (\<^verbatim>\<open>landing/layer-diagram.tsx\<close>): eight isolation layers drawn as rings around a
  kernel, and a packet that travels inward. Time is the position in the cycle, a number from 0 to 1. The lemmas show that
  the packet is always inside the ring that is highlighted, that it never moves outward, and that opacities are in range.
\<close>

section \<open>Layers and rings\<close>

record layer =
  ly_n :: nat
  ly_key :: string
  ly_name :: jsstr
  ly_short :: string
  ly_call :: jsstr
  ly_note :: jsstr

definition LAYERS :: "layer list" where
  "LAYERS =
    [layer.make 1 ''userns'' (js ''user namespace'') ''userns'' (js ''unshare(CLONE_NEWUSER)'') (js ''uid 0 in box '' @ [8594] @ js '' unprivileged outside''),
     layer.make 2 ''ns'' (js ''pid '' @ [183] @ js '' net '' @ [183] @ js '' ipc '' @ [183] @ js '' uts '' @ [183] @ js '' mnt'') ''namespaces'' (js ''unshare(CLONE_NEW{PID,NET,IPC,UTS,NS})'') (js ''every kernel namespace, no sharing''),
     layer.make 3 ''pivot'' (js ''pivot_root'') ''pivot_root'' (js ''pivot_root('' @ [34] @ js ''/runner'' @ [34] @ js '', '' @ [34] @ js ''/runner/.old'' @ [34] @ js '')'') (js ''read-only runner rootfs, no host paths''),
     layer.make 4 ''landlock'' (js ''landlock LSM'') ''landlock'' (js ''landlock_create_ruleset(&attr, sizeof(attr), 0)'') (js ''fs access whitelist enforced by kernel''),
     layer.make 5 ''seccomp'' (js ''seccomp BPF'') ''seccomp'' (js ''prctl(PR_SET_SECCOMP, SECCOMP_MODE_FILTER, &prog)'') (js ''~310 syscalls denied by default''),
     layer.make 6 ''cgroup'' (js ''cgroup v2'') ''cgroup'' (js ''write('' @ [34] @ js ''/sys/fs/cgroup/zc/cgroup.procs'' @ [34] @ js '', ...)'') (js ''memory '' @ [183] @ js '' cpu '' @ [183] @ js '' pids '' @ [183] @ js '' io quotas''),
     layer.make 7 ''caps'' (js ''capability drop'') ''capdrop'' ((js ''cap_set_proc(cap_init())  /'') @ [42] @ js '' bounding set: '' @ [8709] @ js '' '' @ [42] @ js ''/'') (js ''CAP_SYS_* removed, bounding set empty''),
     layer.make 8 ''nnp'' (js ''NO_NEW_PRIVS'') ''nnp'' (js ''prctl(PR_SET_NO_NEW_PRIVS, 1, 0, 0, 0)'') (js ''setuid neutered, suid binaries inert'')]"

record rings =
  cx :: number
  cy :: number
  kernelR :: number
  radii :: "number list"

definition HERO_RINGS :: rings where
  "HERO_RINGS = \<lparr>cx = 195, cy = 230, kernelR = 22, radii = [184, 164, 144, 124, 104, 84, 64, 44]\<rparr>"

definition DETAIL_RINGS :: rings where
  "DETAIL_RINGS = \<lparr>cx = 320, cy = 320, kernelR = 32, radii = [296, 264, 232, 200, 168, 136, 104, 72]\<rparr>"

definition rings_of :: "bool \<Rightarrow> rings" where
  "rings_of isDetail = (if isDetail then DETAIL_RINGS else HERO_RINGS)"

section \<open>The cycle\<close>

datatype hover = Ring nat | Kernel

text \<open>The remainder of the language keeps the sign of the dividend: the quotient is rounded towards zero.\<close>

definition js_rem :: "number \<Rightarrow> number \<Rightarrow> number" where
  "js_rem x c = x - of_int (if x / c < 0 then \<lceil>x / c\<rceil> else \<lfloor>x / c\<rfloor>) * c"

text \<open>The position in the cycle of 5.2 seconds, and the dispatch time that is published with it.\<close>

definition cycle_t :: "number \<Rightarrow> number" where
  "cycle_t elapsed = js_rem elapsed (52 / 10) / (52 / 10)"

definition dispatch_ms :: "number \<Rightarrow> number" where
  "dispatch_ms t = min 18 (of_int \<lfloor>t * 28 * 100\<rfloor> / 100)"

text \<open>
  The state of the diagram. The frame loop does nothing while something is hovered, and it never starts when the reader
  asked for less motion: the diagram then stays at one tenth of the cycle. \<open>d_ms\<close> is the number that is published to the page.
\<close>

record diagram =
  d_t :: number
  d_hover :: "hover option"
  d_ms :: number
  d_start :: number

definition diagram_init :: "number \<Rightarrow> diagram" where
  "diagram_init now = \<lparr>d_t = 0, d_hover = None, d_ms = 0, d_start = now\<rparr>"

definition diagram_mount :: "bool \<Rightarrow> diagram \<Rightarrow> diagram" where
  "diagram_mount reducedMotion d = (if reducedMotion then d\<lparr>d_t := 10 / 100, d_ms := 28 / 10\<rparr> else d)"

definition loop :: "number \<Rightarrow> diagram \<Rightarrow> diagram" where
  "loop now d =
     (if d_hover d \<noteq> None then d
      else let elapsed = (now - d_start d) / 1000; cycleT = cycle_t elapsed
           in d\<lparr>d_t := cycleT, d_ms := dispatch_ms cycleT\<rparr>)"

definition setHoverIdx :: "hover option \<Rightarrow> diagram \<Rightarrow> diagram" where
  "setHoverIdx h d = d\<lparr>d_hover := h\<rparr>"

datatype diagram_event = Frame number | Enter hover | Leave

fun diagram_step :: "bool \<Rightarrow> diagram_event \<Rightarrow> diagram \<Rightarrow> diagram" where
  "diagram_step reducedMotion (Frame now) d = (if reducedMotion then d else loop now d)"
| "diagram_step reducedMotion (Enter h) d = setHoverIdx (Some h) d"
| "diagram_step reducedMotion Leave d = setHoverIdx None d"

definition diagram_run :: "bool \<Rightarrow> number \<Rightarrow> diagram_event list \<Rightarrow> diagram" where
  "diagram_run reducedMotion now es = foldl (\<lambda>d e. diagram_step reducedMotion e d) (diagram_mount reducedMotion (diagram_init now)) es"

definition smooth :: "number \<Rightarrow> number" where
  "smooth x = (let c = max 0 (min 1 x) in c * c * (3 - 2 * c))"

definition RING_START :: number where "RING_START = 6 / 100"
definition RING_STEP :: number where "RING_STEP = 6 / 100"
definition RING_END :: number where "RING_END = RING_START + RING_STEP * 8"
definition KERNEL_END :: number where "KERNEL_END = 72 / 100"

definition ring_idx :: "number \<Rightarrow> nat" where
  "ring_idx t = nat (min 7 \<lfloor>(t - RING_START) / RING_STEP\<rfloor>)"

definition activeFromT :: "hover option \<Rightarrow> number \<Rightarrow> hover option" where
  "activeFromT hoverIdx t =
     (if hoverIdx \<noteq> None then hoverIdx
      else if t < RING_START then None
      else if t < RING_END then Some (Ring (ring_idx t))
      else if t < KERNEL_END then Some Kernel
      else None)"

definition packetY :: "rings \<Rightarrow> number \<Rightarrow> number" where
  "packetY G t =
     (if t < RING_START then cy G - radii G ! 0 - 50 + smooth (t / RING_START) * 50
      else if t < RING_END then
        (let idx = ring_idx t; loc = smooth ((t - RING_START) / RING_STEP - of_nat idx);
             yStart = cy G - radii G ! idx;
             yEnd = (if idx < 7 then cy G - radii G ! (idx + 1) else cy G - kernelR G - 6)
         in yStart + (yEnd - yStart) * loc)
      else if t < KERNEL_END then
        (let loc = smooth ((t - RING_END) / (KERNEL_END - RING_END)); yStart = cy G - kernelR G - 6; yEnd = cy G
         in yStart + (yEnd - yStart) * loc)
      else cy G)"

definition packetOpacity :: "hover option \<Rightarrow> number \<Rightarrow> number" where
  "packetOpacity hoverIdx t =
     (if hoverIdx \<noteq> None then 0
      else if t < RING_START then smooth (t / RING_START)
      else if t < RING_END + 4 / 100 then 1
      else if t < KERNEL_END then 1 - smooth ((t - RING_END - 4 / 100) / (KERNEL_END - RING_END - 4 / 100))
      else 0)"

definition kernelGlow :: "hover option \<Rightarrow> number \<Rightarrow> number" where
  "kernelGlow hoverIdx t =
     (if hoverIdx = Some Kernel then 1
      else if t < RING_END - 2 / 100 then 0
      else if t < KERNEL_END then smooth ((t - (RING_END - 2 / 100)) / (KERNEL_END - (RING_END - 2 / 100)))
      else if t < KERNEL_END + 10 / 100 then 1 - smooth ((t - KERNEL_END) / (10 / 100))
      else 0)"

definition showPacket :: "hover option \<Rightarrow> number \<Rightarrow> bool" where
  "showPacket hoverIdx t \<longleftrightarrow> packetOpacity hoverIdx t > 1 / 100 \<and> hoverIdx = None"

definition ring_cls :: "hover option \<Rightarrow> hover option \<Rightarrow> nat \<Rightarrow> string" where
  "ring_cls active hoverIdx i =
     (if active = Some (Ring i) then ''active''
      else if (case active of Some (Ring k) \<Rightarrow> i < k | _ \<Rightarrow> False) then ''passed''
      else if active = Some Kernel then ''passed''
      else if hoverIdx \<noteq> None then ''dim''
      else [])"

text \<open>The trail behind the packet (its two ends), and the kernel: radius and opacity of the pulse, width of the stroke.\<close>

definition trail :: "rings \<Rightarrow> number \<Rightarrow> number \<times> number" where
  "trail G pY = (max (cy G - radii G ! 0 - 60) (pY - 80), pY - 6)"

definition kernel_pulse :: "rings \<Rightarrow> number \<Rightarrow> number \<times> number \<times> number" where
  "kernel_pulse G kGlow = (kernelR G + 6 + kGlow * 18, kGlow * (22 / 100), 1 + kGlow * (14 / 10))"

text \<open>A label: the heights of its lines, and its class.\<close>

definition label_y :: "bool \<Rightarrow> nat \<Rightarrow> number" where
  "label_y isDetail i = (if isDetail then 70 else 50) + of_nat i * (if isDetail then 65 else 48)"

definition label_class :: "hover option \<Rightarrow> hover option \<Rightarrow> nat \<Rightarrow> string" where
  "label_class active hoverIdx i =
     ''lbl-grp '' @ (if active = Some (Ring i) then ''active'' else []) @ '' ''
     @ (if hoverIdx \<noteq> None \<and> hoverIdx \<noteq> Some (Ring i) then ''dim'' else [])"

text \<open>The ring that reacts to the pointer: radius and width of a stroke.\<close>

definition hit_ring :: "rings \<Rightarrow> nat \<Rightarrow> number \<times> number" where
  "hit_ring G i = (let r = radii G ! i; inner = (if i < 7 then radii G ! (i + 1) else kernelR G) in ((r + inner) / 2, r - inner))"

definition short_call :: "bool \<Rightarrow> jsstr \<Rightarrow> jsstr" where
  "short_call isDetail c = (if isDetail then c else if length c > 32 then take 30 c @ [8230] else c)"

definition pad2 :: "nat \<Rightarrow> jsstr" where
  "pad2 n = (let s = natStr n in replicate (2 - length s) 48 @ s)"

text \<open>The card shown while something is hovered: heading, call and note.\<close>

definition xray :: "hover \<Rightarrow> jsstr \<times> jsstr \<times> jsstr" where
  "xray h = (case h of
     Kernel \<Rightarrow> (js ''EXECUTION KERNEL'', js ''execve(language_runtime, argv, envp)'', js ''your code runs here, surrounded by 8 walls'')
   | Ring i \<Rightarrow> (let L = LAYERS ! i in (pad2 (ly_n L) @ [SPACE, MIDDOT, SPACE] @ map (\<lambda>c. if 97 \<le> c \<and> c \<le> 122 then c - 32 else c) (js (ly_short L)), ly_call L, ly_note L)))"

section \<open>Lemmas\<close>

definition rings_ok :: "rings \<Rightarrow> bool" where
  "rings_ok G \<longleftrightarrow> length (radii G) = 8 \<and> sorted_wrt (>) (radii G) \<and> kernelR G + 6 < radii G ! 7 \<and> 0 \<le> kernelR G + 6"

lemma rings_ok_both: "rings_ok HERO_RINGS" "rings_ok DETAIL_RINGS"
  by (simp_all add: rings_ok_def HERO_RINGS_def DETAIL_RINGS_def)

lemma rings_ok_of: "rings_ok (rings_of v)"
  by (simp add: rings_of_def rings_ok_both)

lemmas cycle_marks = RING_START_def RING_STEP_def RING_END_def KERNEL_END_def

lemma cubic_range: "0 \<le> c \<Longrightarrow> c \<le> 1 \<Longrightarrow> 0 \<le> c * c * (3 - 2 * c) \<and> c * c * (3 - 2 * c) \<le> (1 :: number)"
proof -
  assume c: "0 \<le> c" "c \<le> 1"
  have "1 - c * c * (3 - 2 * c) = (1 - c) * (1 - c) * (1 + 2 * c)" by algebra
  moreover have "0 \<le> (1 - c) * (1 - c) * (1 + 2 * c)" using c by (intro mult_nonneg_nonneg) auto
  moreover have "0 \<le> c * c * (3 - 2 * c)" using c by (intro mult_nonneg_nonneg) auto
  ultimately show ?thesis by linarith
qed

lemma smooth_range: "0 \<le> smooth x \<and> smooth x \<le> 1"
  using cubic_range [of "max 0 (min 1 x)"] unfolding smooth_def Let_def by simp

lemma cubic_mono: "0 \<le> a \<Longrightarrow> a \<le> b \<Longrightarrow> b \<le> 1 \<Longrightarrow> a * a * (3 - 2 * a) \<le> b * b * (3 - 2 * b :: number)"
proof -
  assume ab: "0 \<le> a" "a \<le> b" "b \<le> 1"
  have eq: "b * b * (3 - 2 * b) - a * a * (3 - 2 * a) = (b - a) * ((a * (1 - a) + b * (1 - b)) * 2 + (a - a * b) + (b - a * b))" by algebra
  have "a * b \<le> a" "a * b \<le> b" using ab by (simp_all add: mult_left_le mult_left_le_one_le)
  moreover have "0 \<le> a * (1 - a)" "0 \<le> b * (1 - b)" using ab by (intro mult_nonneg_nonneg; simp)+
  ultimately have "0 \<le> (a * (1 - a) + b * (1 - b)) * 2 + (a - a * b) + (b - a * b)"
    using ab by (intro add_nonneg_nonneg mult_nonneg_nonneg) auto
  then have "0 \<le> (b - a) * ((a * (1 - a) + b * (1 - b)) * 2 + (a - a * b) + (b - a * b))"
    using ab by (intro mult_nonneg_nonneg) auto
  then show ?thesis using eq by linarith
qed

lemma smooth_mono: "x \<le> y \<Longrightarrow> smooth x \<le> smooth y"
  unfolding smooth_def Let_def by (rule cubic_mono) auto

lemma blend: "0 \<le> l \<Longrightarrow> l \<le> 1 \<Longrightarrow> y0 \<le> y1 \<Longrightarrow> y0 \<le> y0 + (y1 - y0) * l \<and> y0 + (y1 - y0) * l \<le> (y1 :: number)"
  using mult_left_le [of l "y1 - y0"] by (simp add: mult.commute)

lemma blend_mono: "l \<le> l' \<Longrightarrow> y0 \<le> y1 \<Longrightarrow> y0 + (y1 - y0) * l \<le> y0 + (y1 - y0) * (l' :: number)"
  by (simp add: mult_left_mono)

text \<open>The ends of the segment of ring \<open>i\<close>.\<close>

definition y_in :: "rings \<Rightarrow> nat \<Rightarrow> number" where
  "y_in G i = cy G - radii G ! i"

definition y_out :: "rings \<Rightarrow> nat \<Rightarrow> number" where
  "y_out G i = (if i < 7 then cy G - radii G ! (i + 1) else cy G - kernelR G - 6)"

lemma radii_less: "rings_ok G \<Longrightarrow> i < j \<Longrightarrow> j < 8 \<Longrightarrow> radii G ! j < radii G ! i"
  by (simp add: rings_ok_def sorted_wrt_iff_nth_less)

lemma y_in_out: "rings_ok G \<Longrightarrow> i < 8 \<Longrightarrow> y_in G i \<le> y_out G i"
  using radii_less [of G i "i + 1"] by (cases "i < 7"; cases "i = 7") (auto simp: y_in_def y_out_def rings_ok_def less_imp_le)

lemma y_out_in: "rings_ok G \<Longrightarrow> i < j \<Longrightarrow> j < 8 \<Longrightarrow> y_out G i \<le> y_in G j"
  using radii_less [of G "i + 1" j] by (cases "i + 1 = j") (auto simp: y_in_def y_out_def less_imp_le)

lemma y_out_last: "rings_ok G \<Longrightarrow> i < 8 \<Longrightarrow> y_out G i \<le> cy G - kernelR G - 6"
  using radii_less [of G "i + 1" 7] by (cases "i + 1 < 7"; cases "i + 1 = 7") (auto simp: y_out_def rings_ok_def)

lemma ring_idx_less: "ring_idx t < 8"
  by (simp add: ring_idx_def)

lemma ring_idx_mono: "t \<le> t' \<Longrightarrow> ring_idx t \<le> ring_idx t'"
  unfolding ring_idx_def by (intro nat_mono min.mono floor_mono) (auto simp: divide_right_mono cycle_marks)

lemma packetY_ring:
  assumes "rings_ok G" "RING_START \<le> t" "t < RING_END"
  shows "y_in G (ring_idx t) \<le> packetY G t \<and> packetY G t \<le> y_out G (ring_idx t)"
proof -
  have "packetY G t = y_in G (ring_idx t) + (y_out G (ring_idx t) - y_in G (ring_idx t)) * smooth ((t - RING_START) / RING_STEP - of_nat (ring_idx t))"
    using assms(2,3) by (simp add: packetY_def y_in_def y_out_def Let_def)
  then show ?thesis using blend [OF _ _ y_in_out [OF assms(1) ring_idx_less]] smooth_range by metis
qed

lemma packetY_intro:
  assumes "rings_ok G" "t < RING_START"
  shows "y_in G 0 - 50 \<le> packetY G t \<and> packetY G t \<le> y_in G 0"
  using assms(2) smooth_range [of "t / RING_START"] by (simp add: packetY_def y_in_def)

lemma packetY_kernel:
  assumes "rings_ok G" "RING_END \<le> t"
  shows "y_out G 7 \<le> packetY G t \<and> packetY G t \<le> cy G"
proof (cases "t < KERNEL_END")
  case True
  then have "packetY G t = y_out G 7 + (cy G - y_out G 7) * smooth ((t - RING_END) / (KERNEL_END - RING_END))"
    using assms(2) by (simp add: packetY_def y_out_def Let_def cycle_marks)
  moreover have "y_out G 7 \<le> cy G" using assms(1) by (simp add: y_out_def rings_ok_def)
  ultimately show ?thesis using blend smooth_range by metis
next
  case False
  then show ?thesis using assms by (simp add: packetY_def y_out_def rings_ok_def cycle_marks)
qed

text \<open>The packet never moves outward: on one segment the easing is monotone, and segments follow each other inward.\<close>

lemma packetY_mono_ring:
  assumes "rings_ok G" "t \<le> t'" "RING_START \<le> t" "t' < RING_END"
  shows "packetY G t \<le> packetY G t'"
proof (cases "ring_idx t = ring_idx t'")
  case True
  have "(t - RING_START) / RING_STEP \<le> (t' - RING_START) / RING_STEP"
    using assms(2) by (simp add: divide_right_mono cycle_marks)
  then show ?thesis
    using assms True blend_mono [OF smooth_mono y_in_out [OF assms(1) ring_idx_less [of t']]]
    by (simp add: packetY_def y_in_def y_out_def Let_def)
next
  case False
  then have less: "ring_idx t < ring_idx t'" using ring_idx_mono [OF assms(2)] by simp
  have "packetY G t \<le> y_out G (ring_idx t)" using packetY_ring assms by simp
  also have "\<dots> \<le> y_in G (ring_idx t')" using y_out_in [OF assms(1) less ring_idx_less] .
  also have "\<dots> \<le> packetY G t'" using packetY_ring assms by simp
  finally show ?thesis .
qed

lemma packetY_mono_intro:
  assumes "t \<le> t'" "t' < RING_START"
  shows "packetY G t \<le> packetY G t'"
  using assms smooth_mono [of "t / RING_START" "t' / RING_START"] by (simp add: packetY_def divide_right_mono cycle_marks)

lemma packetY_mono_kernel:
  assumes "rings_ok G" "t \<le> t'" "RING_END \<le> t"
  shows "packetY G t \<le> packetY G t'"
proof (cases "t' < KERNEL_END")
  case True
  then show ?thesis
    using assms smooth_mono [of "(t - RING_END) / (KERNEL_END - RING_END)" "(t' - RING_END) / (KERNEL_END - RING_END)"]
    by (auto simp: packetY_def Let_def cycle_marks rings_ok_def intro!: mult_left_mono)
next
  case False
  then have "packetY G t' = cy G" by (simp add: packetY_def cycle_marks)
  then show ?thesis using packetY_kernel [OF assms(1,3)] by simp
qed

lemma packetY_mono:
  assumes "rings_ok G" "t \<le> t'"
  shows "packetY G t \<le> packetY G t'"
proof -
  consider "t' < RING_START" | "t < RING_START" "RING_START \<le> t'" "t' < RING_END" | "t < RING_START" "RING_END \<le> t'"
    | "RING_START \<le> t" "t' < RING_END" | "RING_START \<le> t" "t < RING_END" "RING_END \<le> t'" | "RING_END \<le> t"
    using assms(2) by linarith
  then show ?thesis
  proof cases
    case 2
    have "y_in G 0 \<le> y_in G (ring_idx t')" using assms(1) ring_idx_less radii_less [of G 0 "ring_idx t'"]
      by (cases "ring_idx t' = 0") (auto simp: y_in_def less_imp_le)
    then show ?thesis using packetY_intro [OF assms(1) 2(1)] packetY_ring [OF assms(1) 2(2,3)] by linarith
  next
    case 3
    have "y_in G 0 \<le> y_out G 7" using y_in_out [OF assms(1), of 7] radii_less [OF assms(1), of 0 7] by (simp add: y_in_def)
    then show ?thesis using packetY_intro [OF assms(1) 3(1)] packetY_kernel [OF assms(1) 3(2)] by linarith
  next
    case 5
    have "y_out G (ring_idx t) \<le> y_out G 7" using y_out_last [OF assms(1) ring_idx_less [of t]] by (simp add: y_out_def)
    then show ?thesis using packetY_ring [OF assms(1) 5(1,2)] packetY_kernel [OF assms(1) 5(3)] by linarith
  qed (simp_all add: assms packetY_mono_intro packetY_mono_ring packetY_mono_kernel)
qed

lemma packetOpacity_range: "0 \<le> packetOpacity h t \<and> packetOpacity h t \<le> 1"
  using smooth_range by (simp add: packetOpacity_def)

lemma kernelGlow_range: "0 \<le> kernelGlow h t \<and> kernelGlow h t \<le> 1"
  using smooth_range by (simp add: kernelGlow_def)

lemma cycle_t_range: "0 \<le> e \<Longrightarrow> 0 \<le> cycle_t e \<and> cycle_t e < 1"
proof -
  assume e: "0 \<le> e"
  have "cycle_t e = e / (52 / 10) - of_int \<lfloor>e / (52 / 10)\<rfloor>"
    using e by (simp add: cycle_t_def js_rem_def diff_divide_distrib)
  then show ?thesis using floor_correct [of "e / (52 / 10)"] by linarith
qed

lemma dispatch_ms_range: "0 \<le> t \<Longrightarrow> 0 \<le> dispatch_ms t \<and> dispatch_ms t \<le> 18"
  by (simp add: dispatch_ms_def)

definition diagram_ok :: "diagram \<Rightarrow> bool" where
  "diagram_ok d \<longleftrightarrow> 0 \<le> d_t d \<and> d_t d < 1 \<and> 0 \<le> d_ms d \<and> d_ms d \<le> 18"

lemma diagram_step_ok:
  assumes "diagram_ok d" "\<forall>s. e = Frame s \<longrightarrow> d_start d \<le> s"
  shows "diagram_ok (diagram_step rm e d) \<and> d_start (diagram_step rm e d) = d_start d"
  using assms cycle_t_range dispatch_ms_range
  by (cases e) (auto simp: diagram_ok_def loop_def setHoverIdx_def Let_def)

lemma diagram_fold_ok:
  assumes "diagram_ok d" "\<forall>s. Frame s \<in> set es \<longrightarrow> d_start d \<le> s"
  shows "diagram_ok (foldl (\<lambda>d e. diagram_step rm e d) d es)"
  using assms
proof (induction es arbitrary: d)
  case (Cons e es)
  then show ?case using diagram_step_ok [of d e rm] by auto
qed simp

lemma diagram_run_ok: "\<forall>s. Frame s \<in> set es \<longrightarrow> now \<le> s \<Longrightarrow> diagram_ok (diagram_run rm now es)"
  unfolding diagram_run_def by (rule diagram_fold_ok) (simp_all add: diagram_ok_def diagram_mount_def diagram_init_def)

text \<open>The strip of the diagram that belongs to what is highlighted; without a highlight, the strip above the outer ring.\<close>

definition strip :: "rings \<Rightarrow> hover option \<Rightarrow> number \<times> number" where
  "strip G active = (case active of
     None \<Rightarrow> (cy G - radii G ! 0 - 50, cy G - radii G ! 0)
   | Some (Ring i) \<Rightarrow> (cy G - radii G ! i, if i < 7 then cy G - radii G ! (i + 1) else cy G - kernelR G - 6)
   | Some Kernel \<Rightarrow> (cy G - kernelR G - 6, cy G))"

lemma strip_contains:
  assumes "rings_ok G" "showPacket h t"
  shows "fst (strip G (activeFromT h t)) \<le> packetY G t \<and> packetY G t \<le> snd (strip G (activeFromT h t))"
proof -
  have h: "h = None" and "packetOpacity h t > 1 / 100" using assms(2) by (auto simp: showPacket_def)
  then have "t < KERNEL_END" by (auto simp: packetOpacity_def cycle_marks split: if_splits)
  then consider "t < RING_START" | "RING_START \<le> t" "t < RING_END" | "RING_END \<le> t" "t < KERNEL_END" by linarith
  then show ?thesis
  proof cases
    case 1
    then show ?thesis using packetY_intro [OF assms(1) 1] h by (simp add: strip_def activeFromT_def y_in_def)
  next
    case 2
    then show ?thesis using packetY_ring [OF assms(1) 2] h by (simp add: strip_def activeFromT_def y_in_def y_out_def)
  next
    case 3
    then show ?thesis using packetY_kernel [OF assms(1) 3(1)] h by (simp add: strip_def activeFromT_def y_out_def cycle_marks)
  qed
qed

lemma packetY_top: "rings_ok G \<Longrightarrow> cy G - radii G ! 0 - 50 \<le> packetY G t"
  using packetY_mono [of G 0 t] packetY_intro [of G 0] packetY_intro [of G t]
  by (cases "t \<le> 0") (force simp: y_in_def cycle_marks)+

text \<open>
  The ring diagram, in both sizes, after any sequence of frames and pointer events: the cycle position is in range and
  the published dispatch time is between 0 and 18; a packet that is drawn is inside the strip of what is highlighted, no
  later position is further out, its trail points outward, and all opacities are in range; while something is hovered
  nothing but the hovered item is highlighted, no packet is drawn and frames change nothing.
\<close>

theorem packet_in_active_ring:
  assumes "\<forall>s. Frame s \<in> set es \<longrightarrow> now \<le> s"
    and "d = diagram_run rm now es" and "G = rings_of v" and "h = d_hover d" and "t = d_t d" and "y = packetY G t"
  shows "0 \<le> t \<and> t < 1 \<and> 0 \<le> d_ms d \<and> d_ms d \<le> 18
    \<and> (showPacket h t \<longrightarrow> fst (strip G (activeFromT h t)) \<le> y \<and> y \<le> snd (strip G (activeFromT h t)))
    \<and> (\<forall>t' \<ge> t. y \<le> packetY G t') \<and> fst (trail G y) \<le> snd (trail G y)
    \<and> packetOpacity h t \<in> {0..1} \<and> kernelGlow h t \<in> {0..1}
    \<and> (h \<noteq> None \<longrightarrow> activeFromT h t = h \<and> \<not> showPacket h t \<and> (\<forall>s. diagram_step rm (Frame s) d = d))"
proof -
  have ok: "diagram_ok d" using diagram_run_ok [OF assms(1)] assms(2) by simp
  have G: "rings_ok G" using assms(3) rings_ok_of by simp
  have "\<forall>t' \<ge> t. y \<le> packetY G t'" using packetY_mono [OF G] assms(6) by simp
  moreover have "fst (trail G y) \<le> snd (trail G y)" using packetY_top [OF G, of t] assms(6) by (simp add: trail_def)
  moreover have "h \<noteq> None \<longrightarrow> activeFromT h t = h \<and> \<not> showPacket h t \<and> (\<forall>s. diagram_step rm (Frame s) d = d)"
    using assms(4) by (simp add: activeFromT_def showPacket_def loop_def)
  ultimately show ?thesis
    using ok assms(5,6) strip_contains [OF G, of h t] packetOpacity_range kernelGlow_range by (simp add: diagram_ok_def)
qed

definition quarter :: diagram where
  "quarter = diagram_run False 0 [Enter Kernel, Frame 500, Leave, Frame 1300]"

lemma quarter_floors: "\<lfloor>1 / 4 :: number\<rfloor> = 0" "\<lfloor>19 / 6 :: number\<rfloor> = 3"
  by (simp_all add: floor_eq_iff)

lemma quarter_eq: "quarter = \<lparr>d_t = 1 / 4, d_hover = None, d_ms = 7, d_start = 0\<rparr>"
  by (simp add: quarter_def diagram_run_def diagram_mount_def diagram_init_def loop_def setHoverIdx_def cycle_t_def js_rem_def
      dispatch_ms_def quarter_floors)

lemma quarter_active: "activeFromT None (1 / 4) = Some (Ring 3)" "showPacket None (1 / 4)"
  by (simp_all add: activeFromT_def ring_idx_def showPacket_def packetOpacity_def cycle_marks quarter_floors)

lemma quarter_strip: "strip (rings_of False) (Some (Ring 3)) = (230 - 124, 230 - 104)"
  by (simp add: strip_def rings_of_def HERO_RINGS_def)

theorem packet_in_active_ring_witness:
  "230 - 124 \<le> packetY (rings_of False) (1 / 4) \<and> packetY (rings_of False) (1 / 4) \<le> 230 - 104"
proof -
  have "\<forall>s. Frame s \<in> set [Enter Kernel, Frame 500, Leave, Frame 1300] \<longrightarrow> 0 \<le> s" by auto
  note * = packet_in_active_ring [OF this quarter_def refl refl refl refl, of False]
  have "showPacket (d_hover quarter) (d_t quarter)" by (simp add: quarter_eq quarter_active)
  with * have "fst (strip (rings_of False) (activeFromT (d_hover quarter) (d_t quarter))) \<le> packetY (rings_of False) (d_t quarter)
      \<and> packetY (rings_of False) (d_t quarter) \<le> snd (strip (rings_of False) (activeFromT (d_hover quarter) (d_t quarter)))"
    by blast
  then show ?thesis by (simp add: quarter_eq quarter_active quarter_strip)
qed

end
