(* ===== verification/LandingPage.thy ===== *)
theory LandingPage
  imports Teaser LayerDiagram
begin

text \<open>
  The landing page as a whole: the section on isolation, the page (\<^verbatim>\<open>landing/App.tsx\<close>), its state and what the elements of the
  page do to it. The lemmas are about the links: none is dead, and none leads to the documentation when it is hidden.
\<close>

section \<open>The section on isolation\<close>

definition layer_shown :: "nat option \<Rightarrow> nat" where
  "layer_shown hovered = (case hovered of Some i \<Rightarrow> i | None \<Rightarrow> 0)"

definition layer_card :: "nat \<Rightarrow> 'm vnode" where
  "layer_card active =
     tag ''div'' (js ''layer-card'') [tag ''div'' (js ''layer-card-inner'')
       [tag ''span'' (js ''num'') [Txt (js ''layer '' @ pad2 (active + 1))],
        tag ''h3'' (js ''name'') [Txt (ly_name (LAYERS ! active))],
        tag ''p'' (js ''desc'') [Txt (ly_note (LAYERS ! active))],
        tag ''code'' (js ''call'') [tag ''span'' (js ''tok'') [Txt (js ''syscall'')], Txt ([SPACE, MIDDOT, SPACE] @ ly_call (LAYERS ! active))]]]"

definition IsolationSection :: "nat option \<Rightarrow> landing_msg vnode" where
  "IsolationSection hovered =
     (let active = layer_shown hovered in
      anchored (js ''zc-iso'') ''isolation''
        [SectionHeader ''isolation'' (js ''Eight layers between attacker <span class='' @ [34] @ js ''it'' @ [34] @ js ''>and host.</span>'')
           (js ''Every submission runs in its own user namespace, behind seccomp, landlock, and a pivot_rooted runner rootfs. The same primitives Linux production containers rely on '' @ [8212] @ js '' wired straight into the sandbox.''),
         tag ''div'' (js ''zc-iso-grid'')
           [tag ''div'' (js ''zc-iso-stage'') [tag ''div'' (js ''ldiag ldiag-hero'') [icon_svg]],
            tag ''div'' (js ''zc-iso-info'')
              [layer_card active,
               tag ''div'' (js ''layer-list'')
                 (map (\<lambda>(i, l). El ''button'' (cls (if i = active then js ''active'' else []))
                    [(''mouseenter'', HoverLayer i), (''focus'', HoverLayer i), (''click'', HoverLayer i)] [Txt (js (ly_short l))])
                    (enumerate 0 LAYERS))]]])"

section \<open>The page\<close>

record landing =
  l_nav :: nav
  l_hero :: hero
  l_hovered :: "nat option"
  l_teaser :: teaser

definition landing_init :: landing where
  "landing_init = \<lparr>l_nav = \<lparr>n_scrolled = False, n_menuOpen = False\<rparr>, l_hero = \<lparr>h_typed = [], h_showOut = -1, h_restart = 0\<rparr>,
     l_hovered = None, l_teaser = teaser_init\<rparr>"

text \<open>
  What the handlers do; the switch of the theme leaves the state of the page alone (its own state is in the theory of
  the theme). The first argument is the random part of the token of a run of the teaser.
\<close>

fun landing_act :: "jsstr \<Rightarrow> landing_msg \<Rightarrow> landing \<Rightarrow> landing" where
  "landing_act rnd SwitchTheme s = s"
| "landing_act rnd BurgerClick s = s\<lparr>l_nav := burger (l_nav s)\<rparr>"
| "landing_act rnd MenuLink s = s\<lparr>l_nav := (l_nav s)\<lparr>n_menuOpen := False\<rparr>\<rparr>"
| "landing_act rnd (HoverLayer i) s = s\<lparr>l_hovered := Some i\<rparr>"
| "landing_act rnd RunTeaser s = s\<lparr>l_teaser := run (t_phase (l_teaser s)) rnd (l_teaser s)\<rparr>"

text \<open>The page; \<open>cnt\<close> is the number the counter of the section on speed has reached. The bar that shows the scroll position is animation only.\<close>

definition Landing_App :: "string option \<Rightarrow> jsstr \<Rightarrow> landing \<Rightarrow> landing_msg vnode" where
  "Landing_App env cnt s =
     tag ''div'' (js ''zc-root'')
       (Nav env (l_nav s)
        @ [Hero env (l_hero s), IsolationSection (l_hovered s), HowItWorks, LanguageMatrix, TestCasesSection env, SpeedSection cnt,
           PlaygroundTeaser (l_teaser s), Footer env])"

section \<open>The navigation of the playground\<close>

datatype top_msg = ToggleTheme

definition ThemeToggle :: "bool \<Rightarrow> top_msg vnode" where
  "ThemeToggle isLight =
     El ''button'' (cls (js ''pg-theme'')
       @ [(''aria-label'', if isLight then js ''Switch to dark theme'' else js ''Switch to light theme''),
          (''title'', if isLight then js ''Dark mode'' else js ''Light mode'')]) [(''click'', ToggleTheme)] [icon_svg]"

definition TopNav :: "string option \<Rightarrow> bool \<Rightarrow> jsstr \<Rightarrow> top_msg vnode" where
  "TopNav env isLight token =
     tag ''nav'' (js ''pg-nav'')
       [El ''a'' (cls (js ''pg-mark'') @ href ''/'' @ [(''aria-label'', js ''ZeroCode home'')]) []
          [tag ''span'' (js ''g'') [icon_svg], Txt (js ''zerocode'')],
        tag ''div'' (js ''pg-nav-right'')
          ([El ''a'' (cls (js ''pg-nav-link'') @ href ''/'') [] [Txt (js ''home'')],
            tag ''span'' (js ''pg-nav-sep'') [Txt [MIDDOT]]]
           @ only_if (\<not> HIDE_DOCS env)
               [El ''a'' (cls (js ''pg-nav-link'') @ href ''/docs/'') [] [Txt (js ''docs'')],
                tag ''span'' (js ''pg-nav-sep'') [Txt [MIDDOT]]]
           @ [El ''span'' (cls (js ''pg-tok'') @ [(''title'', js ''token '' @ [MIDDOT, SPACE] @ token)]) []
                [Txt (js ''token '' @ [MIDDOT, SPACE] @ token)],
              ThemeToggle isLight])]"

section \<open>Links\<close>

text \<open>The values of an attribute in a tree.\<close>

fun attr_values :: "string \<Rightarrow> 'm vnode \<Rightarrow> jsstr set" where
  "attr_values a (Txt _) = {}"
| "attr_values a (El _ as _ kids) = set (map snd (filter (\<lambda>x. fst x = a) as)) \<union> (\<Union>k \<in> set kids. attr_values a k)"

lemmas view_simps = tag_def cls_def href_def link_def bold_def doc_link_def only_if_def

lemma attr_tag: "attr_values a (tag t c kids) = (if a = ''class'' then {c} else {}) \<union> (\<Union>k \<in> set kids. attr_values a k)"
  by (auto simp: tag_def cls_def)

lemma attr_anchored:
  "attr_values a (anchored c i kids) = (if a = ''class'' then {c, c @ js ''-inner''} else if a = ''id'' then {js i} else {})
     \<union> (\<Union>k \<in> set kids. attr_values a k)"
  by (auto simp: anchored_def attr_tag cls_def)

definition links :: "'m vnode \<Rightarrow> jsstr set" where
  "links = attr_values ''href''"

definition ids :: "'m vnode \<Rightarrow> jsstr set" where
  "ids = attr_values ''id''"

lemma header_values [simp]: "a \<in> {''href'', ''id''} \<Longrightarrow> attr_values a (SectionHeader k t s) = {}"
  by (auto simp: SectionHeader_def attr_tag only_if_def)

text \<open>The links of the parts.\<close>

definition nav_links :: "string option \<Rightarrow> jsstr set" where
  "nav_links env = js ` ({''/'', ''#isolation'', ''#how'', ''#languages'', ''#batch'', ''/playground.html'', GET_STARTED_HREF env}
     \<union> (if HIDE_DOCS env then {} else {''/docs/''}))"

lemma nav_values: "(\<Union>k \<in> set (Nav env n). attr_values ''href'' k) = nav_links env" "(\<Union>k \<in> set (Nav env n). attr_values ''id'' k) = {}"
  by (auto simp: Nav_def attr_tag sheet_link_def nav_links_def view_simps)

lemma hero_values: "attr_values ''href'' (Hero env h) = js ` {GET_STARTED_HREF env, ''/playground.html''}" "attr_values ''id'' (Hero env h) = {}"
  by (auto simp: Hero_def attr_tag cls_def href_def bold_def only_if_def split: prod.splits)

lemma isolation_values: "attr_values ''href'' (IsolationSection h) = {}" "attr_values ''id'' (IsolationSection h) = {js ''isolation''}"
  by (auto simp: IsolationSection_def Let_def attr_anchored attr_tag layer_card_def cls_def split: prod.splits)

lemma how_values: "attr_values ''href'' HowItWorks = {}" "attr_values ''id'' HowItWorks = {js ''how''}"
  by (auto simp: HowItWorks_def attr_anchored attr_tag)

lemma lang_values: "attr_values ''href'' LanguageMatrix = {}" "attr_values ''id'' LanguageMatrix = {js ''languages''}"
  by (auto simp: LanguageMatrix_def attr_anchored attr_tag bold_def lang_glyph_def split: prod.splits option.splits)

lemma tests_values:
  "attr_values ''href'' (TestCasesSection env) = js ` ({''/playground.html''} \<union> (if HIDE_DOCS env then {} else {''/docs/api''}))"
  "attr_values ''id'' (TestCasesSection env) = {js ''batch''}"
  by (auto simp: TestCasesSection_def attr_anchored attr_tag cls_def href_def only_if_def split: prod.splits)

lemma speed_values: "attr_values ''href'' (SpeedSection c) = {}" "attr_values ''id'' (SpeedSection c) = {js ''speed''}"
  by (auto simp: SpeedSection_def attr_anchored attr_tag split: prod.splits)

lemma teaser_values:
  "attr_values ''href'' (PlaygroundTeaser s) = {js ''/playground.html''}" "attr_values ''id'' (PlaygroundTeaser s) = {}"
  by (auto simp: PlaygroundTeaser_def teaser_output_def foot_item_def attr_tag cls_def href_def disabled_if_def only_if_def split: prod.splits)

lemma footer_values:
  "attr_values ''href'' (Footer env) = js ` ({''/playground.html'', ''/v1/openapi.json''} \<union> (if HIDE_DOCS env then {} else
     {''/docs/quickstart'', ''/docs/languages'', ''/docs/security'', ''/docs/api'', ''/docs/sdks'', ''/docs/observability'', ''/docs/deployment''}))"
  "attr_values ''id'' (Footer env) = {}"
  by (auto simp: Footer_def attr_tag view_simps)

text \<open>The pages of the documentation site, by their addresses.\<close>

definition DOC_PAGES :: "string list" where
  "DOC_PAGES = ''/docs/'' # map (\<lambda>p. ''/docs/'' @ p)
     [''api'', ''architecture'', ''languages'', ''deployment'', ''security'', ''sdks'', ''changelog'', ''observability'', ''quickstart'']"

text \<open>
  The addresses a build serves: the page itself and the playground, the description of the API, the anchors of the
  page, and the documentation unless it is hidden.
\<close>

definition served :: "string option \<Rightarrow> jsstr set \<Rightarrow> jsstr set" where
  "served env anchors = js ` {''/'', ''/playground.html'', ''/v1/openapi.json''} \<union> (\<lambda>i. js ''#'' @ i) ` anchors
     \<union> (if HIDE_DOCS env then {} else js ` set DOC_PAGES)"

lemma page_links:
  "links (Landing_App env cnt s) = nav_links env \<union> attr_values ''href'' (TestCasesSection env :: landing_msg vnode) \<union> attr_values ''href'' (Footer env :: landing_msg vnode)"
  by (auto simp: links_def Landing_App_def attr_tag nav_values hero_values isolation_values how_values lang_values speed_values teaser_values
      nav_links_def)

lemma top_links: "links (TopNav env isLight token) = js ` ({''/''} \<union> (if HIDE_DOCS env then {} else {''/docs/''}))"
  by (cases "HIDE_DOCS env") (simp_all add: links_def TopNav_def ThemeToggle_def attr_tag cls_def href_def)

lemma page_ids: "ids (Landing_App env cnt s) = js ` {''isolation'', ''how'', ''languages'', ''batch'', ''speed''}"
  by (auto simp: ids_def Landing_App_def attr_tag nav_values hero_values isolation_values how_values lang_values tests_values speed_values
      teaser_values footer_values)

lemma landing_links:
  "links (Landing_App env cnt s) \<subseteq> served env (ids (Landing_App env cnt s))
   \<and> js (GET_STARTED_HREF env) \<in> links (Landing_App env cnt s)
   \<and> (if HIDE_DOCS env then links (Landing_App env cnt s) \<inter> js ` set DOC_PAGES = {}
      else js ` set DOC_PAGES - links (Landing_App env cnt s) = {js ''/docs/architecture'', js ''/docs/changelog''})"
  unfolding page_links page_ids tests_values footer_values nav_links_def served_def DOC_PAGES_def GET_STARTED_HREF_def
  by (auto simp: js_append [symmetric] image_iff)

lemma top_served: "links (TopNav env isLight token) \<subseteq> served env {}"
  unfolding top_links served_def DOC_PAGES_def by simp


end
