(* ===== verification/Icons.thy ===== *)
theory Icons
  imports IconArt DocsCatalog Dom Json Complex_Main
begin

text \<open>
  \<^verbatim>\<open>LangIcon\<close> of \<^verbatim>\<open>shared/lang-icons.tsx\<close>, the icon every page shows for a language, and its agreement with the catalogue of
  the documentation, which says of itself that it mirrors that file. Inline styles are left out. The contrast of a monogram
  is computed with reals.
\<close>

section \<open>Contrast of a monogram\<close>

definition hex_value :: "cu \<Rightarrow> nat option" where
  "hex_value c = (let n = unat c in
     if 48 \<le> n \<and> n \<le> 57 then Some (n - 48) else if 97 \<le> n \<and> n \<le> 102 then Some (n - 87)
     else if 65 \<le> n \<and> n \<le> 70 then Some (n - 55) else None)"

text \<open>\<^verbatim>\<open>parseInt(s, 16)\<close>: \<open>None\<close> is \<^verbatim>\<open>NaN\<close>.\<close>

fun hex_digits :: "nat \<Rightarrow> jsstr \<Rightarrow> nat" where
  "hex_digits acc [] = acc"
| "hex_digits acc (c # cs) = (case hex_value c of Some d \<Rightarrow> hex_digits (16 * acc + d) cs | None \<Rightarrow> acc)"

definition parseInt16 :: "jsstr \<Rightarrow> int option" where
  "parseInt16 s =
     (let t = dropWhile is_ws s; neg = (t \<noteq> [] \<and> hd t = 45);
          u = (if t \<noteq> [] \<and> hd t \<in> {43, 45} then tl t else t);
          v = (if take 2 u \<in> {js ''0x'', js ''0X''} then drop 2 u else u)
      in if v = [] \<or> hex_value (hd v) = None then None
         else Some ((if neg then -1 else 1) * int (hex_digits 0 v)))"

definition lin :: "real \<Rightarrow> real" where
  "lin c = (if c \<le> 3928 / 100000 then c / (1292 / 100) else ((c + 55 / 1000) / (1055 / 1000)) powr (24 / 10))"

definition strip_hash :: "jsstr \<Rightarrow> jsstr" where
  "strip_hash hex = (case index_sub [35] hex of Some i \<Rightarrow> take i hex @ drop (i + 1) hex | None \<Rightarrow> hex)"

definition luminance :: "jsstr \<Rightarrow> real option" where
  "luminance h = (case (parseInt16 (slice 0 2 h), parseInt16 (slice 2 4 h), parseInt16 (slice 4 6 h)) of
     (Some r, Some g, Some b) \<Rightarrow>
       Some (2126 / 10000 * lin (of_int r / 255) + 7152 / 10000 * lin (of_int g / 255) + 722 / 10000 * lin (of_int b / 255))
   | _ \<Rightarrow> None)"

definition readableOn :: "jsstr \<Rightarrow> jsstr" where
  "readableOn hex = (case luminance (strip_hash hex) of
     Some l \<Rightarrow> if l > 1 / 2 then js ''#111'' else js ''#fff''
   | None \<Rightarrow> js ''#fff'')"

lemma readableOn_ends: "readableOn (js ''#ffffff'') = js ''#111''" "readableOn (js ''#000000'') = js ''#fff''"
proof -
  have "parseInt16 (slice 0 2 (js ''ffffff'')) = Some 255" "parseInt16 (slice 2 4 (js ''ffffff'')) = Some 255"
    "parseInt16 (slice 4 6 (js ''ffffff'')) = Some 255" "strip_hash (js ''#ffffff'') = js ''ffffff''"
    "parseInt16 (slice 0 2 (js ''000000'')) = Some 0" "parseInt16 (slice 2 4 (js ''000000'')) = Some 0"
    "parseInt16 (slice 4 6 (js ''000000'')) = Some 0" "strip_hash (js ''#000000'') = js ''000000''"
    by code_simp+
  then show "readableOn (js ''#ffffff'') = js ''#111''" "readableOn (js ''#000000'') = js ''#fff''"
    by (simp_all add: readableOn_def luminance_def lin_def)
qed

section \<open>LangIcon\<close>

text \<open>Width and height, class, colour and title may be given.\<close>

record icon_props =
  ip_size :: number
  ip_className :: "jsstr option"
  ip_color :: "jsstr option"
  ip_title :: "jsstr option"

definition icon_props0 :: icon_props where
  "icon_props0 = \<lparr>ip_size = 20, ip_className = None, ip_color = None, ip_title = None\<rparr>"

definition icon_label :: "icon \<Rightarrow> icon_props \<Rightarrow> jsstr" where
  "icon_label d p = opt (js (i_title d)) (ip_title p)"

definition view_box :: "icon \<Rightarrow> string" where
  "view_box d = (case i_viewBox d of Some v \<Rightarrow> if v = [] then ''0 0 24 24'' else v | None \<Rightarrow> ''0 0 24 24'')"

definition svg_props :: "icon \<Rightarrow> string \<Rightarrow> icon_props \<Rightarrow> (string \<times> jsstr) list" where
  "svg_props d vb p =
     [(''xmlns'', js ''http://www.w3.org/2000/svg''), (''viewBox'', js vb), (''width'', numText (ip_size p)),
      (''height'', numText (ip_size p)), (''role'', js ''img''), (''aria-label'', icon_label d p)]
     @ (case ip_className p of Some c \<Rightarrow> [(''class'', c)] | None \<Rightarrow> [])"

definition mono_font :: "string \<Rightarrow> number" where
  "mono_font label = (if length label \<le> 1 then 125 / 10 else if length label = 2 then 105 / 10 else 8)"

text \<open>The elements of a drawing with a given fill; the logos bring their own.\<close>

definition drawing :: "icon_art \<Rightarrow> jsstr \<Rightarrow> (string \<times> jsstr) list list" where
  "drawing a fill = (case a of
     PathArt d \<Rightarrow> [[(''d'', js d), (''fill'', fill)]]
   | RenderArt es \<Rightarrow> map (map (\<lambda>(k, v). (k, js v))) es
   | MonoArt _ \<Rightarrow> [])"

definition icon_fill :: "icon \<Rightarrow> icon_props \<Rightarrow> jsstr" where
  "icon_fill d p = opt (js ''var(--lang-color, #'' @ js (i_hex d) @ js '')'') (ip_color p)"

definition icon_view :: "icon \<Rightarrow> icon_art \<Rightarrow> icon_props \<Rightarrow> 'm vnode" where
  "icon_view d a p =
     (let title = El ''title'' [] [] [Txt (icon_label d p)]
      in case a of
        MonoArt label \<Rightarrow>
          (let bg = opt (js ''#'' @ js (i_hex d)) (ip_color p)
           in El ''svg'' (svg_props d ''0 0 24 24'' p) []
                [title,
                 El ''rect'' [(''x'', js ''1''), (''y'', js ''1''), (''width'', js ''22''), (''height'', js ''22''), (''rx'', js ''5.5''),
                   (''fill'', bg)] [] [],
                 El ''text'' [(''x'', js ''12''), (''y'', js ''13''), (''text-anchor'', js ''middle''), (''dominant-baseline'', js ''central''),
                   (''font-family'', js ''ui-monospace, SFMono-Regular, Menlo, monospace''), (''font-weight'', js ''700''),
                   (''font-size'', numText (mono_font label)), (''fill'', readableOn bg)] [] [Txt (js label)]])
      | _ \<Rightarrow> El ''svg'' (svg_props d (view_box d) p) [] (title # map (\<lambda>as. El ''path'' as [] []) (drawing a (icon_fill d p))))"

definition LangIcon :: "lang_key \<Rightarrow> icon_props \<Rightarrow> 'm vnode" where
  "LangIcon k p = icon_view (ICONS k) (art_of k) p"

text \<open>The names kept for the callers of the first seven languages.\<close>

definition PythonIcon :: "icon_props \<Rightarrow> 'm vnode" where "PythonIcon = LangIcon K_python"
definition NodeIcon :: "icon_props \<Rightarrow> 'm vnode" where "NodeIcon = LangIcon K_node"
definition RustIcon :: "icon_props \<Rightarrow> 'm vnode" where "RustIcon = LangIcon K_rust"
definition GoIcon :: "icon_props \<Rightarrow> 'm vnode" where "GoIcon = LangIcon K_go"
definition CIcon :: "icon_props \<Rightarrow> 'm vnode" where "CIcon = LangIcon K_c"
definition CppIcon :: "icon_props \<Rightarrow> 'm vnode" where "CppIcon = LangIcon K_cpp"
definition JavaIcon :: "icon_props \<Rightarrow> 'm vnode" where "JavaIcon = LangIcon K_java"

section \<open>The colour of an icon\<close>

text \<open>Which icons are logos: every icon has the drawing of its kind, and none is a monogram.\<close>

lemma art_kind: "(case art_of k of PathArt _ \<Rightarrow> i_kind (ICONS k) = IconPath | RenderArt _ \<Rightarrow> i_kind (ICONS k) = IconCustom | MonoArt _ \<Rightarrow> False)"
  by (cases k) (simp_all add: icon.make_def)

text \<open>
  A colour is honoured by the single-path marks and ignored by the multi-colour logos.
\<close>

lemma icon_colour:
  "(if i_kind (ICONS k) = IconCustom then LangIcon k (p\<lparr>ip_color := Some c\<rparr>) = (LangIcon k p :: 'm vnode)
    else \<exists>as ts d. LangIcon k (p\<lparr>ip_color := Some c\<rparr>) = (El ''svg'' as [] [ts, El ''path'' [(''d'', d), (''fill'', c)] [] []] :: 'm vnode))"
  using art_kind [of k]
  by (cases "art_of k")
     (simp_all add: LangIcon_def icon_view_def drawing_def icon_fill_def svg_props_def icon_label_def Let_def)

section \<open>The documentation shows the same icons\<close>

definition attr_text :: "string \<times> jsstr \<Rightarrow> jsstr" where
  "attr_text a = js (fst a) @ js ''=\"'' @ snd a @ js ''\"''"

text \<open>Markup of a drawing: \<open>sep\<close> stands between the elements, \<open>close\<close> ends one.\<close>

definition svg_text :: "string \<Rightarrow> string \<Rightarrow> (string \<times> jsstr) list list \<Rightarrow> jsstr" where
  "svg_text sep close els = join (js sep) (map (\<lambda>as. js ''<path '' @ join (js '' '') (map attr_text as) @ js close) els)"

lemma js_concat: "js (concat ss) = concat (map js ss)"
  by (induction ss) (simp_all add: js_append js_def)

text \<open>The pieces of markup of the catalogue.\<close>

lemma svg_pieces:
  "''<path d=\"'' = ''<path '' @ ''d'' @ ''=\"''"
  "''<path fill=\"'' = ''<path '' @ ''fill'' @ ''=\"''"
  "''\" fill=\"'' = ''\"'' @ '' '' @ ''fill'' @ ''=\"''"
  "''\" d=\"'' = ''\"'' @ '' '' @ ''d'' @ ''=\"''"
  "''\" fill-rule=\"'' = ''\"'' @ '' '' @ ''fill-rule'' @ ''=\"''"
  "''\" clip-rule=\"'' = ''\"'' @ '' '' @ ''clip-rule'' @ ''=\"''"
  "''\"/>'' = ''\"'' @ ''/>''"
  "''\" />'' = ''\"'' @ '' />''"
  "''\" /> '' = ''\"'' @ '' />'' @ '' ''"
  by simp_all

lemmas svg_simps = svg_text_def attr_text_def drawing_def icon_art.case js_concat list.map prod.case fst_conv snd_conv
  join.simps concat.simps append_assoc append_Nil append_Nil2 js_append js_Nil

lemma svg_c: "js (dl_svg doc_c) = svg_text '' '' '' />'' (drawing (art_of K_c) (js ''#283593''))"
  unfolding doc_c_def catalog_lang.make_def catalog_lang.select_convs art_of.simps cRender_def svg_simps svg_pieces by (rule refl)

lemma svg_cpp: "js (dl_svg doc_cpp) = svg_text '' '' '' />'' (drawing (art_of K_cpp) (js ''#00549d''))"
  unfolding doc_cpp_def catalog_lang.make_def catalog_lang.select_convs art_of.simps cppRender_def svg_simps svg_pieces by (rule refl)

lemma svg_go: "js (dl_svg doc_go) = svg_text '''' ''/>'' (drawing (art_of K_go) (js ''#00ADD8''))"
  unfolding doc_go_def catalog_lang.make_def catalog_lang.select_convs art_of.simps path_go_def svg_simps svg_pieces by (rule refl)

lemma svg_java: "js (dl_svg doc_java) = svg_text '' '' '' />'' (drawing (art_of K_java) (js ''#ED8B00''))"
  unfolding doc_java_def catalog_lang.make_def catalog_lang.select_convs art_of.simps javaRender_def svg_simps svg_pieces by (rule refl)

lemma svg_node: "js (dl_svg doc_node) = svg_text '''' ''/>'' (drawing (art_of K_node) (js ''#5FA04E''))"
  unfolding doc_node_def catalog_lang.make_def catalog_lang.select_convs art_of.simps path_node_def svg_simps svg_pieces by (rule refl)

lemma svg_python: "js (dl_svg doc_python) = svg_text '' '' '' />'' (drawing (art_of K_python) (js ''#3776AB''))"
  unfolding doc_python_def catalog_lang.make_def catalog_lang.select_convs art_of.simps pythonRender_def svg_simps svg_pieces by (rule refl)

lemma svg_rust: "js (dl_svg doc_rust) = svg_text '''' ''/>'' (drawing (art_of K_rust) (js ''#CE412B''))"
  unfolding doc_rust_def catalog_lang.make_def catalog_lang.select_convs art_of.simps path_rust_def svg_simps svg_pieces by (rule refl)

lemma svg_bash: "js (dl_svg doc_bash) = svg_text '''' ''/>'' (drawing (art_of K_bash) (js ''#4EAA25''))"
  unfolding doc_bash_def catalog_lang.make_def catalog_lang.select_convs art_of.simps path_bash_def svg_simps svg_pieces by (rule refl)

lemma svg_lua: "js (dl_svg doc_lua) = svg_text '''' ''/>'' (drawing (art_of K_lua) (js ''#2C2D72''))"
  unfolding doc_lua_def catalog_lang.make_def catalog_lang.select_convs art_of.simps path_lua_def svg_simps svg_pieces by (rule refl)

lemma svg_perl: "js (dl_svg doc_perl) = svg_text '''' ''/>'' (drawing (art_of K_perl) (js ''#39457E''))"
  unfolding doc_perl_def catalog_lang.make_def catalog_lang.select_convs art_of.simps path_perl_def svg_simps svg_pieces by (rule refl)

lemma svg_ruby: "js (dl_svg doc_ruby) = svg_text '''' ''/>'' (drawing (art_of K_ruby) (js ''#CC342D''))"
  unfolding doc_ruby_def catalog_lang.make_def catalog_lang.select_convs art_of.simps path_ruby_def svg_simps svg_pieces by (rule refl)

lemma svg_r: "js (dl_svg doc_r) = svg_text '''' ''/>'' (drawing (art_of K_r) (js ''#276DC3''))"
  unfolding doc_r_def catalog_lang.make_def catalog_lang.select_convs art_of.simps path_r_def svg_simps svg_pieces by (rule refl)

lemma svg_php: "js (dl_svg doc_php) = svg_text '''' ''/>'' (drawing (art_of K_php) (js ''#777BB4''))"
  unfolding doc_php_def catalog_lang.make_def catalog_lang.select_convs art_of.simps path_php_def svg_simps svg_pieces by (rule refl)

lemma svg_typescript: "js (dl_svg doc_typescript) = svg_text '''' ''/>'' (drawing (art_of K_typescript) (js ''#3178C6''))"
  unfolding doc_typescript_def catalog_lang.make_def catalog_lang.select_convs art_of.simps path_typescript_def svg_simps svg_pieces by (rule refl)

lemma svg_kotlin: "js (dl_svg doc_kotlin) = svg_text '''' ''/>'' (drawing (art_of K_kotlin) (js ''#7F52FF''))"
  unfolding doc_kotlin_def catalog_lang.make_def catalog_lang.select_convs art_of.simps path_kotlin_def svg_simps svg_pieces by (rule refl)

lemma svg_scala: "js (dl_svg doc_scala) = svg_text '''' ''/>'' (drawing (art_of K_scala) (js ''#DC322F''))"
  unfolding doc_scala_def catalog_lang.make_def catalog_lang.select_convs art_of.simps path_scala_def svg_simps svg_pieces by (rule refl)

lemma svg_csharp: "js (dl_svg doc_csharp) = svg_text '''' ''/>'' (drawing (art_of K_csharp) (js ''#9B4F96''))"
  unfolding doc_csharp_def catalog_lang.make_def catalog_lang.select_convs art_of.simps csharpRender_def svg_simps svg_pieces by (rule refl)

lemma svg_swift: "js (dl_svg doc_swift) = svg_text '''' ''/>'' (drawing (art_of K_swift) (js ''#F05138''))"
  unfolding doc_swift_def catalog_lang.make_def catalog_lang.select_convs art_of.simps path_swift_def svg_simps svg_pieces by (rule refl)

lemma svg_dart: "js (dl_svg doc_dart) = svg_text '''' ''/>'' (drawing (art_of K_dart) (js ''#0175C2''))"
  unfolding doc_dart_def catalog_lang.make_def catalog_lang.select_convs art_of.simps path_dart_def svg_simps svg_pieces by (rule refl)

lemma svg_sql: "js (dl_svg doc_sql) = svg_text '''' ''/>'' (drawing (art_of K_sql) (js ''#003B57''))"
  unfolding doc_sql_def catalog_lang.make_def catalog_lang.select_convs art_of.simps path_sql_def svg_simps svg_pieces by (rule refl)

text \<open>An entry of the catalogue and the icon of its language: name, colour, view box and markup, up to the white space between elements.
  \<open>icon_paths\<close> are the elements a tree draws.\<close>

fun icon_paths :: "'m vnode \<Rightarrow> (string \<times> jsstr) list list" where
  "icon_paths (El tag as hs kids) = (if tag = ''path'' then [as] else concat (map icon_paths kids))"
| "icon_paths (Txt t) = []"

lemma concat_singles: "concat (map (\<lambda>x. [x]) xs) = xs"
  by (induction xs) simp_all

lemma icon_paths_LangIcon: "icon_paths (LangIcon k p :: 'm vnode) = drawing (art_of k) (icon_fill (ICONS k) p)"
  using art_kind [of k] by (cases "art_of k") (simp_all add: LangIcon_def icon_view_def Let_def comp_def concat_singles)

definition in_colour :: "jsstr \<Rightarrow> icon_props" where
  "in_colour c = icon_props0\<lparr>ip_color := Some c\<rparr>"

definition mirrors :: "catalog_lang \<Rightarrow> bool" where
  "mirrors l = (case langKeyFromId (dl_id l) of
     None \<Rightarrow> False
   | Some k \<Rightarrow>
       (let els = icon_paths (LangIcon k (in_colour (js (CHR ''#'' # langBrandHex k))) :: unit vnode)
        in dl_name l = i_title (ICONS k) \<and> dl_hex l = langBrandHex k \<and> dl_viewBox l = view_box (ICONS k)
           \<and> (js (dl_svg l) = svg_text [] ''/>'' els \<or> js (dl_svg l) = svg_text '' '' '' />'' els)))"

lemma mirrorsI:
  assumes "js (dl_svg l) = svg_text sep cl (drawing (art_of k) (js h))" "langKeyFromId (dl_id l) = Some k" "dl_name l = i_title (ICONS k)"
    "dl_hex l = langBrandHex k" "dl_viewBox l = view_box (ICONS k)" "h = CHR ''#'' # langBrandHex k"
    "(sep = [] \<and> cl = ''/>'') \<or> (sep = '' '' \<and> cl = '' />'')"
  shows "mirrors l"
  using assms by (auto simp: mirrors_def icon_paths_LangIcon in_colour_def icon_fill_def)

lemma doc_c_fields [simp]: "dl_id doc_c = 48" "dl_name doc_c = ''C''" "dl_hex doc_c = ''283593''" "dl_viewBox doc_c = ''0 0 48 48''"
  unfolding doc_c_def catalog_lang.make_def catalog_lang.select_convs by (rule refl)+

lemma doc_cpp_fields [simp]: "dl_id doc_cpp = 52" "dl_name doc_cpp = ''C++''" "dl_hex doc_cpp = ''00549d''" "dl_viewBox doc_cpp = ''0 0 48 48''"
  unfolding doc_cpp_def catalog_lang.make_def catalog_lang.select_convs by (rule refl)+

lemma doc_go_fields [simp]: "dl_id doc_go = 60" "dl_name doc_go = ''Go''" "dl_hex doc_go = ''00ADD8''" "dl_viewBox doc_go = ''0 0 24 24''"
  unfolding doc_go_def catalog_lang.make_def catalog_lang.select_convs by (rule refl)+

lemma doc_java_fields [simp]: "dl_id doc_java = 62" "dl_name doc_java = ''Java''" "dl_hex doc_java = ''ED8B00''" "dl_viewBox doc_java = ''0 0 48 48''"
  unfolding doc_java_def catalog_lang.make_def catalog_lang.select_convs by (rule refl)+

lemma doc_node_fields [simp]: "dl_id doc_node = 63" "dl_name doc_node = ''Node.js''" "dl_hex doc_node = ''5FA04E''" "dl_viewBox doc_node = ''0 0 24 24''"
  unfolding doc_node_def catalog_lang.make_def catalog_lang.select_convs by (rule refl)+

lemma doc_python_fields [simp]: "dl_id doc_python = 71" "dl_name doc_python = ''Python''" "dl_hex doc_python = ''3776AB''" "dl_viewBox doc_python = ''0 0 48 48''"
  unfolding doc_python_def catalog_lang.make_def catalog_lang.select_convs by (rule refl)+

lemma doc_rust_fields [simp]: "dl_id doc_rust = 73" "dl_name doc_rust = ''Rust''" "dl_hex doc_rust = ''CE412B''" "dl_viewBox doc_rust = ''0 0 24 24''"
  unfolding doc_rust_def catalog_lang.make_def catalog_lang.select_convs by (rule refl)+

lemma doc_bash_fields [simp]: "dl_id doc_bash = 100" "dl_name doc_bash = ''Bash''" "dl_hex doc_bash = ''4EAA25''" "dl_viewBox doc_bash = ''0 0 24 24''"
  unfolding doc_bash_def catalog_lang.make_def catalog_lang.select_convs by (rule refl)+

lemma doc_lua_fields [simp]: "dl_id doc_lua = 101" "dl_name doc_lua = ''Lua''" "dl_hex doc_lua = ''2C2D72''" "dl_viewBox doc_lua = ''0 0 24 24''"
  unfolding doc_lua_def catalog_lang.make_def catalog_lang.select_convs by (rule refl)+

lemma doc_perl_fields [simp]: "dl_id doc_perl = 102" "dl_name doc_perl = ''Perl''" "dl_hex doc_perl = ''39457E''" "dl_viewBox doc_perl = ''0 0 24 24''"
  unfolding doc_perl_def catalog_lang.make_def catalog_lang.select_convs by (rule refl)+

lemma doc_ruby_fields [simp]: "dl_id doc_ruby = 103" "dl_name doc_ruby = ''Ruby''" "dl_hex doc_ruby = ''CC342D''" "dl_viewBox doc_ruby = ''0 0 24 24''"
  unfolding doc_ruby_def catalog_lang.make_def catalog_lang.select_convs by (rule refl)+

lemma doc_r_fields [simp]: "dl_id doc_r = 104" "dl_name doc_r = ''R''" "dl_hex doc_r = ''276DC3''" "dl_viewBox doc_r = ''0 0 24 24''"
  unfolding doc_r_def catalog_lang.make_def catalog_lang.select_convs by (rule refl)+

lemma doc_php_fields [simp]: "dl_id doc_php = 105" "dl_name doc_php = ''PHP''" "dl_hex doc_php = ''777BB4''" "dl_viewBox doc_php = ''0 0 24 24''"
  unfolding doc_php_def catalog_lang.make_def catalog_lang.select_convs by (rule refl)+

lemma doc_typescript_fields [simp]: "dl_id doc_typescript = 106" "dl_name doc_typescript = ''TypeScript''" "dl_hex doc_typescript = ''3178C6''" "dl_viewBox doc_typescript = ''0 0 24 24''"
  unfolding doc_typescript_def catalog_lang.make_def catalog_lang.select_convs by (rule refl)+

lemma doc_kotlin_fields [simp]: "dl_id doc_kotlin = 120" "dl_name doc_kotlin = ''Kotlin''" "dl_hex doc_kotlin = ''7F52FF''" "dl_viewBox doc_kotlin = ''0 0 24 24''"
  unfolding doc_kotlin_def catalog_lang.make_def catalog_lang.select_convs by (rule refl)+

lemma doc_scala_fields [simp]: "dl_id doc_scala = 121" "dl_name doc_scala = ''Scala''" "dl_hex doc_scala = ''DC322F''" "dl_viewBox doc_scala = ''0 0 24 24''"
  unfolding doc_scala_def catalog_lang.make_def catalog_lang.select_convs by (rule refl)+

lemma doc_csharp_fields [simp]: "dl_id doc_csharp = 140" "dl_name doc_csharp = ''C#''" "dl_hex doc_csharp = ''9B4F96''" "dl_viewBox doc_csharp = ''0 0 128 128''"
  unfolding doc_csharp_def catalog_lang.make_def catalog_lang.select_convs by (rule refl)+

lemma doc_swift_fields [simp]: "dl_id doc_swift = 152" "dl_name doc_swift = ''Swift''" "dl_hex doc_swift = ''F05138''" "dl_viewBox doc_swift = ''0 0 24 24''"
  unfolding doc_swift_def catalog_lang.make_def catalog_lang.select_convs by (rule refl)+

lemma doc_dart_fields [simp]: "dl_id doc_dart = 163" "dl_name doc_dart = ''Dart''" "dl_hex doc_dart = ''0175C2''" "dl_viewBox doc_dart = ''0 0 24 24''"
  unfolding doc_dart_def catalog_lang.make_def catalog_lang.select_convs by (rule refl)+

lemma doc_sql_fields [simp]: "dl_id doc_sql = 154" "dl_name doc_sql = ''SQL''" "dl_hex doc_sql = ''003B57''" "dl_viewBox doc_sql = ''0 0 24 24''"
  unfolding doc_sql_def catalog_lang.make_def catalog_lang.select_convs by (rule refl)+

lemmas icon_fields = langKeyFromId_def langBrandHex_def view_box_def icon.make_def

lemma mirrors_c: "mirrors doc_c"
  by (rule mirrorsI [OF svg_c]) (simp_all add: icon_fields)

lemma mirrors_cpp: "mirrors doc_cpp"
  by (rule mirrorsI [OF svg_cpp]) (simp_all add: icon_fields)

lemma mirrors_go: "mirrors doc_go"
  by (rule mirrorsI [OF svg_go]) (simp_all add: icon_fields)

lemma mirrors_java: "mirrors doc_java"
  by (rule mirrorsI [OF svg_java]) (simp_all add: icon_fields)

lemma mirrors_node: "mirrors doc_node"
  by (rule mirrorsI [OF svg_node]) (simp_all add: icon_fields)

lemma mirrors_python: "mirrors doc_python"
  by (rule mirrorsI [OF svg_python]) (simp_all add: icon_fields)

lemma mirrors_rust: "mirrors doc_rust"
  by (rule mirrorsI [OF svg_rust]) (simp_all add: icon_fields)

lemma mirrors_bash: "mirrors doc_bash"
  by (rule mirrorsI [OF svg_bash]) (simp_all add: icon_fields)

lemma mirrors_lua: "mirrors doc_lua"
  by (rule mirrorsI [OF svg_lua]) (simp_all add: icon_fields)

lemma mirrors_perl: "mirrors doc_perl"
  by (rule mirrorsI [OF svg_perl]) (simp_all add: icon_fields)

lemma mirrors_ruby: "mirrors doc_ruby"
  by (rule mirrorsI [OF svg_ruby]) (simp_all add: icon_fields)

lemma mirrors_r: "mirrors doc_r"
  by (rule mirrorsI [OF svg_r]) (simp_all add: icon_fields)

lemma mirrors_php: "mirrors doc_php"
  by (rule mirrorsI [OF svg_php]) (simp_all add: icon_fields)

lemma mirrors_typescript: "mirrors doc_typescript"
  by (rule mirrorsI [OF svg_typescript]) (simp_all add: icon_fields)

lemma mirrors_kotlin: "mirrors doc_kotlin"
  by (rule mirrorsI [OF svg_kotlin]) (simp_all add: icon_fields)

lemma mirrors_scala: "mirrors doc_scala"
  by (rule mirrorsI [OF svg_scala]) (simp_all add: icon_fields)

lemma mirrors_csharp: "mirrors doc_csharp"
  by (rule mirrorsI [OF svg_csharp]) (simp_all add: icon_fields)

lemma mirrors_swift: "mirrors doc_swift"
  by (rule mirrorsI [OF svg_swift]) (simp_all add: icon_fields)

lemma mirrors_dart: "mirrors doc_dart"
  by (rule mirrorsI [OF svg_dart]) (simp_all add: icon_fields)

lemma mirrors_sql: "mirrors doc_sql"
  by (rule mirrorsI [OF svg_sql]) (simp_all add: icon_fields)

definition docs_entries :: "catalog_lang list" where
  "docs_entries = concat (map dg_langs LANGUAGE_CATALOG)"

lemma docs_entries_eq: "docs_entries =
  [doc_c, doc_cpp, doc_go, doc_java, doc_node, doc_python, doc_rust, doc_bash, doc_lua, doc_perl, doc_ruby, doc_r, doc_php, doc_typescript, doc_kotlin, doc_scala, doc_csharp, doc_swift, doc_dart, doc_sql]"
  unfolding docs_entries_def LANGUAGE_CATALOG_def catalog_group.make_def by simp


end
