(* ===== verification/Service.thy ===== *)
theory Service
  imports Api
begin

text \<open>
  The edge of the service, as far as a submission passes it: limits (\<^verbatim>\<open>zerocode-core/src/limits.rs\<close>), payloads
  (\<^verbatim>\<open>payload.rs\<close>), requests (\<^verbatim>\<open>submission.rs\<close>), the language registry, the keys of the result cache and of repeated requests, and
  the check of a callback's address (\<^verbatim>\<open>zerocode-api/src/routes/submissions.rs\<close>). The libraries the service calls are the record
  \<open>lib\<close>; the locale \<open>wire_lib\<close> says what is relied on.
\<close>

section \<open>Libraries\<close>

text \<open>A parsed address, as far as the check of a callback looks at it: \<open>u_ip\<close> is the host read as an IP address. One of
  version 6 is its eight segments.\<close>

datatype ip = V4 nat nat nat nat | V6 "nat list"

record url =
  u_scheme :: jsstr
  u_host :: "jsstr option"
  u_ip :: "ip option"

text \<open>
  JSON reader and writer, the base64 decoder without padding, the hash function, the bytes of a floating point number, the
  parser of addresses, the reply of the framework to a
  body that is no request, the texts of a database error and of
  an IP address.
\<close>

record lib =
  from_text :: "jsstr \<Rightarrow> json option"
  to_text :: "json \<Rightarrow> jsstr"
  b64_dec :: "jsstr \<Rightarrow> nat list option"
  b64_message :: "jsstr \<Rightarrow> jsstr"
  blake3 :: "nat list \<Rightarrow> nat list"
  f64_bytes :: "number \<Rightarrow> nat list"
  parse_url :: "jsstr \<Rightarrow> url option"
  rejection :: "jsstr \<Rightarrow> nat \<times> jsstr"
  db_message :: jsstr
  ip_text :: "ip \<Rightarrow> jsstr"

locale wire_lib =
  fixes L :: lib
  assumes reads_text: "json_ok v \<Longrightarrow> from_text L (stringify v) = Some v"
    and text_reads: "json_ok v \<Longrightarrow> json_parse (to_text L v) = Some v"
    and decodes: "\<forall>b \<in> set bs. b < 256 \<Longrightarrow> b64_dec L (b64_nopad bs) = Some bs"

section \<open>Limits\<close>

record resource_limits =
  rl_cpu_time :: number
  rl_wall_time :: number
  rl_memory_mb :: nat
  rl_max_pids :: nat
  rl_max_stdout :: nat
  rl_max_stderr :: nat
  rl_enable_network :: bool

definition limits_default :: resource_limits where
  "limits_default = \<lparr>rl_cpu_time = 2, rl_wall_time = 5, rl_memory_mb = 128, rl_max_pids = 64, rl_max_stdout = 64 * 1024,
     rl_max_stderr = 64 * 1024, rl_enable_network = False\<rparr>"

text \<open>The ceiling the service is started with.\<close>

definition limit_ceiling :: resource_limits where
  "limit_ceiling = \<lparr>rl_cpu_time = 30, rl_wall_time = 60, rl_memory_mb = 2048, rl_max_pids = 256, rl_max_stdout = 256 * 1024,
     rl_max_stderr = 256 * 1024, rl_enable_network = False\<rparr>"

datatype core_error =
    PayloadTooLarge nat nat
  | PayloadNotUtf8
  | InvalidBase64 jsstr
  | LimitOutOfRange string number number number
  | UnknownLanguage nat

text \<open>The first check that fails, if any.\<close>

fun first_error :: "'e option list \<Rightarrow> 'e option" where
  "first_error [] = None"
| "first_error (None # es) = first_error es"
| "first_error (Some e # es) = Some e"

lemma first_error_None: "first_error es = None \<longleftrightarrow> (\<forall>e \<in> set es. e = None)"
  by (induction es rule: first_error.induct) auto

definition check_range :: "string \<Rightarrow> number \<Rightarrow> number \<Rightarrow> number \<Rightarrow> core_error option" where
  "check_range field value mn mx = (if value < mn \<or> value > mx then Some (LimitOutOfRange field value mn mx) else None)"

definition limits_validate :: "resource_limits \<Rightarrow> resource_limits \<Rightarrow> core_error option" where
  "limits_validate l cl = first_error
     [check_range ''cpu_time'' (rl_cpu_time l) (1 / 10) (rl_cpu_time cl),
      check_range ''wall_time'' (rl_wall_time l) (1 / 10) (rl_wall_time cl),
      check_range ''memory_mb'' (of_nat (rl_memory_mb l)) 1 (of_nat (rl_memory_mb cl)),
      check_range ''max_pids'' (of_nat (rl_max_pids l)) 1 (of_nat (rl_max_pids cl)),
      if rl_wall_time l < rl_cpu_time l
      then Some (LimitOutOfRange ''wall_time'' (rl_wall_time l) (rl_cpu_time l) (rl_wall_time cl)) else None,
      if rl_enable_network l \<and> \<not> rl_enable_network cl then Some (LimitOutOfRange ''enable_network'' 1 0 0) else None]"

section \<open>Payloads\<close>

text \<open>A payload is its bytes. Those of a text are its UTF-8 encoding; a text with a lone surrogate has none.\<close>

type_synonym payload = "nat list"

definition text_bytes :: "jsstr \<Rightarrow> payload option" where
  "text_bytes s = map_option (\<lambda>ps. concat (map utf8_of ps)) (code_points (map unat s))"

definition as_utf8 :: "payload \<Rightarrow> jsstr option" where
  "as_utf8 bs = map_option (map of_nat) (utf8_tokens (map Byte bs))"

definition trim_end_pad :: "jsstr \<Rightarrow> jsstr" where
  "trim_end_pad s = rev (dropWhile (\<lambda>c. c = 61) (rev s))"

definition from_base64 :: "lib \<Rightarrow> jsstr \<Rightarrow> core_error + payload" where
  "from_base64 L s = (case b64_dec L (trim_end_pad s) of Some bs \<Rightarrow> Inr bs | None \<Rightarrow> Inl (InvalidBase64 (b64_message L s)))"

definition check_size :: "payload \<Rightarrow> nat \<Rightarrow> core_error option" where
  "check_size p limit = (if length p > limit then Some (PayloadTooLarge (length p) limit) else None)"

text \<open>Reading a payload: a string, or an object with the single member \<^verbatim>\<open>_b64\<close>.\<close>

definition payload_of :: "lib \<Rightarrow> json \<Rightarrow> payload option" where
  "payload_of L v = (case v of
     JStr s \<Rightarrow> text_bytes s
   | JObj [(k, JStr t)] \<Rightarrow> if k = js ''_b64'' then b64_dec L (trim_end_pad t) else None
   | _ \<Rightarrow> None)"

section \<open>Requests\<close>

definition json_u32 :: "json \<Rightarrow> nat option" where
  "json_u32 v = (case v of JNum n \<Rightarrow> if of_int \<lfloor>n\<rfloor> = n \<and> 0 \<le> n \<and> n < 2 ^ 32 then Some (nat \<lfloor>n\<rfloor>) else None | _ \<Rightarrow> None)"

definition json_f64 :: "json \<Rightarrow> number option" where
  "json_f64 v = (case v of JNum n \<Rightarrow> Some n | _ \<Rightarrow> None)"

text \<open>Members: a required one, an optional one (absent or \<^verbatim>\<open>null\<close> is \<open>None\<close>), a flag with a default. The outer \<open>None\<close> is a rejected body.\<close>

definition required :: "(json \<Rightarrow> 'a option) \<Rightarrow> string \<Rightarrow> json \<Rightarrow> 'a option" where
  "required f k b = Option.bind (jget k b) f"

definition optional :: "(json \<Rightarrow> 'a option) \<Rightarrow> string \<Rightarrow> json \<Rightarrow> 'a option option" where
  "optional f k b = (case jget k b of None \<Rightarrow> Some None | Some JNull \<Rightarrow> Some None | Some v \<Rightarrow> map_option Some (f v))"

definition flag :: "string \<Rightarrow> json \<Rightarrow> bool option" where
  "flag k b = (case jget k b of None \<Rightarrow> Some False | Some (JBool x) \<Rightarrow> Some x | _ \<Rightarrow> None)"

text \<open>A member that occurs twice is an error; members with other names are ignored. Bodies that are not objects are not considered.\<close>

definition no_duplicates :: "string list \<Rightarrow> json \<Rightarrow> bool" where
  "no_duplicates ks b = (case b of JObj ps \<Rightarrow> distinct (filter (\<lambda>k. k \<in> set (map js ks)) (map fst ps)) | _ \<Rightarrow> False)"

record sub_request =
  q_language_id :: nat
  q_source_code :: payload
  q_stdin :: "payload option"
  q_cpu_time_limit :: "number option"
  q_wall_time_limit :: "number option"
  q_memory_limit_mb :: "nat option"
  q_callback_url :: "url option"
  q_base64_encoded :: bool

definition json_url :: "lib \<Rightarrow> json \<Rightarrow> url option" where
  "json_url L v = (case v of JStr s \<Rightarrow> parse_url L s | _ \<Rightarrow> None)"

definition submission_request :: "lib \<Rightarrow> json \<Rightarrow> sub_request option" where
  "submission_request L b =
     (if \<not> no_duplicates [''language_id'', ''source_code'', ''stdin'', ''cpu_time_limit'', ''wall_time_limit'',
           ''memory_limit_mb'', ''callback_url'', ''base64_encoded''] b then None
      else case (required json_u32 ''language_id'' b, required (payload_of L) ''source_code'' b, optional (payload_of L) ''stdin'' b,
                 optional json_f64 ''cpu_time_limit'' b, optional json_f64 ''wall_time_limit'' b,
                 optional json_u32 ''memory_limit_mb'' b, optional (json_url L) ''callback_url'' b, flag ''base64_encoded'' b) of
        (Some l, Some s, Some i, Some c, Some w, Some m, Some u, Some e) \<Rightarrow>
          Some \<lparr>q_language_id = l, q_source_code = s, q_stdin = i, q_cpu_time_limit = c, q_wall_time_limit = w,
                q_memory_limit_mb = m, q_callback_url = u, q_base64_encoded = e\<rparr>
      | _ \<Rightarrow> None)"

text \<open>The limits a request ends up with, before they are checked.\<close>

definition override_limits :: "number option \<Rightarrow> number option \<Rightarrow> nat option \<Rightarrow> resource_limits \<Rightarrow> resource_limits" where
  "override_limits c w m d = d\<lparr>rl_cpu_time := opt (rl_cpu_time d) c, rl_wall_time := opt (rl_wall_time d) w,
     rl_memory_mb := opt (rl_memory_mb d) m\<rparr>"

definition resolve_limits :: "sub_request \<Rightarrow> resource_limits \<Rightarrow> resource_limits \<Rightarrow> core_error + resource_limits" where
  "resolve_limits q d cl =
     (let lim = override_limits (q_cpu_time_limit q) (q_wall_time_limit q) (q_memory_limit_mb q) d
      in case limits_validate lim cl of Some e \<Rightarrow> Inl e | None \<Rightarrow> Inr lim)"

section \<open>The registry\<close>

record lang_spec =
  sp_id :: nat
  sp_name :: jsstr
  sp_version :: jsstr
  sp_source_file :: jsstr
  sp_is_compiled :: bool
  sp_default_limits :: "resource_limits option"
  sp_is_archived :: bool

text \<open>Of two entries with the same number the later one counts.\<close>

definition registry_get :: "lang_spec list \<Rightarrow> nat \<Rightarrow> lang_spec option" where
  "registry_get specs i = find (\<lambda>s. sp_id s = i) (rev specs)"

definition registry_list :: "lang_spec list \<Rightarrow> lang_spec list" where
  "registry_list specs = List.map_filter (\<lambda>s. registry_get specs (sp_id s)) specs"

definition language_view :: "lang_spec \<Rightarrow> json" where
  "language_view s = JObj [(js ''id'', JNum (of_nat (sp_id s))), (js ''name'', JStr (sp_name s)), (js ''version'', JStr (sp_version s)),
     (js ''source_file'', JStr (sp_source_file s)), (js ''is_compiled'', JBool (sp_is_compiled s)),
     (js ''is_archived'', JBool (sp_is_archived s))]"

section \<open>Keys\<close>

definition le_bytes :: "nat \<Rightarrow> nat \<Rightarrow> nat list" where
  "le_bytes n x = map (\<lambda>i. x div 256 ^ i mod 256) [0..<n]"

definition ascii :: "string \<Rightarrow> nat list" where
  "ascii s = map of_char s"

definition result_key :: "lib \<Rightarrow> nat \<Rightarrow> payload \<Rightarrow> payload \<Rightarrow> resource_limits \<Rightarrow> nat list" where
  "result_key L lang src inp l = blake3 L
     (ascii ''zerocode/result/v1'' @ [0] @ le_bytes 4 lang @ le_bytes 8 (length src) @ src @ le_bytes 8 (length inp) @ inp
      @ f64_bytes L (rl_cpu_time l) @ f64_bytes L (rl_wall_time l) @ le_bytes 4 (rl_memory_mb l) @ le_bytes 4 (rl_max_pids l)
      @ le_bytes 4 (rl_max_stdout l) @ le_bytes 4 (rl_max_stderr l) @ [if rl_enable_network l then 1 else 0])"

definition idempotency_hash :: "lib \<Rightarrow> sub_request \<Rightarrow> nat list" where
  "idempotency_hash L q = blake3 L
     (ascii ''zerocode/idem/v1'' @ [0] @ le_bytes 4 (q_language_id q) @ le_bytes 8 (length (q_source_code q)) @ q_source_code q
      @ (case q_stdin q of Some i \<Rightarrow> [1] @ le_bytes 8 (length i) @ i | None \<Rightarrow> [0]))"

section \<open>Callback addresses\<close>

fun is_private_or_loopback :: "ip \<Rightarrow> bool" where
  "is_private_or_loopback (V4 a b c d) \<longleftrightarrow> a = 127 \<or> (a = 10 \<or> (a = 172 \<and> 16 \<le> b \<and> b \<le> 31) \<or> (a = 192 \<and> b = 168))
     \<or> (a = 169 \<and> b = 254) \<or> (a = 0 \<and> b = 0 \<and> c = 0 \<and> d = 0)"
| "is_private_or_loopback (V6 g) \<longleftrightarrow> g = [0, 0, 0, 0, 0, 0, 0, 1] \<or> g = [0, 0, 0, 0, 0, 0, 0, 0]
     \<or> hd g = 0xfe80 \<or> hd g div 512 = 0xfc00 div 512"

definition lower_cu :: "cu \<Rightarrow> cu" where
  "lower_cu c = (if 65 \<le> c \<and> c \<le> 90 then c + 32 else c)"

definition ends_with :: "jsstr \<Rightarrow> jsstr \<Rightarrow> bool" where
  "ends_with s t \<longleftrightarrow> length t \<le> length s \<and> drop (length s - length t) s = t"

text \<open>Which check fails: \<open>None\<close> accepts the address.\<close>

datatype callback_error = BadScheme | MissingHost | DeniedHost | DeniedSuffix | PrivateIp

definition validate_callback_url :: "url \<Rightarrow> callback_error option" where
  "validate_callback_url u =
     (if u_scheme u \<noteq> js ''http'' \<and> u_scheme u \<noteq> js ''https'' then Some BadScheme
      else case u_host u of
        None \<Rightarrow> Some MissingHost
      | Some h \<Rightarrow>
          (let low = map lower_cu h
           in if low \<in> set (map js [''localhost'', ''metadata.google.internal'', ''169.254.169.254'']) then Some DeniedHost
              else if ends_with low (js ''.internal'') then Some DeniedSuffix
              else case u_ip u of
                Some i \<Rightarrow> if is_private_or_loopback i then Some PrivateIp else None
              | None \<Rightarrow> None))"

text \<open>An address of version 4 mapped into version 6 is not recognised: the loopback address and that of the metadata service pass.\<close>

lemma mapped_loopback_accepted:
  assumes "g \<in> {[0, 0, 0, 0, 0, 0xffff, 0x7f00, 1], [0, 0, 0, 0, 0, 0xffff, 0xa9fe, 0xa9fe]}"
    and "map lower_cu h \<notin> set (map js [''localhost'', ''metadata.google.internal'', ''169.254.169.254''])"
    and "\<not> ends_with (map lower_cu h) (js ''.internal'')"
  shows "validate_callback_url \<lparr>u_scheme = js ''https'', u_host = Some h, u_ip = Some (V6 g)\<rparr> = None"
    and "is_private_or_loopback (V4 127 0 0 1)" "is_private_or_loopback (V4 169 254 169 254)"
  using assms by (auto simp: validate_callback_url_def Let_def)

section \<open>What the client sends is what the service reads\<close>

text \<open>The libraries as the codecs of this development: an instance of the contract.\<close>

definition std_lib :: lib where
  "std_lib = \<lparr>from_text = json_parse, to_text = stringify,
     b64_dec = (\<lambda>t. Option.bind (sequence (map (\<lambda>c. b64_val (unat c)) t)) b64_bytes), b64_message = id, blake3 = id,
     f64_bytes = (\<lambda>x. map unat (numText x)), parse_url = (\<lambda>_. None), rejection = (\<lambda>_. (422, [])), db_message = [],
     ip_text = (\<lambda>_. [])\<rparr>"

interpretation std: wire_lib std_lib
  by unfold_locales (simp_all add: std_lib_def jtext.dec_enc b64_nopad_decode)

lemma text_bytes_ascii: "\<forall>c \<in> set t. unat c < 128 \<Longrightarrow> text_bytes t = Some (map unat t)"
proof -
  assume a: "\<forall>c \<in> set t. unat c < 128"
  have "concat (map utf8_of (map unat t)) = map unat t" using a by (induction t) (simp_all add: utf8_of_def)
  moreover have "code_points (map unat t) = Some (map unat t)" using a by (intro code_points_bmp) auto
  ultimately show ?thesis by (simp add: text_bytes_def)
qed

lemma utf8_tokens_ascii: "\<forall>b \<in> set bs. b < 128 \<Longrightarrow> utf8_tokens (map Byte bs) = Some bs"
  by (induction bs) (simp_all add: utf8_tokens.simps(3))

lemma as_utf8_ascii: "\<forall>c \<in> set t. unat c < 128 \<Longrightarrow> as_utf8 (map unat t) = Some t"
  using utf8_tokens_ascii [of "map unat t"] by (simp add: as_utf8_def map_idI)

lemma trim_end_pad_nopad: "\<forall>c \<in> set t. c \<noteq> 61 \<Longrightarrow> trim_end_pad (t @ replicate n 61) = t"
proof -
  assume "\<forall>c \<in> set t. c \<noteq> 61"
  moreover have "dropWhile (\<lambda>c. c = 61) (replicate n 61 @ xs) = dropWhile (\<lambda>c. c = 61) xs" for xs :: jsstr
    by (induction n) simp_all
  ultimately show ?thesis by (cases "rev t") (auto simp: trim_end_pad_def)
qed

text \<open>What \<^verbatim>\<open>encode\<close> of the client writes: ASCII, the digits of the bytes, padded.\<close>

lemma encode_bytes:
  assumes "encode (Some s) = Some t"
  shows "\<exists>bs n. text_bytes s = Some bs \<and> (\<forall>b \<in> set bs. b < 256) \<and> t = b64_nopad bs @ replicate n 61 \<and> (\<forall>c \<in> set t. unat c < 128)"
proof -
  obtain ps where ps: "code_points (map unat s) = Some ps" and t: "btoa (map of_nat (concat (map utf8_of ps))) = Some t"
    using assms by (auto simp: encode_eq bind_eq_Some_conv)
  let ?bs = "concat (map utf8_of ps)"
  have small: "\<forall>b \<in> set ?bs. b < 256" using concat_utf8_byte [OF map_unat_scalar [OF ps]] by blast
  then have "map unat (map of_nat ?bs :: cu list) = ?bs" by (rule unat_of_nat_bytes)
  then obtain n where n: "t = b64_nopad ?bs @ replicate n 61" using t by (auto simp: btoa_def Let_def split: if_splits)
  have "unat (of_nat (b64_cu d) :: cu) < 128" if "d \<in> set (b64_sextets ?bs)" for d
    using b64_cu_range [OF b64_sextets_less [OF small that]] by (simp add: unat_of_nat_cu)
  then have "\<forall>c \<in> set (b64_nopad ?bs). unat c < 128" by (auto simp: b64_nopad_def)
  then show ?thesis using ps small n by (auto simp: text_bytes_def)
qed

context wire_lib
begin

lemma payload_sent:
  assumes "encode (Some s) = Some t"
  shows "\<exists>p bs. payload_of L (JStr t) = Some p \<and> as_utf8 p = Some t \<and> from_base64 L t = Inr bs \<and> text_bytes s = Some bs"
proof -
  obtain bs n where bs: "text_bytes s = Some bs" "\<forall>b \<in> set bs. b < 256" and t: "t = b64_nopad bs @ replicate n 61"
    and asc: "\<forall>c \<in> set t. unat c < 128"
    using encode_bytes [OF assms] by blast
  have "trim_end_pad t = b64_nopad bs" unfolding t using b64_nopad_chars(1) [OF bs(2)] by (intro trim_end_pad_nopad) blast
  then have "from_base64 L t = Inr bs" using decodes [OF bs(2)] by (simp add: from_base64_def)
  moreover have "payload_of L (JStr t) = Some (map unat t)" using text_bytes_ascii [OF asc] by (simp add: payload_of_def)
  ultimately show ?thesis using bs(1) as_utf8_ascii [OF asc] by blast
qed

lemma reply_reads: "json_ok v \<Longrightarrow> reply_body (to_text L v) = v"
proof -
  assume "json_ok v"
  then have p: "json_parse (to_text L v) = Some v" by (rule text_reads)
  moreover have "json_parse [] = None" by code_simp
  ultimately have "to_text L v \<noteq> []" by force
  then show ?thesis using p by (simp add: reply_body_def)
qed

end

end
