(* ===== verification/Submissions.thy ===== *)
theory Submissions
  imports Service Machine
begin

text \<open>
  The handlers that create submissions (\<^verbatim>\<open>routes/submissions.rs\<close>, \<^verbatim>\<open>routes/batches.rs\<close>, \<^verbatim>\<open>db.rs\<close>, \<^verbatim>\<open>error.rs\<close>), for requests
  that passed the middleware and do not ask to wait for the result. A handler returns its reply and the next state. The
  lemmas show what a row of the table always satisfies and when a repeated request is recognised.
\<close>

section \<open>State\<close>

record row =
  r_token :: jsstr
  r_language_id :: nat
  r_source_code :: payload
  r_stdin :: "payload option"
  r_limits :: resource_limits
  r_callback_url :: "url option"
  r_idempotency_key :: "jsstr option"
  r_idempotency_hash :: "nat list option"
  r_batch_id :: "jsstr option"
  r_created_at :: number

record outcome =
  o_status :: json
  o_stdout :: payload
  o_stderr :: payload
  o_compile_output :: "payload option"
  o_exit_code :: "int option"
  o_cpu_time :: number
  o_compile_time :: "number option"
  o_wall_time :: number
  o_memory_kb :: nat

text \<open>
  Tokens are drawn from a supply; \<open>sv_db\<close> and \<open>sv_notify\<close> tell whether the database answers and whether a worker can be
  notified; the queue's depth is the last sample.
\<close>

record svc =
  sv_languages :: "lang_spec list"
  sv_ceiling :: resource_limits
  sv_cache :: "nat list \<Rightarrow> outcome option"
  sv_rows :: "row list"
  sv_supply :: "nat \<Rightarrow> jsstr"
  sv_drawn :: nat
  sv_queue_limit :: int
  sv_queue_depth :: int
  sv_db :: bool
  sv_notify :: bool
  sv_notified :: "jsstr list"
  sv_now :: number

section \<open>Errors and replies\<close>

datatype svc_error =
    BodyRejected nat jsstr
  | Validation jsstr
  | IdempotencyConflict jsstr
  | Backpressure
  | Core core_error
  | Db
  | Internal jsstr

fun core_text :: "core_error \<Rightarrow> jsstr" where
  "core_text (PayloadTooLarge n m) = js ''payload too large: '' @ natStr n @ js '' bytes (limit '' @ natStr m @ js '')''"
| "core_text PayloadNotUtf8 = js ''payload is not valid UTF-8 (set base64_encoded=true to submit binary)''"
| "core_text (InvalidBase64 m) = js ''invalid base64: '' @ m"
| "core_text (LimitOutOfRange f v mn mx) =
     js ''limit out of range: '' @ js f @ js '' = '' @ numText v @ js '' (allowed '' @ numText mn @ js ''..='' @ numText mx @ js '')''"
| "core_text (UnknownLanguage i) = js ''unknown language id: '' @ natStr i"

fun svc_text :: "lib \<Rightarrow> svc_error \<Rightarrow> jsstr" where
  "svc_text L (BodyRejected _ m) = m"
| "svc_text L (Validation m) = js ''validation: '' @ m"
| "svc_text L (IdempotencyConflict _) = js ''conflict: idempotency-key reused with different body''"
| "svc_text L Backpressure = js ''backpressure: submission queue saturated''"
| "svc_text L (Core e) = core_text e"
| "svc_text L Db = js ''db: '' @ db_message L"
| "svc_text L (Internal m) = js ''internal: '' @ m"

fun core_status :: "core_error \<Rightarrow> nat" where
  "core_status (PayloadTooLarge _ _) = 413"
| "core_status PayloadNotUtf8 = 422"
| "core_status (InvalidBase64 _) = 422"
| "core_status (LimitOutOfRange _ _ _ _) = 422"
| "core_status (UnknownLanguage _) = 422"

fun svc_status :: "svc_error \<Rightarrow> nat" where
  "svc_status (BodyRejected n _) = n"
| "svc_status (Validation _) = 422"
| "svc_status (IdempotencyConflict _) = 409"
| "svc_status Backpressure = 503"
| "svc_status (Core e) = core_status e"
| "svc_status Db = 500"
| "svc_status (Internal _) = 500"

definition error_reply :: "lib \<Rightarrow> svc_error \<Rightarrow> reply" where
  "error_reply L e = (case e of
     BodyRejected n m \<Rightarrow> Reply n m
   | IdempotencyConflict t \<Rightarrow>
       Reply 409 (to_text L (JObj [(js ''error'', JStr (svc_text L e)), (js ''existing_token'', JStr t)]))
   | _ \<Rightarrow> Reply (svc_status e) (to_text L (JObj [(js ''error'', JStr (svc_text L e))])))"

definition ack_json :: "jsstr \<Rightarrow> json" where
  "ack_json t = JObj [(js ''token'', JStr t), (js ''status'', JStr (js ''queued''))]"

definition payload_json :: "payload \<Rightarrow> json" where
  "payload_json p = (case as_utf8 p of Some s \<Rightarrow> JStr s | None \<Rightarrow> JObj [(js ''_b64'', JStr (b64_nopad p))])"

definition present_member :: "string \<Rightarrow> ('a \<Rightarrow> json) \<Rightarrow> 'a option \<Rightarrow> (jsstr \<times> json) list" where
  "present_member k f v = (case v of Some x \<Rightarrow> [(js k, f x)] | None \<Rightarrow> [])"

text \<open>The reply of a cache hit has no token and no times of its own.\<close>

definition cached_view :: "outcome \<Rightarrow> json" where
  "cached_view c = JObj
     ([(js ''cached'', JBool True), (js ''status'', o_status c), (js ''verdict'', JBool True)]
      @ present_member ''stdout'' payload_json (if o_stdout c = [] then None else Some (o_stdout c))
      @ present_member ''stderr'' payload_json (if o_stderr c = [] then None else Some (o_stderr c))
      @ present_member ''compile_output'' payload_json (o_compile_output c)
      @ present_member ''exit_code'' (\<lambda>i. JNum (of_int i)) (o_exit_code c)
      @ [(js ''time'', JNum (o_cpu_time c))] @ present_member ''compile_time'' JNum (o_compile_time c)
      @ [(js ''wall_time'', JNum (o_wall_time c)), (js ''memory'', JNum (of_nat (o_memory_kb c)))])"

section \<open>Table\<close>

text \<open>A row with this key from the last 24 hours: its token and whether the body is the same.\<close>

definition find_by_idempotency_key :: "svc \<Rightarrow> jsstr \<Rightarrow> nat list \<Rightarrow> (jsstr \<times> bool) option" where
  "find_by_idempotency_key s k h =
     map_option (\<lambda>r. (r_token r, r_idempotency_hash r = Some h))
       (find (\<lambda>r. r_idempotency_key r = Some k \<and> sv_now s - 24 * 60 * 60 < r_created_at r) (sv_rows s))"

text \<open>Insert a row and notify the workers; a failed notification leaves the row.\<close>

definition insert_submission :: "row \<Rightarrow> svc \<Rightarrow> svc" where
  "insert_submission r s = s\<lparr>sv_rows := sv_rows s @ [r\<lparr>r_created_at := sv_now s\<rparr>]\<rparr>"

definition notify :: "jsstr \<Rightarrow> svc \<Rightarrow> svc" where
  "notify t s = s\<lparr>sv_notified := sv_notified s @ [t]\<rparr>"

definition draw :: "svc \<Rightarrow> jsstr \<times> svc" where
  "draw s = (sv_supply s (sv_drawn s), s\<lparr>sv_drawn := sv_drawn s + 1\<rparr>)"

section \<open>POST /v1/submissions\<close>

definition MAX_SOURCE_BYTES :: nat where "MAX_SOURCE_BYTES = 64 * 1024"
definition MAX_STDIN_BYTES :: nat where "MAX_STDIN_BYTES = 64 * 1024"

text \<open>Decode one payload of a request; the text names the member.\<close>

definition decode_payload :: "lib \<Rightarrow> jsstr \<Rightarrow> payload \<Rightarrow> svc_error + payload" where
  "decode_payload L name p = (case as_utf8 p of
     None \<Rightarrow> Inl (Validation (js ''base64_encoded '' @ name @ js '' must be a UTF-8 string''))
   | Some raw \<Rightarrow> (case from_base64 L raw of
       Inl e \<Rightarrow> Inl (Validation (name @ js '' base64 decode: '' @ core_text e))
     | Inr bs \<Rightarrow> Inr bs))"

definition decode_opt :: "lib \<Rightarrow> jsstr \<Rightarrow> payload option \<Rightarrow> svc_error + payload option" where
  "decode_opt L name p = (case p of None \<Rightarrow> Inr None | Some i \<Rightarrow> map_sum id Some (decode_payload L name i))"

definition decode_request :: "lib \<Rightarrow> sub_request \<Rightarrow> svc_error + sub_request" where
  "decode_request L q =
     (if \<not> q_base64_encoded q then Inr q
      else case decode_payload L (js ''source_code'') (q_source_code q) of
        Inl e \<Rightarrow> Inl e
      | Inr src \<Rightarrow> (case decode_opt L (js ''stdin'') (q_stdin q) of
          Inl e \<Rightarrow> Inl e
        | Inr i \<Rightarrow> Inr (q\<lparr>q_source_code := src, q_stdin := i\<rparr>)))"

definition size_errors :: "payload \<Rightarrow> payload option list \<Rightarrow> svc_error option" where
  "size_errors src inputs = first_error
     ([if src = [] then Some (Validation (js ''source_code must be non-empty'')) else None,
       map_option (\<lambda>e. Validation (core_text e)) (check_size src MAX_SOURCE_BYTES)]
      @ map (\<lambda>i. Option.bind i (\<lambda>i. map_option (\<lambda>e. Validation (core_text e)) (check_size i MAX_STDIN_BYTES))) inputs)"

definition callback_text :: "lib \<Rightarrow> url \<Rightarrow> callback_error \<Rightarrow> jsstr" where
  "callback_text L u e = (case e of
     BadScheme \<Rightarrow> js ''callback_url scheme '' @ [39] @ u_scheme u @ [39] @ js '' not allowed''
   | MissingHost \<Rightarrow> js ''callback_url missing host''
   | DeniedHost \<Rightarrow> js ''callback_url host '' @ [39] @ opt [] (u_host u) @ [39] @ js '' is on the deny list''
   | DeniedSuffix \<Rightarrow> js ''callback_url host '' @ [39] @ js ''.internal'' @ [39] @ js '' is on the deny list''
   | PrivateIp \<Rightarrow> js ''callback_url ip '' @ opt [] (map_option (ip_text L) (u_ip u)) @ js '' is private/loopback'')"

definition callback_check :: "lib \<Rightarrow> url option \<Rightarrow> svc_error option" where
  "callback_check L u = Option.bind u (\<lambda>u. map_option (\<lambda>e. Validation (callback_text L u e)) (validate_callback_url u))"

text \<open>The part of the handler that looks at the request only: the decoded request and its limits.\<close>

definition admit :: "lib \<Rightarrow> svc \<Rightarrow> sub_request \<Rightarrow> svc_error + sub_request \<times> resource_limits" where
  "admit L s q0 = (case decode_request L q0 of
     Inl e \<Rightarrow> Inl e
   | Inr q \<Rightarrow>
       (case size_errors (q_source_code q) [q_stdin q] of
          Some e \<Rightarrow> Inl e
        | None \<Rightarrow>
            (case registry_get (sv_languages s) (q_language_id q) of
               None \<Rightarrow> Inl (Core (UnknownLanguage (q_language_id q)))
             | Some spec \<Rightarrow>
                 (case resolve_limits q (opt limits_default (sp_default_limits spec)) (sv_ceiling s) of
                    Inl e \<Rightarrow> Inl (Core e)
                  | Inr lm \<Rightarrow> Inr (q, lm)))))"

definition shed :: "svc \<Rightarrow> bool" where
  "shed s \<longleftrightarrow> sv_queue_limit s > 0 \<and> sv_queue_depth s > sv_queue_limit s"

definition store :: "lib \<Rightarrow> jsstr option \<Rightarrow> sub_request \<Rightarrow> resource_limits \<Rightarrow> svc \<Rightarrow> reply \<times> svc" where
  "store L idem q lm s =
     (case draw s of (t, s1) \<Rightarrow>
        (if \<not> sv_db s then (error_reply L Db, s1)
         else
           (let s2 = insert_submission
                  \<lparr>r_token = t, r_language_id = q_language_id q, r_source_code = q_source_code q, r_stdin = q_stdin q, r_limits = lm,
                   r_callback_url = q_callback_url q, r_idempotency_key = idem,
                   r_idempotency_hash = map_option (\<lambda>_. idempotency_hash L q) idem, r_batch_id = None, r_created_at = 0\<rparr> s1
            in if \<not> sv_notify s then (error_reply L (Internal (js ''pg_notify failed: '' @ db_message L)), s2)
               else (Reply 201 (to_text L (ack_json t)), notify t s2))))"

definition create :: "lib \<Rightarrow> jsstr option \<Rightarrow> sub_request \<Rightarrow> svc \<Rightarrow> reply \<times> svc" where
  "create L idem q0 s = (case admit L s q0 of
     Inl e \<Rightarrow> (error_reply L e, s)
   | Inr (q, lm) \<Rightarrow>
       (case sv_cache s (result_key L (q_language_id q) (q_source_code q) (opt [] (q_stdin q)) lm) of
          Some c \<Rightarrow> (Reply 200 (to_text L (cached_view c)), s)
        | None \<Rightarrow>
            (case callback_check L (q_callback_url q) of
               Some e \<Rightarrow> (error_reply L e, s)
             | None \<Rightarrow>
                 (if idem \<noteq> None \<and> \<not> sv_db s then (error_reply L Db, s)
                  else case Option.bind idem (\<lambda>k. find_by_idempotency_key s k (idempotency_hash L q)) of
                    Some (t, same) \<Rightarrow>
                      (if same then (Reply 200 (to_text L (ack_json t)), s) else (error_reply L (IdempotencyConflict t), s))
                  | None \<Rightarrow> if shed s then (error_reply L Backpressure, s) else store L idem q lm s))))"

section \<open>POST /v1/submissions/batch\<close>

definition MAX_TEST_CASES :: nat where "MAX_TEST_CASES = 100"

record batch_request =
  bq_language_id :: nat
  bq_source_code :: payload
  bq_test_cases :: "payload option list"
  bq_cpu_time_limit :: "number option"
  bq_wall_time_limit :: "number option"
  bq_memory_limit_mb :: "nat option"
  bq_base64_encoded :: bool

definition test_case_of :: "lib \<Rightarrow> json \<Rightarrow> payload option option" where
  "test_case_of L v = (if no_duplicates [''stdin''] v then optional (payload_of L) ''stdin'' v else None)"

definition json_list :: "(json \<Rightarrow> 'a option) \<Rightarrow> json \<Rightarrow> 'a list option" where
  "json_list f v = (case v of JArr vs \<Rightarrow> sequence (map f vs) | _ \<Rightarrow> None)"

definition batch_request_of :: "lib \<Rightarrow> json \<Rightarrow> batch_request option" where
  "batch_request_of L b =
     (if \<not> no_duplicates [''language_id'', ''source_code'', ''test_cases'', ''cpu_time_limit'', ''wall_time_limit'',
           ''memory_limit_mb'', ''base64_encoded''] b then None
      else case (required json_u32 ''language_id'' b, required (payload_of L) ''source_code'' b,
                 required (json_list (test_case_of L)) ''test_cases'' b,
                 optional json_f64 ''cpu_time_limit'' b, optional json_f64 ''wall_time_limit'' b,
                 optional json_u32 ''memory_limit_mb'' b, flag ''base64_encoded'' b) of
        (Some l, Some s, Some t, Some c, Some w, Some m, Some e) \<Rightarrow>
          Some \<lparr>bq_language_id = l, bq_source_code = s, bq_test_cases = t, bq_cpu_time_limit = c, bq_wall_time_limit = w,
                bq_memory_limit_mb = m, bq_base64_encoded = e\<rparr>
      | _ \<Rightarrow> None)"

fun decode_cases :: "lib \<Rightarrow> nat \<Rightarrow> payload option list \<Rightarrow> svc_error + payload option list" where
  "decode_cases L i [] = Inr []"
| "decode_cases L i (c # cs) =
     (case decode_opt L (js ''test_cases['' @ natStr i @ js ''].stdin'') c of
        Inl e \<Rightarrow> Inl e
      | Inr x \<Rightarrow> map_sum id ((#) x) (decode_cases L (i + 1) cs))"

definition decode_batch :: "lib \<Rightarrow> batch_request \<Rightarrow> svc_error + batch_request" where
  "decode_batch L q =
     (if \<not> bq_base64_encoded q then Inr q
      else case decode_payload L (js ''source_code'') (bq_source_code q) of
        Inl e \<Rightarrow> Inl e
      | Inr src \<Rightarrow> map_sum id (\<lambda>cs. q\<lparr>bq_source_code := src, bq_test_cases := cs\<rparr>) (decode_cases L 0 (bq_test_cases q)))"

definition count_error :: "nat \<Rightarrow> svc_error option" where
  "count_error n =
     (if n = 0 then Some (Validation (js ''test_cases must contain at least one entry''))
      else if n > MAX_TEST_CASES
      then Some (Validation (js ''test_cases cannot exceed '' @ natStr MAX_TEST_CASES @ js '' entries (got '' @ natStr n @ js '')''))
      else None)"

definition admit_batch :: "lib \<Rightarrow> svc \<Rightarrow> batch_request \<Rightarrow> svc_error + batch_request \<times> resource_limits" where
  "admit_batch L s q0 = (case decode_batch L q0 of
     Inl e \<Rightarrow> Inl e
   | Inr q \<Rightarrow>
       (case first_error [count_error (length (bq_test_cases q)), size_errors (bq_source_code q) (bq_test_cases q)] of
          Some e \<Rightarrow> Inl e
        | None \<Rightarrow>
            (case registry_get (sv_languages s) (bq_language_id q) of
               None \<Rightarrow> Inl (Core (UnknownLanguage (bq_language_id q)))
             | Some spec \<Rightarrow>
                 (let lm = override_limits (bq_cpu_time_limit q) (bq_wall_time_limit q) (bq_memory_limit_mb q)
                             (opt limits_default (sp_default_limits spec))
                  in case limits_validate lm (sv_ceiling s) of
                       Some e \<Rightarrow> Inl (Validation (core_text e))
                     | None \<Rightarrow> Inr (q, lm)))))"

text \<open>One row for each case; a failure ends the loop and leaves the rows that are there.\<close>

fun store_cases :: "lib \<Rightarrow> jsstr \<Rightarrow> batch_request \<Rightarrow> resource_limits \<Rightarrow> payload option list \<Rightarrow> svc \<Rightarrow> (svc_error + jsstr list) \<times> svc" where
  "store_cases L bid q lm [] s = (Inr [], s)"
| "store_cases L bid q lm (c # cs) s =
     (case draw s of (t, s1) \<Rightarrow>
        (if \<not> sv_db s then (Inl Db, s1)
         else
           (let s2 = insert_submission
                  \<lparr>r_token = t, r_language_id = bq_language_id q, r_source_code = bq_source_code q, r_stdin = c, r_limits = lm,
                   r_callback_url = None, r_idempotency_key = None, r_idempotency_hash = None, r_batch_id = Some bid,
                   r_created_at = 0\<rparr> s1
            in if \<not> sv_notify s then (Inl (Internal (js ''notify worker: '' @ db_message L)), s2)
               else (case store_cases L bid q lm cs (notify t s2) of
                       (Inl e, s3) \<Rightarrow> (Inl e, s3)
                     | (Inr ts, s3) \<Rightarrow> (Inr (t # ts), s3)))))"

definition batch_ack :: "jsstr \<Rightarrow> jsstr list \<Rightarrow> json" where
  "batch_ack bid ts = JObj [(js ''batch_id'', JStr bid), (js ''count'', JNum (of_nat (length ts))), (js ''tokens'', JArr (map JStr ts)),
     (js ''status'', JStr (js ''queued''))]"

definition create_batch :: "lib \<Rightarrow> batch_request \<Rightarrow> svc \<Rightarrow> reply \<times> svc" where
  "create_batch L q0 s = (case admit_batch L s q0 of
     Inl e \<Rightarrow> (error_reply L e, s)
   | Inr (q, lm) \<Rightarrow>
       (case draw s of (bid, s1) \<Rightarrow>
          (case store_cases L bid q lm (bq_test_cases q) s1 of
             (Inl e, s2) \<Rightarrow> (error_reply L e, s2)
           | (Inr ts, s2) \<Rightarrow> (Reply 201 (to_text L (batch_ack bid ts)), s2))))"

section \<open>The service as a network\<close>

text \<open>
  The three routes the page uses before it follows a job; every other request is answered by the last argument. Names of
  headers are compared without case, and a header whose value is not visible ASCII counts as absent.
\<close>

definition header :: "string \<Rightarrow> request \<Rightarrow> jsstr option" where
  "header k q = Option.bind (find (\<lambda>(n, v). map lower_cu n = js k) (hdrs q))
     (\<lambda>(n, v). if list_all (\<lambda>c. c = 9 \<or> (32 \<le> c \<and> c < 127)) v then Some v else None)"

definition parse_body :: "lib \<Rightarrow> (json \<Rightarrow> 'a option) \<Rightarrow> request \<Rightarrow> 'a option" where
  "parse_body L f q = Option.bind (Option.bind (body q) (from_text L)) f"

definition rejected :: "lib \<Rightarrow> request \<Rightarrow> reply" where
  "rejected L q = error_reply L (BodyRejected (fst (rejection L (opt [] (body q)))) (snd (rejection L (opt [] (body q)))))"

definition service_net :: "lib \<Rightarrow> jsstr \<Rightarrow> (svc \<Rightarrow> request \<Rightarrow> reply \<times> svc) \<Rightarrow> svc net" where
  "service_net L b other s q =
     (if http_method q = js ''POST'' \<and> Api.url q = b @ js ''/v1/submissions'' then
        (case parse_body L (submission_request L) q of
           None \<Rightarrow> (rejected L q, s) | Some r \<Rightarrow> create L (header ''idempotency-key'' q) r s)
      else if http_method q = js ''POST'' \<and> Api.url q = b @ js ''/v1/submissions/batch'' then
        (case parse_body L (batch_request_of L) q of
           None \<Rightarrow> (rejected L q, s) | Some r \<Rightarrow> create_batch L r s)
      else if http_method q = js ''GET'' \<and> Api.url q = b @ js ''/v1/languages'' then
        (Reply 200 (to_text L (JArr (map language_view (registry_list (sv_languages s))))), s)
      else other s q)"

section \<open>What the table holds\<close>

definition row_ok :: "svc \<Rightarrow> row \<Rightarrow> bool" where
  "row_ok s r \<longleftrightarrow> r_source_code r \<noteq> [] \<and> length (r_source_code r) \<le> MAX_SOURCE_BYTES
     \<and> (case r_stdin r of None \<Rightarrow> True | Some i \<Rightarrow> length i \<le> MAX_STDIN_BYTES)
     \<and> limits_validate (r_limits r) (sv_ceiling s) = None
     \<and> registry_get (sv_languages s) (r_language_id r) \<noteq> None"

definition svc_inv :: "svc \<Rightarrow> bool" where
  "svc_inv s \<longleftrightarrow> inj (sv_supply s) \<and> (\<forall>r \<in> set (sv_rows s). row_ok s r) \<and> distinct (map r_token (sv_rows s))
     \<and> (\<forall>r \<in> set (sv_rows s). \<exists>i < sv_drawn s. r_token r = sv_supply s i)"

text \<open>The handlers keep the configuration.\<close>

definition same_config :: "svc \<Rightarrow> svc \<Rightarrow> bool" where
  "same_config s s' \<longleftrightarrow> sv_languages s' = sv_languages s \<and> sv_ceiling s' = sv_ceiling s \<and> sv_supply s' = sv_supply s
     \<and> sv_drawn s \<le> sv_drawn s' \<and> sv_db s' = sv_db s \<and> sv_notify s' = sv_notify s"

lemma row_ok_config: "same_config s s' \<Longrightarrow> row_ok s' r = row_ok s r"
  by (simp add: same_config_def row_ok_def)

lemma row_ok_created [simp]: "row_ok s (r\<lparr>r_created_at := x\<rparr>) = row_ok s r"
  by (simp add: row_ok_def)

lemmas svc_ops = insert_submission_def notify_def draw_def

text \<open>One more row, with the token that was drawn for it.\<close>

lemma insert_drawn_inv:
  assumes "svc_inv s" "row_ok s r" "r_token r = sv_supply s (sv_drawn s)" "s1 = snd (draw s)"
  shows "svc_inv (insert_submission r s1) \<and> same_config s (insert_submission r s1)"
proof -
  have "r_token x \<noteq> r_token r" if "x \<in> set (sv_rows s)" for x
    using that assms(1,3) by (fastforce simp: svc_inv_def inj_def)
  moreover have "row_ok (insert_submission r s1) x = row_ok s x" for x
    using assms(4) by (simp add: row_ok_def svc_ops)
  ultimately show ?thesis
    using assms by (auto simp: svc_inv_def same_config_def svc_ops less_Suc_eq)
qed

lemma notify_inv [simp]: "svc_inv (notify t s) = svc_inv s"
  by (simp add: svc_inv_def notify_def row_ok_def)

lemma same_config_notify [simp]: "same_config s (notify t s') = same_config s s'"
  by (simp add: same_config_def notify_def)

lemma draw_inv: "svc_inv s \<Longrightarrow> svc_inv (snd (draw s)) \<and> same_config s (snd (draw s))"
  by (auto simp: svc_inv_def draw_def row_ok_def same_config_def less_Suc_eq)

lemma input_error_None:
  "Option.bind i (\<lambda>i. map_option f (check_size i n)) = None \<longleftrightarrow> (case i of None \<Rightarrow> True | Some i \<Rightarrow> length i \<le> n)"
  by (cases i) (simp_all add: check_size_def)

lemma size_errors_None:
  "size_errors src is = None \<longleftrightarrow> src \<noteq> [] \<and> length src \<le> MAX_SOURCE_BYTES
     \<and> (\<forall>i \<in> set is. case i of None \<Rightarrow> True | Some i \<Rightarrow> length i \<le> MAX_STDIN_BYTES)"
  by (auto simp: size_errors_def first_error_None check_size_def [of src] input_error_None)

lemma admit_row_ok:
  assumes "admit L s q0 = Inr (q, lm)" "r_source_code r = q_source_code q" "r_stdin r = q_stdin q" "r_limits r = lm"
    "r_language_id r = q_language_id q"
  shows "row_ok s r"
  using assms
  by (auto simp: admit_def row_ok_def resolve_limits_def Let_def size_errors_None split: sum.splits option.splits)

lemma create_inv:
  assumes "svc_inv s" "create L k q0 s = (rep, s')"
  shows "svc_inv s'"
proof (cases "s' = s")
  case False
  then obtain q lm where q: "admit L s q0 = Inr (q, lm)" and st: "store L k q lm s = (rep, s')"
    using assms(2) by (auto simp: create_def split: sum.splits prod.splits option.splits if_splits)
  define r where "r = \<lparr>r_token = sv_supply s (sv_drawn s), r_language_id = q_language_id q, r_source_code = q_source_code q,
     r_stdin = q_stdin q, r_limits = lm, r_callback_url = q_callback_url q, r_idempotency_key = k,
     r_idempotency_hash = map_option (\<lambda>_. idempotency_hash L q) k, r_batch_id = None, r_created_at = 0\<rparr>"
  have "svc_inv (insert_submission r (snd (draw s)))"
    using insert_drawn_inv [OF assms(1) admit_row_ok [OF q]] by (simp add: r_def)
  moreover have "s' \<in> {snd (draw s), insert_submission r (snd (draw s)), notify (r_token r) (insert_submission r (snd (draw s)))}"
    using st by (auto simp: store_def draw_def r_def Let_def split: if_splits)
  ultimately show ?thesis using draw_inv [OF assms(1)] by auto
qed (use assms(1) in simp)

lemma same_config_trans: "same_config s s1 \<Longrightarrow> same_config s1 s2 \<Longrightarrow> same_config s s2"
  by (simp add: same_config_def)

lemma store_cases_inv:
  assumes "svc_inv s" "store_cases L bid q lm cs s = (res, s')"
    and "\<And>c r. c \<in> set cs \<Longrightarrow> r_source_code r = bq_source_code q \<Longrightarrow> r_stdin r = c \<Longrightarrow> r_limits r = lm \<Longrightarrow>
      r_language_id r = bq_language_id q \<Longrightarrow> row_ok s r"
  shows "svc_inv s' \<and> same_config s s'"
  using assms
proof (induction cs arbitrary: s res)
  case (Cons c cs)
  define r where "r = \<lparr>r_token = sv_supply s (sv_drawn s), r_language_id = bq_language_id q, r_source_code = bq_source_code q,
     r_stdin = c, r_limits = lm, r_callback_url = None, r_idempotency_key = None, r_idempotency_hash = None,
     r_batch_id = Some bid, r_created_at = 0\<rparr>"
  let ?s2 = "insert_submission r (snd (draw s))"
  have s2: "svc_inv ?s2" "same_config s ?s2"
    using insert_drawn_inv [OF Cons.prems(1), of r] Cons.prems(3) [of c r] by (simp_all add: r_def)
  then have s3: "svc_inv (notify (r_token r) ?s2)" "same_config s (notify (r_token r) ?s2)"
    by simp_all
  have "s' = snd (draw s) \<or> s' = ?s2 \<or> (\<exists>res'. store_cases L bid q lm cs (notify (r_token r) ?s2) = (res', s'))"
    using Cons.prems(2) by (auto simp: draw_def r_def Let_def split: if_splits prod.splits sum.splits)
  then show ?case
  proof (elim disjE exE)
    fix res' assume rec: "store_cases L bid q lm cs (notify (r_token r) ?s2) = (res', s')"
    have "svc_inv s' \<and> same_config (notify (r_token r) ?s2) s'"
      by (rule Cons.IH [OF s3(1) rec]) (use Cons.prems(3) row_ok_config [OF s3(2)] in auto)
    then show ?thesis using same_config_trans [OF s3(2)] by blast
  qed (use s2 draw_inv [OF Cons.prems(1)] in auto)
qed (simp add: same_config_def)

lemma create_batch_inv:
  assumes "svc_inv s" "create_batch L q0 s = (rep, s')"
  shows "svc_inv s'"
proof (cases "admit_batch L s q0")
  case (Inr a)
  then obtain q lm where a: "a = (q, lm)" by (cases a)
  have cfg: "same_config s (snd (draw s))" and inv: "svc_inv (snd (draw s))" using draw_inv [OF assms(1)] by auto
  have ok: "row_ok s r" if "c \<in> set (bq_test_cases q)" "r_source_code r = bq_source_code q" "r_stdin r = c" "r_limits r = lm"
    "r_language_id r = bq_language_id q" for c r
    using Inr that unfolding a
    by (auto simp: admit_batch_def row_ok_def Let_def size_errors_None first_error_None split: sum.splits option.splits)
  obtain res s2 where st: "store_cases L (fst (draw s)) q lm (bq_test_cases q) (snd (draw s)) = (res, s2)" by fastforce
  have "svc_inv s2"
    using store_cases_inv [OF inv st] ok row_ok_config [OF cfg] by blast
  moreover have "s' = s2"
    using assms(2) st Inr unfolding a by (auto simp: create_batch_def split: prod.splits sum.splits)
  ultimately show ?thesis by simp
qed (use assms in \<open>auto simp: create_batch_def\<close>)

text \<open>Between requests time passes, the cache and the sample of the queue change, and connections come and go.\<close>

inductive svc_step :: "svc \<Rightarrow> svc \<Rightarrow> bool" where
  one: "create L k q s = (rep, s') \<Longrightarrow> svc_step s s'"
| many: "create_batch L q s = (rep, s') \<Longrightarrow> svc_step s s'"
| world: "svc_step s (s\<lparr>sv_now := t, sv_cache := c, sv_queue_depth := d, sv_db := x, sv_notify := y\<rparr>)"

definition svc_start :: "svc \<Rightarrow> bool" where
  "svc_start s \<longleftrightarrow> sv_rows s = [] \<and> inj (sv_supply s)"

interpretation table: machine svc_start svc_step svc_inv
proof unfold_locales
  show "svc_inv s" if "svc_start s" for s using that by (simp add: svc_start_def svc_inv_def)
  show "svc_inv s'" if "svc_inv s" "svc_step s s'" for s s'
    using that(2,1)
  proof cases
    case (world t c d x y)
    then show ?thesis using that(1) by (simp add: svc_inv_def row_ok_def)
  qed (auto intro: create_inv create_batch_inv)
qed

text \<open>
  C8. Every row of the table, whatever requests came in whatever order: its source is not empty, source and input are within
  the size limits, its limits are within the ceiling with at least as much wall time as processor time and no network that the
  ceiling does not grant, its language is registered, and no two rows have the same token.
\<close>

theorem rows_are_admissible:
  assumes "reach svc_start svc_step s" "r \<in> set (sv_rows s)"
  shows "r_source_code r \<noteq> [] \<and> length (r_source_code r) \<le> 65536 \<and> length (opt [] (r_stdin r)) \<le> 65536
    \<and> 1 / 10 \<le> rl_cpu_time (r_limits r) \<and> rl_cpu_time (r_limits r) \<le> rl_cpu_time (sv_ceiling s)
    \<and> rl_cpu_time (r_limits r) \<le> rl_wall_time (r_limits r) \<and> rl_wall_time (r_limits r) \<le> rl_wall_time (sv_ceiling s)
    \<and> 1 \<le> rl_memory_mb (r_limits r) \<and> rl_memory_mb (r_limits r) \<le> rl_memory_mb (sv_ceiling s)
    \<and> (if rl_enable_network (r_limits r) then rl_enable_network (sv_ceiling s) else True)
    \<and> registry_get (sv_languages s) (r_language_id r) \<noteq> None \<and> distinct (map r_token (sv_rows s))"
proof -
  have inv: "svc_inv s" using table.reach_inv assms(1) .
  then have "row_ok s r" using assms(2) by (simp add: svc_inv_def)
  then show ?thesis
    using inv
    by (cases "r_stdin r")
       (auto simp: row_ok_def svc_inv_def limits_validate_def first_error_None check_range_def MAX_SOURCE_BYTES_def
         MAX_STDIN_BYTES_def not_less split: if_splits)
qed

text \<open>Errors of a handler are not successes.\<close>

fun api_failure :: "svc_error \<Rightarrow> bool" where
  "api_failure (BodyRejected _ _) = False"
| "api_failure _ = True"

lemma core_status_failure: "413 \<le> core_status c"
  by (cases c) simp_all

lemma error_reply_status: "api_failure e \<Longrightarrow> \<exists>n m. error_reply L e = Reply n m \<and> 409 \<le> n"
  using core_status_failure by (cases e) (auto simp: error_reply_def intro: order_trans [of 409 413])

lemma error_reply_not: "api_failure e \<Longrightarrow> n < 409 \<Longrightarrow> error_reply L e \<noteq> Reply n t"
  using error_reply_status [of e L] by force

lemma decode_failure: "decode_payload L n p = Inl e \<Longrightarrow> api_failure e" "decode_opt L n i = Inl e \<Longrightarrow> api_failure e"
  by (auto simp: decode_payload_def decode_opt_def map_sum_def split: option.splits sum.splits)

lemma first_error_Some: "first_error es = Some e \<Longrightarrow> Some e \<in> set es"
  by (induction es rule: first_error.induct) auto

lemma size_errors_failure: "size_errors src is = Some e \<Longrightarrow> api_failure e"
  by (auto simp: size_errors_def bind_eq_Some_conv eq_commute [of "Some e"] dest!: first_error_Some split: if_splits)

lemma admit_failure: "admit L s q = Inl e \<Longrightarrow> api_failure e"
  by (auto simp: admit_def decode_request_def size_errors_failure dest: decode_failure split: sum.splits option.splits if_splits)

lemma admit_config: "sv_languages s' = sv_languages s \<Longrightarrow> sv_ceiling s' = sv_ceiling s \<Longrightarrow> admit L s' q = admit L s q"
  unfolding admit_def by (simp only:)

lemma callback_failure: "callback_check L u = Some e \<Longrightarrow> api_failure e"
  by (auto simp: callback_check_def bind_eq_Some_conv)

text \<open>The row that is stored for an admitted request.\<close>

definition new_row :: "lib \<Rightarrow> svc \<Rightarrow> jsstr option \<Rightarrow> sub_request \<Rightarrow> resource_limits \<Rightarrow> row" where
  "new_row L s k q lm = \<lparr>r_token = sv_supply s (sv_drawn s), r_language_id = q_language_id q, r_source_code = q_source_code q,
     r_stdin = q_stdin q, r_limits = lm, r_callback_url = q_callback_url q, r_idempotency_key = k,
     r_idempotency_hash = map_option (\<lambda>_. idempotency_hash L q) k, r_batch_id = None, r_created_at = sv_now s\<rparr>"

definition stored :: "lib \<Rightarrow> svc \<Rightarrow> jsstr option \<Rightarrow> sub_request \<Rightarrow> resource_limits \<Rightarrow> svc" where
  "stored L s k q lm = s\<lparr>sv_rows := sv_rows s @ [new_row L s k q lm], sv_drawn := sv_drawn s + 1,
     sv_notified := sv_notified s @ [sv_supply s (sv_drawn s)]\<rparr>"

lemma store_stored:
  "sv_db s \<Longrightarrow> sv_notify s \<Longrightarrow> store L k q lm s = (Reply 201 (to_text L (ack_json (sv_supply s (sv_drawn s)))), stored L s k q lm)"
  by (simp add: store_def stored_def new_row_def svc_ops Let_def)

text \<open>What a request found on its way to the table.\<close>

definition fresh_request :: "lib \<Rightarrow> svc \<Rightarrow> jsstr option \<Rightarrow> sub_request \<Rightarrow> resource_limits \<Rightarrow> bool" where
  "fresh_request L s k q lm \<longleftrightarrow>
     sv_cache s (result_key L (q_language_id q) (q_source_code q) (opt [] (q_stdin q)) lm) = None
     \<and> callback_check L (q_callback_url q) = None
     \<and> Option.bind k (\<lambda>k. find_by_idempotency_key s k (idempotency_hash L q)) = None
     \<and> \<not> shed s \<and> sv_db s \<and> sv_notify s"

lemma create_fresh:
  "admit L s q0 = Inr (q, lm) \<Longrightarrow> fresh_request L s k q lm \<Longrightarrow>
   create L k q0 s = (Reply 201 (to_text L (ack_json (sv_supply s (sv_drawn s)))), stored L s k q lm)"
  by (simp add: create_def fresh_request_def store_stored)

lemma create_201:
  assumes "create L k q0 s = (Reply 201 t, s')"
  shows "\<exists>q lm. admit L s q0 = Inr (q, lm) \<and> fresh_request L s k q lm \<and> t = to_text L (ack_json (sv_supply s (sv_drawn s)))
    \<and> s' = stored L s k q lm"
proof -
  obtain q lm where q: "admit L s q0 = Inr (q, lm)"
    using assms error_reply_not admit_failure by (fastforce simp: create_def split: sum.splits)
  have "fresh_request L s k q lm"
    using assms error_reply_not callback_failure
    by (fastforce simp: create_def q fresh_request_def store_def Let_def draw_def split: option.splits prod.splits if_splits)
  then show ?thesis using create_fresh [OF q] assms q by auto
qed

lemma find_append_new:
  "find p xs = None \<Longrightarrow> p y \<Longrightarrow> find p (xs @ [y]) = Some y"
  by (induction xs) (auto split: if_splits)

lemma find_weaken: "find p xs = None \<Longrightarrow> (\<And>x. q x \<Longrightarrow> p x) \<Longrightarrow> find q xs = None"
  by (auto simp: find_None_iff)


section \<open>A small service\<close>

definition sample_svc :: svc where
  "sample_svc = \<lparr>sv_languages = [\<lparr>sp_id = 71, sp_name = js ''Python'', sp_version = js ''3.13'', sp_source_file = js ''main.py'',
       sp_is_compiled = False, sp_default_limits = None, sp_is_archived = False\<rparr>],
     sv_ceiling = limit_ceiling, sv_cache = (\<lambda>_. None), sv_rows = [], sv_supply = (\<lambda>i. js ''t'' @ natStr i), sv_drawn = 0,
     sv_queue_limit = 5000, sv_queue_depth = 0, sv_db = True, sv_notify = True, sv_notified = [], sv_now = 0\<rparr>"

definition sample_request :: sub_request where
  "sample_request = \<lparr>q_language_id = 71, q_source_code = [112], q_stdin = None, q_cpu_time_limit = None, q_wall_time_limit = None,
     q_memory_limit_mb = None, q_callback_url = None, q_base64_encoded = False\<rparr>"

lemma sample_admit: "admit std_lib sample_svc sample_request = Inr (sample_request, limits_default)"
  by (simp add: admit_def decode_request_def sample_request_def sample_svc_def size_errors_def check_size_def MAX_SOURCE_BYTES_def
      registry_get_def resolve_limits_def override_limits_def limits_validate_def check_range_def limits_default_def limit_ceiling_def
      Let_def)

lemma sample_fresh: "fresh_request std_lib sample_svc (Some (js ''k'')) sample_request limits_default"
  by (simp add: fresh_request_def sample_svc_def sample_request_def callback_check_def find_by_idempotency_key_def shed_def)

lemmas sample_create = create_fresh [OF sample_admit sample_fresh]

lemma sample_start: "svc_start sample_svc"
proof -
  have "inj natStr" using radix_inject [of 10] by (auto simp: natStr_def inj_def)
  then show ?thesis by (simp add: svc_start_def sample_svc_def inj_def)
qed

theorem rows_are_admissible_witness:
  "\<exists>(s :: svc) r. sv_rows s = [r] \<and> r_source_code r = [112] \<and> rl_cpu_time (r_limits r) \<le> rl_wall_time (r_limits r)"
proof -
  let ?s = "stored std_lib sample_svc (Some (js ''k'')) sample_request limits_default"
  let ?r = "new_row std_lib sample_svc (Some (js ''k'')) sample_request limits_default"
  have "reach svc_start svc_step sample_svc" using sample_start by (rule reach.reach_start)
  moreover have "svc_step sample_svc ?s" using sample_create by (rule svc_step.one)
  ultimately have "reach svc_start svc_step ?s" by (rule reach.reach_step)
  moreover have rows: "sv_rows ?s = [?r]" by (simp add: stored_def sample_svc_def)
  ultimately have "rl_cpu_time (r_limits ?r) \<le> rl_wall_time (r_limits ?r)" using rows_are_admissible [of ?s ?r] by simp
  moreover have "r_source_code ?r = [112]" by (simp add: new_row_def sample_request_def)
  ultimately show ?thesis using rows by blast
qed


end
