(* ===== verification/Wire.thy ===== *)
theory Wire
  imports Submissions
begin

text \<open>
  What crosses the wire between the client's \<^verbatim>\<open>submit\<close> and the handlers of the service: the headers, the members of the body, the
  limits that are admitted, and the reply. The lemmas hold for every request of \<^verbatim>\<open>api.ts\<close>; the page's and the panel's requests
  are in the theories that follow.
\<close>

section \<open>Headers\<close>

lemma radix_visible: "c \<in> set (radix 36 n) \<Longrightarrow> 32 \<le> c \<and> c < 127"
proof -
  assume "c \<in> set (radix 36 n)"
  then obtain d where d: "d \<in> set (digits 36 n)" "c = digit_cu d" by (auto simp: radix_def)
  then have "d < 36" using digits_less [of 36] by auto
  then have "unat c = (if d < 10 then 48 + d else 87 + d)" using unat_digit_cu d(2) by simp
  then have "32 \<le> unat c \<and> unat c < 127" using \<open>d < 36\<close> by (auto split: if_splits)
  then show ?thesis by (simp add: word_le_nat_alt word_less_nat_alt)
qed

lemma idemKey_header:
  assumes "idempotency_key p = Some (idemKey parts now)"
  shows "header ''idempotency-key'' \<lparr>url = u, http_method = m, hdrs = obj_put (js ''Idempotency-Key'') (idemKey parts now)
      (headers a [(js ''Content-Type'', js ''application/json'')]), body = b\<rparr> = Some (idemKey parts now)"
proof -
  have vis: "list_all (\<lambda>c. c = 9 \<or> (32 \<le> c \<and> c < 127)) (idemKey parts now)"
    using radix_visible by (auto simp: idemKey_def list_all_iff js_eval)
  have names: "map lower_cu (js ''Idempotency-Key'') = js ''idempotency-key''" "map lower_cu (js ''Accept'') \<noteq> js ''idempotency-key''"
    "map lower_cu (js ''Content-Type'') \<noteq> js ''idempotency-key''" "map lower_cu (js ''Authorization'') \<noteq> js ''idempotency-key''"
    by (simp_all add: js_eval lower_cu_def)
  show ?thesis using vis names by (simp add: header_def headers_def Let_def)
qed

section \<open>What the service reads\<close>

definition received :: "submit_params \<Rightarrow> sub_request" where
  "received p = \<lparr>q_language_id = language_id p, q_source_code = opt [] (text_bytes (source_code p)),
     q_stdin = (if present (stdin p) then text_bytes (the (stdin p)) else None),
     q_cpu_time_limit = Option.bind (plimits p) cpu_time, q_wall_time_limit = Option.bind (plimits p) wall_time,
     q_memory_limit_mb = map_option (\<lambda>x. nat \<lfloor>x\<rfloor>) (Option.bind (plimits p) memory_mb), q_callback_url = None, q_base64_encoded = True\<rparr>"

lemma limit_field_values:
  "map_of (limit_fields l) (js ''cpu_time_limit'') = map_option JNum (Option.bind l cpu_time)"
  "map_of (limit_fields l) (js ''wall_time_limit'') = map_option JNum (Option.bind l wall_time)"
  "map_of (limit_fields l) (js ''memory_limit_mb'') = map_option JNum (Option.bind l memory_mb)"
  by (auto simp: limit_fields_def split: option.splits)

lemma submit_body_members:
  assumes "submit_body p = Some b" "callback_url p = None"
  shows "jget ''language_id'' b = Some (JNum (of_nat (language_id p)))" "jget ''base64_encoded'' b = Some (JBool True)"
    "jget ''callback_url'' b = None"
    "jget ''cpu_time_limit'' b = map_option JNum (Option.bind (plimits p) cpu_time)"
    "jget ''wall_time_limit'' b = map_option JNum (Option.bind (plimits p) wall_time)"
    "jget ''memory_limit_mb'' b = map_option JNum (Option.bind (plimits p) memory_mb)"
  using assms
  by (auto simp: submit_body_def jget_def map_add_def map_of_limit_fields limit_field_values split: option.splits if_splits)

lemma submit_body_distinct: "submit_body p = Some b \<Longrightarrow> \<exists>ps. b = JObj ps \<and> distinct (map fst ps)"
  using limit_fields_distinct [of "plimits p"]
  by (auto simp: submit_body_def split: option.splits if_splits)

lemma submit_body_no_duplicates: "submit_body p = Some b \<Longrightarrow> no_duplicates ks b"
  using submit_body_distinct [of p b] distinct_filter unfolding no_duplicates_def by fastforce

lemma optional_JNum: "optional f k b = (case x of None \<Rightarrow> Some None | Some n \<Rightarrow> map_option Some (f (JNum n)))"
  if "jget k b = map_option JNum x"
  using that by (cases x) (simp_all add: optional_def)

lemma json_u32_of_nat: "m < 2 ^ 32 \<Longrightarrow> json_u32 (JNum (of_nat m)) = Some m"
proof -
  assume "m < 2 ^ 32"
  moreover have "(of_int \<lfloor>of_nat m :: number\<rfloor> :: number) = of_nat m" by (simp only: floor_of_nat of_int_of_nat_eq)
  ultimately show ?thesis unfolding json_u32_def by simp
qed

context wire_lib
begin

lemma request_read:
  assumes "submit_body p = Some b" "callback_url p = None" "language_id p < 2 ^ 32"
    and "\<forall>x. Option.bind (plimits p) memory_mb = Some x \<longrightarrow> (\<exists>m. x = of_nat m \<and> m < 2 ^ 32)"
  shows "\<exists>q. submission_request L b = Some q \<and> decode_request L q = Inr (received p)"
proof -
  note members = submit_body_members [OF assms(1,2)]
  obtain src where src: "encode (Some (source_code p)) = Some src" "jget ''source_code'' b = Some (JStr src)"
    using submit_body_Some(1) [OF assms(1)] by blast
  obtain sp where sp: "payload_of L (JStr src) = Some sp"
    "\<And>n. decode_payload L n sp = Inr (opt [] (text_bytes (source_code p)))"
    using payload_sent [OF src(1)] by (auto simp: decode_payload_def)
  have "\<exists>i. optional (payload_of L) ''stdin'' b = Some i \<and> decode_opt L (js ''stdin'') i = Inr (q_stdin (received p))"
  proof (cases "present (stdin p)")
    case True
    then obtain inp where inp: "encode (Some (the (stdin p))) = Some inp" "jget ''stdin'' b = Some (JStr inp)"
      using submit_body_Some(2) [OF assms(1)] by (auto simp: present_def)
    then show ?thesis
      using payload_sent [OF inp(1)] True by (auto simp: optional_def decode_opt_def decode_payload_def received_def)
  next
    case False
    then show ?thesis using submit_body_Some(3) [OF assms(1)] by (simp add: optional_def decode_opt_def received_def)
  qed
  then obtain i where i: "optional (payload_of L) ''stdin'' b = Some i" "decode_opt L (js ''stdin'') i = Inr (q_stdin (received p))" by blast
  have mem: "optional json_u32 ''memory_limit_mb'' b = Some (map_option (\<lambda>x. nat \<lfloor>x\<rfloor>) (Option.bind (plimits p) memory_mb))"
    using assms(4) by (cases "Option.bind (plimits p) memory_mb") (auto simp: optional_JNum [OF members(6)] json_u32_of_nat)
  have num: "optional json_f64 ''cpu_time_limit'' b = Some (Option.bind (plimits p) cpu_time)"
    "optional json_f64 ''wall_time_limit'' b = Some (Option.bind (plimits p) wall_time)"
    by (simp_all add: optional_JNum [OF members(4)] optional_JNum [OF members(5)] json_f64_def split: option.splits)
  have "required json_u32 ''language_id'' b = Some (language_id p)" using assms(3) by (simp add: required_def members(1) json_u32_of_nat)
  then show ?thesis
    using sp i mem num src(2) members(2,3) submit_body_no_duplicates [OF assms(1)]
    by (simp add: submission_request_def required_def optional_def [of "json_url L"] flag_def decode_request_def received_def)
qed

end

section \<open>Admission\<close>

text \<open>The limits of a language under which the sliders are free: the number of processes fits, no network.\<close>

definition plain_defaults :: "resource_limits \<Rightarrow> bool" where
  "plain_defaults d \<longleftrightarrow> 1 \<le> rl_max_pids d \<and> rl_max_pids d \<le> 256 \<and> \<not> rl_enable_network d"

lemma limits_validate_ceiling:
  "plain_defaults d \<Longrightarrow> limits_validate (override_limits (Some c) (Some w) (Some m) d) limit_ceiling = None \<longleftrightarrow>
   1 / 10 \<le> c \<and> c \<le> 30 \<and> c \<le> w \<and> w \<le> 60 \<and> 1 \<le> m \<and> m \<le> 2048"
  by (auto simp: limits_validate_def first_error_None check_range_def override_limits_def limit_ceiling_def plain_defaults_def not_less)

lemma code_points_not_Nil: "code_points (c # cs) = Some ps \<Longrightarrow> ps \<noteq> []"
  by (cases cs) (auto split: if_splits)

lemma text_bytes_not_Nil: "s \<noteq> [] \<Longrightarrow> text_bytes s = Some bs \<Longrightarrow> bs \<noteq> []"
proof -
  assume "s \<noteq> []" "text_bytes s = Some bs"
  then obtain p ps where "bs = concat (map utf8_of (p # ps))"
    using code_points_not_Nil by (cases s) (fastforce simp: text_bytes_def neq_Nil_conv)+
  moreover have "utf8_of p \<noteq> []" by (simp add: utf8_of_def)
  ultimately show ?thesis by simp
qed

lemma well_formed_bytes: "well_formed s \<Longrightarrow> \<exists>bs. text_bytes s = Some bs"
  by (auto simp: well_formed_def text_bytes_def)

text \<open>What the defaults of the run's language are.\<close>

definition defaults_for :: "svc \<Rightarrow> nat \<Rightarrow> resource_limits" where
  "defaults_for s i = (case registry_get (sv_languages s) i of Some sp \<Rightarrow> opt limits_default (sp_default_limits sp) | None \<Rightarrow> limits_default)"

section \<open>The reply\<close>

text \<open>What the client makes of a reply.\<close>

definition answer :: "reply \<times> svc \<Rightarrow> (api_error + json) \<times> svc" where
  "answer p = (case p of
     (NetError m, s) \<Rightarrow> (Inl (NetFail m), s)
   | (Reply n t, s) \<Rightarrow> (if ok_status n then Inr (reply_body t) else Inl (HttpError n (error_detail (reply_body t)) (reply_body t)), s))"

lemma jsonFetch_answer: "jsonFetch net a path q s = answer (net s (q\<lparr>Api.url := base a @ path\<rparr>))"
  by (simp add: jsonFetch_def answer_def Let_def split: prod.splits reply.splits)

lemma ack_json_ok: "json_ok (ack_json t)"
  by (simp add: ack_json_def)

end
