(* ===== verification/EndToEnd.thy ===== *)
theory EndToEnd
  imports Wire PlaygroundInv
begin

text \<open>
  Client and service together: the requests of \<^verbatim>\<open>api.ts\<close> are sent to the handlers of the service, and their replies go back
  to the page. The lemmas show what the service reads from a request of the page and what the page makes of the reply: the program
  arrives byte for byte, the sliders stay within the ceiling for a single run, and where the two sides disagree.
\<close>

section \<open>Admission\<close>

text \<open>A run whose text the service can take: not empty, proper UTF-16, within the sizes, in a registered language.\<close>

definition run_text_ok :: "svc \<Rightarrow> run_ctx \<Rightarrow> bool" where
  "run_text_ok s x \<longleftrightarrow> rc_code x \<noteq> [] \<and> well_formed (rc_code x) \<and> well_formed (rc_stdin x)
     \<and> length (opt [] (text_bytes (rc_code x))) \<le> 65536 \<and> length (opt [] (text_bytes (rc_stdin x))) \<le> 65536
     \<and> l_id (rc_lang x) < 2 ^ 32 \<and> registry_get (sv_languages s) (l_id (rc_lang x)) \<noteq> None
     \<and> plain_defaults (defaults_for s (l_id (rc_lang x))) \<and> sv_ceiling s = limit_ceiling"

definition granted :: "svc \<Rightarrow> run_ctx \<Rightarrow> resource_limits" where
  "granted s x = override_limits (Some (min (timeS (rc_limits x)) 30)) (Some (timeS (rc_limits x))) (Some (nat \<lfloor>memoryMb (rc_limits x)\<rfloor>))
     (defaults_for s (l_id (rc_lang x)))"

lemma admit_run:
  assumes "run_text_ok s x" "rc_limits x = \<lparr>memoryMb = of_nat m, timeS = of_nat t\<rparr>" "1 \<le> m" "m \<le> 2048" "1 \<le> t" "t \<le> 60"
    and "decode_request L q = Inr (received (run_params now x))"
  shows "admit L s q = Inr (received (run_params now x), granted s x)"
proof -
  obtain bs where bs: "text_bytes (rc_code x) = Some bs" using well_formed_bytes assms(1) by (auto simp: run_text_ok_def)
  have "size_errors (q_source_code (received (run_params now x))) [q_stdin (received (run_params now x))] = None"
    using assms(1) bs text_bytes_not_Nil [OF _ bs]
    by (auto simp: size_errors_None received_def run_params_def run_text_ok_def MAX_SOURCE_BYTES_def MAX_STDIN_BYTES_def split: option.splits)
  moreover obtain sp where sp: "registry_get (sv_languages s) (l_id (rc_lang x)) = Some sp" using assms(1) by (auto simp: run_text_ok_def)
  moreover have "limits_validate (granted s x) limit_ceiling = None"
  proof -
    have "(1 :: number) / 10 \<le> of_nat t" using assms(5) by (auto intro!: order_trans [of "1 / 10" 1 "of_nat t"])
    moreover have "(of_nat t :: number) \<le> 60" using assms(6) by simp
    moreover have "plain_defaults (defaults_for s (l_id (rc_lang x)))" using assms(1) by (simp add: run_text_ok_def)
    ultimately show ?thesis using assms(2-4) by (simp add: granted_def limits_validate_ceiling min_def)
  qed
  ultimately show ?thesis
    using assms(1,2,7)
    by (simp add: admit_def resolve_limits_def Let_def granted_def defaults_for_def received_def run_params_def run_text_ok_def)
qed

lemma run_params_limits_ok:
  "rc_limits x = \<lparr>memoryMb = of_nat m, timeS = of_nat t\<rparr> \<Longrightarrow> limits_ok (plimits (run_params now x))"
  by (auto simp: run_params_def limits_ok_def min_def)

context wire_lib
begin

text \<open>A submission of the page arrives at the handler, decoded.\<close>

lemma run_submitted:
  assumes "run_text_ok s x" "rc_limits x = \<lparr>memoryMb = of_nat m, timeS = of_nat t\<rparr>" "m \<le> 2048" "p = run_params now x"
  shows "\<exists>q. decode_request L q = Inr (received p)
    \<and> submit (service_net L (base c) other) c p s = answer (create L (idempotency_key p) q s)"
proof -
  have wf: "well_formed (rc_code x)" "well_formed (rc_stdin x)" using assms(1) by (simp_all add: run_text_ok_def)
  then obtain b where b: "submit_body p = Some b" using submit_body_defined [of p] by (auto simp: assms(4) run_params_def)
  have "json_ok b" using submit_body_ok [OF b] run_params_limits_ok [OF assms(2)] assms(4) by simp
  then have tx: "from_text L (stringify b) = Some b" by (rule reads_text)
  obtain q where q: "submission_request L b = Some q" "decode_request L q = Inr (received p)"
    using request_read [OF b] assms by (auto simp: run_params_def run_text_ok_def)
  obtain k where k: "idempotency_key p = Some (idemKey k now)" by (simp add: assms(4) run_params_def)
  have "\<not> wait p" "present (idempotency_key p)" using k by (simp_all add: assms(4) run_params_def present_def idemKey_def)
  then have "submit (service_net L (base c) other) c p s = answer (create L (idempotency_key p) q s)"
    using b tx q(1) k idemKey_header [OF k]
    by (simp add: submit_def jsonFetch_answer service_net_def POST_def parse_body_def)
  then show ?thesis using q(2) by blast
qed

end

lemma writeShareHash_well_formed:
  "well_formed c \<Longrightarrow> well_formed i \<Longrightarrow> \<exists>u. writeShareHash p (share_of l c i t) = Some u"
  using share_params_None [of "share_of l c i t"] by (auto simp: writeShareHash_def share_of_def)

text \<open>
  C2. A run of the page arrives at the service as it was written: for a program and an input of proper Unicode within the sizes, in
  a registered language, with the sliders anywhere between the least value and the ceiling, a service that has not seen it and has
  room stores exactly one more row, and in it the bytes are the UTF-8 of the program and of the input, the memory and the wall
  time are the sliders', and the processor time is the wall time up to thirty seconds; the worker is notified, and the page that
  gets the reply follows the run under the token of that row.
\<close>

theorem run_reaches_service:
  assumes "wire_lib L" "i < length (a_runs a)" "x = a_runs a ! i" "run_text_ok s x"
    and "rc_limits x = \<lparr>memoryMb = of_nat m, timeS = of_nat t\<rparr>" "1 \<le> m" "m \<le> 2048" "1 \<le> t" "t \<le> 60"
    and "p = run_params now x" "fresh_request L s (idempotency_key p) (received p) (granted s x)"
    and "tkn = sv_supply s (sv_drawn s)" "tkn \<noteq> []"
    and "submit (service_net L (base c) other) c p s = (res, s')" "b = submitDone now' i res a"
  shows "\<exists>r. sv_rows s' = sv_rows s @ [r] \<and> sv_notified s' = sv_notified s @ [tkn]
    \<and> r_token r = tkn \<and> r_language_id r = l_id (rc_lang x)
    \<and> text_bytes (rc_code x) = Some (r_source_code r) \<and> text_bytes (rc_stdin x) = Some (opt [] (r_stdin r))
    \<and> rl_memory_mb (r_limits r) = m \<and> rl_wall_time (r_limits r) = of_nat t \<and> rl_cpu_time (r_limits r) = of_nat (min t 30)
    \<and> a_status b = js ''processing'' \<and> a_token b = tkn \<and> rc_tkn (a_runs b ! i) = tkn \<and> rc_stream (a_runs b ! i) = StreamOpen"
proof -
  have wf: "well_formed (rc_code x)" "well_formed (rc_stdin x)" using assms(4) by (simp_all add: run_text_ok_def)
  obtain q where q: "decode_request L q = Inr (received p)"
    and sub: "submit (service_net L (base c) other) c p s = answer (create L (idempotency_key p) q s)"
    using wire_lib.run_submitted [OF assms(1,4,5,7,10)] by blast
  have adm: "admit L s q = Inr (received p, granted s x)" using admit_run [OF assms(4-9)] q assms(10) by simp
  have res: "res = Inr (ack_json tkn)" "s' = stored L s (idempotency_key p) (received p) (granted s x)"
    using create_fresh [OF adm assms(11)] assms(12,14) sub
    by (auto simp: answer_def ok_status_def wire_lib.reply_reads [OF assms(1) ack_json_ok])
  let ?r = "new_row L s (idempotency_key p) (received p) (granted s x)"
  have "min (of_nat t) 30 = (of_nat (min t 30) :: number)" by (simp add: min_def)
  then have row: "sv_rows s' = sv_rows s @ [?r]" "sv_notified s' = sv_notified s @ [tkn]" "r_token ?r = tkn"
    "r_language_id ?r = l_id (rc_lang x)" "rl_memory_mb (r_limits ?r) = m" "rl_wall_time (r_limits ?r) = of_nat t"
    "rl_cpu_time (r_limits ?r) = of_nat (min t 30)"
    using assms(5,10,12) res(2)
    by (simp_all add: stored_def new_row_def received_def granted_def run_params_def override_limits_def)
  have "text_bytes [] = Some []" by (simp add: text_bytes_def)
  then have bytes: "text_bytes (rc_code x) = Some (r_source_code ?r)" "text_bytes (rc_stdin x) = Some (opt [] (r_stdin ?r))"
    using well_formed_bytes [OF wf(1)] well_formed_bytes [OF wf(2)] assms(10)
    by (auto simp: new_row_def received_def run_params_def present_def)
  obtain u where "writeShareHash (a_pathname a) (share_of (rc_lang x) (rc_code x) (rc_stdin x) tkn) = Some u"
    using writeShareHash_well_formed [OF wf] by blast
  then have "b = (upd_run i (\<lambda>x. x\<lparr>rc_stream := StreamOpen\<rparr>)
      ((upd_run i (\<lambda>x. x\<lparr>rc_tkn := tkn\<rparr>) (upd_run i (\<lambda>x. x\<lparr>rc_submitting := False\<rparr>) a))\<lparr>a_token := tkn, a_hash := hash_of u\<rparr>))
      \<lparr>a_status := js ''processing'', a_cancelStream := Some i, a_runCtl := Some i\<rparr>"
    using submitDone_queued [OF assms(2,13)] assms(3,15) res(1) by (simp add: ack_json_def)
  then have "a_status b = js ''processing'' \<and> a_token b = tkn \<and> rc_tkn (a_runs b ! i) = tkn \<and> rc_stream (a_runs b ! i) = StreamOpen"
    using assms(2) by simp
  then show ?thesis using row bytes by blast
qed

text \<open>
  C31. A run whose result the service has cached fails on the page: the service answers with the result and without a token, which
  the page takes for an error, so neither output nor verdict is shown.
\<close>

theorem cache_hit_fails_the_run:
  assumes "wire_lib L" "i < length (a_runs a)" "x = a_runs a ! i" "run_text_ok s x" "\<not> rc_aborted x"
    and "rc_limits x = \<lparr>memoryMb = of_nat m, timeS = of_nat t\<rparr>" "1 \<le> m" "m \<le> 2048" "1 \<le> t" "t \<le> 60"
    and "p = run_params now x" "q = received p"
    and "sv_cache s (result_key L (q_language_id q) (q_source_code q) (opt [] (q_stdin q)) (granted s x)) = Some o1" "json_ok (cached_view o1)"
    and "submit (service_net L (base c) other) c p s = (res, s')" "b = submitDone now' i res a"
  shows "res = Inr (cached_view o1) \<and> s' = s \<and> a_status b = js ''se'' \<and> a_error b = Some (js ''server returned no token'', True)
    \<and> a_output b = a_output a \<and> a_token b = a_token a"
proof -
  obtain q0 where q0: "decode_request L q0 = Inr (received p)"
    and sub: "submit (service_net L (base c) other) c p s = answer (create L (idempotency_key p) q0 s)"
    using wire_lib.run_submitted [OF assms(1,4,6,8,11)] by blast
  have "admit L s q0 = Inr (q, granted s x)" using admit_run [OF assms(4,6-10)] q0 assms(11,12) by simp
  then have res: "res = Inr (cached_view o1)" "s' = s"
    using assms(13,15) sub wire_lib.reply_reads [OF assms(1,14)] by (auto simp: create_def answer_def ok_status_def)
  have "jget ''token'' (cached_view o1) = None"
    by (auto simp: cached_view_def jget_def map_add_def present_member_def split: option.splits)
  moreover have "cached_view o1 \<noteq> JNull" by (simp add: cached_view_def)
  ultimately have "b = submit_failed i (js ''server returned no token'') (upd_run i (\<lambda>x. x\<lparr>rc_submitting := False\<rparr>) a)"
    using assms(16) res(1) by (simp add: submitDone_def)
  then show ?thesis using assms(2,3,5) res by (simp add: submit_failed_def)
qed

section \<open>Ceilings\<close>

lemma spec_limit_view: "spec_limit k (language_view l) = 0"
  by (simp add: spec_limit_def language_view_def jget_def draft_num_def)

lemma ceilings_of_views: "ceilings_of (map language_view ls) = \<lparr>c_memoryMb = 2048, c_timeS = 60\<rparr>"
proof -
  have "foldl (\<lambda>(m, t) l. (max m (spec_limit ''memory_mb'' l), max t (spec_limit ''wall_time'' l))) (0, 0) (map language_view ls) = (0, 0)"
    by (induction ls) (simp_all add: spec_limit_view)
  then show ?thesis by (simp add: ceilings_of_def)
qed

text \<open>
  The ceilings the page shows do not come from the service: whatever limits the registered languages have, the listing does
  not carry them, so a page that has probed the service falls back to 2048 megabytes and sixty seconds. These are the ceiling
  the service is started with, and for the processor time they are twice what it allows.
\<close>

theorem ceilings_are_the_fallback:
  assumes "wire_lib L"
  shows "\<exists>ls. languages (service_net L (base c) other) c s = (Inr (JArr ls), s)
    \<and> length ls = length (registry_list (sv_languages s))
    \<and> a_ceilings (probeApi True (Some ls) a) =
        Some \<lparr>c_memoryMb = of_nat (rl_memory_mb limit_ceiling), c_timeS = rl_wall_time limit_ceiling\<rparr>
    \<and> 2 * rl_cpu_time limit_ceiling = rl_wall_time limit_ceiling"
proof -
  let ?ls = "map language_view (registry_list (sv_languages s))"
  have "json_ok (JArr ?ls)" by (auto simp: language_view_def)
  then have "languages (service_net L (base c) other) c s = (Inr (JArr ?ls), s)"
    using wire_lib.reply_reads [OF assms]
    by (simp add: languages_def jsonFetch_answer service_net_def GET_def answer_def ok_status_def)
  then show ?thesis by (auto simp: probeApi_def ceilings_of_views limit_ceiling_def)
qed

section \<open>A run on the small service\<close>

definition sample_run :: run_ctx where
  "sample_run = (new_run blank_page)\<lparr>rc_lang := (hd LANGS)\<lparr>l_id := 71\<rparr>, rc_code := js ''p'', rc_stdin := [],
     rc_limits := \<lparr>memoryMb = 256, timeS = 40\<rparr>, rc_aborted := False\<rparr>"

lemma sample_run_simps [simp]:
  "rc_code sample_run = js ''p''" "rc_stdin sample_run = []" "l_id (rc_lang sample_run) = 71" "\<not> rc_aborted sample_run"
  "rc_limits sample_run = \<lparr>memoryMb = of_nat 256, timeS = of_nat 40\<rparr>"
  by (simp_all add: sample_run_def)

lemma sample_run_ok: "run_text_ok (sample_svc\<lparr>sv_cache := f\<rparr>) sample_run"
proof -
  have "text_bytes (js ''p'') = Some [112]" using text_bytes_ascii [of "js ''p''"] by (simp add: js_eval)
  moreover have "text_bytes [] = Some []" by (simp add: text_bytes_def)
  moreover have "well_formed []" using well_formed_js [of "[]"] by (simp add: js_eval)
  ultimately show ?thesis
    by (simp add: run_text_ok_def sample_svc_def registry_get_def defaults_for_def plain_defaults_def limits_default_def)
qed

lemma sample_run_fresh: "fresh_request L sample_svc k (received (run_params now x)) lm"
  by (cases k) (simp_all add: fresh_request_def sample_svc_def received_def run_params_def callback_check_def find_by_idempotency_key_def shed_def)

definition silent :: "svc \<Rightarrow> request \<Rightarrow> reply \<times> svc" where
  "silent s q = (Reply 404 [], s)"

theorem run_reaches_service_witness:
  "\<exists>r s' res. submit (service_net std_lib (base sample_api) silent) sample_api (run_params 0 sample_run) sample_svc = (res, s')
     \<and> sv_rows s' = [r] \<and> text_bytes (js ''p'') = Some (r_source_code r)
     \<and> rl_wall_time (r_limits r) = 40 \<and> rl_cpu_time (r_limits r) = 30
     \<and> a_status (submitDone 0 0 res (blank_page\<lparr>a_runs := [sample_run]\<rparr>)) = js ''processing''"
proof -
  obtain res s' where sub: "submit (service_net std_lib (base sample_api) silent) sample_api (run_params 0 sample_run) sample_svc = (res, s')" by fastforce
  have "sample_svc\<lparr>sv_cache := \<lambda>_. None\<rparr> = sample_svc" "sv_rows sample_svc = []" by (simp_all add: sample_svc_def)
  moreover have "sv_supply sample_svc (sv_drawn sample_svc) \<noteq> []" by (simp add: sample_svc_def)
  ultimately show ?thesis
    using run_reaches_service [OF std.wire_lib_axioms, where i = 0 and a = "blank_page\<lparr>a_runs := [sample_run]\<rparr>" and s = sample_svc
        and x = sample_run and m = 256 and t = 40 and now' = 0, OF _ _ _ _ _ _ _ _ refl sample_run_fresh refl _ sub refl]
      sample_run_ok [of "\<lambda>_. None"] sub
    by fastforce
qed

definition sample_outcome :: outcome where
  "sample_outcome = \<lparr>o_status = JStr (js ''accepted''), o_stdout = [49], o_stderr = [], o_compile_output = None, o_exit_code = Some 0,
     o_cpu_time = 1, o_compile_time = None, o_wall_time = 1, o_memory_kb = 1024\<rparr>"

lemma sample_outcome_ok: "json_ok (cached_view sample_outcome)"
proof -
  have "json_ok (payload_json p)" for p by (simp add: payload_json_def split: option.split)
  then show ?thesis using decimal_of_nat [of 1] by (simp add: cached_view_def sample_outcome_def present_member_def)
qed

theorem cache_hit_fails_the_run_witness:
  "\<exists>res s'. submit (service_net std_lib (base sample_api) silent) sample_api (run_params 0 sample_run) (sample_svc\<lparr>sv_cache := \<lambda>_. Some sample_outcome\<rparr>) = (res, s')
     \<and> res = Inr (cached_view sample_outcome)
     \<and> a_status (submitDone 0 0 res (blank_page\<lparr>a_runs := [sample_run]\<rparr>)) = js ''se''"
proof -
  let ?s = "sample_svc\<lparr>sv_cache := \<lambda>_. Some sample_outcome\<rparr>"
  obtain res s' where sub: "submit (service_net std_lib (base sample_api) silent) sample_api (run_params 0 sample_run) ?s = (res, s')" by fastforce
  have "res = Inr (cached_view sample_outcome)
     \<and> a_status (submitDone 0 0 res (blank_page\<lparr>a_runs := [sample_run]\<rparr>)) = js ''se''"
    using cache_hit_fails_the_run [OF std.wire_lib_axioms, where i = 0 and a = "blank_page\<lparr>a_runs := [sample_run]\<rparr>" and s = ?s
        and x = sample_run and m = 256 and t = 40 and now' = 0, OF _ _ sample_run_ok _ _ _ _ _ _ refl refl _ sample_outcome_ok sub refl]
    by auto
  then show ?thesis using sub by blast
qed

theorem ceilings_are_the_fallback_witness:
  "\<exists>ls. languages (service_net std_lib (base sample_api) silent) sample_api sample_svc = (Inr (JArr ls), sample_svc)
     \<and> a_ceilings (probeApi True (Some ls) blank_page) = Some \<lparr>c_memoryMb = 2048, c_timeS = 60\<rparr>"
  using ceilings_are_the_fallback [OF std.wire_lib_axioms, of sample_api silent sample_svc blank_page]
  by (auto simp: limit_ceiling_def)

end
