(* ===== verification/BatchRun.thy ===== *)
theory BatchRun
  imports Wire PanelProps
begin

text \<open>
  The tests panel and the service together: what a batch of the panel becomes in the table, which row's token each test case gets,
  and the time limits under which every batch is refused.
\<close>

section \<open>What the service reads\<close>

definition case_input :: "jsstr option \<Rightarrow> payload option" where
  "case_input t = (if present t then text_bytes (the t) else None)"

definition batch_received :: "batch_params \<Rightarrow> batch_request" where
  "batch_received p = \<lparr>bq_language_id = blanguage_id p, bq_source_code = opt [] (text_bytes (bsource_code p)),
     bq_test_cases = map case_input (test_cases p),
     bq_cpu_time_limit = Option.bind (blimits p) cpu_time, bq_wall_time_limit = Option.bind (blimits p) wall_time,
     bq_memory_limit_mb = map_option (\<lambda>x. nat \<lfloor>x\<rfloor>) (Option.bind (blimits p) memory_mb), bq_base64_encoded = True\<rparr>"

lemma batch_body_members:
  assumes "batch_body p = Some b"
  shows "jget ''language_id'' b = Some (JNum (of_nat (blanguage_id p)))" "jget ''base64_encoded'' b = Some (JBool True)"
    "jget ''cpu_time_limit'' b = map_option JNum (Option.bind (blimits p) cpu_time)"
    "jget ''wall_time_limit'' b = map_option JNum (Option.bind (blimits p) wall_time)"
    "jget ''memory_limit_mb'' b = map_option JNum (Option.bind (blimits p) memory_mb)"
    "\<exists>src. encode (Some (bsource_code p)) = Some src \<and> jget ''source_code'' b = Some (JStr src)"
    "\<exists>cs. sequence (map batch_case (test_cases p)) = Some cs \<and> jget ''test_cases'' b = Some (JArr cs)"
  using assms
  by (auto simp: batch_body_def jget_def map_add_def map_of_limit_fields limit_field_values split: option.splits)

lemma batch_body_no_duplicates: "batch_body p = Some b \<Longrightarrow> no_duplicates ks b"
proof -
  assume "batch_body p = Some b"
  then have "\<exists>ps. b = JObj ps \<and> distinct (map fst ps)"
    using limit_fields_distinct [of "blimits p"] by (auto simp: batch_body_def split: option.splits)
  then show ?thesis using distinct_filter unfolding no_duplicates_def by fastforce
qed

context wire_lib
begin

lemma case_read:
  assumes "batch_case t = Some c"
  shows "\<exists>i. test_case_of L c = Some i \<and> (\<forall>n. decode_opt L n i = Inr (case_input t))"
proof (cases "present t")
  case True
  then obtain e where e: "encode (Some (the t)) = Some e" "c = JObj [(js ''stdin'', JStr e)]"
    using assms by (auto simp: batch_case_def present_def)
  then show ?thesis
    using payload_sent [OF e(1)] True
    by (auto simp: test_case_of_def no_duplicates_def optional_def jget_def decode_opt_def decode_payload_def case_input_def)
next
  case False
  then show ?thesis
    using assms by (auto simp: batch_case_def test_case_of_def no_duplicates_def optional_def jget_def decode_opt_def case_input_def)
qed

lemma cases_read:
  "sequence (map batch_case ts) = Some cs \<Longrightarrow>
   \<exists>is. json_list (test_case_of L) (JArr cs) = Some is \<and> (\<forall>n. decode_cases L n is = Inr (map case_input ts))"
proof (induction ts arbitrary: cs)
  case (Cons t ts)
  then obtain c ds where c: "batch_case t = Some c" "sequence (map batch_case ts) = Some ds" "cs = c # ds"
    by (auto split: option.splits)
  then show ?case using case_read [OF c(1)] Cons.IH [OF c(2)] by (fastforce simp: json_list_def)
qed (simp add: json_list_def)

lemma batch_read:
  assumes "batch_body p = Some b" "blanguage_id p < 2 ^ 32"
    and "\<forall>x. Option.bind (blimits p) memory_mb = Some x \<longrightarrow> (\<exists>m. x = of_nat m \<and> m < 2 ^ 32)"
  shows "\<exists>q. batch_request_of L b = Some q \<and> decode_batch L q = Inr (batch_received p)"
proof -
  note members = batch_body_members [OF assms(1)]
  obtain src where src: "encode (Some (bsource_code p)) = Some src" "jget ''source_code'' b = Some (JStr src)" using members(6) by blast
  obtain sp where sp: "payload_of L (JStr src) = Some sp"
    "\<And>n. decode_payload L n sp = Inr (opt [] (text_bytes (bsource_code p)))"
    using payload_sent [OF src(1)] by (auto simp: decode_payload_def)
  obtain cs is' where cs: "jget ''test_cases'' b = Some (JArr cs)" "json_list (test_case_of L) (JArr cs) = Some is'"
    "decode_cases L 0 is' = Inr (map case_input (test_cases p))"
    using members(7) cases_read by blast
  have mem: "optional json_u32 ''memory_limit_mb'' b = Some (map_option (\<lambda>x. nat \<lfloor>x\<rfloor>) (Option.bind (blimits p) memory_mb))"
    using assms(3) by (cases "Option.bind (blimits p) memory_mb") (auto simp: optional_JNum [OF members(5)] json_u32_of_nat)
  have num: "optional json_f64 ''cpu_time_limit'' b = Some (Option.bind (blimits p) cpu_time)"
    "optional json_f64 ''wall_time_limit'' b = Some (Option.bind (blimits p) wall_time)"
    by (simp_all add: optional_JNum [OF members(3)] optional_JNum [OF members(4)] json_f64_def split: option.splits)
  have "required json_u32 ''language_id'' b = Some (blanguage_id p)" using assms(2) by (simp add: required_def members(1) json_u32_of_nat)
  then show ?thesis
    using sp cs mem num src(2) members(2) batch_body_no_duplicates [OF assms(1)]
    by (simp add: batch_request_of_def required_def flag_def decode_batch_def batch_received_def)
qed

end

section \<open>What the service stores\<close>

definition case_row :: "svc \<Rightarrow> jsstr \<Rightarrow> batch_request \<Rightarrow> resource_limits \<Rightarrow> jsstr \<Rightarrow> payload option \<Rightarrow> row" where
  "case_row s bid q lm t c = \<lparr>r_token = t, r_language_id = bq_language_id q, r_source_code = bq_source_code q, r_stdin = c,
     r_limits = lm, r_callback_url = None, r_idempotency_key = None, r_idempotency_hash = None, r_batch_id = Some bid,
     r_created_at = sv_now s\<rparr>"

definition drawn_tokens :: "svc \<Rightarrow> nat \<Rightarrow> jsstr list" where
  "drawn_tokens s n = map (sv_supply s) [sv_drawn s..<sv_drawn s + n]"

lemma store_cases_stored:
  "sv_db s \<Longrightarrow> sv_notify s \<Longrightarrow> store_cases L bid q lm cs s =
   (Inr (drawn_tokens s (length cs)),
    s\<lparr>sv_drawn := sv_drawn s + length cs, sv_rows := sv_rows s @ map2 (case_row s bid q lm) (drawn_tokens s (length cs)) cs,
      sv_notified := sv_notified s @ drawn_tokens s (length cs)\<rparr>)"
proof (induction cs arbitrary: s)
  case (Cons c cs)
  let ?s = "s\<lparr>sv_drawn := sv_drawn s + 1, sv_rows := sv_rows s @ [case_row s bid q lm (sv_supply s (sv_drawn s)) c],
    sv_notified := sv_notified s @ [sv_supply s (sv_drawn s)]\<rparr>"
  have tks: "drawn_tokens s (length (c # cs)) = sv_supply s (sv_drawn s) # drawn_tokens ?s (length cs)"
    by (simp add: drawn_tokens_def upt_conv_Cons del: upt_Suc)
  have row: "case_row ?s = case_row s" by (intro ext) (simp add: case_row_def)
  have "store_cases L bid q lm (c # cs) s = (case store_cases L bid q lm cs ?s of
      (Inl e, s3) \<Rightarrow> (Inl e, s3) | (Inr ts, s3) \<Rightarrow> (Inr (sv_supply s (sv_drawn s) # ts), s3))"
    using Cons.prems by (simp add: svc_ops case_row_def Let_def)
  also have "store_cases L bid q lm cs ?s = (Inr (drawn_tokens ?s (length cs)),
    ?s\<lparr>sv_drawn := sv_drawn ?s + length cs, sv_rows := sv_rows ?s @ map2 (case_row s bid q lm) (drawn_tokens ?s (length cs)) cs,
      sv_notified := sv_notified ?s @ drawn_tokens ?s (length cs)\<rparr>)"
    using Cons.IH [of ?s] Cons.prems row by simp
  finally show ?case unfolding tks by simp
qed (simp add: drawn_tokens_def)

section \<open>Admission\<close>

text \<open>A batch whose texts the service can take.\<close>

definition batch_text_ok :: "svc \<Rightarrow> nat \<Rightarrow> jsstr \<Rightarrow> test_case list \<Rightarrow> bool" where
  "batch_text_ok s lang code ts \<longleftrightarrow> well_formed code \<and> length (opt [] (text_bytes code)) \<le> 65536
     \<and> (\<forall>t \<in> set ts. well_formed (tc_stdin t) \<and> length (opt [] (text_bytes (tc_stdin t))) \<le> 65536)
     \<and> length ts \<le> 100 \<and> lang < 2 ^ 32 \<and> registry_get (sv_languages s) lang \<noteq> None
     \<and> plain_defaults (defaults_for s lang) \<and> sv_ceiling s = limit_ceiling"

lemma runAll_batch:
  assumes "runAll lang code rl True p = (p1, Some bp)"
  shows "code \<noteq> []" "filter isReal (tests p) \<noteq> []"
    "bp = \<lparr>blanguage_id = lang, bsource_code = code, test_cases = map (\<lambda>t. Some (tc_stdin t)) (filter isReal (tests p)),
       blimits = Some \<lparr>cpu_time = Some (timeS rl), wall_time = Some (timeS rl), memory_mb = Some (memoryMb rl)\<rparr>\<rparr>"
    "p1 = p\<lparr>batchError := None, running := True, tests := map stripCase (tests p), cancelRef := True, ctlAborted := False,
       run := Submitting (mode p) (stopOnFail p)\<rparr>"
proof -
  have "trim [] = []" by code_simp
  then show "code \<noteq> []" using assms by (auto simp: runAll_def Let_def split: if_splits)
qed (use assms in \<open>auto simp: runAll_def Let_def split: if_splits\<close>)

lemma case_input_size:
  "well_formed i \<Longrightarrow> length (opt [] (text_bytes i)) \<le> 65536 \<Longrightarrow> case case_input (Some i) of None \<Rightarrow> True | Some c \<Rightarrow> length c \<le> MAX_STDIN_BYTES"
  using well_formed_bytes [of i] by (auto simp: case_input_def present_def MAX_STDIN_BYTES_def)

text \<open>What decides about a batch of the panel, once its texts are fine: its limits.\<close>

lemma admit_batch_run:
  assumes "runAll lang code rl True p = (p1, Some bp)" "batch_text_ok s lang code (filter isReal (tests p))"
    and "rl = \<lparr>memoryMb = of_nat m, timeS = of_nat t\<rparr>" "decode_batch L q = Inr (batch_received bp)"
    and "lm = override_limits (Some (of_nat t)) (Some (of_nat t)) (Some m) (defaults_for s lang)"
  shows "admit_batch L s q = (case limits_validate lm limit_ceiling of
    Some e \<Rightarrow> Inl (Validation (core_text e)) | None \<Rightarrow> Inr (batch_received bp, lm))"
proof -
  note bp = runAll_batch [OF assms(1)]
  obtain bs where bs: "text_bytes code = Some bs" using well_formed_bytes assms(2) by (auto simp: batch_text_ok_def)
  have "size_errors (bq_source_code (batch_received bp)) (bq_test_cases (batch_received bp)) = None"
    using assms(2) bs text_bytes_not_Nil [OF bp(1) bs] case_input_size
    by (auto simp: size_errors_None batch_received_def bp(3) batch_text_ok_def MAX_SOURCE_BYTES_def)
  moreover have "count_error (length (bq_test_cases (batch_received bp))) = None"
    using assms(2) bp(2) by (simp add: count_error_def batch_received_def bp(3) batch_text_ok_def MAX_TEST_CASES_def)
  moreover obtain sp where "registry_get (sv_languages s) lang = Some sp" using assms(2) by (auto simp: batch_text_ok_def)
  moreover have "bq_language_id (batch_received bp) = lang" "bq_cpu_time_limit (batch_received bp) = Some (of_nat t)"
    "bq_wall_time_limit (batch_received bp) = Some (of_nat t)" "bq_memory_limit_mb (batch_received bp) = Some m"
    using assms(3) by (simp_all add: batch_received_def bp(3))
  ultimately show ?thesis
    using assms(2,4) unfolding assms(5) by (simp add: admit_batch_def batch_text_ok_def defaults_for_def Let_def split: option.split)
qed

lemma batch_admitted:
  assumes "runAll lang code rl True p = (p1, Some bp)" "batch_text_ok s lang code (filter isReal (tests p))"
    and "rl = \<lparr>memoryMb = of_nat m, timeS = of_nat t\<rparr>" "1 \<le> m" "m \<le> 2048" "1 \<le> t" "t \<le> 30" "decode_batch L q = Inr (batch_received bp)"
    and "lm = override_limits (Some (of_nat t)) (Some (of_nat t)) (Some m) (defaults_for s lang)"
  shows "admit_batch L s q = Inr (batch_received bp, lm)"
proof -
  have "(1 :: number) / 10 \<le> of_nat t" using assms(6) by (auto intro!: order_trans [of "1 / 10" 1 "of_nat t"])
  moreover have "plain_defaults (defaults_for s lang)" using assms(2) by (simp add: batch_text_ok_def)
  ultimately have "limits_validate lm limit_ceiling = None" using assms(4,5,7,9) by (simp add: limits_validate_ceiling)
  then show ?thesis using admit_batch_run [OF assms(1-3) assms(8) assms(9)] by simp
qed

context wire_lib
begin

lemma batch_submitted:
  assumes "runAll lang code rl True p = (p1, Some bp)" "batch_text_ok s lang code (filter isReal (tests p))"
    and "rl = \<lparr>memoryMb = of_nat m, timeS = of_nat t\<rparr>" "m \<le> 2048"
  shows "\<exists>q. decode_batch L q = Inr (batch_received bp)
    \<and> submitBatch (service_net L (base c) other) c bp s = answer (create_batch L q s)"
proof -
  note bp = runAll_batch(3) [OF assms(1)]
  have enc: "encode (Some code) \<noteq> None" "\<And>t. t \<in> set (filter isReal (tests p)) \<Longrightarrow> encode (Some (tc_stdin t)) \<noteq> None"
    using assms(2) encode_defined by (auto simp: batch_text_ok_def)
  have seq: "(\<And>x. x \<in> set xs \<Longrightarrow> x \<noteq> None) \<Longrightarrow> sequence xs \<noteq> None" for xs :: "json option list"
    by (induction xs) (fastforce split: option.splits)+
  have "sequence (map batch_case (test_cases bp)) \<noteq> None"
    using enc(2) by (intro seq) (auto simp: bp batch_case_def)
  then obtain b where b: "batch_body bp = Some b" using enc(1) by (auto simp: batch_body_def bp)
  have "limits_ok (blimits bp)" using assms(3) by (auto simp: bp limits_ok_def)
  then have tx: "from_text L (stringify b) = Some b" using batch_body_ok [OF b] reads_text by blast
  obtain q where q: "batch_request_of L b = Some q" "decode_batch L q = Inr (batch_received bp)"
    using batch_read [OF b] assms(2-4) by (auto simp: bp batch_text_ok_def)
  have "submitBatch (service_net L (base c) other) c bp s = answer (create_batch L q s)"
    using b tx q(1) by (simp add: submitBatch_def jsonFetch_answer service_net_def POST_def parse_body_def)
  then show ?thesis using q(2) by blast
qed

end

section \<open>A batch of the panel\<close>

text \<open>The cases once their tokens have arrived.\<close>

lemma acked_cases:
  assumes "runAll lang code rl True p = (p1, Some bp)" "length toks = length (filter isReal (tests p))"
  shows "filter isReal (tests (batchAcked toks p1)) = map2 queue_with toks (map stripCase (filter isReal (tests p)))"
proof -
  have keep: "isReal (stripCase t) = isReal t" for t by (simp add: isReal_def stripCase_def plainCase_def)
  have "tests (batchAcked toks p1) = pairTokens toks (map stripCase (tests p))"
    by (simp add: batchAcked_def runAll_batch(4) [OF assms(1)])
  then show ?thesis using pairTokens_real [of toks "map stripCase (tests p)"] assms(2) by (simp add: filter_map_keep keep)
qed

lemma batch_ack_reads:
  "json_ok (batch_ack bid ts)" "jget ''batch_id'' (batch_ack bid ts) = Some (JStr bid)"
  "jget ''tokens'' (batch_ack bid ts) = Some (JArr (map JStr ts))"
  by (auto simp: batch_ack_def jget_def)


text \<open>
  C32. A batch with a time limit of more than thirty seconds is refused, whatever its cases: the panel asks for as much processor time
  as wall time, and the service allows half. Nothing is stored, and the panel shows the service's words. The same slider is fine
  for a single run, which caps the processor time.
\<close>

theorem batch_over_thirty_seconds:
  assumes "wire_lib L" "runAll lang code rl True p = (p1, Some bp)" "batch_text_ok s lang code (filter isReal (tests p))"
    and "rl = \<lparr>memoryMb = of_nat m, timeS = of_nat t\<rparr>" "m \<le> 2048" "30 < t"
    and "submitBatch (service_net L (base c) other) c bp s = (res, s')"
  shows "s' = s \<and> (\<exists>e. res = Inl e \<and> run (requestFailed e p1) = NoRun \<and> batchError (requestFailed e p1) =
    Some (js ''Batch run failed: HTTP 422 '' @ [MIDDOT, SPACE] @ js ''validation: limit out of range: cpu_time = '' @ natStr t @ js '' (allowed 0.1..=30)''))"
proof -
  obtain q where q: "decode_batch L q = Inr (batch_received bp)"
    and sub: "submitBatch (service_net L (base c) other) c bp s = answer (create_batch L q s)"
    using wire_lib.batch_submitted [OF assms(1-5)] by blast
  define lm where "lm = override_limits (Some (of_nat t)) (Some (of_nat t)) (Some m) (defaults_for s lang)"
  let ?e = "LimitOutOfRange ''cpu_time'' (of_nat t) (1 / 10) 30"
  have "limits_validate lm limit_ceiling = Some ?e"
    using assms(6) by (simp add: lm_def limits_validate_def check_range_def override_limits_def limit_ceiling_def)
  then have adm: "admit_batch L s q = Inl (Validation (core_text ?e))" using admit_batch_run [OF assms(2-4) q lm_def] by simp
  define v where "v = JObj [(js ''error'', JStr (svc_text L (Validation (core_text ?e))))]"
  have "reply_body (to_text L v) = v" by (rule wire_lib.reply_reads [OF assms(1)]) (simp add: v_def)
  then have res: "res = Inl (HttpError 422 (error_detail v) v)" "s' = s"
    using adm assms(7) sub by (auto simp: create_batch_def error_reply_def answer_def ok_status_def v_def)
  have "numText (1 / 10) = js ''0.1''" "numText 30 = js ''30''" by code_simp+
  moreover have "numText (of_nat t) = natStr t" by (rule numText_of_nat)
  ultimately have "error_detail v = js ''validation: limit out of range: cpu_time = '' @ natStr t @ js '' (allowed 0.1..=30)''"
    by (simp add: v_def error_detail_def truthy_field_def truthy_def jget_def js_eval)
  moreover have "js ''HTTP '' @ natStr 422 @ [SPACE] = js ''HTTP 422 ''" by code_simp
  ultimately have "js ''Batch run failed: '' @ message (HttpError 422 (error_detail v) v) = js ''Batch run failed: HTTP 422 ''
      @ [MIDDOT, SPACE] @ js ''validation: limit out of range: cpu_time = '' @ natStr t @ js '' (allowed 0.1..=30)''"
    by (simp add: js_eval)
  then show ?thesis using res by (simp add: requestFailed_def runAll_batch(4) [OF assms(2)] runFailed_def finishRun_def)
qed

section \<open>A batch on the small service\<close>

definition sample_panel :: panel where
  "sample_panel = (initial_panel (js ''a''))\<lparr>tests := [plainCase (js ''a'') (js ''1'') [], emptyCase (js ''b''), plainCase (js ''c'') [] (js ''2'')]\<rparr>"

definition no_route :: "svc \<Rightarrow> request \<Rightarrow> reply \<times> svc" where
  "no_route s q = (Reply 404 [], s)"

lemma sample_runAll: "\<exists>p1 bp. runAll 71 (js ''p'') rl True sample_panel = (p1, Some bp)"
proof -
  have "trim (js ''p'') = js ''p''" by code_simp
  then show ?thesis
    by (simp add: runAll_def sample_panel_def initial_panel_def plainCase_def emptyCase_def isReal_def)
qed

lemma sample_batch_ok: "batch_text_ok sample_svc 71 (js ''p'') (filter isReal (tests sample_panel))"
proof -
  have "text_bytes (js ''p'') = Some [112]" "text_bytes (js ''1'') = Some [49]"
    using text_bytes_ascii [of "js ''p''"] text_bytes_ascii [of "js ''1''"] by (simp_all add: js_eval)
  moreover have "text_bytes [] = Some []" by (simp add: text_bytes_def)
  moreover have "well_formed []" using well_formed_js [of "[]"] by (simp add: js_eval)
  ultimately show ?thesis
    by (simp add: batch_text_ok_def sample_svc_def registry_get_def defaults_for_def plain_defaults_def limits_default_def
        sample_panel_def plainCase_def emptyCase_def isReal_def)
qed


theorem batch_over_thirty_seconds_witness:
  "\<exists>p1 bp e. runAll 71 (js ''p'') \<lparr>memoryMb = of_nat 256, timeS = of_nat 31\<rparr> True sample_panel = (p1, Some bp)
     \<and> submitBatch (service_net std_lib (base sample_api) no_route) sample_api bp sample_svc = (Inl e, sample_svc)
     \<and> batchError (requestFailed e p1) = Some (js ''Batch run failed: HTTP 422 '' @ [MIDDOT, SPACE]
         @ js ''validation: limit out of range: cpu_time = '' @ natStr 31 @ js '' (allowed 0.1..=30)'')"
proof -
  let ?rl = "\<lparr>memoryMb = of_nat 256, timeS = of_nat 31\<rparr> :: run_limits"
  obtain p1 bp where r: "runAll 71 (js ''p'') ?rl True sample_panel = (p1, Some bp)" using sample_runAll by blast
  obtain res s' where sub: "submitBatch (service_net std_lib (base sample_api) no_route) sample_api bp sample_svc = (res, s')" by fastforce
  show ?thesis using batch_over_thirty_seconds [OF std.wire_lib_axioms r sample_batch_ok refl _ _ sub] r sub by auto
qed

end
